(* ===== verification/Prelude.thy ===== *)
theory Prelude
  imports Main "HOL-Library.Word" "HOL-Library.AList"
begin

text \<open>
  Shared vocabulary of the development: the result type of fallible Go functions, the
  loop patterns \<^verbatim>\<open>for ... { y, err := f(x); if err != nil { return } }\<close>, and the two
  interfaces that several components instantiate (codecs and guarded transition
  systems). The collections \<open>go_defs\<close> and \<open>go_result\<close> gather the definitions and the
  rewrite rules that the component proofs pass to \<open>simp\<close> and \<open>auto\<close>.
\<close>

named_theorems go_defs \<open>definitions of the Go library functions the source calls\<close>
named_theorems go_result \<open>case rules for results of fallible calls\<close>

section \<open>Types shared by all components\<close>

text \<open>
  A Go \<^verbatim>\<open>string\<close> and a \<^verbatim>\<open>[]byte\<close> are both sequences of bytes, and an Isabelle
  \<open>char\<close> is a byte, so both are modelled by \<open>string\<close>. \<^verbatim>\<open>time.Time\<close> and
  \<^verbatim>\<open>time.Duration\<close> are integers counting nanoseconds.
\<close>

type_synonym bytes = string
type_synonym int64 = "64 word"
type_synonym time = int
type_synonym duration = int

section \<open>Results of fallible calls\<close>

definition bind_result :: "'e + 'a \<Rightarrow> ('a \<Rightarrow> 'e + 'b) \<Rightarrow> 'e + 'b" where
  "bind_result r f = (case r of Inl e \<Rightarrow> Inl e | Inr x \<Rightarrow> f x)"

lemma bind_result_simps [simp, go_result]:
  "bind_result (Inl e) f = Inl e"
  "bind_result (Inr x) f = f x"
  by (simp_all add: bind_result_def)

lemma bind_result_eq_Inr [go_result]:
  "bind_result r f = Inr y \<longleftrightarrow> (\<exists>x. r = Inr x \<and> f x = Inr y)"
  by (cases r) simp_all

lemma bind_result_eq_Inl [go_result]:
  "bind_result r f = Inl e \<longleftrightarrow> r = Inl e \<or> (\<exists>x. r = Inr x \<and> f x = Inl e)"
  by (cases r) simp_all

lemma bind_result_cong [fundef_cong]:
  "r = r' \<Longrightarrow> (\<And>x. r' = Inr x \<Longrightarrow> f x = g x) \<Longrightarrow> bind_result r f = bind_result r' g"
  by (cases r') simp_all

text \<open>
  A loop that converts every element and returns at the first error.
\<close>

fun traverse :: "('a \<Rightarrow> 'e + 'b) \<Rightarrow> 'a list \<Rightarrow> 'e + 'b list" where
  "traverse f [] = Inr []"
| "traverse f (x # xs) =
     bind_result (f x) (\<lambda>y. bind_result (traverse f xs) (\<lambda>ys. Inr (y # ys)))"

lemma traverse_Inr_iff:
  "traverse f xs = Inr ys \<longleftrightarrow> list_all2 (\<lambda>x y. f x = Inr y) xs ys"
  by (induction xs arbitrary: ys) (auto simp: go_result list_all2_Cons1)

lemma traverse_length: "traverse f xs = Inr ys \<Longrightarrow> length ys = length xs"
  by (auto simp: traverse_Inr_iff dest: list_all2_lengthD)

lemma traverse_map_inverse:
  "(\<And>x. x \<in> set xs \<Longrightarrow> f (g x) = Inr x) \<Longrightarrow> traverse f (map g xs) = Inr xs"
  by (induction xs) auto

lemma traverse_Inl_first:
  "traverse f xs = Inl e \<Longrightarrow> \<exists>x \<in> set xs. f x = Inl e"
  by (induction xs) (auto simp: go_result)

text \<open>
  A loop that checks every element and returns the first error found.
\<close>

fun first_error :: "('a \<Rightarrow> 'e option) \<Rightarrow> 'a list \<Rightarrow> 'e option" where
  "first_error f [] = None"
| "first_error f (x # xs) = (case f x of Some e \<Rightarrow> Some e | None \<Rightarrow> first_error f xs)"

lemma first_error_None_iff: "first_error f xs = None \<longleftrightarrow> (\<forall>x \<in> set xs. f x = None)"
  by (induction xs) (auto split: option.splits)

lemma first_error_SomeD: "first_error f xs = Some e \<Longrightarrow> \<exists>x \<in> set xs. f x = Some e"
  by (induction xs) (auto split: option.splits)

section \<open>Codecs\<close>

text \<open>
  An encoder with its decoder: decoding an encoded value gives the value back, for every
  value in the codec's range. Every encoding of the program (base64url, serial numbers,
  nonces, protocol buffers, wrapped errors) is an interpretation of this interface.
\<close>

locale codec =
  fixes enc :: "'a \<Rightarrow> 'b"
    and dec :: "'b \<Rightarrow> 'e + 'a"
    and valid :: "'a \<Rightarrow> bool"
  assumes dec_enc: "valid x \<Longrightarrow> dec (enc x) = Inr x"
begin

lemma enc_inj: "valid x \<Longrightarrow> valid y \<Longrightarrow> enc x = enc y \<Longrightarrow> x = y"
  by (metis dec_enc sum.inject(2))

lemma traverse_dec_enc: "list_all valid xs \<Longrightarrow> traverse dec (map enc xs) = Inr xs"
  by (rule traverse_map_inverse) (simp add: dec_enc list_all_iff)

end

section \<open>Guarded transition systems\<close>

text \<open>
  A component whose operations run one after the other (each holds the component's lock
  for its critical section): a step function, a guard on when a step may be taken and an
  invariant every guarded step keeps.
\<close>

fun run_ok :: "('s \<Rightarrow> 'op \<Rightarrow> bool) \<Rightarrow> ('s \<Rightarrow> 'op \<Rightarrow> 's) \<Rightarrow> 's \<Rightarrow> 'op list \<Rightarrow> bool" where
  "run_ok g st s [] = True"
| "run_ok g st s (x # xs) = (g s x \<and> run_ok g st (st s x) xs)"

locale machine =
  fixes step :: "'s \<Rightarrow> 'op \<Rightarrow> 's"
    and guard :: "'s \<Rightarrow> 'op \<Rightarrow> bool"
    and invar :: "'s \<Rightarrow> bool"
  assumes step_invar: "invar s \<Longrightarrow> guard s x \<Longrightarrow> invar (step s x)"
begin

lemma run_invar: "invar s \<Longrightarrow> run_ok guard step s xs \<Longrightarrow> invar (foldl step s xs)"
  by (induction xs arbitrary: s) (auto intro: step_invar)

lemma run_ok_append:
  "run_ok guard step s (xs @ ys) \<longleftrightarrow>
     run_ok guard step s xs \<and> run_ok guard step (foldl step s xs) ys"
  by (induction xs arbitrary: s) auto

lemma run_keeps:
  assumes keep: "\<And>s x. invar s \<Longrightarrow> guard s x \<Longrightarrow> P s \<Longrightarrow> P (step s x)"
    and "invar s" "run_ok guard step s xs" "P s"
  shows "P (foldl step s xs)"
  using assms(2-4)
proof (induction xs arbitrary: s)
  case Nil
  then show ?case by simp
next
  case (Cons x xs)
  then have "invar (step s x)" "P (step s x)"
    by (auto intro: step_invar keep)
  with Cons show ?case by simp
qed

end

section \<open>Association lists as Go maps\<close>

text \<open>
  A Go map whose size or elements the code enumerates is an association list with
  distinct keys: \<open>AList.update\<close> is \<^verbatim>\<open>m[k] = v\<close>, \<open>AList.delete\<close> is \<^verbatim>\<open>delete(m, k)\<close>,
  \<open>length\<close> is \<^verbatim>\<open>len(m)\<close>.
\<close>

definition wf_map :: "('k \<times> 'v) list \<Rightarrow> bool" where
  "wf_map m \<longleftrightarrow> distinct (map fst m)"

lemma wf_map_Nil [simp]: "wf_map []"
  by (simp add: wf_map_def)

lemma wf_map_update [simp]: "wf_map m \<Longrightarrow> wf_map (AList.update k v m)"
  by (simp add: wf_map_def distinct_update)

lemma wf_map_delete [simp]: "wf_map m \<Longrightarrow> wf_map (AList.delete k m)"
  by (simp add: wf_map_def distinct_delete)

definition map_keys :: "('k \<times> 'v) list \<Rightarrow> 'k set" where
  "map_keys m = fst ` set m"

lemma map_keys_Nil [simp]: "map_keys [] = {}"
  by (simp add: map_keys_def)

lemma map_keys_update [simp]: "map_keys (AList.update k v m) = insert k (map_keys m)"
  by (simp add: map_keys_def update_conv' dom_map_of_conv_image_fst [symmetric])

lemma map_keys_delete [simp]: "map_keys (AList.delete k m) = map_keys m - {k}"
  by (simp add: map_keys_def delete_keys [symmetric] flip: set_map) (simp add: delete_keys)

lemma map_of_keys: "k \<in> map_keys m \<longleftrightarrow> (\<exists>v. map_of m k = Some v)"
  by (simp add: map_keys_def dom_map_of_conv_image_fst [symmetric] dom_def)

lemma length_alist_update:
  "length (AList.update k v m) = (if k \<in> map_keys m then length m else Suc (length m))"
  by (induction m) (auto simp: map_keys_def)

lemma card_map_keys: "wf_map m \<Longrightarrow> card (map_keys m) = length m"
  using distinct_card [of "map fst m"] by (simp add: wf_map_def map_keys_def)

lemma length_alist_delete:
  assumes "wf_map m" "k \<in> map_keys m"
  shows "Suc (length (AList.delete k m)) = length m"
proof -
  have "length (AList.delete k m) = length m - 1"
    using assms card_map_keys [of m] card_map_keys [of "AList.delete k m"]
    by (simp add: card_Diff_singleton)
  moreover have "0 < length m" using assms(2) by (cases m) auto
  ultimately show ?thesis by linarith
qed

lemma map_values_update:
  "(\<forall>kv \<in> set m. P (snd kv)) \<Longrightarrow> P v \<Longrightarrow> \<forall>kv \<in> set (AList.update k v m). P (snd kv)"
  by (induction m) auto

lemma map_values_delete:
  "(\<forall>kv \<in> set m. P (snd kv)) \<Longrightarrow> \<forall>kv \<in> set (AList.delete k m). P (snd kv)"
  by (simp add: AList.delete_eq)

end
