(* ===== verification/Encodings.thy ===== *)
theory Encodings
  imports GoLib
begin

text \<open>
  The byte encodings of the Go library that the program stores and sends: hexadecimal
  (\<^verbatim>\<open>encoding/hex\<close>, \<^verbatim>\<open>%036x\<close>) and base64 in its three variants used by the source
  (\<^verbatim>\<open>RawURLEncoding\<close>, \<^verbatim>\<open>URLEncoding\<close>, \<^verbatim>\<open>StdEncoding\<close>). The main facts are that
  decoding inverts encoding and the exact length and alphabet of an encoding.
\<close>

section \<open>Hexadecimal\<close>

definition hex_char :: "nat \<Rightarrow> char" where
  "hex_char n = (if n < 10 then char_of (48 + n) else char_of (87 + n))"

definition hex_val :: "char \<Rightarrow> nat option" where
  "hex_val c = (let n = of_char c :: nat in
     if 48 \<le> n \<and> n \<le> 57 then Some (n - 48)
     else if 97 \<le> n \<and> n \<le> 102 then Some (n - 87)
     else if 65 \<le> n \<and> n \<le> 70 then Some (n - 55) else None)"

lemma hex_val_char [simp]: "n < 16 \<Longrightarrow> hex_val (hex_char n) = Some n"
  by (auto simp: hex_char_def hex_val_def Let_def)

fun format_hex :: "nat \<Rightarrow> string" where
  "format_hex n =
     (if n < 16 then [hex_char n] else format_hex (n div 16) @ [hex_char (n mod 16)])"

declare format_hex.simps [simp del]

fun parse_hex :: "nat \<Rightarrow> string \<Rightarrow> nat option" where
  "parse_hex acc [] = Some acc"
| "parse_hex acc (c # cs) =
     (case hex_val c of None \<Rightarrow> None | Some d \<Rightarrow> parse_hex (16 * acc + d) cs)"

lemma parse_hex_append:
  "parse_hex acc (xs @ ys) =
     (case parse_hex acc xs of None \<Rightarrow> None | Some a \<Rightarrow> parse_hex a ys)"
  by (induction xs arbitrary: acc) (auto split: option.splits)

lemma parse_format_hex: "parse_hex 0 (format_hex n) = Some n"
proof (induction n rule: format_hex.induct)
  case (1 n)
  show ?case
  proof (cases "n < 16")
    case True
    then show ?thesis by (simp add: format_hex.simps [of n])
  next
    case False
    with 1 show ?thesis by (simp add: format_hex.simps [of n] parse_hex_append)
  qed
qed

lemma parse_hex_zeros: "parse_hex 0 (replicate k (CHR ''0'') @ s) = parse_hex 0 s"
  by (induction k) (simp_all add: hex_val_def)

lemma parse_hex_Some_iff: "(\<exists>v. parse_hex acc s = Some v) \<longleftrightarrow> (\<forall>c \<in> set s. hex_val c \<noteq> None)"
  by (induction s arbitrary: acc) (auto split: option.splits)

lemma length_format_hex: "n < 16 ^ k \<Longrightarrow> 0 < k \<Longrightarrow> length (format_hex n) \<le> k"
proof (induction n arbitrary: k rule: format_hex.induct)
  case (1 n)
  show ?case
  proof (cases "n < 16")
    case True
    with 1 show ?thesis by (simp add: format_hex.simps [of n])
  next
    case False
    with "1.prems" obtain j where k: "k = Suc j" and j: "0 < j"
      by (cases k; cases "k - 1") auto
    from "1.prems" k have "n div 16 < 16 ^ j"
      by (simp add: less_mult_imp_div_less mult.commute)
    with 1 False j have "length (format_hex (n div 16)) \<le> j" by simp
    with False k show ?thesis by (simp add: format_hex.simps [of n])
  qed
qed

lemma format_hex_chars: "c \<in> set (format_hex n) \<Longrightarrow> hex_val c \<noteq> None"
  using parse_hex_Some_iff [of 0 "format_hex n"] by (auto simp: parse_format_hex)

text \<open>\<^verbatim>\<open>hex.DecodeString\<close>: an even number of hexadecimal digits, two per byte.\<close>

fun hex_decode :: "string \<Rightarrow> bytes option" where
  "hex_decode [] = Some []"
| "hex_decode [c] = None"
| "hex_decode (a # b # cs) =
     (case (hex_val a, hex_val b) of
        (Some x, Some y) \<Rightarrow> map_option ((#) (char_of (16 * x + y))) (hex_decode cs)
      | _ \<Rightarrow> None)"

lemma hex_decode_Some_iff:
  "(\<exists>b. hex_decode s = Some b) \<longleftrightarrow> even (length s) \<and> (\<forall>c \<in> set s. hex_val c \<noteq> None)"
  by (induction s rule: hex_decode.induct) (auto split: option.splits)

text \<open>\<^verbatim>\<open>hex.EncodeToString\<close>.\<close>

fun hex_encode :: "bytes \<Rightarrow> string" where
  "hex_encode [] = []"
| "hex_encode (b # bs) =
     hex_char ((of_char b :: nat) div 16) # hex_char (of_char b mod 16) # hex_encode bs"

lemma of_char_less: "(of_char c :: nat) < 256"
  using of_char_mod_256 [of c, where ?'a = nat] by (metis mod_less_divisor zero_less_numeral)

lemma hex_decode_encode: "hex_decode (hex_encode bs) = Some bs"
proof (induction bs)
  case Nil
  then show ?case by simp
next
  case (Cons b bs)
  have "(of_char b :: nat) div 16 < 16"
    using of_char_less [of b] by (simp add: less_mult_imp_div_less)
  with Cons show ?case by simp
qed

section \<open>Base64\<close>

text \<open>
  The alphabets differ in their last two characters only. \<open>b64_val\<close> is the decoding
  table of an alphabet.
\<close>

definition alnum :: string where
  "alnum = ''ABCDEFGHIJKLMNOPQRSTUVWXYZabcdefghijklmnopqrstuvwxyz0123456789''"

definition url_alphabet :: string where
  "url_alphabet = alnum @ ''-_''"

definition std_alphabet :: string where
  "std_alphabet = alnum @ ''+/''"

fun index_of :: "'a \<Rightarrow> 'a list \<Rightarrow> nat option" where
  "index_of x [] = None"
| "index_of x (y # ys) = (if x = y then Some 0 else map_option Suc (index_of x ys))"

lemma index_of_nth: "distinct xs \<Longrightarrow> i < length xs \<Longrightarrow> index_of (xs ! i) xs = Some i"
proof (induction xs arbitrary: i)
  case Nil
  then show ?case by simp
next
  case (Cons x xs)
  then show ?case by (cases i) (auto simp: nth_Cons')
qed

lemma index_of_SomeD: "index_of x xs = Some i \<Longrightarrow> i < length xs \<and> xs ! i = x"
  by (induction xs arbitrary: i) (auto split: if_splits)

lemma index_of_None_iff: "index_of x xs = None \<longleftrightarrow> x \<notin> set xs"
  by (induction xs) auto

lemma alphabets [simp]:
  "length url_alphabet = 64" "distinct url_alphabet"
  "length std_alphabet = 64" "distinct std_alphabet"
  by (simp_all add: url_alphabet_def std_alphabet_def alnum_def)

fun b64_encode :: "string \<Rightarrow> bytes \<Rightarrow> string" where
  "b64_encode al (a # b # c # rest) =
     (let n = of_char a * 65536 + of_char b * 256 + of_char c in
      al ! (n div 262144) # al ! (n div 4096 mod 64) # al ! (n div 64 mod 64) # al ! (n mod 64)
        # b64_encode al rest)"
| "b64_encode al [a, b] =
     (let n = (of_char a * 256 + of_char b) * 4 in
      [al ! (n div 4096), al ! (n div 64 mod 64), al ! (n mod 64)])"
| "b64_encode al [a] = (let n = of_char a * 16 in [al ! (n div 64), al ! (n mod 64)])"
| "b64_encode al [] = []"

text \<open>
  Decoding a text without padding: groups of four characters, and a last group of two
  or three. A last group of one character is corrupt input, and the unused low bits of
  a short last group are ignored.
\<close>

fun b64_groups :: "string \<Rightarrow> string \<Rightarrow> bytes option" where
  "b64_groups al (w # x # y # z # rest) =
     (case (index_of w al, index_of x al, index_of y al, index_of z al) of
        (Some a, Some b, Some c, Some d) \<Rightarrow>
          (let n = a * 262144 + b * 4096 + c * 64 + d in
           map_option (\<lambda>r. char_of (n div 65536) # char_of (n div 256 mod 256) # char_of (n mod 256) # r)
             (b64_groups al rest))
      | _ \<Rightarrow> None)"
| "b64_groups al [w, x, y] =
     (case (index_of w al, index_of x al, index_of y al) of
        (Some a, Some b, Some c) \<Rightarrow>
          (let n = a * 4096 + b * 64 + c in Some [char_of (n div 1024), char_of (n div 4 mod 256)])
      | _ \<Rightarrow> None)"
| "b64_groups al [w, x] =
     (case (index_of w al, index_of x al) of
        (Some a, Some b) \<Rightarrow> Some [char_of ((a * 64 + b) div 16)]
      | _ \<Rightarrow> None)"
| "b64_groups al [w] = None"
| "b64_groups al [] = Some []"

text \<open>\<^verbatim>\<open>DecodeString\<close> drops carriage returns and line feeds first.\<close>

definition strip_newlines :: "string \<Rightarrow> string" where
  "strip_newlines s = filter (\<lambda>c. of_char c \<noteq> (10::nat) \<and> of_char c \<noteq> (13::nat)) s"

definition b64_decode_raw :: "string \<Rightarrow> string \<Rightarrow> bytes option" where
  "b64_decode_raw al s = b64_groups al (strip_newlines s)"

lemma divmod_digit: "r < k \<Longrightarrow> (q * k + r) div k = (q::nat)" "r < k \<Longrightarrow> (q * k + r) mod k = (r::nat)"
  by simp_all

lemma digit_step: "p = k * m \<Longrightarrow> n div k mod m * k + n mod k = n mod p" for n :: nat
  by (simp add: mod_mult2_eq mult.commute)

lemma digits_64_4:
  "n div 262144 * 262144 + n div 4096 mod 64 * 4096 + n div 64 mod 64 * 64 + n mod 64 = n"
  for n :: nat
  using digit_step [of 4096 64 64 n, simplified] digit_step [of 262144 4096 64 n, simplified]
    div_mult_mod_eq [of n 262144]
  by linarith

lemma digits_64_3: "n div 4096 * 4096 + n div 64 mod 64 * 64 + n mod 64 = n" for n :: nat
  using digit_step [of 4096 64 64 n, simplified] div_mult_mod_eq [of n 4096] by linarith

lemma split3: fixes a b c :: nat
  assumes "a < 256" "b < 256" "c < 256" and n: "n = a * 65536 + b * 256 + c"
  shows "n div 262144 < 64" and "n div 65536 = a" and "n div 256 mod 256 = b" and "n mod 256 = c"
proof -
  have n2: "n = (a * 256 + b) * 256 + c" and n3: "n = a * 65536 + (b * 256 + c)"
    using n by simp_all
  show "n div 262144 < 64" using assms by (simp add: less_mult_imp_div_less)
  show "n div 65536 = a"
    unfolding n3 by (rule divmod_digit) (use assms in linarith)
  show "n mod 256 = c"
    unfolding n2 by (rule divmod_digit) (use assms in linarith)
  have "n div 256 = a * 256 + b"
    unfolding n2 by (rule divmod_digit) (use assms in linarith)
  then show "n div 256 mod 256 = b" using assms by simp
qed

lemma split2: fixes a b :: nat
  assumes "a < 256" "b < 256" and n: "n = (a * 256 + b) * 4"
  shows "n div 4096 < 64" and "n div 1024 = a" and "n div 4 mod 256 = b"
proof -
  have n2: "n = a * 1024 + b * 4" using n by simp
  show "n div 4096 < 64" using assms by (simp add: less_mult_imp_div_less)
  show "n div 1024 = a"
    unfolding n2 by (rule divmod_digit) (use assms in linarith)
  show "n div 4 mod 256 = b" using assms by simp
qed

lemma split1: "(a div 4 * 64 + a * 16 mod 64) div 16 = a" for a :: nat
proof -
  have "a * 16 mod 64 = a mod 4 * 16"
    using mod_mult_mult2 [of a 16 4] by simp
  then have "a div 4 * 64 + a * 16 mod 64 = a * 16"
    using div_mult_mod_eq [of a 4] by linarith
  then show ?thesis by simp
qed

lemma b64_roundtrip:
  "length al = 64 \<Longrightarrow> distinct al \<Longrightarrow> b64_groups al (b64_encode al bs) = Some bs"
proof (induction al bs rule: b64_encode.induct)
  case (1 al a b c rest)
  define n :: nat where "n = of_char a * 65536 + of_char b * 256 + of_char c"
  note sp = split3 [OF of_char_less of_char_less of_char_less n_def]
  have ch: "char_of (n div 256) = b" "char_of n = c"
    using sp(3,4) by (metis char_of_mod_256 char_of_char)+
  have enc: "b64_encode al (a # b # c # rest) =
      al ! (n div 262144) # al ! (n div 4096 mod 64) # al ! (n div 64 mod 64) # al ! (n mod 64)
        # b64_encode al rest"
    by (simp add: n_def Let_def)
  show ?case
    unfolding enc using 1 sp ch by (simp add: index_of_nth digits_64_4 Let_def)
next
  case (2 al a b)
  define n :: nat where "n = (of_char a * 256 + of_char b) * 4"
  note sp = split2 [OF of_char_less of_char_less n_def]
  have ch: "char_of (n div 4) = b"
    using sp(3) by (metis char_of_mod_256 char_of_char)
  have enc: "b64_encode al [a, b] = [al ! (n div 4096), al ! (n div 64 mod 64), al ! (n mod 64)]"
    by (simp add: n_def Let_def)
  show ?case
    unfolding enc using 2 sp ch by (simp add: index_of_nth digits_64_3 Let_def)
next
  case (3 al a)
  have "(of_char a :: nat) * 16 div 64 < 64"
    using of_char_less [of a] by (simp add: less_mult_imp_div_less)
  with 3 show ?case by (simp add: index_of_nth split1)
next
  case (4 al)
  then show ?case by simp
qed

lemma b64_encode_alphabet:
  "length al = 64 \<Longrightarrow> set (b64_encode al bs) \<subseteq> set al"
proof (induction al bs rule: b64_encode.induct)
  case (1 al a b c rest)
  have "(of_char a * 65536 + of_char b * 256 + of_char c :: nat) div 262144 < 64"
    by (rule split3 [OF of_char_less of_char_less of_char_less refl])
  with 1 show ?case by (simp add: Let_def)
next
  case (2 al a b)
  have "((of_char a * 256 + of_char b) * 4 :: nat) div 4096 < 64"
    by (rule split2 [OF of_char_less of_char_less refl])
  with 2 show ?case by (simp add: Let_def)
next
  case (3 al a)
  have "(of_char a :: nat) * 16 div 64 < 64"
    using of_char_less [of a] by (simp add: less_mult_imp_div_less)
  with 3 show ?case by (simp add: Let_def)
next
  case (4 al)
  then show ?case by simp
qed

lemma length_b64_encode: "length (b64_encode al bs) = (length bs * 4 + 2) div 3"
  by (induction al bs rule: b64_encode.induct) (simp_all add: Let_def)

lemma strip_newlines_url: "set s \<subseteq> set url_alphabet \<Longrightarrow> strip_newlines s = s"
proof -
  assume s: "set s \<subseteq> set url_alphabet"
  have "\<forall>c \<in> set url_alphabet. of_char c \<noteq> (10::nat) \<and> of_char c \<noteq> (13::nat)"
    by (simp add: url_alphabet_def alnum_def)
  with s show ?thesis by (auto simp: strip_newlines_def filter_id_conv)
qed

abbreviation raw_url_encode :: "bytes \<Rightarrow> string" where
  "raw_url_encode \<equiv> b64_encode url_alphabet"

definition raw_url_decode :: "string \<Rightarrow> string + bytes" where
  "raw_url_decode s =
     (case b64_decode_raw url_alphabet s of
        None \<Rightarrow> Inl ''illegal base64 data'' | Some b \<Rightarrow> Inr b)"

interpretation raw_url: codec raw_url_encode raw_url_decode "\<lambda>_. True"
  by unfold_locales
    (simp add: raw_url_decode_def b64_decode_raw_def b64_roundtrip b64_encode_alphabet
      strip_newlines_url)

end
