(* ===== verification/Errors.thy ===== *)
theory Errors
  imports GoLib
begin

text \<open>
  Errors and their journey to the client: the coarse internal error types
  (\<^verbatim>\<open>errors/errors.go\<close>), the older error types of \<^verbatim>\<open>core/util.go\<close>, the problem documents of
  ACME (\<^verbatim>\<open>probs/probs.go\<close>), their translation at the front end (\<^verbatim>\<open>wfe/probs.go\<close>) and
  their transport over gRPC (\<^verbatim>\<open>grpc/bcodes.go\<close>).
\<close>

section \<open>errors/errors.go\<close>

type_synonym ErrorType = int

definition InternalServer :: ErrorType where "InternalServer = 0"
definition NotSupported :: ErrorType where "NotSupported = 1"
definition Malformed :: ErrorType where "Malformed = 2"
definition Unauthorized :: ErrorType where "Unauthorized = 3"
definition NotFound :: ErrorType where "NotFound = 4"
definition SignatureValidation :: ErrorType where "SignatureValidation = 5"
definition RateLimit :: ErrorType where "RateLimit = 6"
definition TooManyRequests :: ErrorType where "TooManyRequests = 7"
definition RejectedIdentifier :: ErrorType where "RejectedIdentifier = 8"
definition UnsupportedIdentifier :: ErrorType where "UnsupportedIdentifier = 9"
definition InvalidEmail :: ErrorType where "InvalidEmail = 10"
definition ConnectionFailure :: ErrorType where "ConnectionFailure = 11"

lemmas error_types = InternalServer_def NotSupported_def Malformed_def Unauthorized_def
  NotFound_def SignatureValidation_def RateLimit_def TooManyRequests_def
  RejectedIdentifier_def UnsupportedIdentifier_def InvalidEmail_def ConnectionFailure_def

section \<open>probs/probs.go\<close>

type_synonym ProblemType = string

record ProblemDetails =
  prob_Type :: ProblemType
  Detail :: string
  HTTPStatus :: int

definition ConnectionProblem :: ProblemType where
  "ConnectionProblem = ''urn:acme:error:connection''"
definition MalformedProblem :: ProblemType where
  "MalformedProblem = ''urn:acme:error:malformed''"
definition ServerInternalProblem :: ProblemType where
  "ServerInternalProblem = ''urn:acme:error:serverInternal''"
definition TLSProblem :: ProblemType where
  "TLSProblem = ''urn:acme:error:tls''"
definition UnauthorizedProblem :: ProblemType where
  "UnauthorizedProblem = ''urn:acme:error:unauthorized''"
definition UnknownHostProblem :: ProblemType where
  "UnknownHostProblem = ''urn:acme:error:unknownHost''"
definition RateLimitedProblem :: ProblemType where
  "RateLimitedProblem = ''urn:acme:error:rateLimited''"
definition BadNonceProblem :: ProblemType where
  "BadNonceProblem = ''urn:acme:error:badNonce''"
definition InvalidEmailProblem :: ProblemType where
  "InvalidEmailProblem = ''urn:acme:error:invalidEmail''"
definition RejectedIdentifierProblem :: ProblemType where
  "RejectedIdentifierProblem = ''urn:acme:error:rejectedIdentifier''"
definition UnsupportedIdentifierProblem :: ProblemType where
  "UnsupportedIdentifierProblem = ''urn:acme:error:unsupportedIdentifier''"

lemmas problem_types = ConnectionProblem_def MalformedProblem_def ServerInternalProblem_def
  TLSProblem_def UnauthorizedProblem_def UnknownHostProblem_def RateLimitedProblem_def
  BadNonceProblem_def InvalidEmailProblem_def RejectedIdentifierProblem_def
  UnsupportedIdentifierProblem_def

definition ProblemDetailsToStatusCode :: "ProblemDetails \<Rightarrow> int" where
  "ProblemDetailsToStatusCode prob =
     (if HTTPStatus prob \<noteq> 0 then HTTPStatus prob
      else if prob_Type prob \<in> {ConnectionProblem, MalformedProblem, TLSProblem,
          UnknownHostProblem, BadNonceProblem, InvalidEmailProblem, RejectedIdentifierProblem,
          UnsupportedIdentifierProblem} then 400
      else if prob_Type prob = ServerInternalProblem then 500
      else if prob_Type prob = UnauthorizedProblem then 403
      else if prob_Type prob = RateLimitedProblem then 429
      else 500)"

definition probs_BadNonce :: "string \<Rightarrow> ProblemDetails" where
  "probs_BadNonce d = \<lparr>prob_Type = BadNonceProblem, Detail = d, HTTPStatus = 400\<rparr>"
definition probs_RejectedIdentifier :: "string \<Rightarrow> ProblemDetails" where
  "probs_RejectedIdentifier d =
     \<lparr>prob_Type = RejectedIdentifierProblem, Detail = d, HTTPStatus = 400\<rparr>"
definition probs_UnsupportedIdentifier :: "string \<Rightarrow> ProblemDetails" where
  "probs_UnsupportedIdentifier d =
     \<lparr>prob_Type = UnsupportedIdentifierProblem, Detail = d, HTTPStatus = 400\<rparr>"
definition probs_Conflict :: "string \<Rightarrow> ProblemDetails" where
  "probs_Conflict d = \<lparr>prob_Type = MalformedProblem, Detail = d, HTTPStatus = 409\<rparr>"
text \<open>\<^verbatim>\<open>Malformed\<close> called with a detail only: it is not used as a format.\<close>
definition probs_Malformed :: "string \<Rightarrow> ProblemDetails" where
  "probs_Malformed d = \<lparr>prob_Type = MalformedProblem, Detail = d, HTTPStatus = 400\<rparr>"
definition probs_NotFound :: "string \<Rightarrow> ProblemDetails" where
  "probs_NotFound d = \<lparr>prob_Type = MalformedProblem, Detail = d, HTTPStatus = 404\<rparr>"
definition probs_ServerInternal :: "string \<Rightarrow> ProblemDetails" where
  "probs_ServerInternal d = \<lparr>prob_Type = ServerInternalProblem, Detail = d, HTTPStatus = 500\<rparr>"
definition probs_Unauthorized :: "string \<Rightarrow> ProblemDetails" where
  "probs_Unauthorized d = \<lparr>prob_Type = UnauthorizedProblem, Detail = d, HTTPStatus = 403\<rparr>"
definition probs_MethodNotAllowed :: ProblemDetails where
  "probs_MethodNotAllowed =
     \<lparr>prob_Type = MalformedProblem, Detail = ''Method not allowed'', HTTPStatus = 405\<rparr>"
definition probs_ContentLengthRequired :: ProblemDetails where
  "probs_ContentLengthRequired =
     \<lparr>prob_Type = MalformedProblem, Detail = ''missing Content-Length header'', HTTPStatus = 411\<rparr>"
definition probs_InvalidEmail :: "string \<Rightarrow> ProblemDetails" where
  "probs_InvalidEmail d = \<lparr>prob_Type = InvalidEmailProblem, Detail = d, HTTPStatus = 400\<rparr>"
definition probs_ConnectionFailure :: "string \<Rightarrow> ProblemDetails" where
  "probs_ConnectionFailure d = \<lparr>prob_Type = ConnectionProblem, Detail = d, HTTPStatus = 400\<rparr>"
definition probs_UnknownHost :: "string \<Rightarrow> ProblemDetails" where
  "probs_UnknownHost d = \<lparr>prob_Type = UnknownHostProblem, Detail = d, HTTPStatus = 400\<rparr>"
definition probs_RateLimited :: "string \<Rightarrow> ProblemDetails" where
  "probs_RateLimited d = \<lparr>prob_Type = RateLimitedProblem, Detail = d, HTTPStatus = 429\<rparr>"
definition probs_TLSError :: "string \<Rightarrow> ProblemDetails" where
  "probs_TLSError d = \<lparr>prob_Type = TLSProblem, Detail = d, HTTPStatus = 400\<rparr>"

lemmas probs_defs = probs_BadNonce_def probs_RejectedIdentifier_def
  probs_UnsupportedIdentifier_def probs_Conflict_def probs_Malformed_def probs_NotFound_def
  probs_ServerInternal_def probs_Unauthorized_def probs_MethodNotAllowed_def
  probs_ContentLengthRequired_def probs_InvalidEmail_def probs_ConnectionFailure_def
  probs_UnknownHost_def probs_RateLimited_def probs_TLSError_def

section \<open>The dynamic types of an error value\<close>

text \<open>
  The types that Go's \<^verbatim>\<open>error\<close> interface holds in this program: boulder errors, problem
  documents, the string types of \<^verbatim>\<open>core/util.go\<close>, a gRPC status, \<^verbatim>\<open>sql.ErrNoRows\<close>, and any
  other error, known by its text only.
\<close>

datatype goerror =
    BoulderError ErrorType string
  | ProblemErr ProblemDetails
  | core_InternalServerError string
  | core_NotSupportedError string
  | core_MalformedRequestError string
  | core_UnauthorizedError string
  | core_NotFoundError string
  | core_LengthRequiredError string
  | core_SignatureValidationError string
  | core_NoSuchRegistrationError string
  | core_RateLimitedError string
  | core_TooManyRPCRequestsError string
  | core_BadNonceError string
  | RpcError nat string
  | ErrNoRows
  | OtherError string

text \<open>\<^verbatim>\<open>codes.Code.String\<close> of the gRPC library.\<close>

definition code_names :: "string list" where
  "code_names = [''OK'', ''Canceled'', ''Unknown'', ''InvalidArgument'', ''DeadlineExceeded'',
     ''NotFound'', ''AlreadyExists'', ''PermissionDenied'', ''ResourceExhausted'',
     ''FailedPrecondition'', ''Aborted'', ''OutOfRange'', ''Unimplemented'', ''Internal'',
     ''Unavailable'', ''DataLoss'', ''Unauthenticated'']"

definition code_string :: "nat \<Rightarrow> string" where
  "code_string c =
     (if c < length code_names then code_names ! c else ''Code('' @ format_nat c @ '')'')"

fun Error :: "goerror \<Rightarrow> string" where
  "Error (BoulderError _ d) = d"
| "Error (ProblemErr p) = prob_Type p @ '' :: '' @ Detail p"
| "Error (core_InternalServerError s) = s"
| "Error (core_NotSupportedError s) = s"
| "Error (core_MalformedRequestError s) = s"
| "Error (core_UnauthorizedError s) = s"
| "Error (core_NotFoundError s) = s"
| "Error (core_LengthRequiredError s) = s"
| "Error (core_SignatureValidationError s) = s"
| "Error (core_NoSuchRegistrationError s) = s"
| "Error (core_RateLimitedError s) = s"
| "Error (core_TooManyRPCRequestsError s) = s"
| "Error (core_BadNonceError s) = s"
| "Error (RpcError c s) = ''rpc error: code = '' @ code_string c @ '' desc = '' @ s"
| "Error ErrNoRows = ''sql: no rows in result set''"
| "Error (OtherError s) = s"

text \<open>\<^verbatim>\<open>berrors.New(t, msg)\<close> formats its message even when there are no arguments.\<close>

definition berrors_New :: "ErrorType \<Rightarrow> string \<Rightarrow> goerror" where
  "berrors_New t msg = BoulderError t (sprintf0 msg)"

definition berrors_Is :: "goerror \<Rightarrow> ErrorType \<Rightarrow> bool" where
  "berrors_Is e t = (case e of BoulderError t' _ \<Rightarrow> t' = t | _ \<Rightarrow> False)"

section \<open>wfe/probs.go\<close>

definition with_msg :: "string \<Rightarrow> goerror \<Rightarrow> string" where
  "with_msg msg e = msg @ '' :: '' @ Error e"

definition problemDetailsForBoulderError :: "ErrorType \<Rightarrow> string \<Rightarrow> string \<Rightarrow> ProblemDetails" where
  "problemDetailsForBoulderError t detail msg =
     (let m = with_msg msg (BoulderError t detail) in
      if t = NotSupported then
        \<lparr>prob_Type = ServerInternalProblem, Detail = m, HTTPStatus = 501\<rparr>
      else if t = Malformed \<or> t = SignatureValidation then probs_Malformed m
      else if t = Unauthorized then probs_Unauthorized m
      else if t = NotFound then probs_NotFound m
      else if t = RateLimit then probs_RateLimited m
      else if t = InternalServer \<or> t = TooManyRequests then probs_ServerInternal msg
      else if t = RejectedIdentifier then probs_RejectedIdentifier msg
      else if t = UnsupportedIdentifier then probs_UnsupportedIdentifier msg
      else if t = InvalidEmail then probs_InvalidEmail msg
      else probs_ServerInternal msg)"

fun problemDetailsForError :: "goerror \<Rightarrow> string \<Rightarrow> ProblemDetails" where
  "problemDetailsForError (ProblemErr p) msg = p"
| "problemDetailsForError (BoulderError t d) msg = problemDetailsForBoulderError t d msg"
| "problemDetailsForError (core_MalformedRequestError s) msg =
     probs_Malformed (with_msg msg (core_MalformedRequestError s))"
| "problemDetailsForError (core_NotSupportedError s) msg =
     \<lparr>prob_Type = ServerInternalProblem, Detail = with_msg msg (core_NotSupportedError s),
      HTTPStatus = 501\<rparr>"
| "problemDetailsForError (core_UnauthorizedError s) msg =
     probs_Unauthorized (with_msg msg (core_UnauthorizedError s))"
| "problemDetailsForError (core_NotFoundError s) msg =
     probs_NotFound (with_msg msg (core_NotFoundError s))"
| "problemDetailsForError (core_LengthRequiredError s) msg =
     (probs_Malformed ''missing Content-Length header'')\<lparr>HTTPStatus := 411\<rparr>"
| "problemDetailsForError (core_SignatureValidationError s) msg =
     probs_Malformed (with_msg msg (core_SignatureValidationError s))"
| "problemDetailsForError (core_RateLimitedError s) msg =
     probs_RateLimited (with_msg msg (core_RateLimitedError s))"
| "problemDetailsForError (core_BadNonceError s) msg =
     probs_BadNonce (with_msg msg (core_BadNonceError s))"
| "problemDetailsForError _ msg = probs_ServerInternal msg"

section \<open>grpc/bcodes.go\<close>

definition grpc_MalformedRequestError :: nat where "grpc_MalformedRequestError = 100"
definition grpc_NotSupportedError :: nat where "grpc_NotSupportedError = 101"
definition grpc_UnauthorizedError :: nat where "grpc_UnauthorizedError = 102"
definition grpc_NotFoundError :: nat where "grpc_NotFoundError = 103"
definition grpc_LengthRequiredError :: nat where "grpc_LengthRequiredError = 104"
definition grpc_SignatureValidationError :: nat where "grpc_SignatureValidationError = 105"
definition grpc_RateLimitedError :: nat where "grpc_RateLimitedError = 106"
definition grpc_BadNonceError :: nat where "grpc_BadNonceError = 107"
definition grpc_NoSuchRegistrationError :: nat where "grpc_NoSuchRegistrationError = 108"
definition grpc_InternalServerError :: nat where "grpc_InternalServerError = 109"
definition grpc_ProblemDetails :: nat where "grpc_ProblemDetails = 110"
definition codes_Unknown :: nat where "codes_Unknown = 2"

lemmas grpc_codes = grpc_MalformedRequestError_def grpc_NotSupportedError_def
  grpc_UnauthorizedError_def grpc_NotFoundError_def grpc_LengthRequiredError_def
  grpc_SignatureValidationError_def grpc_RateLimitedError_def grpc_BadNonceError_def
  grpc_NoSuchRegistrationError_def grpc_InternalServerError_def grpc_ProblemDetails_def
  codes_Unknown_def

fun errorToCode :: "goerror \<Rightarrow> nat" where
  "errorToCode (core_MalformedRequestError _) = grpc_MalformedRequestError"
| "errorToCode (core_NotSupportedError _) = grpc_NotSupportedError"
| "errorToCode (core_UnauthorizedError _) = grpc_UnauthorizedError"
| "errorToCode (core_NotFoundError _) = grpc_NotFoundError"
| "errorToCode (core_LengthRequiredError _) = grpc_LengthRequiredError"
| "errorToCode (core_SignatureValidationError _) = grpc_SignatureValidationError"
| "errorToCode (core_RateLimitedError _) = grpc_RateLimitedError"
| "errorToCode (core_BadNonceError _) = grpc_BadNonceError"
| "errorToCode (core_NoSuchRegistrationError _) = grpc_NoSuchRegistrationError"
| "errorToCode (core_InternalServerError _) = grpc_InternalServerError"
| "errorToCode (ProblemErr _) = grpc_ProblemDetails"
| "errorToCode _ = codes_Unknown"

text \<open>
  \<^verbatim>\<open>wrapError\<close> returns the trailer metadata it sets and the error for the gRPC layer; the
  JSON encoder of problem documents is a parameter. \<^verbatim>\<open>grpc.Errorf\<close> is called with the
  error text as its format.
\<close>

type_synonym metadata = "string \<rightharpoonup> string list"

definition grpc_Errorf :: "nat \<Rightarrow> string \<Rightarrow> goerror option" where
  "grpc_Errorf c format = (if c = 0 then None else Some (RpcError c (sprintf0 format)))"

fun grpc_Code :: "goerror \<Rightarrow> nat" where
  "grpc_Code (RpcError c _) = c"
| "grpc_Code _ = codes_Unknown"

fun grpc_ErrorDesc :: "goerror \<Rightarrow> string" where
  "grpc_ErrorDesc (RpcError _ d) = d"
| "grpc_ErrorDesc e = Error e"

definition wrapError ::
  "(ProblemDetails \<Rightarrow> string option) \<Rightarrow> goerror option \<Rightarrow> metadata \<times> goerror option" where
  "wrapError marshal err =
     (case err of
        None \<Rightarrow> (Map.empty, None)
      | Some (BoulderError t d) \<Rightarrow>
          ([''errortype'' \<mapsto> [Itoa t]], grpc_Errorf codes_Unknown (Error (BoulderError t d)))
      | Some (ProblemErr pd) \<Rightarrow>
          (case marshal pd of
             None \<Rightarrow> (Map.empty, Some (ProblemErr pd))
           | Some body \<Rightarrow> (Map.empty, grpc_Errorf grpc_ProblemDetails body))
      | Some e \<Rightarrow> (Map.empty, grpc_Errorf (errorToCode e) (Error e)))"

definition unwrapError ::
  "(string \<Rightarrow> ProblemDetails option) \<Rightarrow> goerror option \<Rightarrow> metadata \<Rightarrow> goerror option" where
  "unwrapError unmarshal err md =
     (case err of
        None \<Rightarrow> None
      | Some e \<Rightarrow>
         (case md ''errortype'' of
            Some errTypeStrs \<Rightarrow>
              (case errTypeStrs of
                 [s] \<Rightarrow>
                   (case Atoi s of
                      None \<Rightarrow> Some (BoulderError InternalServer
                        (''failed to decode error type, decoding error '' @ quote (atoi_error s) @
                         '', wrapped error '' @ quote (grpc_ErrorDesc e)))
                    | Some t \<Rightarrow> Some (berrors_New t (grpc_ErrorDesc e)))
               | _ \<Rightarrow> Some (BoulderError InternalServer
                   (''multiple errorType metadata, wrapped error '' @ quote (grpc_ErrorDesc e))))
          | None \<Rightarrow>
              (let code = grpc_Code e; body = grpc_ErrorDesc e in
               if code = grpc_InternalServerError then Some (core_InternalServerError body)
               else if code = grpc_NotSupportedError then Some (core_NotSupportedError body)
               else if code = grpc_MalformedRequestError then Some (core_MalformedRequestError body)
               else if code = grpc_UnauthorizedError then Some (core_UnauthorizedError body)
               else if code = grpc_NotFoundError then Some (core_NotFoundError body)
               else if code = grpc_SignatureValidationError
                 then Some (core_SignatureValidationError body)
               else if code = grpc_NoSuchRegistrationError
                 then Some (core_NoSuchRegistrationError body)
               else if code = grpc_RateLimitedError then Some (core_RateLimitedError body)
               else if code = grpc_LengthRequiredError then Some (core_LengthRequiredError body)
               else if code = grpc_BadNonceError then Some (core_BadNonceError body)
               else if code = grpc_ProblemDetails then
                 (case unmarshal body of None \<Rightarrow> Some e | Some pd \<Rightarrow> Some (ProblemErr pd))
               else Some e)))"

section \<open>Facts about error transport\<close>

text \<open>
  The errors that cross an RPC boundary unchanged: boulder errors whose type fits an
  \<^verbatim>\<open>int\<close>, the deprecated core errors that have a code, and problem documents whose JSON
  decodes again; and none of their texts contains a percent sign.
\<close>

fun transportable ::
  "(ProblemDetails \<Rightarrow> string option) \<Rightarrow> (string \<Rightarrow> ProblemDetails option) \<Rightarrow> goerror \<Rightarrow> bool" where
  "transportable m u (BoulderError t d) =
     (- (2 ^ 63) \<le> t \<and> t < 2 ^ 63 \<and> CHR ''%'' \<notin> set d)"
| "transportable m u (ProblemErr p) =
     (case m p of None \<Rightarrow> False | Some b \<Rightarrow> CHR ''%'' \<notin> set b \<and> u b = Some p)"
| "transportable m u (RpcError _ _) = False"
| "transportable m u ErrNoRows = False"
| "transportable m u (OtherError _) = False"
| "transportable m u (core_TooManyRPCRequestsError _) = False"
| "transportable m u e = (CHR ''%'' \<notin> set (Error e))"

definition rpc_send :: "(ProblemDetails \<Rightarrow> string option) \<Rightarrow> goerror \<Rightarrow> metadata \<times> goerror option" where
  "rpc_send m e = wrapError m (Some e)"

definition rpc_receive ::
  "(string \<Rightarrow> ProblemDetails option) \<Rightarrow> metadata \<times> goerror option \<Rightarrow> unit + goerror" where
  "rpc_receive u r =
     (case unwrapError u (snd r) (fst r) of None \<Rightarrow> Inl () | Some e \<Rightarrow> Inr e)"

lemma rpc_receive_send: "transportable m u e \<Longrightarrow> rpc_receive u (rpc_send m e) = Inr e"
  by (cases e)
    (auto simp: rpc_receive_def rpc_send_def wrapError_def unwrapError_def grpc_Errorf_def
      berrors_New_def Atoi_Itoa grpc_codes Let_def split: option.splits)

interpretation rpc_error: codec "rpc_send m" "rpc_receive u" "transportable m u" for m u
  by unfold_locales (rule rpc_receive_send)

lemma rpc_boulder_type:
  assumes "- (2 ^ 63) \<le> t" "t < 2 ^ 63"
  shows "rpc_receive u (rpc_send m (BoulderError t d)) = Inr (BoulderError t (sprintf0 (sprintf0 d)))"
  using assms
  by (simp add: rpc_receive_def rpc_send_def wrapError_def unwrapError_def grpc_Errorf_def
      berrors_New_def Atoi_Itoa grpc_codes)

lemmas status_simps = probs_defs problemDetailsForBoulderError_def Let_def

lemma boulder_problem_shape:
  "prob_Type (problemDetailsForBoulderError t d msg) =
     prob_Type (problemDetailsForBoulderError t d' msg) \<and>
   HTTPStatus (problemDetailsForBoulderError t d msg) =
     HTTPStatus (problemDetailsForBoulderError t d' msg)"
  by (simp add: status_simps)

section \<open>Properties\<close>



text \<open>
  What the client sees of a boulder error does not depend on an RPC hop in between:
  the problem type and the HTTP status the front end derives from the received error are
  those of the original, for every type that fits an \<^verbatim>\<open>int\<close> and every text, also one that
  the formatting on the way changes.
\<close>

theorem rpc_preserves_problem_status:
  assumes "- (2 ^ 63) \<le> t" "t < 2 ^ 63"
    and "unwrapError u (snd (wrapError m (Some (BoulderError t d))))
           (fst (wrapError m (Some (BoulderError t d)))) = Some e"
  shows "prob_Type (problemDetailsForError e msg) =
           prob_Type (problemDetailsForError (BoulderError t d) msg) \<and>
         ProblemDetailsToStatusCode (problemDetailsForError e msg) =
           ProblemDetailsToStatusCode (problemDetailsForError (BoulderError t d) msg)"
proof -
  have "e = BoulderError t (sprintf0 (sprintf0 d))"
    using rpc_boulder_type [OF assms(1,2), of u m d] assms(3)
    by (simp add: rpc_receive_def rpc_send_def)
  then show ?thesis
    using boulder_problem_shape [of t d msg "sprintf0 (sprintf0 d)"]
    by (simp add: ProblemDetailsToStatusCode_def)
qed

theorem rpc_preserves_problem_status_witness:
  "\<exists>e. unwrapError (\<lambda>_. None) (snd (wrapError (\<lambda>_. None) (Some (BoulderError NotFound ''100%%''))))
           (fst (wrapError (\<lambda>_. None) (Some (BoulderError NotFound ''100%%'')))) = Some e \<and>
     ProblemDetailsToStatusCode (problemDetailsForError e ''m'') =
       ProblemDetailsToStatusCode (problemDetailsForError (BoulderError NotFound ''100%%'') ''m'')"
proof -
  have e: "\<exists>e. unwrapError (\<lambda>_. None) (snd (wrapError (\<lambda>_. None) (Some (BoulderError NotFound ''100%%''))))
           (fst (wrapError (\<lambda>_. None) (Some (BoulderError NotFound ''100%%'')))) = Some e"
    by (simp add: wrapError_def unwrapError_def grpc_Errorf_def grpc_codes Atoi_Itoa NotFound_def)
  have "- (2 ^ 63) \<le> NotFound" "NotFound < 2 ^ 63"
    by (simp_all add: NotFound_def)
  with e show ?thesis using rpc_preserves_problem_status by blast
qed

text \<open>The errors the front end treats as internal.\<close>

fun internal_error :: "goerror \<Rightarrow> bool" where
  "internal_error (BoulderError t _) =
     (t = InternalServer \<or> t = TooManyRequests \<or> t < 0 \<or> InvalidEmail < t)"
| "internal_error (core_InternalServerError _) = True"
| "internal_error (core_NoSuchRegistrationError _) = True"
| "internal_error (core_TooManyRPCRequestsError _) = True"
| "internal_error (RpcError _ _) = True"
| "internal_error ErrNoRows = True"
| "internal_error (OtherError _) = True"
| "internal_error _ = False"

text \<open>
  C25: Internal errors do not leak. For every error the front end treats as internal
  (internal and overload boulder errors, types it does not know, and every error of an
  unknown kind) the problem document depends on the caller's message only, never on the
  error's own text, and its status is 500.
\<close>

theorem internal_errors_do_not_leak:
  assumes "internal_error e"
  shows "problemDetailsForError e msg = probs_ServerInternal msg \<and>
    ProblemDetailsToStatusCode (problemDetailsForError e msg) = 500"
  using assms
  by (cases e) (auto simp: status_simps error_types ProblemDetailsToStatusCode_def)

theorem internal_errors_do_not_leak_witness:
  "internal_error (OtherError ''dial tcp 10.0.0.7:3306'') \<and>
   problemDetailsForError (OtherError ''dial tcp 10.0.0.7:3306'') ''Failed'' =
     probs_ServerInternal ''Failed'' \<and>
   ProblemDetailsToStatusCode (problemDetailsForError (OtherError ''dial tcp 10.0.0.7:3306'') ''Failed'') = 500"
proof -
  have "internal_error (OtherError ''dial tcp 10.0.0.7:3306'')" by simp
  then show ?thesis by (metis internal_errors_do_not_leak)
qed

end
