(* ===== verification/Features.thy ===== *)
theory Features
  imports Prelude
begin

text \<open>
  Feature flags (\<^verbatim>\<open>features/features.go\<close>). Go maps are references: the package variables
  \<^verbatim>\<open>features\<close> and \<^verbatim>\<open>initial\<close> hold addresses of maps, so the model has a store of maps.
  Panics are the value \<open>None\<close>.
\<close>

section \<open>Model\<close>

datatype FeatureFlag = unused | IDNASupport | AllowAccountDeactivation | AllowKeyRollover
  | ResubmitMissingSCTsOnly | GoogleSafeBrowsingV4 | UseAIAIssuerURL | AllowTLS02Challenges
  | GenerateOCSPEarly

fun FeatureFlag_String :: "FeatureFlag \<Rightarrow> string" where
  "FeatureFlag_String unused = ''unused''"
| "FeatureFlag_String IDNASupport = ''IDNASupport''"
| "FeatureFlag_String AllowAccountDeactivation = ''AllowAccountDeactivation''"
| "FeatureFlag_String AllowKeyRollover = ''AllowKeyRollover''"
| "FeatureFlag_String ResubmitMissingSCTsOnly = ''ResubmitMissingSCTsOnly''"
| "FeatureFlag_String GoogleSafeBrowsingV4 = ''GoogleSafeBrowsingV4''"
| "FeatureFlag_String UseAIAIssuerURL = ''UseAIAIssuerURL''"
| "FeatureFlag_String AllowTLS02Challenges = ''AllowTLS02Challenges''"
| "FeatureFlag_String GenerateOCSPEarly = ''GenerateOCSPEarly''"

definition all_flags :: "FeatureFlag list" where
  "all_flags = [unused, IDNASupport, AllowAccountDeactivation, AllowKeyRollover,
     ResubmitMissingSCTsOnly, GoogleSafeBrowsingV4, UseAIAIssuerURL, AllowTLS02Challenges,
     GenerateOCSPEarly]"

type_synonym flags = "FeatureFlag \<rightharpoonup> bool"

record feature_state =
  store :: "nat \<Rightarrow> flags"
  features :: nat
  initial :: nat

definition default_flags :: flags where
  "default_flags = map_of (map (\<lambda>f. (f, False)) all_flags)"

definition nameToFeature :: "string \<rightharpoonup> FeatureFlag" where
  "nameToFeature = map_of (map (\<lambda>f. (FeatureFlag_String f, f)) all_flags)"

text \<open>After \<^verbatim>\<open>init\<close> the two variables hold two maps with the same contents.\<close>

definition features_init :: feature_state where
  "features_init = \<lparr>store = (\<lambda>_. default_flags), features = 0, initial = 1\<rparr>"

definition set_flag :: "FeatureFlag \<Rightarrow> bool \<Rightarrow> feature_state \<Rightarrow> feature_state" where
  "set_flag f v st =
     st\<lparr>store := (store st)(features st := (store st (features st))(f \<mapsto> v))\<rparr>"

fun Set_flags :: "(string \<times> bool) list \<Rightarrow> feature_state \<Rightarrow> feature_state \<times> string option" where
  "Set_flags [] st = (st, None)"
| "Set_flags ((n, v) # rest) st =
     (case nameToFeature n of
        None \<Rightarrow> (st, Some (''feature '' @ [char_of (39::nat)] @ n @ [char_of (39::nat)] @ '' doesn'' @
                  [char_of (39::nat)] @ ''t exist''))
      | Some f \<Rightarrow> Set_flags rest (set_flag f v st))"

definition Enabled :: "feature_state \<Rightarrow> FeatureFlag \<Rightarrow> bool option" where
  "Enabled st f = store st (features st) f"

definition Export :: "feature_state \<Rightarrow> (string \<times> bool option) list" where
  "Export st = map (\<lambda>f. (FeatureFlag_String f, store st (features st) f)) all_flags"

definition Reset :: "feature_state \<Rightarrow> feature_state" where
  "Reset st = st\<lparr>features := initial st\<rparr>"

section \<open>Lemmas\<close>

lemma all_flags_complete [simp]: "f \<in> set all_flags"
  by (cases f) (simp_all add: all_flags_def)

lemma default_flags_eq [simp]: "default_flags f = Some False"
  by (cases f) (simp_all add: default_flags_def all_flags_def)

lemma nameToFeature_String [simp]: "nameToFeature (FeatureFlag_String f) = Some f"
  by (cases f) (simp_all add: nameToFeature_def all_flags_def)

lemma set_flag_Enabled: "Enabled (set_flag f v st) g = (if g = f then Some v else Enabled st g)"
  by (simp add: Enabled_def set_flag_def)

lemma set_flag_total: "(\<And>g. Enabled st g \<noteq> None) \<Longrightarrow> Enabled (set_flag f v st) g \<noteq> None"
  by (simp add: set_flag_Enabled)

lemma Set_flags_total:
  "(\<And>g. Enabled st g \<noteq> None) \<Longrightarrow> Enabled (fst (Set_flags fs st)) g \<noteq> None"
proof (induction fs st arbitrary: g rule: Set_flags.induct)
  case (2 n v rest st)
  then show ?case by (auto simp: set_flag_Enabled split: option.splits)
qed simp

lemma Set_flags_lookup:
  assumes "snd (Set_flags fs st) = None" "distinct (map fst fs)" "(FeatureFlag_String f, v) \<in> set fs"
  shows "Enabled (fst (Set_flags fs st)) f = Some v"
proof -
  have keep: "Enabled (fst (Set_flags fs st)) f = Enabled st f"
    if "FeatureFlag_String f \<notin> fst ` set fs" "snd (Set_flags fs st) = None" for fs st
    using that
  proof (induction fs st rule: Set_flags.induct)
    case (2 n w rest st)
    then obtain g where g: "nameToFeature n = Some g" by (auto split: option.splits)
    have "g \<noteq> f"
    proof
      assume "g = f"
      with g have "n = FeatureFlag_String f"
        by (auto simp: nameToFeature_def all_flags_def split: if_splits)
      with 2 show False by simp
    qed
    with 2 g show ?case by (simp add: set_flag_Enabled)
  qed simp
  from assms show ?thesis
  proof (induction fs st rule: Set_flags.induct)
    case (2 n w rest st)
    then obtain g where g: "nameToFeature n = Some g" by (auto split: option.splits)
    show ?case
    proof (cases "n = FeatureFlag_String f")
      case True
      with 2 g have "v = w" "g = f" by force+
      with 2 g True keep [of rest "set_flag g w st"] show ?thesis by (simp add: set_flag_Enabled)
    next
      case False
      with 2 g show ?thesis by simp
    qed
  qed simp
qed

section \<open>Properties\<close>

text \<open>
  \<^verbatim>\<open>Reset\<close> works once only. It makes \<^verbatim>\<open>features\<close> the same map as \<^verbatim>\<open>initial\<close>, so a flag
  set after a reset is written into the initial values as well, and every later reset
  leaves it as it was set instead of restoring the default.
\<close>

theorem reset_keeps_later_settings:
  "Enabled (Reset (set_flag f v (Reset st))) f = Some v"
  by (simp add: Enabled_def Reset_def set_flag_def)

end
