(* ===== verification/Core.thy ===== *)
theory Core
  imports Encodings Errors Features "HOL-Library.Char_ord" "HOL-Library.List_Lexorder"
begin

text \<open>
  The objects every component exchanges (\<^verbatim>\<open>core/objects.go\<close>, \<^verbatim>\<open>core/challenges.go\<close>,
  \<^verbatim>\<open>revocation/reasons.go\<close>) and the helpers on them (\<^verbatim>\<open>core/util.go\<close>): tokens, key
  digests, serial numbers, name lists, and the sanity checks of challenges. SHA-256, the
  PKIX encoding and the JWK thumbprint are parameters.
\<close>

section \<open>core/objects.go: data\<close>

type_synonym AcmeStatus = string
type_synonym IdentifierType = string
type_synonym OCSPStatus = string

definition StatusUnknown :: AcmeStatus where "StatusUnknown = ''unknown''"
definition StatusPending :: AcmeStatus where "StatusPending = ''pending''"
definition StatusProcessing :: AcmeStatus where "StatusProcessing = ''processing''"
definition StatusValid :: AcmeStatus where "StatusValid = ''valid''"
definition StatusInvalid :: AcmeStatus where "StatusInvalid = ''invalid''"
definition StatusRevoked :: AcmeStatus where "StatusRevoked = ''revoked''"
definition StatusDeactivated :: AcmeStatus where "StatusDeactivated = ''deactivated''"
definition IdentifierDNS :: IdentifierType where "IdentifierDNS = ''dns''"
definition OCSPStatusGood :: OCSPStatus where "OCSPStatusGood = ''good''"
definition OCSPStatusRevoked :: OCSPStatus where "OCSPStatusRevoked = ''revoked''"

lemmas status_defs = StatusUnknown_def StatusPending_def StatusProcessing_def StatusValid_def
  StatusInvalid_def StatusRevoked_def StatusDeactivated_def
  OCSPStatusGood_def OCSPStatusRevoked_def

definition ChallengeTypeHTTP01 :: string where "ChallengeTypeHTTP01 = ''http-01''"
definition ChallengeTypeTLSSNI01 :: string where "ChallengeTypeTLSSNI01 = ''tls-sni-01''"
definition ChallengeTypeTLSSNI02 :: string where "ChallengeTypeTLSSNI02 = ''tls-sni-02''"
definition ChallengeTypeDNS01 :: string where "ChallengeTypeDNS01 = ''dns-01''"

lemmas challenge_types = ChallengeTypeHTTP01_def ChallengeTypeTLSSNI01_def
  ChallengeTypeTLSSNI02_def ChallengeTypeDNS01_def

text \<open>Feature flags are read through a function argument \<open>feat\<close>.\<close>

definition ValidChallenge :: "(FeatureFlag \<Rightarrow> bool) \<Rightarrow> string \<Rightarrow> bool" where
  "ValidChallenge feat name =
     (if name = ChallengeTypeHTTP01 \<or> name = ChallengeTypeTLSSNI01 \<or> name = ChallengeTypeDNS01
      then True
      else if name = ChallengeTypeTLSSNI02 then feat AllowTLS02Challenges
      else False)"

definition TLSSNISuffix :: string where "TLSSNISuffix = ''acme.invalid''"
definition DNSPrefix :: string where "DNSPrefix = ''_acme-challenge''"

record AcmeIdentifier =
  id_Type :: IdentifierType
  Value :: string

text \<open>
  Public keys as the code distinguishes them; \<open>OtherKey\<close> carries the Go type's name. An IP
  address is its byte slice, \<open>None\<close> for nil.
\<close>

datatype CurveID = P256 | P384 | OtherCurve string

datatype PublicKey = RSAKey int int | ECDSAKey CurveID int int | OtherKey string

record JsonWebKey =
  jwk_Key :: PublicKey
  KeyID :: string
  Algorithm :: string

type_synonym IP = "bytes option"

record Registration =
  reg_ID :: int
  reg_Key :: "JsonWebKey option"
  Contact :: "string list option"
  Agreement :: string
  InitialIP :: IP
  CreatedAt :: time
  reg_Status :: AcmeStatus

record ValidationRecord =
  Authorities :: "string list"
  URL :: string
  Hostname :: string
  Port :: string
  AddressesResolved :: "IP list"
  AddressUsed :: IP

record Challenge =
  ch_ID :: int
  ch_Type :: string
  ch_Status :: AcmeStatus
  ch_Error :: "ProblemDetails option"
  URI :: string
  Token :: string
  ProvidedKeyAuthorization :: string
  ch_Records :: "ValidationRecord list"

record Authorization =
  az_ID :: string
  Identifier :: AcmeIdentifier
  RegistrationID :: int
  az_Status :: AcmeStatus
  az_Expires :: "time option"
  Challenges :: "Challenge list"
  Combinations :: "int list list"

record Certificate =
  cert_RegID :: int
  cert_Serial :: string
  Digest :: string
  DER :: bytes
  Issued :: time
  cert_Expires :: time

record CertificateStatus =
  cs_Serial :: string
  SubscriberApproved :: bool
  cs_Status :: OCSPStatus
  OCSPLastUpdated :: time
  RevokedDate :: time
  RevokedReason :: int
  LastExpirationNagSent :: time
  cs_OCSPResponse :: bytes
  NotAfter :: time
  IsExpired :: bool
  LockCol :: int

record OCSPSigningRequest =
  CertDER :: bytes
  ocsp_Status :: string
  Reason :: int
  RevokedAt :: time

record SignedCertificateTimestamp =
  sct_ID :: int
  SCTVersion :: "8 word"
  LogID :: string
  Timestamp :: "64 word"
  Extensions :: bytes
  Signature :: bytes
  CertificateSerial :: string

record FQDNSet =
  SetHash :: bytes
  fqdn_Serial :: string
  fqdn_Issued :: time
  fqdn_Expires :: time

section \<open>core/util.go\<close>

text \<open>\<open>rnd\<close> are the bytes \<^verbatim>\<open>io.ReadFull(rand.Reader, b)\<close> delivers.\<close>

definition RandomString :: "bytes \<Rightarrow> string" where
  "RandomString rnd = raw_url_encode rnd"

definition NewToken :: "bytes \<Rightarrow> string" where
  "NewToken rnd = RandomString rnd"

text \<open>The regular expression \<^verbatim>\<open>^[\w-]{43}$\<close>.\<close>

definition word_char :: "char \<Rightarrow> bool" where
  "word_char c = (let n = of_char c :: nat in
     48 \<le> n \<and> n \<le> 57 \<or> 65 \<le> n \<and> n \<le> 90 \<or> 97 \<le> n \<and> n \<le> 122 \<or> n = 95)"

definition LooksLikeAToken :: "string \<Rightarrow> bool" where
  "LooksLikeAToken token \<longleftrightarrow>
     length token = 43 \<and> list_all (\<lambda>c. word_char c \<or> c = CHR ''-'') token"

definition Fingerprint256 :: "(bytes \<Rightarrow> bytes) \<Rightarrow> bytes \<Rightarrow> string" where
  "Fingerprint256 sha256 d = raw_url_encode (sha256 d)"

text \<open>The dynamic types a \<^verbatim>\<open>crypto.PublicKey\<close> argument of \<^verbatim>\<open>KeyDigest\<close> can have.\<close>

datatype AnyKey = JWKPtr "JsonWebKey option" | JWKVal JsonWebKey | RawKey PublicKey

definition std_encode :: "bytes \<Rightarrow> string" where
  "std_encode b =
     b64_encode std_alphabet b @ replicate ((3 - length b mod 3) mod 3) (CHR ''='')"

definition raw_digest ::
  "(bytes \<Rightarrow> bytes) \<Rightarrow> (PublicKey \<Rightarrow> bytes option) \<Rightarrow> PublicKey \<Rightarrow> string + string" where
  "raw_digest sha256 marshalPKIX k =
     (case marshalPKIX k of
        None \<Rightarrow> Inl ''x509: only RSA and ECDSA public keys supported''
      | Some keyDER \<Rightarrow> Inr (std_encode (take 32 (sha256 keyDER))))"

fun KeyDigest ::
  "(bytes \<Rightarrow> bytes) \<Rightarrow> (PublicKey \<Rightarrow> bytes option) \<Rightarrow> AnyKey \<Rightarrow> string + string" where
  "KeyDigest sha256 mp (JWKPtr None) = Inl ''Cannot compute digest of nil key''"
| "KeyDigest sha256 mp (JWKPtr (Some t)) = raw_digest sha256 mp (jwk_Key t)"
| "KeyDigest sha256 mp (JWKVal t) = raw_digest sha256 mp (jwk_Key t)"
| "KeyDigest sha256 mp (RawKey k) = raw_digest sha256 mp k"

definition KeyDigestEquals ::
  "(bytes \<Rightarrow> bytes) \<Rightarrow> (PublicKey \<Rightarrow> bytes option) \<Rightarrow> AnyKey \<Rightarrow> AnyKey \<Rightarrow> bool" where
  "KeyDigestEquals sha256 mp j k =
     (case (KeyDigest sha256 mp j, KeyDigest sha256 mp k) of
        (Inr dj, Inr dk) \<Rightarrow> dj = dk | _ \<Rightarrow> False)"

definition PublicKeysEqual ::
  "(PublicKey \<Rightarrow> bytes option) \<Rightarrow> PublicKey option \<Rightarrow> PublicKey option \<Rightarrow> string + bool" where
  "PublicKeysEqual mp a b =
     (case (a, b) of
        (Some ka, Some kb) \<Rightarrow>
          (case mp ka of None \<Rightarrow> Inl ''x509: only RSA and ECDSA public keys supported''
           | Some ba \<Rightarrow>
             (case mp kb of None \<Rightarrow> Inl ''x509: only RSA and ECDSA public keys supported''
              | Some bb \<Rightarrow> Inr (ba = bb)))
      | _ \<Rightarrow> Inl ''One or more nil arguments to PublicKeysEqual'')"

text \<open>\<^verbatim>\<open>fmt.Sprintf("%036x", serial)\<close>: zero-padded to 36 columns, the sign included.\<close>

definition SerialToString :: "int \<Rightarrow> string" where
  "SerialToString serial =
     (let ds = format_hex (nat \<bar>serial\<bar>); sg = (if serial < 0 then ''-'' else [])
      in sg @ replicate (36 - length sg - length ds) (CHR ''0'') @ ds)"

definition ValidSerial :: "string \<Rightarrow> bool" where
  "ValidSerial serial =
     (if length serial < 32 \<and> length serial > 36 then False
      else hex_decode serial \<noteq> None)"

text \<open>
  \<^verbatim>\<open>fmt.Sscanf(serial, "%036x", &n)\<close> reads at most 36 hexadecimal digits.
\<close>

definition StringToSerial :: "string \<Rightarrow> string + int" where
  "StringToSerial serial =
     (if \<not> ValidSerial serial then Inl ''Invalid serial number''
      else if serial = [] then Inl ''unexpected EOF''
      else (case parse_hex 0 (take 36 serial) of
              None \<Rightarrow> Inl ''expected integer'' | Some n \<Rightarrow> Inr (int n)))"

definition GetBuildID :: "string \<Rightarrow> string" where
  "GetBuildID BuildID = (if BuildID = [] then ''Unspecified'' else BuildID)"

definition GetBuildTime :: "string \<Rightarrow> string" where
  "GetBuildTime BuildTime = (if BuildTime = [] then ''Unspecified'' else BuildTime)"

definition GetBuildHost :: "string \<Rightarrow> string" where
  "GetBuildHost BuildHost = (if BuildHost = [] then ''Unspecified'' else BuildHost)"

definition UniqueLowerNames :: "string list \<Rightarrow> string list" where
  "UniqueLowerNames names =
     (let nameMap = foldl (\<lambda>m name. AList.update (to_lower name) (1::int) m) [] names
      in sort (map fst nameMap))"

definition IsASCII :: "string \<Rightarrow> bool" where
  "IsASCII str = list_all (\<lambda>r. (of_char r :: nat) \<le> 127) str"

section \<open>core/challenges.go\<close>

definition newChallenge :: "string \<Rightarrow> bytes \<Rightarrow> Challenge" where
  "newChallenge t rnd =
     \<lparr>ch_ID = 0, ch_Type = t, ch_Status = StatusPending, ch_Error = None, URI = [],
      Token = NewToken rnd, ProvidedKeyAuthorization = [], ch_Records = []\<rparr>"

definition HTTPChallenge01 :: "bytes \<Rightarrow> Challenge" where
  "HTTPChallenge01 rnd = newChallenge ChallengeTypeHTTP01 rnd"
definition TLSSNIChallenge01 :: "bytes \<Rightarrow> Challenge" where
  "TLSSNIChallenge01 rnd = newChallenge ChallengeTypeTLSSNI01 rnd"
definition TLSSNIChallenge02 :: "bytes \<Rightarrow> Challenge" where
  "TLSSNIChallenge02 rnd = newChallenge ChallengeTypeTLSSNI02 rnd"
definition DNSChallenge01 :: "bytes \<Rightarrow> Challenge" where
  "DNSChallenge01 rnd = newChallenge ChallengeTypeDNS01 rnd"

section \<open>core/objects.go: operations\<close>

definition looksLikeKeyAuthorization :: "string \<Rightarrow> string option" where
  "looksLikeKeyAuthorization str =
     (let parts = split_on (CHR ''.'') str in
      if length parts \<noteq> 2
      then Some ''Invalid key authorization: does not look like a key authorization''
      else if \<not> LooksLikeAToken (parts ! 0)
      then Some ''Invalid key authorization: malformed token''
      else if \<not> LooksLikeAToken (parts ! 1)
      then Some ''Invalid key authorization: malformed key thumbprint''
      else None)"

definition ExpectedKeyAuthorization ::
  "(JsonWebKey \<Rightarrow> string + bytes) \<Rightarrow> Challenge \<Rightarrow> JsonWebKey option \<Rightarrow> string + string" where
  "ExpectedKeyAuthorization thumbprint ch key =
     (case key of
        None \<Rightarrow> Inl ''Cannot authorize a nil key''
      | Some k \<Rightarrow> bind_result (thumbprint k)
          (\<lambda>t. Inr (Token ch @ ''.'' @ raw_url_encode t)))"

definition RecordsSane :: "Challenge \<Rightarrow> bool" where
  "RecordsSane ch =
     (case ch_Records ch of
        [] \<Rightarrow> False
      | rec0 # rest \<Rightarrow>
          if ch_Type ch = ChallengeTypeHTTP01 then
            list_all (\<lambda>r. \<not> (URL r = [] \<or> Hostname r = [] \<or> Port r = [] \<or> AddressUsed r = None \<or>
                            AddressesResolved r = [])) (ch_Records ch)
          else if ch_Type ch = ChallengeTypeTLSSNI01 \<or> ch_Type ch = ChallengeTypeTLSSNI02 then
            (if length (ch_Records ch) > 1 then False
             else if URL rec0 \<noteq> [] then False
             else if Hostname rec0 = [] \<or> Port rec0 = [] \<or> AddressUsed rec0 = None \<or>
                     AddressesResolved rec0 = [] then False
             else True)
          else if ch_Type ch = ChallengeTypeDNS01 then
            (if length (ch_Records ch) > 1 then False
             else if Hostname rec0 = [] then False else True)
          else False)"

definition IsSane :: "Challenge \<Rightarrow> bool \<Rightarrow> bool" where
  "IsSane ch completed =
     (if ch_Status ch \<noteq> StatusPending then False
      else if \<not> LooksLikeAToken (Token ch) then False
      else if \<not> completed \<and> ProvidedKeyAuthorization ch \<noteq> [] then False
      else if completed \<and> looksLikeKeyAuthorization (ProvidedKeyAuthorization ch) \<noteq> None then False
      else True)"

definition IsSaneForClientOffer :: "Challenge \<Rightarrow> bool" where
  "IsSaneForClientOffer ch = IsSane ch False"

definition IsSaneForValidation :: "Challenge \<Rightarrow> bool" where
  "IsSaneForValidation ch = IsSane ch True"

fun find_challenge_from :: "int \<Rightarrow> int \<Rightarrow> Challenge list \<Rightarrow> int" where
  "find_challenge_from i cid [] = -1"
| "find_challenge_from i cid (c # cs) =
     (if ch_ID c = cid then i else find_challenge_from (i + 1) cid cs)"

definition FindChallenge :: "Authorization \<Rightarrow> int \<Rightarrow> int" where
  "FindChallenge authz cid = find_challenge_from 0 cid (Challenges authz)"

text \<open>
  JOSE-style buffers: padded URL-safe base64 with the padding stripped, and put back
  before decoding.
\<close>

definition url_padded :: "bytes \<Rightarrow> string" where
  "url_padded d =
     b64_encode url_alphabet d @ replicate ((3 - length d mod 3) mod 3) (CHR ''='')"

definition trim_right_eq :: "string \<Rightarrow> string" where
  "trim_right_eq s = rev (dropWhile (\<lambda>c. c = CHR ''='') (rev s))"

definition base64URLEncode :: "bytes \<Rightarrow> string" where
  "base64URLEncode d = trim_right_eq (url_padded d)"

definition pad_count :: "string \<Rightarrow> nat" where
  "pad_count s = (if has_suffix s ''=='' then 2 else if has_suffix s ''='' then 1 else 0)"

definition url_decode_padded :: "string \<Rightarrow> bytes option" where
  "url_decode_padded s =
     (let t = strip_newlines s in
      if length t mod 4 \<noteq> 0 then None
      else b64_groups url_alphabet (take (length t - pad_count t) t))"

definition base64URLDecode :: "string \<Rightarrow> bytes option" where
  "base64URLDecode d =
     (let missing = (4 - length d mod 4) mod 4
      in url_decode_padded (d @ replicate missing (CHR ''='')))"

section \<open>revocation/reasons.go\<close>

definition ReasonToString :: "int \<rightharpoonup> string" where
  "ReasonToString = [0 \<mapsto> ''unspecified'', 1 \<mapsto> ''keyCompromise'', 2 \<mapsto> ''cACompromise'',
     3 \<mapsto> ''affiliationChanged'', 4 \<mapsto> ''superseded'', 5 \<mapsto> ''cessationOfOperation'',
     6 \<mapsto> ''certificateHold'', 8 \<mapsto> ''removeFromCRL'', 9 \<mapsto> ''privilegeWithdrawn'',
     10 \<mapsto> ''aAcompromise'']"

definition UserAllowedReasons :: "int set" where
  "UserAllowedReasons = {0, 1, 3, 4, 5}"

section \<open>Tokens and key authorizations\<close>

lemma url_alphabet_token: "c \<in> set url_alphabet \<Longrightarrow> word_char c \<or> c = CHR ''-''"
proof -
  have "\<forall>c \<in> set url_alphabet. word_char c \<or> c = CHR ''-''"
    by (simp add: url_alphabet_def alnum_def word_char_def)
  then show "c \<in> set url_alphabet \<Longrightarrow> word_char c \<or> c = CHR ''-''" by blast
qed

lemma encoded_32_token: "length b = 32 \<Longrightarrow> LooksLikeAToken (raw_url_encode b)"
  using b64_encode_alphabet [of url_alphabet b] url_alphabet_token
  by (auto simp: LooksLikeAToken_def length_b64_encode list_all_iff)

lemma NewToken_LooksLikeAToken: "length rnd = 32 \<Longrightarrow> LooksLikeAToken (NewToken rnd)"
  by (simp add: NewToken_def RandomString_def encoded_32_token)

lemma token_no_dot: "LooksLikeAToken t \<Longrightarrow> CHR ''.'' \<notin> set t"
  by (auto simp: LooksLikeAToken_def list_all_iff word_char_def)

lemma looksLikeKeyAuthorization_iff:
  "looksLikeKeyAuthorization s = None \<longleftrightarrow>
     (\<exists>t k. s = t @ ''.'' @ k \<and> LooksLikeAToken t \<and> LooksLikeAToken k)"
proof
  assume n: "looksLikeKeyAuthorization s = None"
  then obtain t k where tk: "split_on (CHR ''.'') s = [t, k]"
    by (auto simp: looksLikeKeyAuthorization_def Let_def length_Suc_conv numeral_2_eq_2
        split: if_splits)
  with n have "LooksLikeAToken t" "LooksLikeAToken k"
    by (auto simp: looksLikeKeyAuthorization_def split: if_splits)
  moreover have "s = t @ ''.'' @ k"
    using join_split [of "CHR ''.''" s] tk by simp
  ultimately show "\<exists>t k. s = t @ ''.'' @ k \<and> LooksLikeAToken t \<and> LooksLikeAToken k" by blast
next
  assume "\<exists>t k. s = t @ ''.'' @ k \<and> LooksLikeAToken t \<and> LooksLikeAToken k"
  then obtain t k where s: "s = t @ ''.'' @ k" "LooksLikeAToken t" "LooksLikeAToken k" by blast
  then have "split_on (CHR ''.'') s = [t, k]"
    by (simp add: split_on_append_sep split_on_no_sep token_no_dot)
  with s show "looksLikeKeyAuthorization s = None"
    by (simp add: looksLikeKeyAuthorization_def)
qed

lemma newChallenge_sane: "length rnd = 32 \<Longrightarrow> IsSaneForClientOffer (newChallenge t rnd)"
  by (simp add: IsSaneForClientOffer_def IsSane_def newChallenge_def NewToken_LooksLikeAToken)

lemma find_challenge_from_spec:
  "find_challenge_from i cid cs =
     (case find (\<lambda>n. ch_ID (cs ! n) = cid) [0..<length cs] of None \<Rightarrow> -1 | Some n \<Rightarrow> i + int n)"
proof (induction cs arbitrary: i)
  case Nil
  then show ?case by simp
next
  case (Cons c cs)
  have "find (\<lambda>n. ch_ID ((c # cs) ! n) = cid) [1..<length (c # cs)] =
      map_option Suc (find (\<lambda>n. ch_ID (cs ! n) = cid) [0..<length cs])"
  proof -
    have "[1..<length (c # cs)] = map Suc [0..<length cs]" by (simp add: map_Suc_upt)
    moreover have "find P (map Suc ns) = map_option Suc (find (P \<circ> Suc) ns)" for P ns
      by (induction ns) auto
    ultimately show ?thesis by (simp add: comp_def)
  qed
  then show ?case
    by (simp add: Cons.IH upt_conv_Cons del: upt_Suc split: option.splits)
qed

lemma FindChallenge_range:
  "FindChallenge az cid = -1 \<or> (0 \<le> FindChallenge az cid \<and>
     nat (FindChallenge az cid) < length (Challenges az) \<and>
     ch_ID (Challenges az ! nat (FindChallenge az cid)) = cid)"
  by (auto simp: FindChallenge_def find_challenge_from_spec find_Some_iff split: option.splits)

section \<open>Serial numbers\<close>

lemma ValidSerial_iff:
  "ValidSerial s \<longleftrightarrow> even (length s) \<and> (\<forall>c \<in> set s. hex_val c \<noteq> None)"
  using hex_decode_Some_iff [of s] by (auto simp: ValidSerial_def)

lemma SerialToString_shape:
  assumes "0 \<le> n" "n < 16 ^ 36"
  shows "length (SerialToString n) = 36" "\<forall>c \<in> set (SerialToString n). hex_val c \<noteq> None"
proof -
  have "nat n < 16 ^ 36" using assms by (simp add: nat_less_iff)
  then have "length (format_hex (nat n)) \<le> 36" by (rule length_format_hex) simp
  then show "length (SerialToString n) = 36" using assms by (simp add: SerialToString_def Let_def)
  have "hex_val (CHR ''0'') \<noteq> None" by (simp add: hex_val_def)
  then show "\<forall>c \<in> set (SerialToString n). hex_val c \<noteq> None"
    using assms by (auto simp: SerialToString_def Let_def dest: format_hex_chars)
qed

interpretation serial: codec SerialToString StringToSerial "\<lambda>n. 0 \<le> n \<and> n < 16 ^ 36"
proof
  fix n :: int
  assume n: "0 \<le> n \<and> n < 16 ^ 36"
  then have "SerialToString n \<noteq> []" "ValidSerial (SerialToString n)"
    using SerialToString_shape [of n] by (auto simp: ValidSerial_iff)
  moreover have "parse_hex 0 (SerialToString n) = Some (nat n)"
    using n by (simp add: SerialToString_def Let_def parse_hex_zeros parse_format_hex)
  ultimately show "StringToSerial (SerialToString n) = Inr n"
    using n SerialToString_shape [of n] by (simp add: StringToSerial_def)
qed

section \<open>Name lists\<close>

lemma foldl_name_map:
  "wf_map m \<Longrightarrow>
   wf_map (foldl (\<lambda>m name. AList.update (to_lower name) (1::int) m) m names) \<and>
   map_keys (foldl (\<lambda>m name. AList.update (to_lower name) (1::int) m) m names) =
     map_keys m \<union> to_lower ` set names"
  by (induction names arbitrary: m) auto

lemma UniqueLowerNames_eq:
  "UniqueLowerNames names = sorted_list_of_set (to_lower ` set names)"
proof -
  define m where "m = foldl (\<lambda>m name. AList.update (to_lower name) (1::int) m) [] names"
  have m: "wf_map m" "map_keys m = to_lower ` set names"
    using foldl_name_map [of "[]" names] by (simp_all add: m_def)
  then have "distinct (map fst m)" "set (map fst m) = to_lower ` set names"
    by (simp_all add: wf_map_def map_keys_def)
  then show ?thesis
    by (metis UniqueLowerNames_def m_def sorted_list_of_set_sort_remdups distinct_remdups_id)
qed

lemma UniqueLowerNames_set [simp]: "set (UniqueLowerNames names) = to_lower ` set names"
  by (simp add: UniqueLowerNames_eq)

lemma UniqueLowerNames_idem: "UniqueLowerNames (UniqueLowerNames names) = UniqueLowerNames names"
  by (simp add: UniqueLowerNames_eq image_image)

section \<open>JOSE buffers\<close>

lemma eq_not_url: "CHR ''='' \<notin> set (raw_url_encode d)"
  using b64_encode_alphabet [of url_alphabet d] by (auto simp: url_alphabet_def alnum_def)

lemma trim_right_eq_append:
  "CHR ''='' \<notin> set s \<Longrightarrow> trim_right_eq (s @ replicate k (CHR ''='')) = s"
proof -
  assume s: "CHR ''='' \<notin> set s"
  then have "dropWhile (\<lambda>c. c = CHR ''='') (rev s) = rev s"
    by (cases "rev s") (auto simp: rev_eq_Cons_iff)
  then have "dropWhile (\<lambda>c. c = CHR ''='') (replicate k (CHR ''='') @ rev s) = rev s"
    by (induction k) simp_all
  then show ?thesis by (simp add: trim_right_eq_def)
qed

lemma base64URLEncode_eq: "base64URLEncode d = raw_url_encode d"
  by (simp add: base64URLEncode_def url_padded_def trim_right_eq_append eq_not_url)

lemma pad_count_append:
  "CHR ''='' \<notin> set s \<Longrightarrow> k \<le> 2 \<Longrightarrow> pad_count (s @ replicate k (CHR ''='')) = k"
proof -
  assume s: "CHR ''='' \<notin> set s" and k: "k \<le> 2"
  have no: "\<not> has_suffix s ''=''" "\<not> has_suffix s ''==''" "\<not> has_suffix (s @ ''='') ''==''"
    using s by (auto simp: has_suffix_iff append_eq_append_conv2 Cons_eq_append_conv)
  from k consider "k = 0" | "k = 1" | "k = 2" by linarith
  then show ?thesis
    using no by cases (auto simp: pad_count_def has_suffix_iff numeral_2_eq_2)
qed

lemma strip_newlines_pad:
  "strip_newlines (raw_url_encode d @ replicate k (CHR ''='')) =
     raw_url_encode d @ replicate k (CHR ''='')"
  using strip_newlines_url [OF b64_encode_alphabet, of d]
  by (auto simp: strip_newlines_def filter_id_conv)

lemma raw_length_mod: "length (raw_url_encode d) mod 4 \<noteq> 1"
proof -
  define q r where "q = length d div 3" and "r = length d mod 3"
  have d: "length d = 3 * q + r" and "r < 3" by (simp_all add: q_def r_def)
  have "(length d * 4 + 2) div 3 = q * 4 + (r * 4 + 2) div 3" unfolding d by simp
  moreover from \<open>r < 3\<close> have "r = 0 \<or> r = 1 \<or> r = 2" by linarith
  ultimately show ?thesis by (auto simp: length_b64_encode)
qed

lemma missing_pad: "(n + (4 - n mod 4) mod 4) mod 4 = 0" "n mod 4 \<noteq> 1 \<Longrightarrow> (4 - n mod 4) mod 4 \<le> 2"
  for n :: nat
proof -
  have "n mod 4 = 0 \<or> n mod 4 = 1 \<or> n mod 4 = 2 \<or> n mod 4 = 3" by linarith
  then show "(n + (4 - n mod 4) mod 4) mod 4 = 0" "n mod 4 \<noteq> 1 \<Longrightarrow> (4 - n mod 4) mod 4 \<le> 2"
    by (auto simp: mod_add_left_eq [symmetric, of n])
qed

interpretation jose_buffer: codec base64URLEncode
  "\<lambda>s. case base64URLDecode s of None \<Rightarrow> Inl () | Some b \<Rightarrow> Inr b" "\<lambda>_. True"
proof
  fix d :: bytes
  define e where "e = raw_url_encode d"
  define k where "k = (4 - length e mod 4) mod 4"
  have k: "k \<le> 2" "(length e + k) mod 4 = 0"
    using missing_pad [of "length e"] raw_length_mod [of d] by (simp_all add: k_def e_def)
  have "url_decode_padded (e @ replicate k (CHR ''='')) = b64_groups url_alphabet e"
    using k pad_count_append [OF eq_not_url, of k d]
    by (simp add: url_decode_padded_def strip_newlines_pad e_def)
  then have "base64URLDecode e = Some d"
    by (simp add: base64URLDecode_def k_def [symmetric]) (simp add: e_def b64_roundtrip)
  then show "(case base64URLDecode (base64URLEncode d) of None \<Rightarrow> Inl () | Some b \<Rightarrow> Inr b) = Inr d"
    by (simp add: base64URLEncode_eq e_def)
qed

section \<open>Properties\<close>

text \<open>
  A serial number round trip: every serial of at most 36 hexadecimal digits is
  printed as a valid serial string that reads back as the same number.
\<close>

theorem serial_roundtrip:
  assumes "0 \<le> n" "n < 16 ^ 36"
  shows "ValidSerial (SerialToString n) \<and> length (SerialToString n) = 36 \<and>
    StringToSerial (SerialToString n) = Inr n"
  using assms SerialToString_shape [OF assms] serial.dec_enc [of n]
  by (simp add: ValidSerial_iff)

theorem serial_roundtrip_witness:
  "ValidSerial (SerialToString 255) \<and> length (SerialToString 255) = 36 \<and>
   StringToSerial (SerialToString 255) = Inr 255"
  by (rule serial_roundtrip) simp_all

text \<open>
  The length of a serial string is not checked: \<^verbatim>\<open>ValidSerial\<close> accepts exactly the
  strings of an even number of hexadecimal digits, of any length, although its comment
  (and the message it gives) promises 32 to 36 characters.
\<close>

theorem valid_serial_ignores_length:
  "ValidSerial s \<longleftrightarrow> even (length s) \<and> list_all (\<lambda>c. hex_val c \<noteq> None) s"
  by (simp add: ValidSerial_iff list_all_iff)

text \<open>
  \<^verbatim>\<open>UniqueLowerNames\<close> is a canonical form: the sorted duplicate-free list of the
  lower-cased names, so two requests get the same list exactly when they ask for the same
  set of names up to case.
\<close>

theorem unique_lower_names_canonical:
  "UniqueLowerNames xs = sorted_list_of_set (to_lower ` set xs) \<and>
   (UniqueLowerNames xs = UniqueLowerNames ys \<longleftrightarrow> to_lower ` set xs = to_lower ` set ys)"
  using UniqueLowerNames_set [of xs] UniqueLowerNames_set [of ys]
  by (metis UniqueLowerNames_eq)

text \<open>
  The life of a challenge token. A challenge made from 32 random bytes may be
  offered to the client, and once the client returns the key authorization that
  \<^verbatim>\<open>ExpectedKeyAuthorization\<close> computes from a 32-byte thumbprint, the challenge may be
  sent to validation and may no longer be offered.
\<close>

theorem challenge_offer_then_validation:
  assumes "length rnd = 32" "thumbprint k = Inr t" "length t = 32"
    and "ExpectedKeyAuthorization thumbprint (newChallenge ty rnd) (Some k) = Inr ka"
  shows "IsSaneForClientOffer (newChallenge ty rnd) \<and>
    IsSaneForValidation ((newChallenge ty rnd)\<lparr>ProvidedKeyAuthorization := ka\<rparr>) \<and>
    \<not> IsSaneForClientOffer ((newChallenge ty rnd)\<lparr>ProvidedKeyAuthorization := ka\<rparr>)"
proof -
  have ka: "ka = NewToken rnd @ ''.'' @ raw_url_encode t"
    using assms by (simp add: ExpectedKeyAuthorization_def newChallenge_def)
  have "looksLikeKeyAuthorization ka = None"
    using ka assms NewToken_LooksLikeAToken [of rnd] encoded_32_token [of t]
    by (auto simp: looksLikeKeyAuthorization_iff)
  then show ?thesis
    using ka assms newChallenge_sane [of rnd ty]
    by (simp add: IsSaneForClientOffer_def IsSaneForValidation_def IsSane_def newChallenge_def
        NewToken_LooksLikeAToken)
qed

theorem challenge_offer_then_validation_witness:
  "let rnd = replicate 32 (CHR ''r''); tp = (\<lambda>k. Inr (replicate 32 (CHR ''t'')));
       k = \<lparr>jwk_Key = RSAKey 1 1, KeyID = [], Algorithm = []\<rparr>;
       ch = newChallenge ChallengeTypeHTTP01 rnd;
       ka = NewToken rnd @ ''.'' @ raw_url_encode (replicate 32 (CHR ''t''))
   in IsSaneForClientOffer ch \<and> IsSaneForValidation (ch\<lparr>ProvidedKeyAuthorization := ka\<rparr>) \<and>
      \<not> IsSaneForClientOffer (ch\<lparr>ProvidedKeyAuthorization := ka\<rparr>)"
  unfolding Let_def
  by (rule challenge_offer_then_validation
        [where thumbprint = "\<lambda>k. Inr (replicate 32 (CHR ''t''))" and t = "replicate 32 (CHR ''t'')"
          and k = "\<lparr>jwk_Key = RSAKey 1 1, KeyID = [], Algorithm = []\<rparr>"])
    (simp_all add: ExpectedKeyAuthorization_def newChallenge_def)

end
