(* ===== verification/Bdns.thy ===== *)
theory Bdns
  imports Core
begin

text \<open>
  The DNS client (\<^verbatim>\<open>bdns/dns.go\<close>, \<^verbatim>\<open>bdns/problem.go\<close>). One exchange with the server picked for
  a query is a parameter: for the \<open>n\<close>-th attempt it gives the answer, an error of the network
  or the end of the request's context. A resource record is known by its type, so the
  record's header and its Go type agree. The names of record types and response codes come
  from the DNS package and are parameters. The properties say which addresses a lookup may
  return and how often a query is repeated.
\<close>

unbundle bit_operations_syntax

section \<open>Networks\<close>

text \<open>\<^verbatim>\<open>net.IPNet\<close> with \<^verbatim>\<open>To4\<close>, \<^verbatim>\<open>networkNumberAndMask\<close> and \<^verbatim>\<open>Contains\<close>, on lists of byte values.\<close>

record IPNet =
  net_IP :: "nat list"
  net_Mask :: "nat list"

definition ip_nats :: "bytes \<Rightarrow> nat list" where
  "ip_nats ip = map of_char ip"

definition To4 :: "nat list \<Rightarrow> nat list option" where
  "To4 ip =
     (if length ip = 4 then Some ip
      else if length ip = 16 \<and> take 12 ip = replicate 10 0 @ [255, 255] then Some (drop 12 ip)
      else None)"

definition networkNumberAndMask :: "IPNet \<Rightarrow> nat list \<times> nat list" where
  "networkNumberAndMask n =
     (case (case To4 (net_IP n) of
              Some ip \<Rightarrow> Some ip
            | None \<Rightarrow> if length (net_IP n) = 16 then Some (net_IP n) else None) of
        None \<Rightarrow> ([], [])
      | Some ip \<Rightarrow>
          if length (net_Mask n) = 4 then (if length ip = 4 then (ip, net_Mask n) else ([], []))
          else if length (net_Mask n) = 16 then
            (if length ip = 4 then (ip, drop 12 (net_Mask n)) else (ip, net_Mask n))
          else ([], []))"

definition Contains :: "IPNet \<Rightarrow> nat list \<Rightarrow> bool" where
  "Contains n ip =
     (case networkNumberAndMask n of (nn, m) \<Rightarrow>
        (let ip = (case To4 ip of Some x \<Rightarrow> x | None \<Rightarrow> ip) in
         length ip = length nn \<and>
         list_all (\<lambda>i. (nn ! i) AND (m ! i) = (ip ! i) AND (m ! i)) [0..<length ip]))"

definition v4net :: "nat list \<Rightarrow> nat list \<Rightarrow> IPNet" where
  "v4net ip m = \<lparr>net_IP = ip, net_Mask = m\<rparr>"

definition privateNetworks :: "IPNet list" where
  "privateNetworks =
     [v4net [10, 0, 0, 0] [255, 0, 0, 0],
      v4net [172, 16, 0, 0] [255, 240, 0, 0],
      v4net [192, 168, 0, 0] [255, 255, 0, 0],
      v4net [127, 0, 0, 0] [255, 0, 0, 0],
      v4net [0, 0, 0, 0] [255, 0, 0, 0],
      v4net [169, 254, 0, 0] [255, 255, 0, 0],
      v4net [192, 0, 0, 0] [255, 255, 255, 0],
      v4net [192, 0, 2, 0] [255, 255, 255, 0],
      v4net [192, 51, 100, 0] [255, 255, 255, 0],
      v4net [203, 0, 113, 0] [255, 255, 255, 0],
      v4net [192, 88, 99, 0] [255, 255, 255, 0],
      v4net [192, 18, 0, 0] [255, 254, 0, 0],
      v4net [224, 0, 0, 0] [240, 0, 0, 0],
      v4net [240, 0, 0, 0] [240, 0, 0, 0],
      v4net [255, 255, 255, 255] [255, 255, 255, 255],
      v4net [100, 64, 0, 0] [255, 192, 0, 0]]"

text \<open>\<open>parseCidr\<close> of a network given by its eight 16-bit groups and its prefix length.\<close>

definition parseCidr :: "nat list \<Rightarrow> nat \<Rightarrow> IPNet" where
  "parseCidr groups bits =
     (let ip = concat (map (\<lambda>g. [g div 256, g mod 256]) groups);
          m = map (\<lambda>i. if 8 * (i + 1) \<le> bits then 255
                        else if bits \<le> 8 * i then 0 else 256 - 2 ^ (8 * (i + 1) - bits)) [0..<16]
      in \<lparr>net_IP = map (\<lambda>i. (ip ! i) AND (m ! i)) [0..<16], net_Mask = m\<rparr>)"

definition privateV6Networks :: "IPNet list" where
  "privateV6Networks =
     [parseCidr [0, 0, 0, 0, 0, 0, 0, 0] 128,
      parseCidr [0, 0, 0, 0, 0, 0, 0, 1] 128,
      parseCidr [0, 0, 0, 0, 0, 0xffff, 0, 0] 96,
      parseCidr [0x100, 0, 0, 0, 0, 0, 0, 0] 64,
      parseCidr [0x2001, 0, 0, 0, 0, 0, 0, 0] 23,
      parseCidr [0x2001, 2, 0, 0, 0, 0, 0, 0] 48,
      parseCidr [0x2001, 0xdb8, 0, 0, 0, 0, 0, 0] 32,
      parseCidr [0x2001, 0, 0, 0, 0, 0, 0, 0] 32,
      parseCidr [0xfc00, 0, 0, 0, 0, 0, 0, 0] 7,
      parseCidr [0xfe80, 0, 0, 0, 0, 0, 0, 0] 10,
      parseCidr [0xff00, 0, 0, 0, 0, 0, 0, 0] 8,
      parseCidr [0x2002, 0, 0, 0, 0, 0, 0, 0] 16]"

definition isPrivateV4 :: "bytes \<Rightarrow> bool" where
  "isPrivateV4 ip = list_ex (\<lambda>n. Contains n (ip_nats ip)) privateNetworks"

definition isPrivateV6 :: "bytes \<Rightarrow> bool" where
  "isPrivateV6 ip = list_ex (\<lambda>n. Contains n (ip_nats ip)) privateV6Networks"

section \<open>Messages and errors\<close>

record CAA =
  caa_Name :: string
  caa_Ttl :: nat
  caa_Flag :: "8 word"
  caa_Tag :: string
  caa_Value :: string

datatype RR = RR_A bytes | RR_AAAA bytes | RR_CAA CAA | RR_MX string | RR_TXT "string list" | RR_Other nat

record dns_msg =
  Rcode :: int
  Answer :: "RR list"
  Ns :: "string list"

datatype net_error = OpError bool bool string | ContextCanceled | ContextDeadlineExceeded | PlainError string

definition op_timeout :: "net_error \<Rightarrow> bool" where
  "op_timeout e = (case e of OpError timeout _ _ \<Rightarrow> timeout | _ \<Rightarrow> False)"

definition op_temporary :: "net_error \<Rightarrow> bool" where
  "op_temporary e = (case e of OpError _ temporary _ \<Rightarrow> temporary | _ \<Rightarrow> False)"

definition TypeA :: nat where "TypeA = 1"
definition TypeMX :: nat where "TypeMX = 15"
definition TypeTXT :: nat where "TypeTXT = 16"
definition TypeAAAA :: nat where "TypeAAAA = 28"
definition TypeCAA :: nat where "TypeCAA = 257"
definition RcodeSuccess :: int where "RcodeSuccess = 0"
definition RcodeServerFailure :: int where "RcodeServerFailure = 2"

record DNSError =
  recordType :: nat
  de_hostname :: string
  underlying :: "net_error option"
  rCode :: int

definition DNSError_Timeout :: "DNSError \<Rightarrow> bool" where
  "DNSError_Timeout d =
     (case underlying d of
        Some (OpError timeout _ _) \<Rightarrow> timeout
      | Some ContextCanceled \<Rightarrow> True
      | Some ContextDeadlineExceeded \<Rightarrow> True
      | _ \<Rightarrow> False)"

definition DNSError_Error :: "(int \<Rightarrow> string) \<Rightarrow> (nat \<Rightarrow> string) \<Rightarrow> DNSError \<Rightarrow> string" where
  "DNSError_Error rcodeToString typeToString d =
     (let detail =
        (case underlying d of
           Some (OpError timeout _ _) \<Rightarrow> if timeout then ''query timed out'' else ''networking error''
         | Some ContextCanceled \<Rightarrow> ''query timed out''
         | Some ContextDeadlineExceeded \<Rightarrow> ''query timed out''
         | Some (PlainError _) \<Rightarrow> ''server failure at resolver''
         | None \<Rightarrow> if rCode d \<noteq> RcodeSuccess then rcodeToString (rCode d) else ''server failure at resolver'')
      in ''DNS problem: '' @ detail @ '' looking up '' @ typeToString (recordType d) @ '' for '' @ de_hostname d)"

section \<open>Queries\<close>

record DNSResolverImpl =
  servers :: "string list"
  allowRestrictedAddresses :: bool
  caaSERVFAILExceptions :: "(string \<rightharpoonup> bool) option"
  maxTries :: int

definition NewDNSResolverImpl :: "string list \<Rightarrow> (string \<rightharpoonup> bool) option \<Rightarrow> int \<Rightarrow> DNSResolverImpl" where
  "NewDNSResolverImpl srvs exceptions tries =
     \<lparr>servers = srvs, allowRestrictedAddresses = False, caaSERVFAILExceptions = exceptions, maxTries = tries\<rparr>"

definition NewTestDNSResolverImpl :: "string list \<Rightarrow> int \<Rightarrow> DNSResolverImpl" where
  "NewTestDNSResolverImpl srvs tries = (NewDNSResolverImpl srvs None tries)\<lparr>allowRestrictedAddresses := True\<rparr>"

text \<open>The outcome of one attempt: the context ends first, or the exchange returns.\<close>

datatype attempt = CtxDone net_error | Reply "net_error + dns_msg"

type_synonym exchanger = "string \<Rightarrow> nat \<Rightarrow> nat \<Rightarrow> attempt"

function exchange_loop :: "int \<Rightarrow> (nat \<Rightarrow> attempt) \<Rightarrow> nat \<Rightarrow> net_error + dns_msg" where
  "exchange_loop maxT attempts tries =
     (case attempts tries of
        CtxDone err \<Rightarrow> Inl err
      | Reply (Inr m) \<Rightarrow> Inr m
      | Reply (Inl err) \<Rightarrow>
          if op_temporary err \<and> int tries < maxT then exchange_loop maxT attempts (Suc tries)
          else Inl err)"
  by pat_completeness auto

termination exchange_loop
  by (relation "measure (\<lambda>(maxT, _, tries). nat (maxT - int tries))") auto

declare exchange_loop.simps [simp del]

definition exchangeOne :: "exchanger \<Rightarrow> DNSResolverImpl \<Rightarrow> string \<Rightarrow> nat \<Rightarrow> net_error + dns_msg" where
  "exchangeOne exch r hostname qtype =
     (if length (servers r) < 1 then Inl (PlainError ''Not configured with at least one DNS Server'')
      else exchange_loop (maxTries r) (exch hostname qtype) 1)"

definition LookupTXT ::
  "exchanger \<Rightarrow> DNSResolverImpl \<Rightarrow> string \<Rightarrow> DNSError + string list \<times> string list" where
  "LookupTXT exch res hostname =
     (case exchangeOne exch res hostname TypeTXT of
        Inl err \<Rightarrow> Inl \<lparr>recordType = TypeTXT, de_hostname = hostname, underlying = Some err, rCode = - 1\<rparr>
      | Inr r \<Rightarrow>
          if Rcode r \<noteq> RcodeSuccess
          then Inl \<lparr>recordType = TypeTXT, de_hostname = hostname, underlying = None, rCode = Rcode r\<rparr>
          else Inr (List.map_filter (\<lambda>a. case a of RR_TXT t \<Rightarrow> Some (concat t) | _ \<Rightarrow> None) (Answer r), Ns r))"

definition lookupIP :: "exchanger \<Rightarrow> DNSResolverImpl \<Rightarrow> string \<Rightarrow> nat \<Rightarrow> DNSError + RR list" where
  "lookupIP exch res hostname ipType =
     (case exchangeOne exch res hostname ipType of
        Inl err \<Rightarrow> Inl \<lparr>recordType = ipType, de_hostname = hostname, underlying = Some err, rCode = - 1\<rparr>
      | Inr resp \<Rightarrow>
          if Rcode resp \<noteq> RcodeSuccess
          then Inl \<lparr>recordType = ipType, de_hostname = hostname, underlying = None, rCode = Rcode resp\<rparr>
          else Inr (Answer resp))"

definition usable_A :: "DNSResolverImpl \<Rightarrow> RR \<Rightarrow> bytes option" where
  "usable_A res a =
     (case a of
        RR_A ip \<Rightarrow> if To4 (ip_nats ip) \<noteq> None \<and> (\<not> isPrivateV4 ip \<or> allowRestrictedAddresses res)
                   then Some ip else None
      | _ \<Rightarrow> None)"

definition usable_AAAA :: "DNSResolverImpl \<Rightarrow> RR \<Rightarrow> bytes option" where
  "usable_AAAA res a =
     (case a of
        RR_AAAA ip \<Rightarrow> if (length ip = 4 \<or> length ip = 16) \<and> (\<not> isPrivateV6 ip \<or> allowRestrictedAddresses res)
                      then Some ip else None
      | _ \<Rightarrow> None)"

definition LookupHost :: "exchanger \<Rightarrow> DNSResolverImpl \<Rightarrow> string \<Rightarrow> DNSError + bytes list" where
  "LookupHost exch res hostname =
     (let a = lookupIP exch res hostname TypeA; aaaa = lookupIP exch res hostname TypeAAAA in
      case (a, aaaa) of
        (Inl errA, Inl _) \<Rightarrow> Inl errA
      | _ \<Rightarrow>
          Inr (List.map_filter (usable_A res) (case a of Inr rs \<Rightarrow> rs | Inl _ \<Rightarrow> []) @
               List.map_filter (usable_AAAA res) (case aaaa of Inr rs \<Rightarrow> rs | Inl _ \<Rightarrow> [])))"

definition LookupCAA :: "exchanger \<Rightarrow> DNSResolverImpl \<Rightarrow> string \<Rightarrow> DNSError + CAA list" where
  "LookupCAA exch res hostname =
     (case exchangeOne exch res hostname TypeCAA of
        Inl err \<Rightarrow> Inl \<lparr>recordType = TypeCAA, de_hostname = hostname, underlying = Some err, rCode = - 1\<rparr>
      | Inr r \<Rightarrow>
          if Rcode r = RcodeServerFailure then
            (if (case caaSERVFAILExceptions res of None \<Rightarrow> True | Some m \<Rightarrow> m hostname = Some True) then Inr []
             else Inl \<lparr>recordType = TypeCAA, de_hostname = hostname, underlying = None, rCode = Rcode r\<rparr>)
          else Inr (List.map_filter (\<lambda>a. case a of RR_CAA c \<Rightarrow> Some c | _ \<Rightarrow> None) (Answer r)))"

definition LookupMX :: "exchanger \<Rightarrow> DNSResolverImpl \<Rightarrow> string \<Rightarrow> DNSError + string list" where
  "LookupMX exch res hostname =
     (case exchangeOne exch res hostname TypeMX of
        Inl err \<Rightarrow> Inl \<lparr>recordType = TypeMX, de_hostname = hostname, underlying = Some err, rCode = - 1\<rparr>
      | Inr r \<Rightarrow>
          if Rcode r \<noteq> RcodeSuccess
          then Inl \<lparr>recordType = TypeMX, de_hostname = hostname, underlying = None, rCode = Rcode r\<rparr>
          else Inr (List.map_filter (\<lambda>a. case a of RR_MX m \<Rightarrow> Some m | _ \<Rightarrow> None) (Answer r)))"

definition ReadHostList :: "string \<Rightarrow> (string \<Rightarrow> string + bytes) \<Rightarrow> string + (string \<rightharpoonup> bool) option" where
  "ReadHostList filename readFile =
     (if filename = [] then Inr None
      else
        (case readFile filename of
           Inl err \<Rightarrow> Inl err
         | Inr body \<Rightarrow>
             Inr (Some (\<lambda>v. if v \<in> set (filter (\<lambda>v. length v > 0) (split_on (char_of (10::nat)) body))
                            then Some True else None))))"

section \<open>Lemmas: address ranges\<close>

text \<open>Masking the top bits of a byte, for the masks that the tables have.\<close>

lemma and_255: "x < 256 \<Longrightarrow> x AND 255 = x" for x :: nat
  using take_bit_nat_eq_self [of x 8] by (simp add: take_bit_eq_mask mask_eq_exp_minus_1)

lemma and_top_bits:
  fixes x :: nat
  assumes "x < 2 ^ (k + m)"
  shows "x AND push_bit k (mask m) = 2 ^ k * (x div 2 ^ k)"
proof -
  have "x AND push_bit k (mask m) = push_bit k (take_bit m (drop_bit k x))"
    by (rule bit_eqI) (auto simp: bit_simps)
  also have "take_bit m (drop_bit k x) = drop_bit k x"
    using assms by (simp add: take_bit_nat_eq_self_iff drop_bit_eq_div less_mult_imp_div_less power_add mult.commute)
  finally show ?thesis by (simp add: push_bit_eq_mult drop_bit_eq_div mult.commute)
qed

lemma byte_mask:
  fixes x :: nat
  assumes "x < 256"
  shows "x AND 254 = 2 * (x div 2)" "x AND 240 = 16 * (x div 16)" "x AND 192 = 64 * (x div 64)"
  using and_top_bits [of x 1 7] and_top_bits [of x 4 4] and_top_bits [of x 6 2] assms
  by (simp_all add: push_bit_eq_mult mask_eq_exp_minus_1)

lemma block_iff:
  fixes x c k :: nat
  assumes "0 < k" "c mod k = 0"
  shows "c = k * (x div k) \<longleftrightarrow> c \<le> x \<and> x < c + k"
proof -
  have c: "c = k * (c div k)" using assms(2) by auto
  show ?thesis
  proof
    assume "c = k * (x div k)"
    then show "c \<le> x \<and> x < c + k" using assms(1) mult_div_mod_eq [of k x] mod_less_divisor [of k x] by linarith
  next
    assume "c \<le> x \<and> x < c + k"
    then have "x div k = c div k" using c by (intro div_nat_eqI) auto
    then show "c = k * (x div k)" using c by simp
  qed
qed

text \<open>The addresses that the two tables cover, written as ranges of bytes.\<close>

definition reserved_v4 :: "nat \<Rightarrow> nat \<Rightarrow> nat \<Rightarrow> bool" where
  "reserved_v4 a b c \<longleftrightarrow>
     a = 0 \<or> a = 10 \<or> a = 127 \<or> 224 \<le> a \<or>
     a = 100 \<and> 64 \<le> b \<and> b \<le> 127 \<or> a = 169 \<and> b = 254 \<or> a = 172 \<and> 16 \<le> b \<and> b \<le> 31 \<or>
     a = 192 \<and> (b = 168 \<or> b = 18 \<or> b = 19 \<or>
                  b = 0 \<and> (c = 0 \<or> c = 2) \<or> b = 51 \<and> c = 100 \<or> b = 88 \<and> c = 99) \<or>
     a = 203 \<and> b = 0 \<and> c = 113"

lemma networkNumberAndMask_v4 [simp]:
  "networkNumberAndMask (v4net [a, b, c, d] [w, x, y, z]) = ([a, b, c, d], [w, x, y, z])"
  by (simp add: networkNumberAndMask_def v4net_def To4_def)

lemma Contains_v4:
  assumes "To4 ip = Some [p, q, r, s]"
  shows "Contains (v4net [a, b, c, d] [w, x, y, z]) ip \<longleftrightarrow>
    a AND w = p AND w \<and> b AND x = q AND x \<and> c AND y = r AND y \<and> d AND z = s AND z"
  using assms by (simp add: Contains_def upt_rec eval_nat_numeral)

lemma private_v4_ranges:
  assumes "To4 (ip_nats ip) = Some [p, q, r, s]" "p < 256" "q < 256" "r < 256" "s < 256"
  shows "isPrivateV4 ip \<longleftrightarrow> reserved_v4 p q r"
proof -
  note unfold = isPrivateV4_def privateNetworks_def reserved_v4_def Contains_v4 [OF assms(1)] and_255
    byte_mask block_iff
  have small: "q < 20 \<and> 18 \<le> q \<longleftrightarrow> q = 18 \<or> q = 19" "q < 128 \<longleftrightarrow> q \<le> 127" "q < 32 \<longleftrightarrow> q \<le> 31"
    by auto
  consider "p = 192" | "p = 172" | "p = 100" | "p \<noteq> 192" "p \<noteq> 172" "p \<noteq> 100" by blast
  then show ?thesis
  proof cases
    case 1
    with assms(3-5) show ?thesis by (simp add: unfold) (use small(1) in blast)
  next
    case 2
    with assms(3-5) show ?thesis by (simp add: unfold small)
  next
    case 3
    with assms(3-5) show ?thesis by (simp add: unfold small)
  next
    case 4
    with assms(2-5) show ?thesis
      by (cases "240 \<le> p"; cases "224 \<le> p") (auto simp: unfold)
  qed
qed

definition reserved_v6 :: "nat list \<Rightarrow> bool" where
  "reserved_v6 ip \<longleftrightarrow>
     take 15 ip = replicate 15 0 \<and> ip ! 15 \<le> 1 \<or>
     take 8 ip = [1, 0, 0, 0, 0, 0, 0, 0] \<or>
     ip ! 0 = 32 \<and> (ip ! 1 = 1 \<and> (ip ! 2 \<le> 1 \<or> ip ! 2 = 13 \<and> ip ! 3 = 184) \<or> ip ! 1 = 2) \<or>
     ip ! 0 = 252 \<or> ip ! 0 = 253 \<or> ip ! 0 = 254 \<and> 128 \<le> ip ! 1 \<and> ip ! 1 \<le> 191 \<or> ip ! 0 = 255"

definition v6net :: "nat list \<Rightarrow> nat list \<Rightarrow> IPNet" where
  "v6net ip m = \<lparr>net_IP = ip, net_Mask = m\<rparr>"

lemma upt_16: "[0..<16] = [0, 1, 2, 3, 4, 5, 6, 7, 8, 9, 10, 11, 12, 13, 14, 15]"
  by code_simp

lemma parseCidr_eq:
  "parseCidr groups bits =
     (let m = map (\<lambda>i. if 8 * (i + 1) \<le> bits then 255
                        else if bits \<le> 8 * i then 0 else 256 - 2 ^ (8 * (i + 1) - bits)) [0..<16];
          ip = concat (map (\<lambda>g. [g div 256, g mod 256]) groups)
      in v6net (map (\<lambda>i. (ip ! i) AND (m ! i)) [0..<16]) m)"
  by (simp add: parseCidr_def v6net_def Let_def)

lemma privateV6Networks_eq:
  "privateV6Networks =
     [v6net [0, 0, 0, 0, 0, 0, 0, 0, 0, 0, 0, 0, 0, 0, 0, 0]
       [255, 255, 255, 255, 255, 255, 255, 255, 255, 255, 255, 255, 255, 255, 255, 255],
      v6net [0, 0, 0, 0, 0, 0, 0, 0, 0, 0, 0, 0, 0, 0, 0, 1]
       [255, 255, 255, 255, 255, 255, 255, 255, 255, 255, 255, 255, 255, 255, 255, 255],
      v6net [0, 0, 0, 0, 0, 0, 0, 0, 0, 0, 255, 255, 0, 0, 0, 0]
       [255, 255, 255, 255, 255, 255, 255, 255, 255, 255, 255, 255, 0, 0, 0, 0],
      v6net [1, 0, 0, 0, 0, 0, 0, 0, 0, 0, 0, 0, 0, 0, 0, 0]
       [255, 255, 255, 255, 255, 255, 255, 255, 0, 0, 0, 0, 0, 0, 0, 0],
      v6net [32, 1, 0, 0, 0, 0, 0, 0, 0, 0, 0, 0, 0, 0, 0, 0]
       [255, 255, 254, 0, 0, 0, 0, 0, 0, 0, 0, 0, 0, 0, 0, 0],
      v6net [32, 1, 0, 2, 0, 0, 0, 0, 0, 0, 0, 0, 0, 0, 0, 0]
       [255, 255, 255, 255, 255, 255, 0, 0, 0, 0, 0, 0, 0, 0, 0, 0],
      v6net [32, 1, 13, 184, 0, 0, 0, 0, 0, 0, 0, 0, 0, 0, 0, 0]
       [255, 255, 255, 255, 0, 0, 0, 0, 0, 0, 0, 0, 0, 0, 0, 0],
      v6net [32, 1, 0, 0, 0, 0, 0, 0, 0, 0, 0, 0, 0, 0, 0, 0]
       [255, 255, 255, 255, 0, 0, 0, 0, 0, 0, 0, 0, 0, 0, 0, 0],
      v6net [252, 0, 0, 0, 0, 0, 0, 0, 0, 0, 0, 0, 0, 0, 0, 0]
       [254, 0, 0, 0, 0, 0, 0, 0, 0, 0, 0, 0, 0, 0, 0, 0],
      v6net [254, 128, 0, 0, 0, 0, 0, 0, 0, 0, 0, 0, 0, 0, 0, 0]
       [255, 192, 0, 0, 0, 0, 0, 0, 0, 0, 0, 0, 0, 0, 0, 0],
      v6net [255, 0, 0, 0, 0, 0, 0, 0, 0, 0, 0, 0, 0, 0, 0, 0]
       [255, 0, 0, 0, 0, 0, 0, 0, 0, 0, 0, 0, 0, 0, 0, 0],
      v6net [32, 2, 0, 0, 0, 0, 0, 0, 0, 0, 0, 0, 0, 0, 0, 0]
       [255, 255, 0, 0, 0, 0, 0, 0, 0, 0, 0, 0, 0, 0, 0, 0]]"
  by (simp add: privateV6Networks_def parseCidr_eq upt_16 Let_def)

lemma replicate_10: "replicate 10 x = [x, x, x, x, x, x, x, x, x, x]"
  by (simp add: numeral_eq_Suc)

lemma replicate_15: "replicate 15 x = [x, x, x, x, x, x, x, x, x, x, x, x, x, x, x]"
  by (simp add: numeral_eq_Suc)

lemma mapped_network: "networkNumberAndMask (v6net [0, 0, 0, 0, 0, 0, 0, 0, 0, 0, 255, 255, 0, 0, 0, 0]
    [255, 255, 255, 255, 255, 255, 255, 255, 255, 255, 255, 255, 0, 0, 0, 0]) = ([0, 0, 0, 0], [0, 0, 0, 0])"
  by (simp add: networkNumberAndMask_def v6net_def To4_def replicate_10)

lemma upt_4: "[0..<4] = [0, 1, 2, 3]"
  by code_simp

lemma mapped_private:
  assumes "To4 (ip_nats ip) = Some v"
  shows "isPrivateV6 ip"
proof -
  have "length v = 4" using assms by (auto simp: To4_def split: if_splits)
  then have "Contains (v6net [0, 0, 0, 0, 0, 0, 0, 0, 0, 0, 255, 255, 0, 0, 0, 0]
    [255, 255, 255, 255, 255, 255, 255, 255, 255, 255, 255, 255, 0, 0, 0, 0]) (ip_nats ip)"
    using assms by (simp add: Contains_def mapped_network upt_4)
  then show ?thesis
    by (simp add: isPrivateV6_def privateV6Networks_eq)
qed

lemma Contains_v6:
  assumes "To4 ip = None" "length ip = 16" "length nn = 16" "length m = 16" "To4 nn = None"
  shows "Contains (v6net nn m) ip \<longleftrightarrow> list_all (\<lambda>i. (nn ! i) AND (m ! i) = (ip ! i) AND (m ! i)) [0..<16]"
  using assms by (simp add: Contains_def networkNumberAndMask_def v6net_def)

lemma length_16:
  assumes "length ip = 16"
  obtains b0 b1 b2 b3 b4 b5 b6 b7 b8 b9 b10 b11 b12 b13 b14 b15
  where "ip = [b0, b1, b2, b3, b4, b5, b6, b7, b8, b9, b10, b11, b12, b13, b14, b15]"
proof -
  have "ip = map (\<lambda>i. ip ! i) [0..<16]" using map_nth [of ip] assms by simp
  then show ?thesis using that by (simp add: upt_16)
qed

lemma private_v6_ranges:
  assumes "To4 (ip_nats ip) = None" "length ip = 16"
  shows "isPrivateV6 ip \<longleftrightarrow> reserved_v6 (ip_nats ip)"
proof -
  define v where "v = ip_nats ip"
  have len: "length v = 16" using assms(2) by (simp add: v_def ip_nats_def)
  have v: "To4 v = None" using assms(1) by (simp add: v_def)
  have byte: "\<And>i. i < 16 \<Longrightarrow> v ! i < 256"
    using assms(2) by (simp add: v_def ip_nats_def of_char_less)
  have mapped: "\<not> Contains (v6net [0, 0, 0, 0, 0, 0, 0, 0, 0, 0, 255, 255, 0, 0, 0, 0]
    [255, 255, 255, 255, 255, 255, 255, 255, 255, 255, 255, 255, 0, 0, 0, 0]) v"
    using v len by (simp add: Contains_def mapped_network)
  obtain b0 b1 b2 b3 b4 b5 b6 b7 b8 b9 b10 b11 b12 b13 b14 b15
    where b: "v = [b0, b1, b2, b3, b4, b5, b6, b7, b8, b9, b10, b11, b12, b13, b14, b15]"
    using len by (rule length_16)
  have "isPrivateV6 ip \<longleftrightarrow> list_ex (\<lambda>n. Contains n v) privateV6Networks"
    by (simp add: isPrivateV6_def v_def)
  also have "\<dots> \<longleftrightarrow> reserved_v6 v"
    unfolding privateV6Networks_eq reserved_v6_def
    by (simp add: Contains_v6 [OF v len] mapped To4_def replicate_10 upt_16 byte byte_mask and_255 block_iff)
      (simp add: b replicate_15, cases "b0 = 0"; cases "b0 = 1"; cases "b0 = 32"; cases "b0 = 254"; auto)
  finally show ?thesis by (simp add: v_def)
qed

section \<open>Lemmas: queries\<close>

fun attempt_result :: "attempt \<Rightarrow> net_error + dns_msg" where
  "attempt_result (CtxDone err) = Inl err"
| "attempt_result (Reply r) = r"

definition retryable :: "attempt \<Rightarrow> bool" where
  "retryable a = (case a of Reply (Inl err) \<Rightarrow> op_temporary err | _ \<Rightarrow> False)"

lemma exchange_loop_unfold:
  "exchange_loop maxT attempts tries =
     (if retryable (attempts tries) \<and> int tries < maxT then exchange_loop maxT attempts (Suc tries)
      else attempt_result (attempts tries))"
  by (subst exchange_loop.simps) (auto simp: retryable_def split: attempt.splits sum.splits)

lemma exchange_loop_stops:
  "\<exists>k \<ge> tries. int k \<le> max (int tries) maxT \<and> (\<forall>j \<in> {tries..<k}. retryable (attempts j)) \<and>
     (retryable (attempts k) \<longrightarrow> maxT \<le> int k) \<and>
     exchange_loop maxT attempts tries = attempt_result (attempts k)"
proof (induction maxT attempts tries rule: exchange_loop.induct)
  case (1 maxT attempts tries)
  show ?case
  proof (cases "retryable (attempts tries) \<and> int tries < maxT")
    case True
    then obtain err where "attempts tries = Reply (Inl err)" "op_temporary err"
      by (auto simp: retryable_def split: attempt.splits sum.splits)
    with 1 True obtain k where k: "Suc tries \<le> k" "int k \<le> max (int (Suc tries)) maxT"
      "\<forall>j \<in> {Suc tries..<k}. retryable (attempts j)" "retryable (attempts k) \<longrightarrow> maxT \<le> int k"
      "exchange_loop maxT attempts (Suc tries) = attempt_result (attempts k)" by blast
    have "retryable (attempts j)" if "j \<in> {tries..<k}" for j
      using that k(3) True by (cases "j = tries") auto
    with k True show ?thesis
      by (intro exI [of _ k]) (auto simp: exchange_loop_unfold [of maxT attempts tries])
  next
    case False
    then show ?thesis
      by (intro exI [of _ tries]) (auto simp: exchange_loop_unfold [of maxT attempts tries])
  qed
qed

lemma map_filter_mem: "y \<in> set (List.map_filter f xs) \<longleftrightarrow> (\<exists>x \<in> set xs. f x = Some y)"
  by (induction xs) (auto simp: map_filter_simps split: option.splits)

definition public_ip :: "bytes \<Rightarrow> bool" where
  "public_ip ip =
     (case To4 (ip_nats ip) of
        Some v \<Rightarrow> \<not> reserved_v4 (v ! 0) (v ! 1) (v ! 2)
      | None \<Rightarrow> length ip = 16 \<and> \<not> reserved_v6 (ip_nats ip))"

lemma To4_shape:
  assumes "To4 (ip_nats ip) = Some v"
  obtains p q r s where "v = [p, q, r, s]" "p < 256" "q < 256" "r < 256" "s < 256"
proof -
  have len: "length v = 4" and sub: "set v \<subseteq> set (ip_nats ip)"
    using assms set_drop_subset [of 12 "ip_nats ip"] by (auto simp: To4_def split: if_splits)
  then have "\<forall>x \<in> set v. x < 256" by (auto simp: ip_nats_def of_char_less)
  moreover have "v = [v ! 0, v ! 1, v ! 2, v ! 3]"
    using map_nth [of v] len by (simp add: upt_4)
  ultimately show ?thesis using that [of "v ! 0" "v ! 1" "v ! 2" "v ! 3"] len by simp
qed

lemma usable_A_iff:
  assumes "\<not> allowRestrictedAddresses res"
  shows "usable_A res a = Some ip \<longleftrightarrow> a = RR_A ip \<and> To4 (ip_nats ip) \<noteq> None \<and> public_ip ip"
proof -
  have "isPrivateV4 ip \<longleftrightarrow> \<not> public_ip ip" if v: "To4 (ip_nats ip) = Some v" for v
  proof -
    obtain p q r s where "v = [p, q, r, s]" "p < 256" "q < 256" "r < 256" "s < 256"
      using v by (rule To4_shape)
    with v show ?thesis by (simp add: public_ip_def private_v4_ranges)
  qed
  then show ?thesis using assms by (auto simp: usable_A_def split: RR.splits)
qed

lemma usable_AAAA_iff:
  assumes "\<not> allowRestrictedAddresses res"
  shows "usable_AAAA res a = Some ip \<longleftrightarrow> a = RR_AAAA ip \<and> To4 (ip_nats ip) = None \<and> public_ip ip"
proof -
  have "isPrivateV6 ip" if "To4 (ip_nats ip) \<noteq> None"
    using that mapped_private by blast
  moreover have "isPrivateV6 ip \<longleftrightarrow> \<not> public_ip ip" "length ip \<noteq> 4"
    if "To4 (ip_nats ip) = None" "length ip = 4 \<or> length ip = 16"
    using that by (auto simp: public_ip_def private_v6_ranges To4_def ip_nats_def)
  moreover have "length ip = 16" if "To4 (ip_nats ip) = None" "public_ip ip"
    using that by (simp add: public_ip_def)
  ultimately show ?thesis
    using assms by (cases "To4 (ip_nats ip)") (auto simp: usable_AAAA_def split: RR.splits)
qed

definition answers :: "DNSError + RR list \<Rightarrow> RR list" where
  "answers r = (case r of Inr rs \<Rightarrow> rs | Inl _ \<Rightarrow> [])"

lemma LookupHost_set:
  assumes "LookupHost exch res h = Inr addrs" "\<not> allowRestrictedAddresses res"
  shows "ip \<in> set addrs \<longleftrightarrow> public_ip ip \<and>
     (if To4 (ip_nats ip) \<noteq> None then RR_A ip \<in> set (answers (lookupIP exch res h TypeA))
      else RR_AAAA ip \<in> set (answers (lookupIP exch res h TypeAAAA)))"
  using assms
  by (auto simp: LookupHost_def Let_def map_filter_mem usable_A_iff usable_AAAA_iff answers_def
      split: sum.splits)

section \<open>Properties\<close>

text \<open>
  C39: \<open>LookupHost\<close> returns exactly the public addresses of the answers: the IPv4 addresses of
  A records and the IPv6 addresses of AAAA records that are outside the reserved ranges. An
  IPv4 address written as an IPv6 one never passes.
\<close>

theorem lookup_host_public_only:
  assumes "LookupHost exch res h = Inr addrs" and "\<not> allowRestrictedAddresses res"
  shows "ip \<in> set addrs \<longleftrightarrow> public_ip ip \<and>
     (if To4 (ip_nats ip) \<noteq> None then RR_A ip \<in> set (answers (lookupIP exch res h TypeA))
      else RR_AAAA ip \<in> set (answers (lookupIP exch res h TypeAAAA)))"
  using assms by (rule LookupHost_set)

definition sample_resolver :: DNSResolverImpl where
  "sample_resolver = \<lparr>servers = [''10.77.77.77:53''], allowRestrictedAddresses = False,
     caaSERVFAILExceptions = None, maxTries = 3\<rparr>"

definition ip_public :: bytes where
  "ip_public = map char_of [93, 184, 216, 34 :: nat]"

definition ip_private :: bytes where
  "ip_private = map char_of [10, 0, 0, 1 :: nat]"

definition sample_answers :: "(nat \<Rightarrow> RR list option) \<Rightarrow> exchanger" where
  "sample_answers f host qtype tries =
     (case f qtype of
        Some rs \<Rightarrow> Reply (Inr \<lparr>Rcode = RcodeSuccess, Answer = rs, Ns = []\<rparr>)
      | None \<Rightarrow> Reply (Inl (OpError True True ''timeout'')))"

lemma sample_exchange:
  "exchangeOne (sample_answers f) sample_resolver h q =
     (case f q of
        Some rs \<Rightarrow> Inr \<lparr>Rcode = RcodeSuccess, Answer = rs, Ns = []\<rparr>
      | None \<Rightarrow> Inl (OpError True True ''timeout''))"
  by (simp add: exchangeOne_def sample_resolver_def sample_answers_def exchange_loop.simps op_temporary_def
      split: option.splits)

lemma sample_addresses: "ip_nats ip_public = [93, 184, 216, 34]" "ip_nats ip_private = [10, 0, 0, 1]"
  by (simp_all add: ip_nats_def ip_public_def ip_private_def)

theorem lookup_host_public_only_witness:
  "\<exists>addrs. LookupHost (sample_answers [TypeA \<mapsto> [RR_A ip_public, RR_A ip_private]]) sample_resolver ''a.com'' = Inr addrs \<and>
     ip_public \<in> set addrs \<and> ip_private \<notin> set addrs"
proof -
  let ?exch = "sample_answers [TypeA \<mapsto> [RR_A ip_public, RR_A ip_private]]"
  have a: "lookupIP ?exch sample_resolver ''a.com'' TypeA = Inr [RR_A ip_public, RR_A ip_private]"
    by (simp add: lookupIP_def sample_exchange)
  then obtain addrs where l: "LookupHost ?exch sample_resolver ''a.com'' = Inr addrs"
    by (simp add: LookupHost_def)
  have r: "\<not> allowRestrictedAddresses sample_resolver" by (simp add: sample_resolver_def)
  show ?thesis
    using l lookup_host_public_only [OF l r, of ip_public] lookup_host_public_only [OF l r, of ip_private] a
    by (simp add: answers_def public_ip_def sample_addresses To4_def reserved_v4_def)
qed

text \<open>
  A query is sent at least once and at most \<open>maxTries\<close> times (once when that is not
  positive). It is repeated exactly after temporary network errors, and what it returns is
  the outcome of the last attempt: an answer, the end of the context, a permanent error, or
  a temporary one when no tries are left.
\<close>

theorem exchange_retries:
  assumes "servers res \<noteq> []"
  shows "\<exists>k \<ge> 1. int k \<le> max 1 (maxTries res) \<and>
     (\<forall>j \<in> {1..<k}. retryable (exch h q j)) \<and> (retryable (exch h q k) \<longrightarrow> maxTries res \<le> int k) \<and>
     exchangeOne exch res h q = attempt_result (exch h q k)"
  using exchange_loop_stops [of 1 "maxTries res" "exch h q"] assms
  by (auto simp: exchangeOne_def Suc_le_eq)

theorem exchange_retries_witness:
  "\<exists>k \<ge> 1. int k \<le> 3 \<and> exchangeOne (sample_answers Map.empty) sample_resolver ''a'' TypeA =
     attempt_result (sample_answers Map.empty ''a'' TypeA k)"
  using exchange_retries [of sample_resolver "sample_answers Map.empty" "''a''" TypeA]
  by (auto simp: sample_resolver_def)

end
