(* ===== verification/Cdr.thy ===== *)
theory Cdr
  imports Bdns "HOL-Library.Multiset"
begin

text \<open>
  The distributed CAA lookup (\<^verbatim>\<open>cdr/resolver.go\<close>): the same query through several HTTP proxies,
  whose answers are collected in the order they arrive. The HTTP client, the JSON decoder,
  the parser of a record's text form, URL handling and the wire format of a record are
  parameters. So is the sorting of a record set: \<^verbatim>\<open>sort.Sort\<close> is not stable, and records are
  compared by their value only. The properties say what a returned set guarantees, and when
  the tolerated failures are not tolerated.
\<close>

section \<open>Model\<close>

record GPDNSAnswer =
  gp_Name :: string
  gp_Type :: nat
  gp_TTL :: int
  gp_Data :: string

record GPDNSResponse =
  gp_Status :: int
  gp_Answer :: "GPDNSAnswer list"
  gp_Comment :: string

text \<open>
  \<open>ce_get\<close> is the exchange through one proxy: an error, or the status code and the body, or the
  error of reading it.
\<close>

record cdr_env =
  ce_urlParse :: "string \<Rightarrow> string + string"
  ce_queryURL :: "string \<Rightarrow> (string \<times> string) list \<Rightarrow> string + string"
  ce_get :: "string \<Rightarrow> string \<Rightarrow> string + (int \<times> (string + bytes))"
  ce_unmarshal :: "bytes \<Rightarrow> string + GPDNSResponse"
  ce_newRR :: "string \<Rightarrow> string + RR"
  ce_rcodeToString :: "int \<Rightarrow> string"
  ce_sort :: "CAA list \<Rightarrow> CAA list"
  ce_Len :: "CAA \<Rightarrow> nat"
  ce_packRR :: "CAA \<Rightarrow> string + bytes"

definition apiURI :: string where
  "apiURI = ''https://dns.google.com/resolve''"

fun parseAnswer :: "cdr_env \<Rightarrow> GPDNSAnswer list \<Rightarrow> string + CAA list" where
  "parseAnswer E [] = Inr []"
| "parseAnswer E (a # as) =
     (if gp_Type a \<noteq> TypeCAA then parseAnswer E as
      else
        bind_result (ce_newRR E (gp_Name a @ '' '' @ Itoa (gp_TTL a) @ '' IN CAA '' @ gp_Data a))
          (\<lambda>rr. bind_result (parseAnswer E as)
             (\<lambda>rrs. Inr (case rr of RR_CAA caaRR \<Rightarrow> caaRR # rrs | _ \<Rightarrow> rrs))))"

text \<open>A client is known by the proxy it uses; the map of clients is keyed by the proxy's host.\<close>

record CAADistributedResolver =
  cdr_URI :: string
  Clients :: "(string \<times> string) list"
  maxFailures :: int

definition createClient :: "cdr_env \<Rightarrow> string \<Rightarrow> string + (string \<times> string)" where
  "createClient E proxy = bind_result (ce_urlParse E proxy) (\<lambda>host. Inr (proxy, host))"

fun add_clients :: "cdr_env \<Rightarrow> (string \<times> string) list \<Rightarrow> string list \<Rightarrow> string + (string \<times> string) list" where
  "add_clients E cs [] = Inr cs"
| "add_clients E cs (p # ps) =
     bind_result (createClient E p) (\<lambda>(c, h). add_clients E (AList.update h c cs) ps)"

definition New_cdr :: "cdr_env \<Rightarrow> int \<Rightarrow> string list \<Rightarrow> string + CAADistributedResolver" where
  "New_cdr E maxF proxies =
     bind_result (add_clients E [] proxies)
       (\<lambda>cs. Inr \<lparr>cdr_URI = apiURI, Clients = cs, maxFailures = maxF\<rparr>)"

definition queryCAA :: "cdr_env \<Rightarrow> string \<Rightarrow> string \<Rightarrow> string + CAA list" where
  "queryCAA E url ic =
     (case ce_get E ic url of
        Inl err \<Rightarrow> Inl err
      | Inr (_, Inl err) \<Rightarrow> Inl err
      | Inr (StatusCode, Inr full) \<Rightarrow>
          (let body = take 1024 full in
           if StatusCode \<noteq> 200 then
             (if body \<noteq> []
              then Inl (''Unexpected HTTP status code '' @ Itoa StatusCode @ '', body: '' @ body)
              else Inl (''Unexpected HTTP status code '' @ Itoa StatusCode))
           else
             (case ce_unmarshal E body of
                Inl err \<Rightarrow> Inl err
              | Inr respObj \<Rightarrow>
                  if gp_Status respObj \<noteq> RcodeSuccess then
                    (if gp_Comment respObj \<noteq> []
                     then Inl (''Query failed with '' @ ce_rcodeToString E (gp_Status respObj) @ '': '' @ gp_Comment respObj)
                     else Inl (''Query failed with '' @ ce_rcodeToString E (gp_Status respObj)))
                  else parseAnswer E (gp_Answer respObj))))"

text \<open>
  The records are packed one after the other, with their time to live set to zero, into a
  buffer of the size \<^verbatim>\<open>dns.Len\<close> announces.
\<close>

definition marshalCanonicalCAASet :: "cdr_env \<Rightarrow> CAA list \<Rightarrow> string + bytes" where
  "marshalCanonicalCAASet E xs =
     (let sortedSet = ce_sort E xs;
          size = sum_list (map (ce_Len E) sortedSet)
      in bind_result (traverse (\<lambda>rr. ce_packRR E (rr\<lparr>caa_Ttl := 0\<rparr>)) sortedSet)
           (\<lambda>packed. if length (concat packed) > size then Inl ''overflow packing rr''
             else Inr (concat packed @ replicate (size - length (concat packed)) (char_of (0::nat)))))"

text \<open>
  One result of the collecting loop. A failed query has no records (a nil slice, of length
  zero); an absent set is nil, which an empty answer is not. Marshalling a set sorts it in
  place.
\<close>

fun collect ::
  "cdr_env \<Rightarrow> int \<Rightarrow> int \<Rightarrow> CAA list option \<Rightarrow> bytes \<Rightarrow> (string + CAA list) list \<Rightarrow> string + CAA list option" where
  "collect E maxF failed CAAs canonicalSet [] = Inr CAAs"
| "collect E maxF failed CAAs canonicalSet (r # rs) =
     (let failed' = (case r of Inl _ \<Rightarrow> failed + 1 | Inr _ \<Rightarrow> failed);
          records = (case r of Inl _ \<Rightarrow> [] | Inr xs \<Rightarrow> xs)
      in case (case r of Inl err \<Rightarrow> if failed' > maxF then Some err else None | Inr _ \<Rightarrow> None) of
           Some err \<Rightarrow> Inl err
         | None \<Rightarrow>
             (case CAAs of
                None \<Rightarrow>
                  bind_result (marshalCanonicalCAASet E records)
                    (\<lambda>c. collect E maxF failed' (case r of Inl _ \<Rightarrow> None | Inr xs \<Rightarrow> Some (ce_sort E xs)) c rs)
              | Some cs \<Rightarrow>
                  bind_result (marshalCanonicalCAASet E records)
                    (\<lambda>thisSet.
                       if length records \<noteq> length cs \<or> thisSet \<noteq> canonicalSet
                       then Inl ''mismatching CAA record sets were returned''
                       else collect E maxF failed' CAAs canonicalSet rs)))"

text \<open>\<open>arrival\<close> lists the clients in the order in which their answers arrive.\<close>

definition LookupCAA_cdr ::
  "cdr_env \<Rightarrow> CAADistributedResolver \<Rightarrow> nat list \<Rightarrow> string \<Rightarrow> string + CAA list" where
  "LookupCAA_cdr E cdr arrival domain =
     bind_result (ce_queryURL E (cdr_URI cdr) [(''name'', domain), (''type'', format_nat TypeCAA)])
       (\<lambda>uriStr.
          bind_result
            (collect E (maxFailures cdr) 0 None []
               (map (\<lambda>i. queryCAA E uriStr (snd (Clients cdr ! i))) arrival))
            (\<lambda>CAAs. Inr (case CAAs of None \<Rightarrow> [] | Some cs \<Rightarrow> cs)))"

section \<open>Lemmas\<close>

definition fails :: "(string + CAA list) list \<Rightarrow> int" where
  "fails rs = int (length (filter isl rs))"

lemma fails_simps [simp]:
  "fails [] = 0" "fails (Inl e # rs) = fails rs + 1" "fails (Inr xs # rs) = fails rs"
  by (simp_all add: fails_def)

lemma fails_nonneg [simp]: "0 \<le> fails rs"
  by (simp add: fails_def)

text \<open>How a later result must compare with the set that came first.\<close>

definition agrees :: "cdr_env \<Rightarrow> CAA list \<Rightarrow> bytes \<Rightarrow> string + CAA list \<Rightarrow> bool" where
  "agrees E cs c r =
     (case r of
        Inl _ \<Rightarrow> cs = []
      | Inr xs \<Rightarrow> length xs = length cs \<and> marshalCanonicalCAASet E xs = Inr c)"

lemma collect_Some:
  "collect E m f (Some cs) c rs = Inr out \<Longrightarrow>
     out = Some cs \<and> list_all (agrees E cs c) rs \<and> (fails rs = 0 \<or> f + fails rs \<le> m)"
proof (induction rs arbitrary: f)
  case Nil
  then show ?case by simp
next
  case (Cons r rs)
  from Cons.prems Cons.IH [of f] Cons.IH [of "f + 1"] show ?case
    by (cases r) (auto simp: Let_def go_result agrees_def split: if_splits)
qed

lemma collect_None:
  assumes "collect E m f None c rs = Inr out"
  shows "fails rs = 0 \<or> f + fails rs \<le> m"
    and "list_all isl rs \<and> out = None \<or>
      (\<exists>ps xs qs b. rs = ps @ Inr xs # qs \<and> list_all isl ps \<and> out = Some (ce_sort E xs) \<and>
         marshalCanonicalCAASet E xs = Inr b \<and> list_all (agrees E (ce_sort E xs) b) qs)"
  using assms
proof (induction rs arbitrary: f c)
  case Nil
  case 1
  then show ?case by simp
next
  case Nil
  case 2
  then show ?case by simp
next
  case (Cons r rs)
  case 1
  with Cons.IH(1) [of "f + 1"] show ?case
    by (cases r) (auto simp: Let_def go_result dest: collect_Some split: if_splits)
next
  case (Cons r rs)
  case 2
  show ?case
  proof (cases r)
    case (Inl e)
    with 2 Cons.IH(2) [of "f + 1"] have "list_all isl rs \<and> out = None \<or>
      (\<exists>ps xs qs b. rs = ps @ Inr xs # qs \<and> list_all isl ps \<and> out = Some (ce_sort E xs) \<and>
         marshalCanonicalCAASet E xs = Inr b \<and> list_all (agrees E (ce_sort E xs) b) qs)"
      by (auto simp: Let_def go_result split: if_splits)
    then show ?thesis
    proof
      assume "list_all isl rs \<and> out = None"
      with Inl show ?thesis by simp
    next
      assume "\<exists>ps xs qs b. rs = ps @ Inr xs # qs \<and> list_all isl ps \<and> out = Some (ce_sort E xs) \<and>
         marshalCanonicalCAASet E xs = Inr b \<and> list_all (agrees E (ce_sort E xs) b) qs"
      then obtain ps xs qs b where "rs = ps @ Inr xs # qs" "list_all isl ps" "out = Some (ce_sort E xs)"
         "marshalCanonicalCAASet E xs = Inr b" "list_all (agrees E (ce_sort E xs) b) qs" by blast
      with Inl show ?thesis by (intro disjI2 exI [of _ "r # ps"]) auto
    qed
  next
    case (Inr xs)
    with 2 obtain b where b: "marshalCanonicalCAASet E xs = Inr b"
      "collect E m f (Some (ce_sort E xs)) b rs = Inr out"
      by (auto simp: Let_def go_result)
    from collect_Some [OF b(2)] b(1) Inr show ?thesis
      by (intro disjI2 exI [of _ "[]"] exI [of _ xs] exI [of _ rs] exI [of _ b]) simp
  qed
qed

text \<open>
  What is used of the parameters: sorting permutes a list, and the wire format of a record
  delimits itself.
\<close>

definition wire_laws :: "cdr_env \<Rightarrow> bool" where
  "wire_laws E \<longleftrightarrow>
     (\<forall>xs. mset (ce_sort E xs) = mset xs) \<and>
     (\<forall>r r' p p' s s'. ce_packRR E r = Inr p \<and> ce_packRR E r' = Inr p' \<and> p @ s = p' @ s' \<longrightarrow> r = r')"

lemma wire_sort: "wire_laws E \<Longrightarrow> mset (ce_sort E xs) = mset xs"
  by (simp add: wire_laws_def)

lemma wire_sort_length: "wire_laws E \<Longrightarrow> length (ce_sort E xs) = length xs"
  using wire_sort [of E xs] by (metis size_mset)

lemma wire_prefix:
  "wire_laws E \<Longrightarrow> ce_packRR E r = Inr p \<Longrightarrow> ce_packRR E r' = Inr p' \<Longrightarrow> p @ s = p' @ s' \<Longrightarrow> r = r'"
  unfolding wire_laws_def by blast

definition no_ttl :: "CAA \<Rightarrow> CAA" where
  "no_ttl r = r\<lparr>caa_Ttl := 0\<rparr>"

lemma packed_inj:
  assumes "wire_laws E"
  shows "traverse (\<lambda>rr. ce_packRR E (rr\<lparr>caa_Ttl := 0\<rparr>)) xs = Inr ps \<Longrightarrow>
    traverse (\<lambda>rr. ce_packRR E (rr\<lparr>caa_Ttl := 0\<rparr>)) ys = Inr qs \<Longrightarrow> length xs = length ys \<Longrightarrow>
    concat ps @ s = concat qs @ t \<Longrightarrow> map no_ttl xs = map no_ttl ys"
proof (induction xs arbitrary: ys ps qs)
  case Nil
  then show ?case by simp
next
  case (Cons x xs)
  then obtain y ys' where ys: "ys = y # ys'" by (cases ys) auto
  from Cons.prems ys obtain p ps' q qs' where p: "ce_packRR E (no_ttl x) = Inr p"
    "traverse (\<lambda>rr. ce_packRR E (rr\<lparr>caa_Ttl := 0\<rparr>)) xs = Inr ps'" "ps = p # ps'"
    and q: "ce_packRR E (no_ttl y) = Inr q"
    "traverse (\<lambda>rr. ce_packRR E (rr\<lparr>caa_Ttl := 0\<rparr>)) ys' = Inr qs'" "qs = q # qs'"
    by (auto simp: go_result no_ttl_def)
  have eq: "p @ concat ps' @ s = q @ concat qs' @ t" using Cons.prems(4) p(3) q(3) by simp
  then have xy: "no_ttl x = no_ttl y" by (rule wire_prefix [OF assms p(1) q(1)])
  with p(1) q(1) eq have "concat ps' @ s = concat qs' @ t" by simp
  with Cons.IH [OF p(2) q(2)] Cons.prems(3) ys xy show ?case by simp
qed

lemma marshal_packed:
  assumes "marshalCanonicalCAASet E xs = Inr b"
  obtains ps s where "traverse (\<lambda>rr. ce_packRR E (rr\<lparr>caa_Ttl := 0\<rparr>)) (ce_sort E xs) = Inr ps" "b = concat ps @ s"
  using assms by (auto simp: marshalCanonicalCAASet_def Let_def go_result split: if_splits)

lemma canonical_same_records:
  assumes "wire_laws E" "marshalCanonicalCAASet E xs = Inr b" "marshalCanonicalCAASet E ys = Inr b"
    and "length xs = length ys"
  shows "mset (map no_ttl xs) = mset (map no_ttl ys)"
proof -
  obtain ps s where ps: "traverse (\<lambda>rr. ce_packRR E (rr\<lparr>caa_Ttl := 0\<rparr>)) (ce_sort E xs) = Inr ps" "b = concat ps @ s"
    using assms(2) by (rule marshal_packed)
  obtain qs t where qs: "traverse (\<lambda>rr. ce_packRR E (rr\<lparr>caa_Ttl := 0\<rparr>)) (ce_sort E ys) = Inr qs" "b = concat qs @ t"
    using assms(3) by (rule marshal_packed)
  have "length (ce_sort E xs) = length (ce_sort E ys)"
    using wire_sort_length [OF assms(1)] assms(4) by simp
  moreover have "concat ps @ s = concat qs @ t" using ps(2) qs(2) by simp
  ultimately have "map no_ttl (ce_sort E xs) = map no_ttl (ce_sort E ys)"
    by (rule packed_inj [OF assms(1) ps(1) qs(1)])
  then have "image_mset no_ttl (mset (ce_sort E xs)) = image_mset no_ttl (mset (ce_sort E ys))"
    by (metis mset_map)
  then show ?thesis using wire_sort [OF assms(1)] by simp
qed

lemma fails_mset: "fails rs = int (size (filter_mset isl (mset rs)))"
  by (simp add: fails_def flip: mset_filter)

lemma LookupCAA_cdr_Inr:
  assumes "LookupCAA_cdr E cdr arrival domain = Inr out"
  obtains uri CAAs where
    "ce_queryURL E (cdr_URI cdr) [(''name'', domain), (''type'', format_nat TypeCAA)] = Inr uri"
    "collect E (maxFailures cdr) 0 None []
       (map (\<lambda>i. queryCAA E uri (snd (Clients cdr ! i))) arrival) = Inr CAAs"
    "out = (case CAAs of None \<Rightarrow> [] | Some cs \<Rightarrow> cs)"
  using assms by (auto simp: LookupCAA_cdr_def go_result)

lemma collected_unanimous:
  assumes "wire_laws E" "collect E m 0 None [] rs = Inr CAAs" "Inr xs \<in> set rs"
  shows "mset (map no_ttl xs) = mset (map no_ttl (case CAAs of None \<Rightarrow> [] | Some cs \<Rightarrow> cs))"
proof -
  note len = wire_sort_length [OF assms(1)]
  obtain ps ys qs b where rs: "rs = ps @ Inr ys # qs" "list_all isl ps" "CAAs = Some (ce_sort E ys)"
    "marshalCanonicalCAASet E ys = Inr b" "list_all (agrees E (ce_sort E ys) b) qs"
    using collect_None(2) [OF assms(2)] assms(3) by (auto simp: list_all_iff)
  have "mset (map no_ttl xs) = mset (map no_ttl ys)"
  proof (cases "xs = ys")
    case False
    then have "Inr xs \<in> set qs" using assms(3) rs(1,2) by (auto simp: list_all_iff)
    then have "length xs = length ys" "marshalCanonicalCAASet E xs = Inr b"
      using rs(5) len by (auto simp: list_all_iff agrees_def)
    with rs(4) show ?thesis using canonical_same_records [OF assms(1)] by blast
  qed simp
  with rs(3) wire_sort [OF assms(1), of ys] show ?thesis by simp
qed

lemma collected_no_late_failure:
  assumes "wire_laws E" "collect E m 0 None [] (as @ Inr xs # bs @ Inl e # cs) = Inr CAAs"
  shows "xs = []"
proof -
  note len = wire_sort_length [OF assms(1)]
  let ?rs = "as @ Inr xs # bs @ Inl e # cs"
  obtain ps ys qs b where rs: "?rs = ps @ Inr ys # qs" "list_all isl ps"
    "list_all (agrees E (ce_sort E ys) b) qs"
    using collect_None(2) [OF assms(2)] by auto
  from rs(1) consider us where "as = ps @ us" "us @ Inr xs # bs @ Inl e # cs = Inr ys # qs"
    | us where "ps = as @ us" "Inr xs # bs @ Inl e # cs = us @ Inr ys # qs"
    by (auto simp: append_eq_append_conv2)
  then have qs: "Inl e \<in> set qs" "xs = ys \<or> Inr xs \<in> set qs"
    using rs(2) by (cases; auto simp: Cons_eq_append_conv append_eq_Cons_conv)+
  have ag: "\<And>r. r \<in> set qs \<Longrightarrow> agrees E (ce_sort E ys) b r" using rs(3) by (simp add: list_all_iff)
  from ag [OF qs(1)] have "ys = []" using len [of ys] by (simp add: agrees_def)
  with ag [of "Inr xs"] qs(2) len [of ys] show ?thesis by (auto simp: agrees_def)
qed

section \<open>A concrete resolver\<close>

text \<open>Two proxies, one of which is down, and a domain with one record.\<close>

definition sample_caa :: CAA where
  "sample_caa = \<lparr>caa_Name = ''a.com.'', caa_Ttl = 300, caa_Flag = 0, caa_Tag = ''issue'', caa_Value = ''ca.com''\<rparr>"

definition sample_cdr_env :: cdr_env where
  "sample_cdr_env =
     \<lparr>ce_urlParse = Inr, ce_queryURL = (\<lambda>u _. Inr u),
      ce_get = (\<lambda>proxy _. if proxy = ''down'' then Inl ''timeout'' else Inr (200, Inr ''body'')),
      ce_unmarshal = (\<lambda>_. Inr \<lparr>gp_Status = 0,
        gp_Answer = [\<lparr>gp_Name = ''a.com.'', gp_Type = TypeCAA, gp_TTL = 300, gp_Data = ''0 issue ca.com''\<rparr>], gp_Comment = []\<rparr>),
      ce_newRR = (\<lambda>_. Inr (RR_CAA sample_caa)), ce_rcodeToString = (\<lambda>_. ''SERVFAIL''),
      ce_sort = (\<lambda>xs. xs), ce_Len = (\<lambda>_. 1),
      ce_packRR = (\<lambda>r. if r = no_ttl sample_caa then Inr ''a'' else Inl ''unknown record'')\<rparr>"

definition sample_cdr :: CAADistributedResolver where
  "sample_cdr = \<lparr>cdr_URI = apiURI, Clients = [(''p'', ''up''), (''q'', ''down'')], maxFailures = 1\<rparr>"

lemma sample_wire: "wire_laws sample_cdr_env"
  by (auto simp: wire_laws_def sample_cdr_env_def split: if_splits)

lemma sample_queries:
  "queryCAA sample_cdr_env u ''up'' = Inr [sample_caa]" "queryCAA sample_cdr_env u ''down'' = Inl ''timeout''"
  by (simp_all add: queryCAA_def sample_cdr_env_def RcodeSuccess_def)

lemma sample_marshal:
  "marshalCanonicalCAASet sample_cdr_env [] = Inr []"
  "marshalCanonicalCAASet sample_cdr_env [sample_caa] = Inr ''a''"
  by (simp_all add: marshalCanonicalCAASet_def sample_cdr_env_def no_ttl_def)

lemma sample_lookup: "LookupCAA_cdr sample_cdr_env sample_cdr [1, 0] ''a.com'' = Inr [sample_caa]"
proof -
  have "ce_queryURL sample_cdr_env u q = Inr u" "ce_sort sample_cdr_env xs = xs" for u q xs
    by (simp_all add: sample_cdr_env_def)
  then show ?thesis
    by (simp add: LookupCAA_cdr_def sample_cdr_def sample_queries sample_marshal)
qed

section \<open>Properties\<close>

text \<open>
  C40: When the distributed lookup returns a record set, at most the tolerated number of
  queries failed, and every query that succeeded returned these records, up to their times
  to live and their order.
\<close>

theorem cdr_quorum_sound:
  assumes "wire_laws E" and "mset arrival = mset [0..<length (Clients cdr)]"
    and "LookupCAA_cdr E cdr arrival domain = Inr out"
  shows "\<exists>uri. ce_queryURL E (cdr_URI cdr) [(''name'', domain), (''type'', format_nat TypeCAA)] = Inr uri \<and>
     fails (map (\<lambda>c. queryCAA E uri (snd c)) (Clients cdr)) \<le> max 0 (maxFailures cdr) \<and>
     (\<forall>c xs. c \<in> set (Clients cdr) \<and> queryCAA E uri (snd c) = Inr xs \<longrightarrow>
        mset (map no_ttl xs) = mset (map no_ttl out))"
proof -
  obtain uri CAAs where uri: "ce_queryURL E (cdr_URI cdr) [(''name'', domain), (''type'', format_nat TypeCAA)] = Inr uri"
    and c: "collect E (maxFailures cdr) 0 None []
       (map (\<lambda>i. queryCAA E uri (snd (Clients cdr ! i))) arrival) = Inr CAAs"
    and out: "out = (case CAAs of None \<Rightarrow> [] | Some cs \<Rightarrow> cs)"
    using assms(3) by (rule LookupCAA_cdr_Inr)
  let ?f = "\<lambda>c. queryCAA E uri (snd c)" and ?rs = "map (\<lambda>i. queryCAA E uri (snd (Clients cdr ! i))) arrival"
  have "map (\<lambda>i. ?f (Clients cdr ! i)) [0..<length (Clients cdr)] = map ?f (Clients cdr)"
    by (rule nth_equalityI) auto
  then have m: "mset ?rs = mset (map ?f (Clients cdr))"
    using assms(2) by (metis mset_map)
  then have "set ?rs = set (map ?f (Clients cdr))" by (rule mset_eq_setD)
  then have "Inr xs \<in> set ?rs" if "c \<in> set (Clients cdr)" "?f c = Inr xs" for c xs
    using that by (force simp del: set_map simp: in_set_conv_nth)
  then have "mset (map no_ttl xs) = mset (map no_ttl out)"
    if "c \<in> set (Clients cdr)" "queryCAA E uri (snd c) = Inr xs" for c xs
    using that collected_unanimous [OF assms(1) c] out by blast
  moreover have "fails (map (\<lambda>c. queryCAA E uri (snd c)) (Clients cdr)) \<le> max 0 (maxFailures cdr)"
    using collect_None(1) [OF c] unfolding fails_mset m by linarith
  ultimately show ?thesis using uri by blast
qed

theorem cdr_quorum_sound_witness:
  "\<exists>uri. fails (map (\<lambda>c. queryCAA sample_cdr_env uri (snd c)) (Clients sample_cdr)) \<le> 1 \<and>
     (\<forall>xs. queryCAA sample_cdr_env uri ''up'' = Inr xs \<longrightarrow> mset (map no_ttl xs) = {#no_ttl sample_caa#})"
proof -
  have "mset [1, 0] = mset [0..<length (Clients sample_cdr)]"
    by (simp add: sample_cdr_def)
  from cdr_quorum_sound [OF sample_wire this sample_lookup] show ?thesis
    by (auto simp: sample_cdr_def)
qed

text \<open>
  A failed query is not tolerated once a non-empty record set has arrived, however many
  failures are allowed: the lookup then ends in an error.
\<close>

theorem cdr_late_failure_fatal:
  assumes "wire_laws E" and "arrival = as @ i # bs @ j # cs"
    and "ce_queryURL E (cdr_URI cdr) [(''name'', domain), (''type'', format_nat TypeCAA)] = Inr uri"
    and "queryCAA E uri (snd (Clients cdr ! i)) = Inr xs" and "xs \<noteq> []"
    and "queryCAA E uri (snd (Clients cdr ! j)) = Inl e"
  shows "\<exists>err. LookupCAA_cdr E cdr arrival domain = Inl err"
proof (cases "LookupCAA_cdr E cdr arrival domain")
  case (Inr out)
  then obtain CAAs where "collect E (maxFailures cdr) 0 None []
       (map (\<lambda>i. queryCAA E uri (snd (Clients cdr ! i))) arrival) = Inr CAAs"
    using assms(3) by (auto elim: LookupCAA_cdr_Inr)
  then have "collect E (maxFailures cdr) 0 None []
       (map (\<lambda>i. queryCAA E uri (snd (Clients cdr ! i))) as @ Inr xs #
        map (\<lambda>i. queryCAA E uri (snd (Clients cdr ! i))) bs @ Inl e #
        map (\<lambda>i. queryCAA E uri (snd (Clients cdr ! i))) cs) = Inr CAAs"
    using assms(2,4,6) by simp
  with collected_no_late_failure [OF assms(1)] assms(5) show ?thesis by blast
qed simp

theorem cdr_late_failure_fatal_witness:
  "\<exists>err. LookupCAA_cdr sample_cdr_env sample_cdr [0, 1] ''a.com'' = Inl err"
  using cdr_late_failure_fatal [OF sample_wire, of "[0, 1]" "[]" 0 "[]" 1 "[]" sample_cdr "''a.com''" apiURI
    "[sample_caa]" "''timeout''"]
  by (simp add: sample_queries sample_cdr_def) (simp add: sample_cdr_env_def)

end
