(* ===== verification/Marshalling.thy ===== *)
theory Marshalling
  imports Core
begin

text \<open>
  Translation between the program's types and protocol buffers
  (\<^verbatim>\<open>grpc/pb-marshalling.go\<close>). A protocol buffer field is a pointer, \<open>None\<close> when absent.
  Dereferencing an absent field is a panic, which is the outer \<open>None\<close> of the functions that
  do it without a check. JSON encodings of keys and combinations and the text form of an IP
  address are parameters.
\<close>

section \<open>Model\<close>

record AuthzMetaPB =
  am_Id :: "string option"
  am_RegID :: "int option"

record ProblemDetailsPB =
  pd_ProblemType :: "string option"
  pd_Detail :: "string option"
  pd_HttpStatus :: "int option"

record ValidationRecordPB =
  vr_Hostname :: "string option"
  vr_Port :: "string option"
  vr_AddressesResolved :: "bytes list"
  vr_AddressUsed :: "bytes option"
  vr_Authorities :: "string list"
  vr_Url :: "string option"

record ChallengePB =
  cpb_Id :: "int option"
  cpb_Type :: "string option"
  cpb_Status :: "string option"
  cpb_Token :: "string option"
  cpb_KeyAuthorization :: "string option"
  cpb_Error :: "ProblemDetailsPB option"
  cpb_Validationrecords :: "ValidationRecordPB option list"

record ValidationResultPB =
  vres_Records :: "ValidationRecordPB option list"
  vres_Problems :: "ProblemDetailsPB option"

record PerformValidationRequestPB =
  pvr_Domain :: "string option"
  pvr_Challenge :: "ChallengePB option"
  pvr_Authz :: "AuthzMetaPB option"

record RegistrationPB =
  rpb_Id :: "int option"
  rpb_Key :: "bytes option"
  rpb_Contact :: "string list"
  rpb_ContactsPresent :: "bool option"
  rpb_Agreement :: "string option"
  rpb_InitialIP :: "bytes option"
  rpb_CreatedAt :: "int option"
  rpb_Status :: "string option"

record AuthorizationPB =
  apb_Id :: "string option"
  apb_Identifier :: "string option"
  apb_RegistrationID :: "int option"
  apb_Status :: "string option"
  apb_Expires :: "int option"
  apb_Challenges :: "ChallengePB option list"
  apb_Combinations :: bytes

record SctPB =
  spb_Id :: "int option"
  spb_SctVersion :: "int64 option"
  spb_LogID :: "string option"
  spb_Timestamp :: "int64 option"
  spb_Extensions :: bytes
  spb_Signature :: "bytes option"
  spb_CertificateSerial :: "string option"

record CertificatePB =
  crt_RegistrationID :: "int option"
  crt_Serial :: "string option"
  crt_Digest :: "string option"
  crt_Der :: "bytes option"
  crt_Issued :: "int option"
  crt_Expires :: "int option"

definition ErrMissingParameters :: goerror where
  "ErrMissingParameters = RpcError 9 ''required RPC parameter was missing''"

text \<open>
  \<^verbatim>\<open>Time.UnixNano\<close> is a wrapping 64-bit count, \<^verbatim>\<open>int32(n)\<close> a truncation to 32 bits.
\<close>

definition UnixNano :: "time \<Rightarrow> int" where
  "UnixNano t = sint (word_of_int t :: 64 word)"

definition int32 :: "int \<Rightarrow> int" where
  "int32 n = sint (word_of_int n :: 32 word)"

text \<open>
  \<^verbatim>\<open>IP.MarshalText\<close> and \<^verbatim>\<open>IP.UnmarshalText\<close> over \<^verbatim>\<open>IP.String\<close> (\<open>fmtIP\<close>) and \<^verbatim>\<open>net.ParseIP\<close>
  (\<open>parseIP\<close>), and \<^verbatim>\<open>IP.To16\<close>.
\<close>

definition MarshalText :: "(bytes \<Rightarrow> string) \<Rightarrow> IP \<Rightarrow> goerror + bytes" where
  "MarshalText fmtIP ip =
     (case ip of
        None \<Rightarrow> Inr []
      | Some b \<Rightarrow>
          if length b = 0 then Inr []
          else if length b \<noteq> 4 \<and> length b \<noteq> 16 then Inl (OtherError ''invalid IP address'')
          else Inr (fmtIP b))"

definition UnmarshalText :: "(string \<Rightarrow> bytes option) \<Rightarrow> bytes \<Rightarrow> goerror + IP" where
  "UnmarshalText parseIP txt =
     (if length txt = 0 then Inr None
      else case parseIP txt of
          None \<Rightarrow> Inl (OtherError (''invalid IP address: '' @ txt))
        | Some b \<Rightarrow> Inr (Some b))"

definition To16 :: "bytes \<Rightarrow> IP" where
  "To16 b =
     (if length b = 4 then Some (replicate 10 (char_of (0::nat)) @ replicate 2 (char_of (255::nat)) @ b)
      else if length b = 16 then Some b
      else None)"

definition authzMetaToPB :: "Authorization \<Rightarrow> AuthzMetaPB option" where
  "authzMetaToPB authz = Some \<lparr>am_Id = Some (az_ID authz), am_RegID = Some (RegistrationID authz)\<rparr>"

definition zero_authz :: Authorization where
  "zero_authz =
     \<lparr>az_ID = [], Identifier = \<lparr>id_Type = [], Value = []\<rparr>, RegistrationID = 0, az_Status = [],
      az_Expires = None, Challenges = [], Combinations = []\<rparr>"

definition pbToAuthzMeta :: "AuthzMetaPB option \<Rightarrow> goerror + Authorization" where
  "pbToAuthzMeta pb =
     (case pb of
        None \<Rightarrow> Inl ErrMissingParameters
      | Some m \<Rightarrow>
          (case (am_Id m, am_RegID m) of
             (Some i, Some r) \<Rightarrow> Inr (zero_authz\<lparr>az_ID := i, RegistrationID := r\<rparr>)
           | _ \<Rightarrow> Inl ErrMissingParameters))"

definition problemDetailsToPB :: "ProblemDetails option \<Rightarrow> ProblemDetailsPB option" where
  "problemDetailsToPB prob =
     (case prob of
        None \<Rightarrow> None
      | Some p \<Rightarrow> Some \<lparr>pd_ProblemType = Some (prob_Type p), pd_Detail = Some (Detail p),
                      pd_HttpStatus = Some (int32 (HTTPStatus p))\<rparr>)"

definition pbToProblemDetails :: "ProblemDetailsPB option \<Rightarrow> goerror + ProblemDetails option" where
  "pbToProblemDetails pb =
     (case pb of
        None \<Rightarrow> Inr None
      | Some p \<Rightarrow>
          (case (pd_ProblemType p, pd_Detail p) of
             (Some t, Some d) \<Rightarrow>
               Inr (Some \<lparr>prob_Type = t, Detail = d,
                          HTTPStatus = (case pd_HttpStatus p of Some s \<Rightarrow> s | None \<Rightarrow> 0)\<rparr>)
           | _ \<Rightarrow> Inl ErrMissingParameters))"

definition ip_bytes :: "IP \<Rightarrow> bytes" where
  "ip_bytes ip = (case ip of None \<Rightarrow> [] | Some b \<Rightarrow> b)"

definition validationRecordToPB ::
  "(bytes \<Rightarrow> string) \<Rightarrow> ValidationRecord \<Rightarrow> goerror + ValidationRecordPB option" where
  "validationRecordToPB fmtIP r =
     bind_result (MarshalText fmtIP (AddressUsed r)) (\<lambda>addrUsed.
       Inr (Some \<lparr>vr_Hostname = Some (Hostname r), vr_Port = Some (Port r),
                  vr_AddressesResolved = map ip_bytes (AddressesResolved r),
                  vr_AddressUsed = Some addrUsed, vr_Authorities = Authorities r,
                  vr_Url = Some (URL r)\<rparr>))"

definition pbToValidationRecord ::
  "(string \<Rightarrow> bytes option) \<Rightarrow> ValidationRecordPB option \<Rightarrow> goerror + ValidationRecord" where
  "pbToValidationRecord parseIP pb =
     (case pb of
        None \<Rightarrow> Inl ErrMissingParameters
      | Some r \<Rightarrow>
          (case (vr_AddressUsed r, vr_Hostname r, vr_Port r, vr_Url r) of
             (Some au, Some h, Some p, Some u) \<Rightarrow>
               bind_result (UnmarshalText parseIP au) (\<lambda>addrUsed.
                 Inr \<lparr>Authorities = vr_Authorities r, URL = u, Hostname = h, Port = p,
                      AddressesResolved = map Some (vr_AddressesResolved r),
                      AddressUsed = addrUsed\<rparr>)
           | _ \<Rightarrow> Inl ErrMissingParameters))"

definition challengeToPB :: "(bytes \<Rightarrow> string) \<Rightarrow> Challenge \<Rightarrow> goerror + ChallengePB option" where
  "challengeToPB fmtIP ch =
     bind_result (traverse (validationRecordToPB fmtIP) (ch_Records ch)) (\<lambda>recordAry.
       Inr (Some \<lparr>cpb_Id = Some (ch_ID ch), cpb_Type = Some (ch_Type ch),
                  cpb_Status = Some (ch_Status ch), cpb_Token = Some (Token ch),
                  cpb_KeyAuthorization = Some (ProvidedKeyAuthorization ch),
                  cpb_Error = problemDetailsToPB (ch_Error ch),
                  cpb_Validationrecords = recordAry\<rparr>))"

definition pbToChallenge ::
  "(string \<Rightarrow> bytes option) \<Rightarrow> ChallengePB option \<Rightarrow> goerror + Challenge" where
  "pbToChallenge parseIP pb =
     (case pb of
        None \<Rightarrow> Inl ErrMissingParameters
      | Some c \<Rightarrow>
          (case (cpb_Id c, cpb_Type c, cpb_Status c, cpb_Token c, cpb_KeyAuthorization c) of
             (Some i, Some t, Some st, Some tok, Some ka) \<Rightarrow>
               bind_result (traverse (pbToValidationRecord parseIP) (cpb_Validationrecords c))
                 (\<lambda>recordAry.
                 bind_result (pbToProblemDetails (cpb_Error c)) (\<lambda>prob.
                   Inr \<lparr>ch_ID = i, ch_Type = t, ch_Status = st, ch_Error = prob, URI = [],
                        Token = tok, ProvidedKeyAuthorization = ka, ch_Records = recordAry\<rparr>))
           | _ \<Rightarrow> Inl ErrMissingParameters))"

definition validationResultToPB ::
  "(bytes \<Rightarrow> string) \<Rightarrow> ValidationRecord list \<times> ProblemDetails option \<Rightarrow>
   goerror + ValidationResultPB option" where
  "validationResultToPB fmtIP res =
     (case res of (records, prob) \<Rightarrow>
        bind_result (traverse (validationRecordToPB fmtIP) records) (\<lambda>recordAry.
          Inr (Some \<lparr>vres_Records = recordAry, vres_Problems = problemDetailsToPB prob\<rparr>)))"

definition pbToValidationResult ::
  "(string \<Rightarrow> bytes option) \<Rightarrow> ValidationResultPB option \<Rightarrow>
   goerror + ValidationRecord list \<times> ProblemDetails option" where
  "pbToValidationResult parseIP pb =
     (case pb of
        None \<Rightarrow> Inl ErrMissingParameters
      | Some r \<Rightarrow>
          bind_result (traverse (pbToValidationRecord parseIP) (vres_Records r)) (\<lambda>recordAry.
            bind_result (pbToProblemDetails (vres_Problems r)) (\<lambda>prob. Inr (recordAry, prob))))"

definition performValidationReqToArgs ::
  "(string \<Rightarrow> bytes option) \<Rightarrow> PerformValidationRequestPB option \<Rightarrow>
   goerror + string \<times> Challenge \<times> Authorization" where
  "performValidationReqToArgs parseIP pb =
     (case pb of
        None \<Rightarrow> Inl ErrMissingParameters
      | Some r \<Rightarrow>
          (case pvr_Domain r of
             None \<Rightarrow> Inl ErrMissingParameters
           | Some domain \<Rightarrow>
               bind_result (pbToChallenge parseIP (pvr_Challenge r)) (\<lambda>challenge.
                 bind_result (pbToAuthzMeta (pvr_Authz r)) (\<lambda>authz.
                   Inr (domain, challenge, authz)))))"

definition argsToPerformValidationRequest ::
  "(bytes \<Rightarrow> string) \<Rightarrow> string \<times> Challenge \<times> Authorization \<Rightarrow>
   goerror + PerformValidationRequestPB option" where
  "argsToPerformValidationRequest fmtIP args =
     (case args of (domain, challenge, authz) \<Rightarrow>
        bind_result (challengeToPB fmtIP challenge) (\<lambda>pbChall.
          Inr (Some \<lparr>pvr_Domain = Some domain, pvr_Challenge = pbChall,
                     pvr_Authz = authzMetaToPB authz\<rparr>)))"

text \<open>
  Registrations. \<^verbatim>\<open>reg.Key\<close> is a pointer that \<^verbatim>\<open>MarshalJSON\<close> dereferences.
\<close>

definition registrationToPB ::
  "(JsonWebKey \<Rightarrow> string + bytes) \<Rightarrow> (bytes \<Rightarrow> string) \<Rightarrow> Registration \<Rightarrow>
   (goerror + RegistrationPB) option" where
  "registrationToPB marshalJWK fmtIP reg =
     (case reg_Key reg of
        None \<Rightarrow> None
      | Some key \<Rightarrow>
          Some (case marshalJWK key of
             Inl err \<Rightarrow> Inl (OtherError err)
           | Inr keyBytes \<Rightarrow>
               bind_result (MarshalText fmtIP (InitialIP reg)) (\<lambda>ipBytes.
                 Inr \<lparr>rpb_Id = Some (reg_ID reg), rpb_Key = Some keyBytes,
                      rpb_Contact = (case Contact reg of None \<Rightarrow> [] | Some cs \<Rightarrow> cs),
                      rpb_ContactsPresent = Some (Contact reg \<noteq> None),
                      rpb_Agreement = Some (Agreement reg), rpb_InitialIP = Some ipBytes,
                      rpb_CreatedAt = Some (UnixNano (CreatedAt reg)),
                      rpb_Status = Some (reg_Status reg)\<rparr>)))"

definition pb_bytes :: "bytes option \<Rightarrow> bytes" where
  "pb_bytes b = (case b of None \<Rightarrow> [] | Some x \<Rightarrow> x)"

definition pbToRegistration ::
  "(bytes \<Rightarrow> string + JsonWebKey) \<Rightarrow> (string \<Rightarrow> bytes option) \<Rightarrow> RegistrationPB \<Rightarrow>
   (goerror + Registration) option" where
  "pbToRegistration unmarshalJWK parseIP pb =
     (case unmarshalJWK (pb_bytes (rpb_Key pb)) of
        Inl err \<Rightarrow> Some (Inl (OtherError err))
      | Inr key \<Rightarrow>
          (case UnmarshalText parseIP (pb_bytes (rpb_InitialIP pb)) of
             Inl err \<Rightarrow> Some (Inl err)
           | Inr initialIP \<Rightarrow>
               (case (rpb_ContactsPresent pb, rpb_Id pb, rpb_Agreement pb, rpb_CreatedAt pb,
                      rpb_Status pb) of
                  (Some contactsPresent, Some i, Some agr, Some created, Some st) \<Rightarrow>
                    Some (Inr
                      \<lparr>reg_ID = i, reg_Key = Some key,
                       Contact = (if contactsPresent
                                  then if length (rpb_Contact pb) \<noteq> 0 then Some (rpb_Contact pb)
                                       else Some []
                                  else None),
                       Agreement = agr, InitialIP = initialIP, CreatedAt = created,
                       reg_Status = st\<rparr>)
                | _ \<Rightarrow> None)))"

definition authzToPB ::
  "(int list list \<Rightarrow> bytes) \<Rightarrow> (bytes \<Rightarrow> string) \<Rightarrow> Authorization \<Rightarrow> goerror + AuthorizationPB" where
  "authzToPB marshalCombos fmtIP authz =
     bind_result (traverse (challengeToPB fmtIP) (Challenges authz)) (\<lambda>challs.
       Inr \<lparr>apb_Id = Some (az_ID authz), apb_Identifier = Some (Value (Identifier authz)),
            apb_RegistrationID = Some (RegistrationID authz), apb_Status = Some (az_Status authz),
            apb_Expires = Some (case az_Expires authz of None \<Rightarrow> 0 | Some t \<Rightarrow> UnixNano t),
            apb_Challenges = challs, apb_Combinations = marshalCombos (Combinations authz)\<rparr>)"

definition pbToAuthz ::
  "(bytes \<Rightarrow> string + int list list) \<Rightarrow> (string \<Rightarrow> bytes option) \<Rightarrow> AuthorizationPB \<Rightarrow>
   (goerror + Authorization) option" where
  "pbToAuthz unmarshalCombos parseIP pb =
     (case traverse (pbToChallenge parseIP) (apb_Challenges pb) of
        Inl err \<Rightarrow> Some (Inl err)
      | Inr challs \<Rightarrow>
          (case unmarshalCombos (apb_Combinations pb) of
             Inl err \<Rightarrow> Some (Inl (OtherError err))
           | Inr combos \<Rightarrow>
               (case (apb_Expires pb, apb_Id pb, apb_Identifier pb, apb_RegistrationID pb,
                      apb_Status pb) of
                  (Some expires, Some i, Some ident, Some r, Some st) \<Rightarrow>
                    Some (Inr
                      \<lparr>az_ID = i, Identifier = \<lparr>id_Type = IdentifierDNS, Value = ident\<rparr>,
                       RegistrationID = r, az_Status = st, az_Expires = Some expires,
                       Challenges = challs, Combinations = combos\<rparr>)
                | _ \<Rightarrow> None)))"

definition registrationValid :: "RegistrationPB \<Rightarrow> bool" where
  "registrationValid reg =
     (\<not> (rpb_Id reg = None \<or> rpb_Key reg = None \<or> rpb_Agreement reg = None \<or>
         rpb_InitialIP reg = None \<or> rpb_CreatedAt reg = None \<or> rpb_Status reg = None \<or>
         rpb_ContactsPresent reg = None))"

definition authorizationValid :: "AuthorizationPB \<Rightarrow> bool" where
  "authorizationValid authz =
     (\<not> (apb_Id authz = None \<or> apb_Identifier authz = None \<or> apb_RegistrationID authz = None \<or>
         apb_Status authz = None \<or> apb_Expires authz = None))"

definition certificateValid :: "CertificatePB \<Rightarrow> bool" where
  "certificateValid cert =
     (\<not> (crt_RegistrationID cert = None \<or> crt_Serial cert = None \<or> crt_Digest cert = None \<or>
         crt_Der cert = None \<or> crt_Issued cert = None \<or> crt_Expires cert = None))"

definition sctToPB :: "SignedCertificateTimestamp \<Rightarrow> SctPB" where
  "sctToPB sct =
     \<lparr>spb_Id = Some (sct_ID sct), spb_SctVersion = Some (ucast (SCTVersion sct)),
      spb_LogID = Some (LogID sct), spb_Timestamp = Some (Timestamp sct),
      spb_Extensions = Extensions sct, spb_Signature = Some (Signature sct),
      spb_CertificateSerial = Some (CertificateSerial sct)\<rparr>"

definition pbToSCT :: "SctPB \<Rightarrow> SignedCertificateTimestamp option" where
  "pbToSCT pb =
     (case (spb_Id pb, spb_SctVersion pb, spb_LogID pb, spb_Timestamp pb, spb_CertificateSerial pb) of
        (Some i, Some v, Some l, Some t, Some s) \<Rightarrow>
          Some \<lparr>sct_ID = i, SCTVersion = ucast v, LogID = l, Timestamp = t,
                Extensions = spb_Extensions pb, Signature = pb_bytes (spb_Signature pb),
                CertificateSerial = s\<rparr>
      | _ \<Rightarrow> None)"

definition sctValid :: "SctPB \<Rightarrow> bool" where
  "sctValid sct =
     (\<not> (spb_Id sct = None \<or> spb_SctVersion sct = None \<or> spb_LogID sct = None \<or>
         spb_Timestamp sct = None \<or> spb_Signature sct = None \<or> spb_CertificateSerial sct = None))"

definition certToPB :: "Certificate \<Rightarrow> CertificatePB" where
  "certToPB cert =
     \<lparr>crt_RegistrationID = Some (cert_RegID cert), crt_Serial = Some (cert_Serial cert),
      crt_Digest = Some (Digest cert), crt_Der = Some (DER cert),
      crt_Issued = Some (UnixNano (Issued cert)), crt_Expires = Some (UnixNano (cert_Expires cert))\<rparr>"

definition pbToCert :: "CertificatePB \<Rightarrow> Certificate option" where
  "pbToCert pb =
     (case (crt_RegistrationID pb, crt_Serial pb, crt_Digest pb, crt_Issued pb, crt_Expires pb) of
        (Some r, Some s, Some d, Some i, Some e) \<Rightarrow>
          Some \<lparr>cert_RegID = r, cert_Serial = s, Digest = d, DER = pb_bytes (crt_Der pb),
                Issued = i, cert_Expires = e\<rparr>
      | _ \<Rightarrow> None)"

section \<open>Round trips\<close>

text \<open>
  What is assumed of \<^verbatim>\<open>net\<close>: the text form of a 4- or 16-byte address is not empty and
  parses to its 16-byte form.
\<close>

definition ip_text_laws :: "(bytes \<Rightarrow> string) \<Rightarrow> (string \<Rightarrow> bytes option) \<Rightarrow> bool" where
  "ip_text_laws fmtIP parseIP \<longleftrightarrow>
     (\<forall>b. length b \<in> {4, 16} \<longrightarrow> fmtIP b \<noteq> [] \<and> parseIP (fmtIP b) = To16 b)"

definition nanos :: "time \<Rightarrow> bool" where
  "nanos t \<longleftrightarrow> - (2 ^ 63) \<le> t \<and> t < 2 ^ 63"

lemma UnixNano_id [simp]: "nanos t \<Longrightarrow> UnixNano t = t"
  by (simp add: UnixNano_def nanos_def signed_of_int signed_take_bit_int_eq_self)

lemma int32_id [simp]: "- (2 ^ 31) \<le> n \<Longrightarrow> n < 2 ^ 31 \<Longrightarrow> int32 n = n"
  by (simp add: int32_def signed_of_int signed_take_bit_int_eq_self)

text \<open>Addresses as the text form gives them back: absent or of 16 bytes.\<close>

definition ip16 :: "IP \<Rightarrow> bool" where
  "ip16 ip = (case ip of None \<Rightarrow> True | Some b \<Rightarrow> length b = 16)"

definition prob_pb :: "ProblemDetails option \<Rightarrow> bool" where
  "prob_pb p = (case p of None \<Rightarrow> True | Some d \<Rightarrow> - (2 ^ 31) \<le> HTTPStatus d \<and> HTTPStatus d < 2 ^ 31)"

definition record_pb :: "ValidationRecord \<Rightarrow> bool" where
  "record_pb r = (ip16 (AddressUsed r) \<and> list_all (\<lambda>a. a \<noteq> None) (AddressesResolved r))"

definition challenge_pb :: "Challenge \<Rightarrow> bool" where
  "challenge_pb ch = (URI ch = [] \<and> prob_pb (ch_Error ch) \<and> list_all record_pb (ch_Records ch))"

definition registration_pb :: "Registration \<Rightarrow> bool" where
  "registration_pb reg = (reg_Key reg \<noteq> None \<and> ip16 (InitialIP reg) \<and> nanos (CreatedAt reg))"

definition authz_pb :: "Authorization \<Rightarrow> bool" where
  "authz_pb az =
     (id_Type (Identifier az) = IdentifierDNS \<and> list_all challenge_pb (Challenges az) \<and>
      (case az_Expires az of None \<Rightarrow> False | Some t \<Rightarrow> nanos t))"

lemma ip_text_roundtrip:
  assumes "ip_text_laws fmtIP parseIP" "ip16 ip"
  shows "\<exists>t. MarshalText fmtIP ip = Inr t \<and> UnmarshalText parseIP t = Inr ip"
proof (cases ip)
  case None
  then show ?thesis by (simp add: MarshalText_def UnmarshalText_def)
next
  case (Some b)
  with assms have "length b = 16" "fmtIP b \<noteq> []" "parseIP (fmtIP b) = Some b"
    by (auto simp: ip16_def ip_text_laws_def To16_def)
  with Some show ?thesis by (simp add: MarshalText_def UnmarshalText_def)
qed

lemma problem_roundtrip: "prob_pb p \<Longrightarrow> pbToProblemDetails (problemDetailsToPB p) = Inr p"
  by (cases p) (auto simp: prob_pb_def pbToProblemDetails_def problemDetailsToPB_def)

lemma map_ip_bytes: "list_all (\<lambda>a. a \<noteq> None) as \<Longrightarrow> map Some (map ip_bytes as) = as"
  by (induction as) (auto simp: ip_bytes_def)

lemma record_roundtrip:
  assumes "ip_text_laws fmtIP parseIP" "record_pb r"
  shows "\<exists>p. validationRecordToPB fmtIP r = Inr p \<and> pbToValidationRecord parseIP p = Inr r"
proof -
  obtain t where "MarshalText fmtIP (AddressUsed r) = Inr t" "UnmarshalText parseIP t = Inr (AddressUsed r)"
    using ip_text_roundtrip [OF assms(1), of "AddressUsed r"] assms(2) by (auto simp: record_pb_def)
  then show ?thesis using assms(2) map_ip_bytes
    by (simp add: validationRecordToPB_def pbToValidationRecord_def record_pb_def del: map_map)
qed

text \<open>Element-wise round trips lift to lists.\<close>

lemma traverse_roundtrip:
  assumes "\<And>x. x \<in> set xs \<Longrightarrow> \<exists>y. f x = Inr y \<and> g y = Inr x"
  shows "\<exists>ys. traverse f xs = Inr ys \<and> traverse g ys = Inr xs"
  using assms
proof (induction xs)
  case (Cons x xs)
  then obtain y ys where "f x = Inr y" "g y = Inr x" "traverse f xs = Inr ys" "traverse g ys = Inr xs"
    by (metis list.set_intros)
  then show ?case by simp
qed simp

lemma records_roundtrip:
  assumes "ip_text_laws fmtIP parseIP" "list_all record_pb rs"
  shows "\<exists>ps. traverse (validationRecordToPB fmtIP) rs = Inr ps \<and>
     traverse (pbToValidationRecord parseIP) ps = Inr rs"
  using assms by (intro traverse_roundtrip record_roundtrip) (auto simp: list_all_iff)

lemma challenge_roundtrip:
  assumes "ip_text_laws fmtIP parseIP" "challenge_pb ch"
  shows "\<exists>p. challengeToPB fmtIP ch = Inr p \<and> pbToChallenge parseIP p = Inr ch"
proof -
  obtain ps where "traverse (validationRecordToPB fmtIP) (ch_Records ch) = Inr ps"
      "traverse (pbToValidationRecord parseIP) ps = Inr (ch_Records ch)"
    using records_roundtrip [OF assms(1), of "ch_Records ch"] assms(2) by (auto simp: challenge_pb_def)
  then show ?thesis using assms(2)
    by (simp add: challengeToPB_def pbToChallenge_def challenge_pb_def problem_roundtrip)
qed

lemma challenges_roundtrip:
  assumes "ip_text_laws fmtIP parseIP" "list_all challenge_pb cs"
  shows "\<exists>ps. traverse (challengeToPB fmtIP) cs = Inr ps \<and>
     traverse (pbToChallenge parseIP) ps = Inr cs"
  using assms by (intro traverse_roundtrip challenge_roundtrip) (auto simp: list_all_iff)

lemma ucast_version: "ucast (ucast (v :: 8 word) :: 64 word) = v"
  by (rule bit_word_eqI) (simp add: bit_ucast_iff)

interpretation sct_pb: codec sctToPB "\<lambda>pb. case pbToSCT pb of None \<Rightarrow> Inl () | Some x \<Rightarrow> Inr x"
  "\<lambda>_. True"
  by unfold_locales (simp add: sctToPB_def pbToSCT_def pb_bytes_def ucast_version)

interpretation cert_pb: codec certToPB "\<lambda>pb. case pbToCert pb of None \<Rightarrow> Inl () | Some x \<Rightarrow> Inr x"
  "\<lambda>c. nanos (Issued c) \<and> nanos (cert_Expires c)"
  by unfold_locales (auto simp: certToPB_def pbToCert_def pb_bytes_def)

lemma registration_roundtrip:
  assumes "ip_text_laws fmtIP parseIP" "registration_pb reg" "reg_Key reg = Some key"
    and "marshalJWK key = Inr kb" "unmarshalJWK kb = Inr key"
  shows "\<exists>p. registrationToPB marshalJWK fmtIP reg = Some (Inr p) \<and> registrationValid p \<and>
     pbToRegistration unmarshalJWK parseIP p = Some (Inr reg)"
proof -
  obtain t where t: "MarshalText fmtIP (InitialIP reg) = Inr t" "UnmarshalText parseIP t = Inr (InitialIP reg)"
    using ip_text_roundtrip [OF assms(1), of "InitialIP reg"] assms(2) by (auto simp: registration_pb_def)
  show ?thesis using t assms(2-5)
    by (cases "Contact reg")
       (auto simp: registrationToPB_def pbToRegistration_def pb_bytes_def registrationValid_def
          registration_pb_def)
qed

lemma authz_roundtrip:
  assumes "ip_text_laws fmtIP parseIP" "authz_pb az"
    and "unmarshalCombos (marshalCombos (Combinations az)) = Inr (Combinations az)"
  shows "\<exists>p. authzToPB marshalCombos fmtIP az = Inr p \<and> authorizationValid p \<and>
     pbToAuthz unmarshalCombos parseIP p = Some (Inr az)"
proof -
  obtain ps where "traverse (challengeToPB fmtIP) (Challenges az) = Inr ps"
      "traverse (pbToChallenge parseIP) ps = Inr (Challenges az)"
    using challenges_roundtrip [OF assms(1), of "Challenges az"] assms(2) by (auto simp: authz_pb_def)
  moreover obtain t where "az_Expires az = Some t" "nanos t"
    using assms(2) by (auto simp: authz_pb_def split: option.splits)
  moreover have "\<lparr>id_Type = IdentifierDNS, Value = Value (Identifier az)\<rparr> = Identifier az"
    using assms(2) by (simp add: authz_pb_def)
  ultimately show ?thesis using assms(3)
    by (simp add: authzToPB_def pbToAuthz_def authorizationValid_def)
qed

section \<open>Properties\<close>

text \<open>
  An authorization sent over RPC arrives as it was sent, challenges, validation records
  and errors included, when it is for a DNS name, its expiry is set and within the range of
  a 64-bit nanosecond count, and its addresses are in 16-byte form.
\<close>

theorem authz_rpc_roundtrip:
  assumes "ip_text_laws fmtIP parseIP" "authz_pb az"
    and "unmarshalCombos (marshalCombos (Combinations az)) = Inr (Combinations az)"
  shows "\<exists>p. authzToPB marshalCombos fmtIP az = Inr p \<and> authorizationValid p \<and>
     pbToAuthz unmarshalCombos parseIP p = Some (Inr az)"
  using assms by (rule authz_roundtrip)

theorem authz_rpc_roundtrip_witness:
  "\<exists>p. authzToPB (\<lambda>_. ''[[0]]'') (\<lambda>b. CHR ''x'' # b)
        \<lparr>az_ID = ''abc'', Identifier = \<lparr>id_Type = IdentifierDNS, Value = ''example.com''\<rparr>,
         RegistrationID = 7, az_Status = StatusPending, az_Expires = Some 1500000000000000000,
         Challenges = [newChallenge ChallengeTypeHTTP01 ''seed''], Combinations = [[0]]\<rparr> = Inr p \<and>
     authorizationValid p \<and>
     pbToAuthz (\<lambda>_. Inr [[0]]) (\<lambda>s. To16 (tl s)) p = Some (Inr
        \<lparr>az_ID = ''abc'', Identifier = \<lparr>id_Type = IdentifierDNS, Value = ''example.com''\<rparr>,
         RegistrationID = 7, az_Status = StatusPending, az_Expires = Some 1500000000000000000,
         Challenges = [newChallenge ChallengeTypeHTTP01 ''seed''], Combinations = [[0]]\<rparr>)"
  by (rule authz_rpc_roundtrip)
     (simp_all add: ip_text_laws_def authz_pb_def nanos_def challenge_pb_def newChallenge_def prob_pb_def)

text \<open>
  A registration sent over RPC arrives as it was sent; in particular an absent contact
  list and an empty one stay different, although both are sent as an empty list.
\<close>

theorem registration_rpc_roundtrip:
  assumes "ip_text_laws fmtIP parseIP" "registration_pb reg" "reg_Key reg = Some key"
    and "marshalJWK key = Inr kb" "unmarshalJWK kb = Inr key"
  shows "\<exists>p. registrationToPB marshalJWK fmtIP reg = Some (Inr p) \<and> registrationValid p \<and>
     pbToRegistration unmarshalJWK parseIP p = Some (Inr reg)"
  using assms by (rule registration_roundtrip)

theorem registration_rpc_roundtrip_witness:
  "\<exists>p. registrationToPB (\<lambda>_. Inr ''k'') (\<lambda>b. CHR ''x'' # b)
        \<lparr>reg_ID = 1, reg_Key = Some \<lparr>jwk_Key = RSAKey 15 3, KeyID = [], Algorithm = []\<rparr>,
         Contact = Some [], Agreement = [], InitialIP = Some (replicate 16 (CHR ''1'')),
         CreatedAt = 5, reg_Status = StatusValid\<rparr> = Some (Inr p) \<and> registrationValid p \<and>
     pbToRegistration (\<lambda>_. Inr \<lparr>jwk_Key = RSAKey 15 3, KeyID = [], Algorithm = []\<rparr>)
        (\<lambda>s. To16 (tl s)) p = Some (Inr
        \<lparr>reg_ID = 1, reg_Key = Some \<lparr>jwk_Key = RSAKey 15 3, KeyID = [], Algorithm = []\<rparr>,
         Contact = Some [], Agreement = [], InitialIP = Some (replicate 16 (CHR ''1'')),
         CreatedAt = 5, reg_Status = StatusValid\<rparr>)"
  by (rule registration_rpc_roundtrip [where kb = "''k''"])
     (simp_all add: ip_text_laws_def registration_pb_def ip16_def nanos_def)

text \<open>
  The checks at the RPC boundary are enough: a message that passes its validity check is
  converted without dereferencing an absent field, whatever else it contains.
\<close>

theorem checked_messages_never_panic:
  "(registrationValid rpb \<longrightarrow> pbToRegistration unmarshalJWK parseIP rpb \<noteq> None) \<and>
   (authorizationValid apb \<longrightarrow> pbToAuthz unmarshalCombos parseIP apb \<noteq> None) \<and>
   (certificateValid cpb \<longrightarrow> pbToCert cpb \<noteq> None) \<and> (sctValid spb \<longrightarrow> pbToSCT spb \<noteq> None)"
  by (auto simp: registrationValid_def pbToRegistration_def authorizationValid_def pbToAuthz_def
      certificateValid_def pbToCert_def sctValid_def pbToSCT_def split: sum.splits)

theorem checked_messages_never_panic_witness:
  "pbToAuthz (\<lambda>_. Inr []) (\<lambda>_. None)
     \<lparr>apb_Id = Some ''a'', apb_Identifier = Some ''b.com'', apb_RegistrationID = Some 1,
      apb_Status = Some ''valid'', apb_Expires = Some 0, apb_Challenges = [None],
      apb_Combinations = []\<rparr> \<noteq> None"
  using checked_messages_never_panic [where unmarshalCombos = "\<lambda>_. Inr []" and parseIP = "\<lambda>_. None"
      and apb = "\<lparr>apb_Id = Some ''a'', apb_Identifier = Some ''b.com'', apb_RegistrationID = Some 1,
      apb_Status = Some ''valid'', apb_Expires = Some 0, apb_Challenges = [None],
      apb_Combinations = []\<rparr>"]
  by (simp add: authorizationValid_def)

end
