(* ===== verification/SaModel.thy ===== *)
theory SaModel
  imports Marshalling
begin

text \<open>
  The storage authority's tables (\<^verbatim>\<open>sa/model.go\<close>, \<^verbatim>\<open>sa/database.go\<close>), the statements of the
  object mapper on them, and the conversions between the program's types and table rows.
  A table is the list of its rows in insertion order; a \<^verbatim>\<open>SELECT\<close> filters it. Times are
  stored at full precision. JSON columns whose text the code never looks at
  (identifier, combinations, contact) are stored as values.

  Every call to the database may fail. Which calls fail, and with which message, is a
  parameter of each operation, so that all error paths of the code are branches of the
  model.
\<close>

section \<open>Environment\<close>

datatype dbcall = DbBegin | DbCommit | DbRollback | DbSelect string | DbInsert string nat
  | DbUpdate string nat | DbDelete string | DbExec string

record sa_env =
  fault :: "dbcall \<Rightarrow> string option"
  now :: time
  feat :: "FeatureFlag \<Rightarrow> bool"
  sha256 :: "bytes \<Rightarrow> bytes"
  marshalPKIX :: "PublicKey \<Rightarrow> bytes option"
  marshalJWK :: "JsonWebKey option \<Rightarrow> string + bytes"
  unmarshalJWK :: "bytes \<Rightarrow> string + JsonWebKey"
  marshalProblem :: "ProblemDetails \<Rightarrow> string + bytes"
  unmarshalProblem :: "bytes \<Rightarrow> string + ProblemDetails"
  marshalRecords :: "ValidationRecord list \<Rightarrow> string + bytes"
  unmarshalRecords :: "bytes \<Rightarrow> string + ValidationRecord list"

text \<open>The fields of a parsed certificate that the code reads.\<close>

datatype ExtKeyUsage = ExtKeyUsageServerAuth | ExtKeyUsageClientAuth | OtherExtKeyUsage int

record x509Cert =
  x_SerialNumber :: int
  x_NotBefore :: time
  x_NotAfter :: time
  x_PublicKey :: PublicKey
  x_CommonName :: string
  x_otherSubject :: "string list"
  x_DNSNames :: "string list"
  x_IPAddresses :: "IP list"
  x_EmailAddresses :: "string list"
  x_BasicConstraintsValid :: bool
  x_IsCA :: bool
  x_ExtKeyUsage :: "ExtKeyUsage list"

text \<open>The zero value of \<^verbatim>\<open>time.Time\<close>, the first of January of the year 1.\<close>

definition zero_time :: time where
  "zero_time = - 62135596800 * 1000000000"

definition apos :: string where
  "apos = [char_of (39::nat)]"

section \<open>Rows\<close>

record regModel =
  rm_ID :: int
  rm_Key :: bytes
  rm_KeySHA256 :: string
  rm_Contact :: "string list"
  rm_Agreement :: string
  rm_InitialIP :: "bytes option"
  rm_CreatedAt :: time
  rm_LockCol :: int
  rm_Status :: string

record authzRow =
  ar_ID :: string
  ar_Identifier :: AcmeIdentifier
  ar_RegistrationID :: int
  ar_Status :: AcmeStatus
  ar_Expires :: "time option"
  ar_Combinations :: "int list list"
  ar_LockCol :: int

record challModel =
  cm_ID :: int
  cm_AuthorizationID :: string
  cm_Type :: string
  cm_Status :: AcmeStatus
  cm_Error :: bytes
  cm_Token :: string
  cm_KeyAuthorization :: string
  cm_ValidationRecord :: bytes
  cm_LockCol :: int

record issuedNameModel =
  ReversedName :: string
  in_NotBefore :: time
  in_Serial :: string

record database =
  registrations :: "regModel list"
  pendingAuthorizations :: "authzRow list"
  authz_table :: "authzRow list"
  challenges :: "challModel list"
  issuedNames :: "issuedNameModel list"
  certificates :: "Certificate list"
  certificateStatus :: "CertificateStatus list"
  sctReceipts :: "SignedCertificateTimestamp list"
  fqdnSets :: "FQDNSet list"
  next_reg_id :: int
  next_chall_id :: int
  next_sct_id :: int

definition empty_db :: database where
  "empty_db = \<lparr>registrations = [], pendingAuthorizations = [], authz_table = [], challenges = [],
     issuedNames = [], certificates = [], certificateStatus = [], sctReceipts = [], fqdnSets = [],
     next_reg_id = 1, next_chall_id = 1, next_sct_id = 1\<rparr>"

section \<open>Statements of the object mapper\<close>

text \<open>
  An insert sets the version column to one more than the object's version and fails on a
  duplicate key. An update of a versioned row binds the new version (one more than the
  object's) and matches on the old one; for an object whose version is 0 the mapper first
  stores 1 in the object, so that the row is matched on version 1. Updating no row is an
  error only when the object's version was not 0.
\<close>

definition dup_entry :: string where
  "dup_entry = ''Error 1062: Duplicate entry''"

definition bind_version :: "int \<Rightarrow> int" where
  "bind_version v = (if v = 0 then 1 else v)"

definition lock_error :: goerror where
  "lock_error = OtherError ''gorp: OptimisticLockError''"

definition db_fault :: "sa_env \<Rightarrow> dbcall \<Rightarrow> goerror option" where
  "db_fault E c = map_option OtherError (fault E c)"

definition insert_row ::
  "goerror option \<Rightarrow> ('r \<Rightarrow> 'r \<Rightarrow> bool) \<Rightarrow> 'r \<Rightarrow> 'r list \<Rightarrow> goerror + 'r list" where
  "insert_row flt clash r rows =
     (case flt of
        Some e \<Rightarrow> Inl e
      | None \<Rightarrow> if list_ex (clash r) rows then Inl (OtherError dup_entry) else Inr (rows @ [r]))"

definition update_rows ::
  "goerror option \<Rightarrow> int \<Rightarrow> ('r \<Rightarrow> bool) \<Rightarrow> ('r \<Rightarrow> 'r) \<Rightarrow> 'r list \<Rightarrow> goerror + 'r list \<times> nat" where
  "update_rows flt version match upd rows =
     (case flt of
        Some e \<Rightarrow> Inl e
      | None \<Rightarrow>
          (let n = length (filter match rows) in
           if n = 0 \<and> version > 0 then Inl lock_error
           else Inr (map (\<lambda>r. if match r then upd r else r) rows, n)))"

definition select_one :: "goerror option \<Rightarrow> ('r \<Rightarrow> bool) \<Rightarrow> 'r list \<Rightarrow> goerror + 'r" where
  "select_one flt p rows =
     (case flt of
        Some e \<Rightarrow> Inl e
      | None \<Rightarrow> (case find p rows of None \<Rightarrow> Inl ErrNoRows | Some r \<Rightarrow> Inr r))"

section \<open>sa/rollback.go\<close>

definition Rollback :: "sa_env \<Rightarrow> goerror \<Rightarrow> goerror" where
  "Rollback E err =
     (case fault E DbRollback of
        None \<Rightarrow> OtherError (Error err)
      | Some re \<Rightarrow> OtherError (Error err @ '' (also, while rolling back: '' @ re @ '')''))"

text \<open>
  The end of a transaction: the changes are in the database when the commit succeeds, and
  when it fails or the transaction is rolled back the database is the one before it.
\<close>

definition commit_tx :: "sa_env \<Rightarrow> database \<Rightarrow> database \<Rightarrow> 'a \<Rightarrow> database \<times> (goerror + 'a)" where
  "commit_tx E before after x =
     (case db_fault E DbCommit of
        Some e \<Rightarrow> (before, Inl e)
      | None \<Rightarrow> (after, Inr x))"

definition in_tx ::
  "sa_env \<Rightarrow> database \<Rightarrow> (database \<Rightarrow> goerror + database \<times> 'a) \<Rightarrow> database \<times> (goerror + 'a)" where
  "in_tx E db body =
     (case db_fault E DbBegin of
        Some e \<Rightarrow> (db, Inl e)
      | None \<Rightarrow>
          (case body db of
             Inl e \<Rightarrow> (db, Inl (Rollback E e))
           | Inr (db', x) \<Rightarrow> commit_tx E db db' x))"

section \<open>sa/model.go\<close>

definition mediumBlobSize :: nat where
  "mediumBlobSize = 2 ^ 24"

text \<open>
  With \<open>AllowAccountDeactivation\<close> the row has a status, which is otherwise the column's
  default when the row is inserted. The object's version is 0.
\<close>

definition registrationToModel :: "sa_env \<Rightarrow> Registration \<Rightarrow> goerror + regModel" where
  "registrationToModel E r =
     (case marshalJWK E (reg_Key r) of
        Inl err \<Rightarrow> Inl (OtherError err)
      | Inr key \<Rightarrow>
          (case KeyDigest (sha256 E) (marshalPKIX E) (JWKPtr (reg_Key r)) of
             Inl err \<Rightarrow> Inl (OtherError err)
           | Inr sha \<Rightarrow>
               (case InitialIP r of
                  None \<Rightarrow> Inl (OtherError ''initialIP was nil'')
                | Some ip \<Rightarrow>
                    Inr \<lparr>rm_ID = reg_ID r, rm_Key = key, rm_KeySHA256 = sha,
                         rm_Contact = (case Contact r of None \<Rightarrow> [] | Some cs \<Rightarrow> cs),
                         rm_Agreement = Agreement r, rm_InitialIP = To16 ip,
                         rm_CreatedAt = CreatedAt r, rm_LockCol = 0,
                         rm_Status = (if feat E AllowAccountDeactivation then reg_Status r
                                      else StatusValid)\<rparr>)))"

definition modelToRegistration :: "sa_env \<Rightarrow> regModel \<Rightarrow> goerror + Registration" where
  "modelToRegistration E rm =
     (case unmarshalJWK E (rm_Key rm) of
        Inl err \<Rightarrow> Inl (OtherError (''unable to unmarshal JsonWebKey in db: '' @ err))
      | Inr k \<Rightarrow>
          Inr \<lparr>reg_ID = rm_ID rm, reg_Key = Some k, Contact = Some (rm_Contact rm),
               Agreement = rm_Agreement rm, InitialIP = rm_InitialIP rm,
               CreatedAt = rm_CreatedAt rm,
               reg_Status = (if feat E AllowAccountDeactivation then rm_Status rm else [])\<rparr>)"

definition challengeToModel :: "sa_env \<Rightarrow> Challenge \<Rightarrow> string \<Rightarrow> goerror + challModel" where
  "challengeToModel E c authID =
     (let cm = \<lparr>cm_ID = ch_ID c, cm_AuthorizationID = authID, cm_Type = ch_Type c,
                cm_Status = ch_Status c, cm_Error = [], cm_Token = Token c,
                cm_KeyAuthorization = ProvidedKeyAuthorization c, cm_ValidationRecord = [],
                cm_LockCol = 0\<rparr> in
      bind_result
        (case ch_Error c of
           None \<Rightarrow> Inr cm
         | Some prob \<Rightarrow>
             (case marshalProblem E prob of
                Inl err \<Rightarrow> Inl (OtherError err)
              | Inr errJSON \<Rightarrow>
                  if length errJSON > mediumBlobSize
                  then Inl (OtherError ''Error object is too large to store in the database'')
                  else Inr (cm\<lparr>cm_Error := errJSON\<rparr>)))
        (\<lambda>cm.
           if length (ch_Records c) > 0 then
             (case marshalRecords E (ch_Records c) of
                Inl err \<Rightarrow> Inl (OtherError err)
              | Inr vrJSON \<Rightarrow>
                  if length vrJSON > mediumBlobSize
                  then Inl (OtherError ''Validation Record object is too large to store in the database'')
                  else Inr (cm\<lparr>cm_ValidationRecord := vrJSON\<rparr>))
           else Inr cm))"

definition modelToChallenge :: "sa_env \<Rightarrow> challModel \<Rightarrow> goerror + Challenge" where
  "modelToChallenge E cm =
     (let c = \<lparr>ch_ID = cm_ID cm, ch_Type = cm_Type cm, ch_Status = cm_Status cm, ch_Error = None,
               URI = [], Token = cm_Token cm, ProvidedKeyAuthorization = cm_KeyAuthorization cm,
               ch_Records = []\<rparr> in
      bind_result
        (if length (cm_Error cm) > 0 then
           (case unmarshalProblem E (cm_Error cm) of
              Inl err \<Rightarrow> Inl (OtherError err)
            | Inr problem \<Rightarrow> Inr (c\<lparr>ch_Error := Some problem\<rparr>))
         else Inr c)
        (\<lambda>c.
           if length (cm_ValidationRecord cm) > 0 then
             (case unmarshalRecords E (cm_ValidationRecord cm) of
                Inl err \<Rightarrow> Inl (OtherError err)
              | Inr vr \<Rightarrow> Inr (c\<lparr>ch_Records := vr\<rparr>))
           else Inr c))"

text \<open>The columns of an authorization; its challenges are rows of their own.\<close>

definition authz_row :: "Authorization \<Rightarrow> int \<Rightarrow> authzRow" where
  "authz_row az lock =
     \<lparr>ar_ID = az_ID az, ar_Identifier = Identifier az, ar_RegistrationID = RegistrationID az,
      ar_Status = az_Status az, ar_Expires = az_Expires az, ar_Combinations = Combinations az,
      ar_LockCol = lock\<rparr>"

definition row_authz :: "authzRow \<Rightarrow> Challenge list \<Rightarrow> Authorization" where
  "row_authz r cs =
     \<lparr>az_ID = ar_ID r, Identifier = ar_Identifier r, RegistrationID = ar_RegistrationID r,
      az_Status = ar_Status r, az_Expires = ar_Expires r, Challenges = cs,
      Combinations = ar_Combinations r\<rparr>"

section \<open>Lemmas\<close>

lemma insert_row_Inr [go_result]:
  "insert_row f clash r rows = Inr rows' \<longleftrightarrow>
     f = None \<and> \<not> list_ex (clash r) rows \<and> rows' = rows @ [r]"
  by (auto simp: insert_row_def split: option.splits)

lemma update_rows_Inr [go_result]:
  "update_rows f v m u rows = Inr (rows', n) \<longleftrightarrow>
     f = None \<and> n = length (filter m rows) \<and> \<not> (n = 0 \<and> v > 0) \<and>
     rows' = map (\<lambda>r. if m r then u r else r) rows"
  by (auto simp: update_rows_def Let_def split: option.splits)

lemma select_one_Inr [go_result]:
  "select_one f p rows = Inr r \<longleftrightarrow> f = None \<and> find p rows = Some r"
  by (auto simp: select_one_def split: option.splits)

lemma in_tx_Inr [go_result]:
  "in_tx E db body = (db', Inr x) \<longleftrightarrow>
     db_fault E DbBegin = None \<and> db_fault E DbCommit = None \<and> body db = Inr (db', x)"
  by (auto simp: in_tx_def commit_tx_def split: option.splits sum.splits)

text \<open>A transaction that fails, for whatever reason, changes nothing.\<close>

lemma in_tx_atomic: "in_tx E db body = (db', Inl e) \<Longrightarrow> db' = db"
  by (auto simp: in_tx_def commit_tx_def split: option.splits sum.splits)

lemma row_authz_row: "row_authz (authz_row az l) (Challenges az) = az"
  by (simp add: row_authz_def authz_row_def)

text \<open>
  A challenge written to the database and read back is the challenge without its URI, when
  its JSON columns fit and are read back as written.
\<close>

definition json_stable :: "sa_env \<Rightarrow> Challenge \<Rightarrow> bool" where
  "json_stable E c \<longleftrightarrow>
     (\<forall>p. ch_Error c = Some p \<longrightarrow>
        (\<exists>b. marshalProblem E p = Inr b \<and> b \<noteq> [] \<and> length b \<le> 2 ^ 24 \<and> unmarshalProblem E b = Inr p)) \<and>
     (ch_Records c \<noteq> [] \<longrightarrow>
        (\<exists>b. marshalRecords E (ch_Records c) = Inr b \<and> b \<noteq> [] \<and> length b \<le> 2 ^ 24 \<and>
             unmarshalRecords E b = Inr (ch_Records c)))"

lemma challenge_model_roundtrip:
  assumes "json_stable E c"
  shows "\<exists>cm. challengeToModel E c aid = Inr cm \<and> cm_AuthorizationID cm = aid \<and> cm_LockCol cm = 0 \<and>
     cm_ID cm = ch_ID c \<and> (\<forall>i. modelToChallenge E (cm\<lparr>cm_ID := i\<rparr>) = Inr (c\<lparr>ch_ID := i, URI := []\<rparr>))"
proof (cases "ch_Error c")
  case None
  show ?thesis
  proof (cases "ch_Records c = []")
    case True
    with None show ?thesis by (simp add: challengeToModel_def modelToChallenge_def Let_def)
  next
    case False
    with assms obtain b where "marshalRecords E (ch_Records c) = Inr b" "b \<noteq> []" "length b \<le> 2 ^ 24"
      "unmarshalRecords E b = Inr (ch_Records c)" by (auto simp: json_stable_def)
    with None False show ?thesis
      by (simp add: challengeToModel_def modelToChallenge_def Let_def mediumBlobSize_def)
  qed
next
  case (Some p)
  with assms obtain b where p: "marshalProblem E p = Inr b" "b \<noteq> []" "length b \<le> 2 ^ 24"
    "unmarshalProblem E b = Inr p" by (auto simp: json_stable_def)
  show ?thesis
  proof (cases "ch_Records c = []")
    case True
    with Some p show ?thesis
      by (simp add: challengeToModel_def modelToChallenge_def Let_def mediumBlobSize_def)
  next
    case False
    with assms obtain b' where "marshalRecords E (ch_Records c) = Inr b'" "b' \<noteq> []" "length b' \<le> 2 ^ 24"
      "unmarshalRecords E b' = Inr (ch_Records c)" by (auto simp: json_stable_def)
    with Some p False show ?thesis
      by (simp add: challengeToModel_def modelToChallenge_def Let_def mediumBlobSize_def)
  qed
qed

end
