(* ===== verification/Va.thy ===== *)
theory Va
  imports Cdr Marshalling SaModel
begin

text \<open>
  The validation authority (\<^verbatim>\<open>va/va.go\<close>, \<^verbatim>\<open>va/gsb.go\<close>, \<^verbatim>\<open>cmd/boulder-va\<close>). It calls the DNS client
  of \<open>Bdns\<close> and the distributed resolver of \<open>Cdr\<close>. What the network does is a parameter: the
  answers to DNS queries (those of the \<open>n\<close>-th address lookup of a validation are \<open>ve_dns E n\<close>), the
  outcome of an HTTP request sent to the address of a validation record, and the
  certificates a TLS server presents. The headers of a request, log lines and metrics are
  left out; the object written to the audit log is returned.
\<close>

section \<open>Strings and URLs\<close>

definition trim_right :: "string \<Rightarrow> string \<Rightarrow> string" where
  "trim_right s cutset = rev (dropWhile (\<lambda>c. c \<in> set cutset) (rev s))"

definition trim :: "string \<Rightarrow> string \<Rightarrow> string" where
  "trim s cutset = dropWhile (\<lambda>c. c \<in> set cutset) (trim_right s cutset)"

definition JoinHostPort :: "string \<Rightarrow> string \<Rightarrow> string" where
  "JoinHostPort host port =
     (if CHR '':'' \<in> set host \<or> CHR ''%'' \<in> set host then ''['' @ host @ '']:'' @ port else host @ '':'' @ port)"

text \<open>
  \<^verbatim>\<open>net.SplitHostPort\<close>, all of whose errors the caller treats alike. The text before and after
  the last colon; a bracketed host must end right before that colon.
\<close>

definition SplitHostPort :: "string \<Rightarrow> (string \<times> string) option" where
  "SplitHostPort hostport =
     (if CHR '':'' \<notin> set hostport then None
      else
        (let port = rev (takeWhile (\<lambda>c. c \<noteq> CHR '':'') (rev hostport));
             before = take (length hostport - length port - 1) hostport
         in if hd hostport = CHR ''['' then
              (let host = takeWhile (\<lambda>c. c \<noteq> CHR '']'') (tl before) in
               if before \<noteq> ''['' @ host @ '']'' \<or> CHR ''['' \<in> set host \<or>
                  CHR ''['' \<in> set port \<or> CHR '']'' \<in> set port
               then None else Some (host, port))
            else if CHR '':'' \<in> set before \<or> CHR ''%'' \<in> set before then None
            else if CHR ''['' \<in> set hostport \<or> CHR '']'' \<in> set hostport then None
            else Some (before, port)))"

text \<open>\<^verbatim>\<open>url.URL.String\<close> of a URL with a scheme, a host and a path only.\<close>

definition url_plain :: "char \<Rightarrow> bool" where
  "url_plain c \<longleftrightarrow> word_char c \<or> c = CHR ''-'' \<or> c = CHR ''.'' \<or> c = CHR ''~''"

definition url_escape :: "string \<Rightarrow> string \<Rightarrow> string" where
  "url_escape also s =
     concat (map (\<lambda>c. if url_plain c \<or> c \<in> set also then [c]
       else let n = of_char c :: nat; d = (\<lambda>x. ''0123456789ABCDEF'' ! x) in [CHR ''%'', d (n div 16), d (n mod 16)]) s)"

definition url_String :: "string \<Rightarrow> string \<Rightarrow> string \<Rightarrow> string" where
  "url_String scheme host path =
     (let p = (if path = ''*'' then path else url_escape ''$&+,/:;=@'' path) in
      scheme @ ''://'' @ url_escape (''!$&()*+,;=:[]<>'' @ apos @ [char_of (34::nat)]) host @
      (if p \<noteq> [] \<and> hd p \<noteq> CHR ''/'' \<and> host \<noteq> [] then ''/'' else []) @ p)"

section \<open>State and environment\<close>

datatype sb_error = ErrOutOfDateHashes | SafeBrowsingError string

record ValidationAuthorityImpl =
  dnsResolver :: DNSResolverImpl
  issuerDomain :: string
  safeBrowsing :: "(string \<Rightarrow> sb_error + string) option"
  httpPort :: int
  httpsPort :: int
  tlsPort :: int
  userAgent :: string
  caaDR :: "CAADistributedResolver option"

text \<open>
  The errors of a connection that the code tells apart. What an HTTP request comes to, seen
  from the client: an error, a response with its status and body (or the error of reading
  it), or a redirect to a URL.
\<close>

datatype op_inner = DNSErr bool bool | TLSAlert | OtherInner

datatype conn_error = UrlError conn_error | RecordHeaderError bytes | NetOpError op_inner | OtherConnError string

record req_url =
  u_Scheme :: string
  u_Host :: string
  u_String :: string

datatype http_answer = HttpError conn_error | HttpResponse int "string + bytes" | HttpRedirect req_url

record va_env =
  ve_dns :: "nat \<Rightarrow> exchanger"
  ve_dnsTXT :: exchanger
  ve_dnsCAA :: exchanger
  ve_cdr :: cdr_env
  ve_arrival :: "string \<Rightarrow> nat list"
  ve_newRequest :: "string \<Rightarrow> bool"
  ve_http :: "nat \<Rightarrow> ValidationRecord \<Rightarrow> http_answer"
  ve_tls :: "string \<Rightarrow> string \<Rightarrow> conn_error + x509Cert list"
  ve_ipString :: "IP \<Rightarrow> string"
  ve_rcodeToString :: "int \<Rightarrow> string"
  ve_typeToString :: "nat \<Rightarrow> string"
  ve_sha256 :: "bytes \<Rightarrow> bytes"

definition dns_error_text :: "va_env \<Rightarrow> DNSError \<Rightarrow> string" where
  "dns_error_text E d = DNSError_Error (ve_rcodeToString E) (ve_typeToString E) d"

definition maxRedirect :: nat where "maxRedirect = 10"
definition maxResponseSize :: nat where "maxResponseSize = 128"

definition whitespaceCutset :: string where
  "whitespaceCutset = [CHR 0x0A, CHR 0x0D, CHR 0x09, CHR '' '']"

record PortConfig =
  HTTPPort :: int
  HTTPSPort :: int
  TLSPort :: int

definition NewValidationAuthorityImpl ::
  "PortConfig \<Rightarrow> (string \<Rightarrow> sb_error + string) option \<Rightarrow> CAADistributedResolver option \<Rightarrow> DNSResolverImpl \<Rightarrow>
   string \<Rightarrow> string \<Rightarrow> ValidationAuthorityImpl" where
  "NewValidationAuthorityImpl pc sbc cdrClient resolver agent issuer =
     \<lparr>dnsResolver = resolver, issuerDomain = issuer, safeBrowsing = sbc, httpPort = HTTPPort pc,
      httpsPort = HTTPSPort pc, tlsPort = TLSPort pc, userAgent = agent, caaDR = cdrClient\<rparr>"

section \<open>Addresses\<close>

definition zero_record :: ValidationRecord where
  "zero_record = \<lparr>Authorities = [], URL = [], Hostname = [], Port = [], AddressesResolved = [], AddressUsed = None\<rparr>"

definition getAddr ::
  "va_env \<Rightarrow> ValidationAuthorityImpl \<Rightarrow> nat \<Rightarrow> string \<Rightarrow> IP \<times> IP list \<times> ProblemDetails option" where
  "getAddr E va n hostname =
     (case LookupHost (ve_dns E n) (dnsResolver va) hostname of
        Inl err \<Rightarrow> (Some [], [], Some (probs_ConnectionFailure (dns_error_text E err)))
      | Inr addrs \<Rightarrow>
          if length addrs = 0
          then (Some [], [], Some (probs_UnknownHost (''No valid IP addresses found for '' @ hostname)))
          else (Some (addrs ! 0), map Some addrs, None))"

definition resolveAndConstructDialer ::
  "va_env \<Rightarrow> ValidationAuthorityImpl \<Rightarrow> nat \<Rightarrow> string \<Rightarrow> int \<Rightarrow> ValidationRecord \<times> ProblemDetails option" where
  "resolveAndConstructDialer E va n name port =
     (let d = zero_record\<lparr>Hostname := name, Port := Itoa port\<rparr> in
      case getAddr E va n name of
        (_, _, Some err) \<Rightarrow> (d, Some err)
      | (addr, allAddrs, None) \<Rightarrow> (d\<lparr>AddressesResolved := allAddrs, AddressUsed := addr\<rparr>, None))"

section \<open>HTTP\<close>

definition badTLSHeader :: bytes where
  "badTLSHeader = map char_of [0x48, 0x54, 0x54, 0x50, 0x2f :: nat]"

definition parseHTTPConnError :: "string \<Rightarrow> conn_error \<Rightarrow> ProblemDetails" where
  "parseHTTPConnError detail err =
     (let err = (case err of UrlError e \<Rightarrow> e | _ \<Rightarrow> err) in
      case err of
        RecordHeaderError h \<Rightarrow>
          if h = badTLSHeader then probs_Malformed (detail @ '': Server only speaks HTTP, not TLS'')
          else probs_ConnectionFailure detail
      | NetOpError (DNSErr timeout temporary) \<Rightarrow>
          if \<not> timeout \<and> \<not> temporary then probs_UnknownHost detail else probs_ConnectionFailure detail
      | NetOpError TLSAlert \<Rightarrow> probs_TLSError detail
      | _ \<Rightarrow> probs_ConnectionFailure detail)"

text \<open>The host and port a redirect leads to.\<close>

definition redirect_target :: "req_url \<Rightarrow> string + (string \<times> int)" where
  "redirect_target u =
     (case SplitHostPort (u_Host u) of
        Some (h, p) \<Rightarrow>
          (case Atoi p of
             None \<Rightarrow> Inl (atoi_error p)
           | Some reqPort \<Rightarrow>
               if reqPort \<le> 0 \<or> reqPort > 65535
               then Inl (''Invalid port number '' @ Itoa reqPort @ '' in redirect'')
               else Inr (h, reqPort))
      | None \<Rightarrow> Inr (u_Host u, if to_lower (u_Scheme u) = ''https'' then 443 else 80))"

text \<open>
  The client's loop over redirects with the callback \<open>logRedirect\<close>. The current request goes to
  the last record's address. The second component is the host named in an error message.
\<close>

function http_loop ::
  "va_env \<Rightarrow> ValidationAuthorityImpl \<Rightarrow> ValidationRecord list \<Rightarrow> string \<Rightarrow>
   ValidationRecord list \<times> string \<times> (conn_error + (int \<times> (string + bytes)))" where
  "http_loop E va records urlHost =
     (case ve_http E (length records) (last records) of
        HttpError err \<Rightarrow> (records, urlHost, Inl err)
      | HttpResponse status body \<Rightarrow> (records, urlHost, Inr (status, body))
      | HttpRedirect u \<Rightarrow>
          if length records \<ge> maxRedirect
          then (records, urlHost, Inl (UrlError (OtherConnError ''Too many redirects'')))
          else
            (case redirect_target u of
               Inl err \<Rightarrow> (records, u_Host u, Inl (UrlError (OtherConnError err)))
             | Inr (reqHost, reqPort) \<Rightarrow>
                 (case resolveAndConstructDialer E va (length records) reqHost reqPort of
                    (record, prob) \<Rightarrow>
                      (let records' = records @ [record\<lparr>URL := u_String u\<rparr>] in
                       case prob of
                         Some p \<Rightarrow> (records', u_Host u, Inl (UrlError (OtherConnError (Error (ProblemErr p)))))
                       | None \<Rightarrow> http_loop E va records' (u_Host u)))))"
  by pat_completeness auto

termination http_loop
  by (relation "measure (\<lambda>(_, _, records, _). maxRedirect - length records)") auto

declare http_loop.simps [simp del]

definition fetchHTTP ::
  "va_env \<Rightarrow> ValidationAuthorityImpl \<Rightarrow> AcmeIdentifier \<Rightarrow> string \<Rightarrow> bool \<Rightarrow>
   ValidationRecord list \<times> (ProblemDetails + bytes)" where
  "fetchHTTP E va ident path useTLS =
     (let host = Value ident;
          (scheme, port) = (if useTLS then (''https'', httpsPort va) else (''http'', httpPort va));
          urlHost = (if \<not> (scheme = ''http'' \<and> port = 80 \<or> scheme = ''https'' \<and> port = 443)
                     then JoinHostPort host (Itoa port) else host);
          url = url_String scheme urlHost path
      in if \<not> ve_newRequest E url then ([], Inl (probs_Malformed ''URL provided for HTTP was invalid''))
         else
           (case resolveAndConstructDialer E va 0 host port of
              (record, prob) \<Rightarrow>
                (let record = record\<lparr>URL := url\<rparr> in
                 case prob of
                   Some p \<Rightarrow> ([record], Inl p)
                 | None \<Rightarrow>
                     (case http_loop E va [record] urlHost of
                        (records, urlHost, Inl err) \<Rightarrow>
                          (records, Inl (parseHTTPConnError (''Could not connect to '' @ urlHost) err))
                      | (records, _, Inr (_, Inl err)) \<Rightarrow>
                          (records, Inl (probs_Unauthorized (''Error reading HTTP response body: '' @ err)))
                      | (records, _, Inr (StatusCode, Inr full)) \<Rightarrow>
                          (let body = take maxResponseSize full in
                           if length body \<ge> maxResponseSize
                           then (records, Inl (probs_Unauthorized (''Invalid response from '' @ url @ '': '' @
                                  [char_of (34::nat)] @ body @ [char_of (34::nat)])))
                           else if StatusCode \<noteq> 200
                           then (records, Inl (probs_Unauthorized (''Invalid response from '' @ url @ '' ['' @
                                  ve_ipString E (AddressUsed record) @ '']: '' @ Itoa StatusCode)))
                           else (records, Inr body))))))"

definition validateHTTP01 ::
  "va_env \<Rightarrow> ValidationAuthorityImpl \<Rightarrow> AcmeIdentifier \<Rightarrow> Challenge \<Rightarrow>
   ValidationRecord list \<times> ProblemDetails option" where
  "validateHTTP01 E va ident challenge =
     (if id_Type ident \<noteq> IdentifierDNS
      then ([], Some (probs_Malformed ''Identifier type for HTTP validation was not DNS''))
      else
        (case fetchHTTP E va ident (''.well-known/acme-challenge/'' @ Token challenge) False of
           (records, Inl prob) \<Rightarrow> (records, Some prob)
         | (records, Inr body) \<Rightarrow>
             (let payload = trim_right body whitespaceCutset in
              if payload \<noteq> ProvidedKeyAuthorization challenge
              then (records, Some (probs_Unauthorized
                     (''The key authorization file from the server did not match this challenge ['' @
                      ProvidedKeyAuthorization challenge @ ''] != ['' @ payload @ '']'')))
              else (records, None))))"

section \<open>TLS\<close>

definition certNames :: "x509Cert \<Rightarrow> string list" where
  "certNames cert =
     UniqueLowerNames ((if x_CommonName cert \<noteq> [] then [x_CommonName cert] else []) @ x_DNSNames cert)"

definition getTLSSNICerts ::
  "va_env \<Rightarrow> string \<Rightarrow> Challenge \<Rightarrow> string \<Rightarrow> ProblemDetails + x509Cert list" where
  "getTLSSNICerts E hostPort challenge zName =
     (case ve_tls E hostPort zName of
        Inl err \<Rightarrow> Inl (parseHTTPConnError
          (''Failed to connect to '' @ hostPort @ '' for '' @ ch_Type challenge @ '' challenge'') err)
      | Inr certs \<Rightarrow>
          if length certs = 0
          then Inl (probs_Unauthorized (''No certs presented for '' @ ch_Type challenge @ '' challenge''))
          else Inr certs)"

definition incorrect_certificate :: "Challenge \<Rightarrow> string \<Rightarrow> string \<Rightarrow> x509Cert list \<Rightarrow> ProblemDetails" where
  "incorrect_certificate challenge zName hostPort certs =
     probs_Unauthorized (''Incorrect validation certificate for '' @ ch_Type challenge @
       '' challenge. Requested '' @ zName @ '' from '' @ hostPort @ ''. Received '' @
       format_nat (length certs) @ '' certificate(s), first certificate had names '' @
       quote (join_with '', '' (certNames (certs ! 0))))"

definition validateTLSSNI01WithZName ::
  "va_env \<Rightarrow> ValidationAuthorityImpl \<Rightarrow> AcmeIdentifier \<Rightarrow> Challenge \<Rightarrow> string \<Rightarrow>
   ValidationRecord list \<times> ProblemDetails option" where
  "validateTLSSNI01WithZName E va ident challenge zName =
     (case getAddr E va 0 (Value ident) of
        (addr, allAddrs, problem) \<Rightarrow>
          (let record = zero_record\<lparr>Hostname := Value ident, AddressesResolved := allAddrs, AddressUsed := addr\<rparr> in
           case problem of
             Some p \<Rightarrow> ([record], Some p)
           | None \<Rightarrow>
               (let portString = Itoa (tlsPort va);
                    hostPort = JoinHostPort (ve_ipString E addr) portString;
                    record = record\<lparr>Port := portString\<rparr>
                in case getTLSSNICerts E hostPort challenge zName of
                     Inl p \<Rightarrow> ([record], Some p)
                   | Inr certs \<Rightarrow>
                       if list_ex (\<lambda>name. name = zName) (x_DNSNames (certs ! 0)) then ([record], None)
                       else ([record], Some (incorrect_certificate challenge zName hostPort certs)))))"

definition validateTLSSNI02WithZNames ::
  "va_env \<Rightarrow> ValidationAuthorityImpl \<Rightarrow> AcmeIdentifier \<Rightarrow> Challenge \<Rightarrow> string \<Rightarrow> string \<Rightarrow>
   ValidationRecord list \<times> ProblemDetails option" where
  "validateTLSSNI02WithZNames E va ident challenge sanAName sanBName =
     (case getAddr E va 0 (Value ident) of
        (addr, allAddrs, problem) \<Rightarrow>
          (let record = zero_record\<lparr>Hostname := Value ident, AddressesResolved := allAddrs, AddressUsed := addr\<rparr> in
           case problem of
             Some p \<Rightarrow> ([record], Some p)
           | None \<Rightarrow>
               (let portString = Itoa (tlsPort va);
                    hostPort = JoinHostPort (ve_ipString E addr) portString;
                    record = record\<lparr>Port := portString\<rparr>
                in case getTLSSNICerts E hostPort challenge sanAName of
                     Inl p \<Rightarrow> ([record], Some p)
                   | Inr certs \<Rightarrow>
                       (let names = x_DNSNames (certs ! 0) in
                        if length names \<noteq> 2
                        then ([record], Some (probs_Malformed (ch_Type challenge @ '' challenge certificate doesn'' @
                               apos @ ''t include exactly 2 DNSName entries. Received '' @ format_nat (length certs) @
                               '' certificate(s), first certificate had names '' @
                               quote (join_with '', '' (certNames (certs ! 0))))))
                        else if list_ex (\<lambda>name. name = sanAName) names \<and> list_ex (\<lambda>name. name = sanBName) names
                        then ([record], None)
                        else ([record], Some (incorrect_certificate challenge sanAName hostPort certs))))))"

definition sni_name :: "va_env \<Rightarrow> string \<Rightarrow> string \<Rightarrow> string" where
  "sni_name E text suffix =
     (let z = hex_encode (ve_sha256 E text) in take 32 z @ ''.'' @ drop 32 z @ ''.'' @ suffix)"

definition validateTLSSNI01 ::
  "va_env \<Rightarrow> ValidationAuthorityImpl \<Rightarrow> AcmeIdentifier \<Rightarrow> Challenge \<Rightarrow>
   ValidationRecord list \<times> ProblemDetails option" where
  "validateTLSSNI01 E va ident challenge =
     (if id_Type ident \<noteq> ''dns'' then ([], Some (probs_Malformed ''Identifier type for TLS-SNI-01 was not DNS''))
      else validateTLSSNI01WithZName E va ident challenge
             (sni_name E (ProvidedKeyAuthorization challenge) TLSSNISuffix))"

definition validateTLSSNI02 ::
  "va_env \<Rightarrow> ValidationAuthorityImpl \<Rightarrow> AcmeIdentifier \<Rightarrow> Challenge \<Rightarrow>
   ValidationRecord list \<times> ProblemDetails option" where
  "validateTLSSNI02 E va ident challenge =
     (if id_Type ident \<noteq> ''dns'' then ([], Some (probs_Malformed ''Identifier type for TLS-SNI-02 was not DNS''))
      else validateTLSSNI02WithZNames E va ident challenge
             (sni_name E (Token challenge) (''token.'' @ TLSSNISuffix))
             (sni_name E (ProvidedKeyAuthorization challenge) (''ka.'' @ TLSSNISuffix)))"

section \<open>DNS\<close>

definition validateDNS01 ::
  "va_env \<Rightarrow> ValidationAuthorityImpl \<Rightarrow> AcmeIdentifier \<Rightarrow> Challenge \<Rightarrow>
   ValidationRecord list \<times> ProblemDetails option" where
  "validateDNS01 E va ident challenge =
     (if id_Type ident \<noteq> IdentifierDNS
      then ([], Some (probs_Malformed ''Identifier type for DNS was not itself DNS''))
      else
        (let authorizedKeysDigest = raw_url_encode (ve_sha256 E (ProvidedKeyAuthorization challenge));
             challengeSubdomain = DNSPrefix @ ''.'' @ Value ident
         in case LookupTXT (ve_dnsTXT E) (dnsResolver va) challengeSubdomain of
              Inl err \<Rightarrow> ([], Some (probs_ConnectionFailure (dns_error_text E err)))
            | Inr (txts, authorities) \<Rightarrow>
                if length txts = 0
                then ([], Some (probs_Unauthorized ''No TXT records found for DNS challenge''))
                else if list_ex (\<lambda>element. element = authorizedKeysDigest) txts
                then ([zero_record\<lparr>Authorities := authorities, Hostname := Value ident\<rparr>], None)
                else ([], Some (probs_Unauthorized ''Correct value not found for DNS challenge''))))"

section \<open>CAA\<close>

record CAASet =
  Issue :: "CAA list"
  Issuewild :: "CAA list"
  Iodef :: "CAA list"
  Unknown :: "CAA list"

definition criticalUnknown :: "CAASet \<Rightarrow> bool" where
  "criticalUnknown caaSet = list_ex (\<lambda>r. (caa_Flag r AND (128 OR 1)) \<noteq> 0) (Unknown caaSet)"

definition add_caa :: "CAASet \<Rightarrow> CAA \<Rightarrow> CAASet" where
  "add_caa filtered r =
     (if caa_Tag r = ''issue'' then filtered\<lparr>Issue := Issue filtered @ [r]\<rparr>
      else if caa_Tag r = ''issuewild'' then filtered\<lparr>Issuewild := Issuewild filtered @ [r]\<rparr>
      else if caa_Tag r = ''iodef'' then filtered\<lparr>Iodef := Iodef filtered @ [r]\<rparr>
      else filtered\<lparr>Unknown := Unknown filtered @ [r]\<rparr>)"

definition newCAASet :: "CAA list \<Rightarrow> CAASet" where
  "newCAASet CAAs = foldl add_caa \<lparr>Issue = [], Issuewild = [], Iodef = [], Unknown = []\<rparr> CAAs"

fun parseResults :: "(string + CAA list) list \<Rightarrow> string + CAASet option" where
  "parseResults [] = Inr None"
| "parseResults (Inl err # _) = Inl err"
| "parseResults (Inr records # results) =
     (if length records > 0 then Inr (Some (newCAASet records)) else parseResults results)"

definition parallelCAALookup :: "string \<Rightarrow> (string \<Rightarrow> string + CAA list) \<Rightarrow> (string + CAA list) list" where
  "parallelCAALookup name lookuper =
     (let labels = split_on (CHR ''.'') name in
      map (\<lambda>i. lookuper (join_with ''.'' (drop i labels))) [0..<length labels])"

definition lookup_caa :: "va_env \<Rightarrow> ValidationAuthorityImpl \<Rightarrow> string \<Rightarrow> string + CAA list" where
  "lookup_caa E va name =
     (case LookupCAA (ve_dnsCAA E) (dnsResolver va) name of
        Inl err \<Rightarrow> Inl (dns_error_text E err) | Inr records \<Rightarrow> Inr records)"

definition getCAASet :: "va_env \<Rightarrow> ValidationAuthorityImpl \<Rightarrow> string \<Rightarrow> string + CAASet option" where
  "getCAASet E va hostname =
     parseResults (parallelCAALookup (trim_right hostname ''.'') (lookup_caa E va))"

definition extractIssuerDomain :: "CAA \<Rightarrow> string" where
  "extractIssuerDomain caa =
     (let blank = [CHR '' '', char_of (9::nat)];
          v = trim (caa_Value caa) blank
      in case index_of (CHR '';'') v of None \<Rightarrow> v | Some idx \<Rightarrow> trim (take idx v) blank)"

definition validateCAASet :: "ValidationAuthorityImpl \<Rightarrow> CAASet option \<Rightarrow> bool \<times> bool" where
  "validateCAASet va caaSet =
     (case caaSet of
        None \<Rightarrow> (False, True)
      | Some cs \<Rightarrow>
          if criticalUnknown cs then (True, False)
          else if length (Issue cs) = 0 then (True, True)
          else if list_ex (\<lambda>caa. extractIssuerDomain caa = issuerDomain va) (Issue cs) then (True, True)
          else (True, False))"

definition checkCAARecords ::
  "va_env \<Rightarrow> ValidationAuthorityImpl \<Rightarrow> AcmeIdentifier \<Rightarrow> string + (bool \<times> bool)" where
  "checkCAARecords E va ident =
     bind_result (getCAASet E va (to_lower (Value ident))) (\<lambda>caaSet. Inr (validateCAASet va caaSet))"

definition checkCAAInternal ::
  "va_env \<Rightarrow> ValidationAuthorityImpl \<Rightarrow> AcmeIdentifier \<Rightarrow> ProblemDetails option" where
  "checkCAAInternal E va ident =
     (case checkCAARecords E va ident of
        Inl err \<Rightarrow> Some (probs_ConnectionFailure err)
      | Inr (_, valid) \<Rightarrow>
          if \<not> valid
          then Some (probs_ConnectionFailure (''CAA record for '' @ Value ident @ '' prevents issuance''))
          else None)"

definition checkGPDNS ::
  "va_env \<Rightarrow> ValidationAuthorityImpl \<Rightarrow> CAADistributedResolver \<Rightarrow> AcmeIdentifier \<Rightarrow> ProblemDetails option" where
  "checkGPDNS E va cdr ident =
     (case parseResults (parallelCAALookup (Value ident)
             (\<lambda>name. LookupCAA_cdr (ve_cdr E) cdr (ve_arrival E name) name)) of
        Inl err \<Rightarrow> Some (probs_ConnectionFailure err)
      | Inr caaSet \<Rightarrow>
          if \<not> snd (validateCAASet va caaSet)
          then Some \<lparr>prob_Type = ConnectionProblem,
                     Detail = ''CAA records prevents issuance for '' @ Value ident, HTTPStatus = 0\<rparr>
          else None)"

definition checkCAA ::
  "va_env \<Rightarrow> ValidationAuthorityImpl \<Rightarrow> AcmeIdentifier \<Rightarrow> ProblemDetails option" where
  "checkCAA E va ident =
     (let prob = checkCAAInternal E va ident in
      case (caaDR va, prob) of
        (Some cdr, Some p) \<Rightarrow> if prob_Type p = ConnectionProblem then checkGPDNS E va cdr ident else prob
      | _ \<Rightarrow> prob)"

section \<open>Validation\<close>

definition validateChallenge ::
  "va_env \<Rightarrow> ValidationAuthorityImpl \<Rightarrow> AcmeIdentifier \<Rightarrow> Challenge \<Rightarrow>
   ValidationRecord list \<times> ProblemDetails option" where
  "validateChallenge E va ident challenge =
     (if \<not> IsSaneForValidation challenge then ([], Some (probs_Malformed ''Challenge failed sanity check.''))
      else if ch_Type challenge = ChallengeTypeHTTP01 then validateHTTP01 E va ident challenge
      else if ch_Type challenge = ChallengeTypeTLSSNI01 then validateTLSSNI01 E va ident challenge
      else if ch_Type challenge = ChallengeTypeTLSSNI02 then validateTLSSNI02 E va ident challenge
      else if ch_Type challenge = ChallengeTypeDNS01 then validateDNS01 E va ident challenge
      else ([], Some (probs_Malformed (''invalid challenge type '' @ ch_Type challenge))))"

definition validateChallengeAndCAA ::
  "va_env \<Rightarrow> ValidationAuthorityImpl \<Rightarrow> AcmeIdentifier \<Rightarrow> Challenge \<Rightarrow>
   ValidationRecord list \<times> ProblemDetails option" where
  "validateChallengeAndCAA E va ident challenge =
     (let caa = checkCAA E va ident in
      case validateChallenge E va ident challenge of
        (records, Some err) \<Rightarrow> (records, Some err)
      | (records, None) \<Rightarrow> (records, caa))"

record verificationRequestEvent =
  ev_ID :: string
  ev_Requester :: int
  ev_Hostname :: string
  ev_Records :: "ValidationRecord list"
  ev_Challenge :: Challenge
  ev_Error :: string

definition PerformValidation ::
  "va_env \<Rightarrow> ValidationAuthorityImpl \<Rightarrow> string \<Rightarrow> Challenge \<Rightarrow> Authorization \<Rightarrow>
   ValidationRecord list \<times> goerror option \<times> verificationRequestEvent" where
  "PerformValidation E va domain challenge authz =
     (case validateChallengeAndCAA E va \<lparr>id_Type = ''dns'', Value = domain\<rparr> challenge of
        (records, prob) \<Rightarrow>
          (let challenge = challenge\<lparr>ch_Records := records\<rparr>;
               prob = (if \<not> RecordsSane challenge \<and> prob = None
                       then Some (probs_ServerInternal ''Records for validation failed sanity check'') else prob);
               challenge = (case prob of
                              Some p \<Rightarrow> challenge\<lparr>ch_Status := StatusInvalid, ch_Error := Some p\<rparr>
                            | None \<Rightarrow> challenge\<lparr>ch_Status := StatusValid\<rparr>);
               logEvent = \<lparr>ev_ID = az_ID authz, ev_Requester = RegistrationID authz,
                           ev_Hostname = Value (Identifier authz), ev_Records = records, ev_Challenge = challenge,
                           ev_Error = (case prob of Some p \<Rightarrow> Error (ProblemErr p) | None \<Rightarrow> [])\<rparr>
           in (records, map_option ProblemErr prob, logEvent)))"

section \<open>Safe browsing\<close>

definition IsSafeDomain :: "ValidationAuthorityImpl \<Rightarrow> string option option \<Rightarrow> goerror + bool" where
  "IsSafeDomain va req =
     (case req of
        None \<Rightarrow> Inl ErrMissingParameters
      | Some None \<Rightarrow> Inl ErrMissingParameters
      | Some (Some domain) \<Rightarrow>
          (case safeBrowsing va of
             None \<Rightarrow> Inr True
           | Some IsListed \<Rightarrow>
               (case IsListed domain of
                  Inl ErrOutOfDateHashes \<Rightarrow> Inr True
                | Inl (SafeBrowsingError err) \<Rightarrow> Inl (OtherError err)
                | Inr l \<Rightarrow> Inr (l = []))))"

text \<open>
  The adapter of the newer client: \<open>lookupURLs\<close> gives for each URL the threats found, \<open>None\<close> for
  a nil slice.
\<close>

definition IsListed_v4 :: "(string list \<Rightarrow> string + 'threat list option list) \<Rightarrow> string \<Rightarrow> sb_error + string" where
  "IsListed_v4 lookupURLs url =
     (case lookupURLs [url] of
        Inl err \<Rightarrow> Inl (SafeBrowsingError err)
      | Inr threats \<Rightarrow>
          if length threats > 0 \<and> threats ! 0 \<noteq> None then Inr ''v4-gsb-hit'' else Inr [])"

record GoogleSafeBrowsingConfig =
  gsb_APIKey :: string
  gsb_DataDir :: string

datatype stat_result = StatOK | StatNotExist | StatError

definition configCheck :: "(string \<Rightarrow> stat_result) \<Rightarrow> GoogleSafeBrowsingConfig option \<Rightarrow> string option" where
  "configCheck stat gsb =
     (case gsb of
        None \<Rightarrow> Some ''Google Safe Browsing config was nil''
      | Some c \<Rightarrow>
          if gsb_APIKey c = []
          then Some ''a Google Safe Browsing config was given but it did not include a Google API key in APIKey''
          else if gsb_DataDir c = []
          then Some ''a Google Safe Browsing config was given but it did not include a DataDir for persistence''
          else
            (case stat (gsb_DataDir c) of
               StatOK \<Rightarrow> None
             | StatNotExist \<Rightarrow> Some ''a Google Safe Browsing data directory was given but it does not exist''
             | StatError \<Rightarrow> Some ''a Google Safe Browsing data directory was given but it cannot be opened''))"

text \<open>Both constructors: no configuration gives no client; \<open>newClient\<close> is the library's constructor.\<close>

definition newGoogleSafeBrowsing ::
  "(string \<Rightarrow> stat_result) \<Rightarrow> (GoogleSafeBrowsingConfig \<Rightarrow> string + (string \<Rightarrow> sb_error + string)) \<Rightarrow>
   GoogleSafeBrowsingConfig option \<Rightarrow> string + (string \<Rightarrow> sb_error + string) option" where
  "newGoogleSafeBrowsing stat newClient gsb =
     (case gsb of
        None \<Rightarrow> Inr None
      | Some c \<Rightarrow>
          (case configCheck stat gsb of
             Some err \<Rightarrow> Inl err
           | None \<Rightarrow> bind_result (newClient c) (\<lambda>sb. Inr (Some sb))))"

section \<open>cmd/boulder-va\<close>

record va_config =
  cfg_PortConfig :: PortConfig
  cfg_GoogleSafeBrowsing :: "GoogleSafeBrowsingConfig option"
  cfg_CAADistributedResolver :: "(int \<times> string list) option"
  cfg_DNSTries :: int
  cfg_CAASERVFAILExceptions :: string
  cfg_UserAgent :: string
  cfg_IssuerDomain :: string
  cfg_DNSResolver :: string
  cfg_DNSAllowLoopbackAddresses :: bool

text \<open>The service that \<^verbatim>\<open>main\<close> starts, or the error it exits with.\<close>

definition boulder_va ::
  "(FeatureFlag \<Rightarrow> bool) \<Rightarrow> (string \<Rightarrow> stat_result) \<Rightarrow>
   (GoogleSafeBrowsingConfig \<Rightarrow> string + (string \<Rightarrow> sb_error + string)) \<Rightarrow>
   (GoogleSafeBrowsingConfig \<Rightarrow> string + (string \<Rightarrow> sb_error + string)) \<Rightarrow>
   cdr_env \<Rightarrow> (string \<Rightarrow> string + bytes) \<Rightarrow> va_config \<Rightarrow> string + ValidationAuthorityImpl" where
  "boulder_va enabled stat newV4 newLegacy E readFile c =
     (let pc = cfg_PortConfig c;
          pc = \<lparr>HTTPPort = (if HTTPPort pc \<noteq> 0 then HTTPPort pc else 80),
                HTTPSPort = (if HTTPSPort pc \<noteq> 0 then HTTPSPort pc else 443),
                TLSPort = (if TLSPort pc \<noteq> 0 then TLSPort pc else 443)\<rparr>;
          dnsTries = (if cfg_DNSTries c < 1 then 1 else cfg_DNSTries c)
      in bind_result
           (newGoogleSafeBrowsing stat (if enabled GoogleSafeBrowsingV4 then newV4 else newLegacy)
              (cfg_GoogleSafeBrowsing c))
           (\<lambda>sbc. bind_result
              (case cfg_CAADistributedResolver c of
                 None \<Rightarrow> Inr None
               | Some (maxF, proxies) \<Rightarrow> bind_result (New_cdr E maxF proxies) (\<lambda>cdr. Inr (Some cdr)))
              (\<lambda>cdrClient. bind_result (ReadHostList (cfg_CAASERVFAILExceptions c) readFile)
                 (\<lambda>exceptions.
                    let resolver =
                      (if \<not> cfg_DNSAllowLoopbackAddresses c
                       then NewDNSResolverImpl [cfg_DNSResolver c] exceptions dnsTries
                       else NewTestDNSResolverImpl [cfg_DNSResolver c] dnsTries)
                    in Inr (NewValidationAuthorityImpl pc sbc cdrClient resolver (cfg_UserAgent c) (cfg_IssuerDomain c))))))"

end
