(* ===== verification/VaProps.thy ===== *)
theory VaProps
  imports Va
begin

text \<open>
  What the validation authority guarantees: which answers of the network a successful
  validation rests on, where it connects to, and that the concurrent CAA lookups decide as
  the tree climbing of RFC 6844.
\<close>

section \<open>CAA\<close>

text \<open>
  The relevant record set of a name: the records of the name itself or, when it has none,
  those of its closest ancestor that has some.
\<close>

fun relevant_records :: "(string \<Rightarrow> string + CAA list) \<Rightarrow> string list \<Rightarrow> string + CAA list" where
  "relevant_records lookup [] = Inr []"
| "relevant_records lookup (l # ls) =
     bind_result (lookup (join_with ''.'' (l # ls)))
       (\<lambda>rs. if rs \<noteq> [] then Inr rs else relevant_records lookup ls)"

definition known_tags :: "string list" where
  "known_tags = [''issue'', ''issuewild'', ''iodef'']"

text \<open>
  A record set permits issuance when no record with an unknown tag is critical and, if there
  are \<open>issue\<close> records, one of them names the issuer.
\<close>

definition caa_permits :: "string \<Rightarrow> CAA list \<Rightarrow> bool" where
  "caa_permits issuer rs \<longleftrightarrow>
     list_all (\<lambda>r. caa_Tag r \<in> set known_tags \<or> \<not> bit (caa_Flag r) 7 \<and> \<not> bit (caa_Flag r) 0) rs \<and>
     (list_all (\<lambda>r. caa_Tag r \<noteq> ''issue'') rs \<or>
      list_ex (\<lambda>r. caa_Tag r = ''issue'' \<and> extractIssuerDomain r = issuer) rs)"

lemma parseResults_climb:
  "parseResults (map (\<lambda>i. lookuper (join_with ''.'' (drop i labels))) [0..<length labels]) =
     bind_result (relevant_records lookuper labels)
       (\<lambda>rs. Inr (if rs = [] then None else Some (newCAASet rs)))"
proof (induction labels)
  case Nil
  then show ?case by simp
next
  case (Cons l ls)
  have "map (\<lambda>i. lookuper (join_with ''.'' (drop i (l # ls)))) [0..<length (l # ls)] =
      lookuper (join_with ''.'' (l # ls)) #
      map (\<lambda>i. lookuper (join_with ''.'' (drop i ls))) [0..<length ls]"
    by (simp add: map_Suc_upt [symmetric] upt_conv_Cons del: upt_Suc)
  with Cons show ?case by (cases "lookuper (join_with ''.'' (l # ls))") auto
qed

lemma parallel_climb:
  "parseResults (parallelCAALookup name lookuper) =
     bind_result (relevant_records lookuper (split_on (CHR ''.'') name))
       (\<lambda>rs. Inr (if rs = [] then None else Some (newCAASet rs)))"
  by (simp add: parallelCAALookup_def Let_def parseResults_climb)

lemma newCAASet_fields_aux:
  "Issue (foldl add_caa cs rs) = Issue cs @ filter (\<lambda>r. caa_Tag r = ''issue'') rs \<and>
   Unknown (foldl add_caa cs rs) = Unknown cs @ filter (\<lambda>r. caa_Tag r \<notin> set known_tags) rs"
  by (induction rs arbitrary: cs) (auto simp: add_caa_def known_tags_def)

lemma newCAASet_fields:
  "Issue (newCAASet rs) = filter (\<lambda>r. caa_Tag r = ''issue'') rs"
  "Unknown (newCAASet rs) = filter (\<lambda>r. caa_Tag r \<notin> set known_tags) rs"
  using newCAASet_fields_aux [of _ rs] by (auto simp: newCAASet_def)

lemma critical_bits: "f AND 129 = 0 \<longleftrightarrow> \<not> bit f 7 \<and> \<not> bit f 0" for f :: "8 word"
proof -
  have "f AND 129 = 0 \<longleftrightarrow> (\<forall>n < 8. \<not> bit (f AND 129) n)"
    by (auto simp: bit_eq_iff)
  also have "\<dots> \<longleftrightarrow> \<not> bit f 7 \<and> \<not> bit f 0"
    by (auto simp: bit_simps numeral_eq_Suc less_Suc_eq)
  finally show ?thesis .
qed

lemma validateCAASet_permits:
  "snd (validateCAASet va (if rs = [] then None else Some (newCAASet rs))) \<longleftrightarrow> caa_permits (issuerDomain va) rs"
  by (auto simp: validateCAASet_def caa_permits_def criticalUnknown_def newCAASet_fields critical_bits
      list_all_iff list_ex_iff filter_empty_conv)


text \<open>The decision of one resolver: the relevant record set of the name is known and permits.\<close>

definition caa_ok :: "(string \<Rightarrow> string + CAA list) \<Rightarrow> string \<Rightarrow> string \<Rightarrow> bool" where
  "caa_ok lookup issuer name \<longleftrightarrow>
     (case relevant_records lookup (split_on (CHR ''.'') name) of
        Inl _ \<Rightarrow> False | Inr rs \<Rightarrow> caa_permits issuer rs)"

lemma checkCAAInternal_iff:
  "checkCAAInternal E va ident = None \<longleftrightarrow>
     caa_ok (lookup_caa E va) (issuerDomain va) (trim_right (to_lower (Value ident)) ''.'')"
  by (auto simp: checkCAAInternal_def checkCAARecords_def getCAASet_def parallel_climb caa_ok_def go_result validateCAASet_permits prod.case_eq_if
      split: sum.splits)

lemma checkGPDNS_iff:
  "checkGPDNS E va cdr ident = None \<longleftrightarrow>
     caa_ok (\<lambda>name. LookupCAA_cdr (ve_cdr E) cdr (ve_arrival E name) name) (issuerDomain va) (Value ident)"
  by (auto simp: checkGPDNS_def parallel_climb caa_ok_def go_result validateCAASet_permits prod.case_eq_if
      split: sum.splits)

lemma checkCAAInternal_type: "checkCAAInternal E va ident = Some p \<Longrightarrow> prob_Type p = ConnectionProblem"
  by (auto simp: checkCAAInternal_def probs_defs split: sum.splits if_splits)

lemma checkCAA_iff:
  "checkCAA E va ident = None \<longleftrightarrow>
     caa_ok (lookup_caa E va) (issuerDomain va) (trim_right (to_lower (Value ident)) ''.'') \<or>
     (\<exists>cdr. caaDR va = Some cdr \<and>
        caa_ok (\<lambda>name. LookupCAA_cdr (ve_cdr E) cdr (ve_arrival E name) name) (issuerDomain va) (Value ident))"
proof (cases "checkCAAInternal E va ident")
  case None
  then show ?thesis
    using checkCAAInternal_iff [of E va ident] by (auto simp: checkCAA_def Let_def split: option.splits)
next
  case (Some p)
  then show ?thesis
    using checkCAAInternal_iff [of E va ident] checkCAAInternal_type [OF Some] checkGPDNS_iff [of E va _ ident]
    by (auto simp: checkCAA_def Let_def split: option.splits)
qed

section \<open>Where a validation connects to\<close>

definition resolved :: "va_env \<Rightarrow> ValidationAuthorityImpl \<Rightarrow> nat \<Rightarrow> ValidationRecord \<Rightarrow> bool" where
  "resolved E va n r \<longleftrightarrow>
     (\<exists>addrs. LookupHost (ve_dns E n) (dnsResolver va) (Hostname r) = Inr addrs \<and> addrs \<noteq> [] \<and>
        AddressesResolved r = map Some addrs \<and> AddressUsed r = Some (hd addrs))"

definition redirected :: "va_env \<Rightarrow> ValidationAuthorityImpl \<Rightarrow> nat \<Rightarrow> ValidationRecord \<Rightarrow> ValidationRecord \<Rightarrow> bool" where
  "redirected E va n r r' \<longleftrightarrow>
     (\<exists>u port. ve_http E n r = HttpRedirect u \<and> redirect_target u = Inr (Hostname r', port) \<and>
        Port r' = Itoa port \<and> URL r' = u_String u)"

lemma resolved_URL [simp]: "resolved E va n (r\<lparr>URL := u\<rparr>) = resolved E va n r"
  by (simp add: resolved_def)

lemma resolve_ok:
  "resolveAndConstructDialer E va n name port = (r, None) \<Longrightarrow>
     Hostname r = name \<and> Port r = Itoa port \<and> resolved E va n r"
  by (auto simp: resolveAndConstructDialer_def getAddr_def resolved_def zero_record_def Let_def hd_conv_nth
      split: sum.splits if_splits)

lemma resolve_problem:
  "resolveAndConstructDialer E va n name port = (r, Some p) \<Longrightarrow>
     Hostname r = name \<and> Port r = Itoa port \<and> AddressUsed r = None"
  by (auto simp: resolveAndConstructDialer_def getAddr_def zero_record_def Let_def
      split: sum.splits if_splits)

text \<open>
  The records of a run of the redirect loop: each new one is what the server before it
  redirected to, and is resolved unless the run failed there.
\<close>

definition redirect_chain ::
  "va_env \<Rightarrow> ValidationAuthorityImpl \<Rightarrow> nat \<Rightarrow> bool \<Rightarrow> ValidationRecord list \<Rightarrow> bool" where
  "redirect_chain E va n failed rs \<longleftrightarrow>
     (\<forall>i. n \<le> i \<and> i < length rs \<longrightarrow>
        redirected E va i (rs ! (i - 1)) (rs ! i) \<and>
        (resolved E va i (rs ! i) \<or> failed \<and> AddressUsed (rs ! i) = None))"

lemma http_loop_chain:
  "records \<noteq> [] \<Longrightarrow> http_loop E va records uh = (records', uh', res) \<Longrightarrow>
     (\<exists>xs. records' = records @ xs) \<and> length records' \<le> max maxRedirect (length records) \<and>
     redirect_chain E va (length records) (isl res) records' \<and>
     (\<forall>st b. res = Inr (st, b) \<longrightarrow> ve_http E (length records') (last records') = HttpResponse st b)"
proof (induction E va records uh arbitrary: records' uh' res rule: http_loop.induct)
  case (1 E va records uh)
  note loop = 1(3) [unfolded http_loop.simps [of E va records uh]]
  show ?case
  proof (cases "ve_http E (length records) (last records)")
    case (HttpRedirect u)
    show ?thesis
    proof (cases "length records \<ge> maxRedirect")
      case True
      with loop HttpRedirect show ?thesis by (auto simp: redirect_chain_def)
    next
      case False
      show ?thesis
      proof (cases "redirect_target u")
        case (Inl e)
        with loop HttpRedirect False show ?thesis by (auto simp: redirect_chain_def)
      next
        case (Inr t)
        obtain h p where t: "t = (h, p)" by (cases t)
        obtain r prob where r: "resolveAndConstructDialer E va (length records) h p = (r, prob)"
          by (cases "resolveAndConstructDialer E va (length records) h p")
        let ?r = "r\<lparr>URL := u_String u\<rparr>"
        have hop: "redirected E va (length records) (last records) ?r"
          using HttpRedirect Inr t r resolve_ok [of E va "length records" h p r]
            resolve_problem [of E va "length records" h p r]
          by (cases prob) (auto simp: redirected_def)
        show ?thesis
        proof (cases prob)
          case (Some pr)
          with loop HttpRedirect False Inr t r have
            "records' = records @ [?r]" "res = Inl (UrlError (OtherConnError (Error (ProblemErr pr))))"
            by (auto simp: Let_def)
          with hop False resolve_problem [of E va "length records" h p r] r Some 1(2) show ?thesis
            by (auto simp: redirect_chain_def nth_append less_Suc_eq last_conv_nth)
        next
          case None
          with loop HttpRedirect False Inr t r have
            rec: "http_loop E va (records @ [?r]) (u_Host u) = (records', uh', res)"
            by (simp add: Let_def)
          from 1(1) [OF HttpRedirect False Inr t [symmetric] r [symmetric] refl None _ rec]
          have ih: "\<exists>xs. records' = (records @ [?r]) @ xs" "length records' \<le> max maxRedirect (length records + 1)"
            "redirect_chain E va (Suc (length records)) (isl res) records'"
            "\<forall>st b. res = Inr (st, b) \<longrightarrow> ve_http E (length records') (last records') = HttpResponse st b"
            by auto
          have at: "records' ! length records = ?r" "records' ! (length records - 1) = last records"
            using ih(1) 1(2) by (auto simp: nth_append last_conv_nth)
          have "redirect_chain E va (length records) (isl res) records'"
            unfolding redirect_chain_def
          proof (intro allI impI)
            fix i assume i: "length records \<le> i \<and> i < length records'"
            show "redirected E va i (records' ! (i - 1)) (records' ! i) \<and>
              (resolved E va i (records' ! i) \<or> isl res \<and> AddressUsed (records' ! i) = None)"
            proof (cases "i = length records")
              case True
              with at hop resolve_ok [of E va "length records" h p r] r None show ?thesis by simp
            next
              case False
              with i ih(3) show ?thesis by (auto simp: redirect_chain_def)
            qed
          qed
          with ih False show ?thesis by auto
        qed
      qed
    qed
  qed (use loop in \<open>auto simp: redirect_chain_def\<close>)
qed

section \<open>Evidence of control\<close>

definition first_url :: "ValidationAuthorityImpl \<Rightarrow> string \<Rightarrow> Challenge \<Rightarrow> string" where
  "first_url va domain challenge =
     url_String ''http'' (if httpPort va = 80 then domain else JoinHostPort domain (Itoa (httpPort va)))
       (''.well-known/acme-challenge/'' @ Token challenge)"

text \<open>
  HTTP: the server that the domain's address leads to, directly or through redirects each
  given by the server before, answers with the key authorization.
\<close>

definition http_evidence ::
  "va_env \<Rightarrow> ValidationAuthorityImpl \<Rightarrow> string \<Rightarrow> Challenge \<Rightarrow> ValidationRecord list \<Rightarrow> bool" where
  "http_evidence E va domain challenge rs \<longleftrightarrow>
     rs \<noteq> [] \<and> length rs \<le> maxRedirect \<and> Hostname (rs ! 0) = domain \<and> Port (rs ! 0) = Itoa (httpPort va) \<and>
     URL (rs ! 0) = first_url va domain challenge \<and> resolved E va 0 (rs ! 0) \<and>
     redirect_chain E va 1 False rs \<and>
     (\<exists>body. ve_http E (length rs) (last rs) = HttpResponse 200 (Inr body) \<and> length body < maxResponseSize \<and>
        trim_right body whitespaceCutset = ProvidedKeyAuthorization challenge)"

text \<open>TLS: the server at the domain's address presents a certificate for the computed name.\<close>

definition tls_evidence ::
  "va_env \<Rightarrow> ValidationAuthorityImpl \<Rightarrow> string \<Rightarrow> string \<Rightarrow> (string list \<Rightarrow> bool) \<Rightarrow> ValidationRecord list \<Rightarrow> bool" where
  "tls_evidence E va domain zName P rs \<longleftrightarrow>
     (\<exists>r cert certs. rs = [r] \<and> Hostname r = domain \<and> Port r = Itoa (tlsPort va) \<and> resolved E va 0 r \<and>
        ve_tls E (JoinHostPort (ve_ipString E (AddressUsed r)) (Port r)) zName = Inr (cert # certs) \<and>
        P (x_DNSNames cert))"

text \<open>DNS: the challenge's subdomain has a TXT record with the digest of the key authorization.\<close>

definition dns_evidence :: "va_env \<Rightarrow> ValidationAuthorityImpl \<Rightarrow> string \<Rightarrow> Challenge \<Rightarrow> bool" where
  "dns_evidence E va domain challenge \<longleftrightarrow>
     (\<exists>txts authorities. LookupTXT (ve_dnsTXT E) (dnsResolver va) (''_acme-challenge.'' @ domain) = Inr (txts, authorities) \<and>
        raw_url_encode (ve_sha256 E (ProvidedKeyAuthorization challenge)) \<in> set txts)"

definition control_evidence ::
  "va_env \<Rightarrow> ValidationAuthorityImpl \<Rightarrow> string \<Rightarrow> Challenge \<Rightarrow> ValidationRecord list \<Rightarrow> bool" where
  "control_evidence E va domain challenge rs \<longleftrightarrow>
     (let key_auth = ProvidedKeyAuthorization challenge in
      ch_Type challenge = ''http-01'' \<and> http_evidence E va domain challenge rs \<or>
      ch_Type challenge = ''tls-sni-01'' \<and>
        (let z = sni_name E key_auth TLSSNISuffix in tls_evidence E va domain z (\<lambda>names. z \<in> set names) rs) \<or>
      ch_Type challenge = ''tls-sni-02'' \<and>
        (let a = sni_name E (Token challenge) (''token.'' @ TLSSNISuffix);
             b = sni_name E key_auth (''ka.'' @ TLSSNISuffix)
         in tls_evidence E va domain a (\<lambda>names. length names = 2 \<and> a \<in> set names \<and> b \<in> set names) rs) \<or>
      ch_Type challenge = ''dns-01'' \<and> dns_evidence E va domain challenge)"

lemma fetchHTTP_success:
  assumes "fetchHTTP E va ident path False = (rs, Inr body)"
  defines "host \<equiv> Value ident"
  shows "rs \<noteq> [] \<and> length rs \<le> maxRedirect \<and> Hostname (rs ! 0) = host \<and> Port (rs ! 0) = Itoa (httpPort va) \<and>
    URL (rs ! 0) = url_String ''http'' (if httpPort va = 80 then host else JoinHostPort host (Itoa (httpPort va))) path \<and>
    resolved E va 0 (rs ! 0) \<and> redirect_chain E va 1 False rs \<and>
    ve_http E (length rs) (last rs) = HttpResponse 200 (Inr body) \<and> length body < maxResponseSize"
proof -
  define uh where "uh = (if httpPort va = 80 then host else JoinHostPort host (Itoa (httpPort va)))"
  obtain r prob where r: "resolveAndConstructDialer E va 0 host (httpPort va) = (r, prob)"
    by (cases "resolveAndConstructDialer E va 0 host (httpPort va)")
  let ?r = "r\<lparr>URL := url_String ''http'' uh path\<rparr>"
  obtain records uh' res where l: "http_loop E va [?r] uh = (records, uh', res)"
    by (cases "http_loop E va [?r] uh")
  have "prob = None \<and> rs = records \<and> (\<exists>full. res = Inr (200, Inr full) \<and> take maxResponseSize full = body \<and>
      length body < maxResponseSize)"
    using assms(1) r l unfolding fetchHTTP_def host_def [symmetric]
    by (auto simp: Let_def uh_def split: if_splits option.splits sum.splits)
  then obtain full where ok: "prob = None" "rs = records" "res = Inr (200, Inr full)"
    "take maxResponseSize full = body" "length body < maxResponseSize" by blast
  then have "full = body" by (metis length_take min_less_iff_conj not_less order_refl take_all)
  moreover obtain xs where "records = ?r # xs" using http_loop_chain [OF _ l] by auto
  moreover have "maxRedirect = 10" by (simp add: maxRedirect_def)
  ultimately show ?thesis
    using http_loop_chain [OF _ l] ok resolve_ok [OF r [unfolded ok(1)]] by (auto simp: uh_def)
qed

lemma validateHTTP01_success:
  "validateHTTP01 E va \<lparr>id_Type = t, Value = domain\<rparr> challenge = (rs, None) \<Longrightarrow>
     http_evidence E va domain challenge rs"
  by (auto simp: validateHTTP01_def http_evidence_def first_url_def Let_def
      dest: fetchHTTP_success split: if_splits sum.splits prod.splits)

lemma getAddr_ok:
  "getAddr E va n h = (addr, alls, None) \<Longrightarrow>
     \<exists>addrs. LookupHost (ve_dns E n) (dnsResolver va) h = Inr addrs \<and> addrs \<noteq> [] \<and>
        alls = map Some addrs \<and> addr = Some (hd addrs)"
  by (auto simp: getAddr_def hd_conv_nth split: sum.splits if_splits)

lemma getTLSSNICerts_ok:
  "getTLSSNICerts E hp ch z = Inr certs \<Longrightarrow> ve_tls E hp z = Inr certs \<and> certs \<noteq> []"
  by (auto simp: getTLSSNICerts_def split: sum.splits if_splits)

lemma validateTLSSNI01_success:
  assumes "validateTLSSNI01WithZName E va \<lparr>id_Type = t, Value = domain\<rparr> challenge z = (rs, None)"
  shows "tls_evidence E va domain z (\<lambda>names. z \<in> set names) rs"
  using assms
  by (fastforce simp: validateTLSSNI01WithZName_def tls_evidence_def Let_def zero_record_def resolved_def list_ex_iff
      neq_Nil_conv dest!: getAddr_ok getTLSSNICerts_ok split: if_splits sum.splits prod.splits option.splits)

lemma validateTLSSNI02_success:
  assumes "validateTLSSNI02WithZNames E va \<lparr>id_Type = t, Value = domain\<rparr> challenge a b = (rs, None)"
  shows "tls_evidence E va domain a (\<lambda>names. length names = 2 \<and> a \<in> set names \<and> b \<in> set names) rs"
  using assms
  by (fastforce simp: validateTLSSNI02WithZNames_def tls_evidence_def Let_def zero_record_def resolved_def list_ex_iff
      neq_Nil_conv dest!: getAddr_ok getTLSSNICerts_ok split: if_splits sum.splits prod.splits option.splits)

lemma validateDNS01_success:
  "validateDNS01 E va \<lparr>id_Type = t, Value = domain\<rparr> challenge = (rs, None) \<Longrightarrow> dns_evidence E va domain challenge"
  by (auto simp: validateDNS01_def dns_evidence_def DNSPrefix_def Let_def list_ex_iff
      split: if_splits sum.splits)

lemma validateChallenge_success:
  assumes "validateChallenge E va \<lparr>id_Type = t, Value = domain\<rparr> challenge = (rs, None)"
  shows "IsSaneForValidation challenge \<and> control_evidence E va domain challenge rs"
  using assms
  by (auto simp: validateChallenge_def control_evidence_def Let_def challenge_types validateTLSSNI01_def
      validateTLSSNI02_def split: if_splits
      dest: validateHTTP01_success validateTLSSNI01_success validateTLSSNI02_success validateDNS01_success)

lemma PerformValidation_success:
  assumes "PerformValidation E va domain challenge authz = (rs, None, ev)"
  shows "validateChallenge E va \<lparr>id_Type = ''dns'', Value = domain\<rparr> challenge = (rs, None)"
    "checkCAA E va \<lparr>id_Type = ''dns'', Value = domain\<rparr> = None"
    "RecordsSane (challenge\<lparr>ch_Records := rs\<rparr>)"
  using assms
  by (auto simp: PerformValidation_def validateChallengeAndCAA_def Let_def split: prod.splits option.splits if_splits)

section \<open>Every connection is to a public address\<close>

text \<open>A record without an address, or with an empty one, is of a host that was not resolved.\<close>

definition safe_record :: "ValidationRecord \<Rightarrow> bool" where
  "safe_record r = (case AddressUsed r of None \<Rightarrow> True | Some ip \<Rightarrow> ip = [] \<or> public_ip ip)"

lemma LookupHost_public:
  "LookupHost exch res h = Inr addrs \<Longrightarrow> \<not> allowRestrictedAddresses res \<Longrightarrow> ip \<in> set addrs \<Longrightarrow> public_ip ip"
  using LookupHost_set by blast

lemma resolved_safe:
  assumes "resolved E va n r" "\<not> allowRestrictedAddresses (dnsResolver va)"
  shows "safe_record r"
proof -
  obtain addrs where "LookupHost (ve_dns E n) (dnsResolver va) (Hostname r) = Inr addrs" "addrs \<noteq> []"
    "AddressUsed r = Some (hd addrs)" using assms(1) by (auto simp: resolved_def)
  with LookupHost_public [OF _ assms(2)] show ?thesis by (auto simp: safe_record_def)
qed

lemma fetchHTTP_records:
  assumes "fetchHTTP E va ident path tls = (rs, res)" "\<not> allowRestrictedAddresses (dnsResolver va)"
  shows "length rs \<le> maxRedirect \<and> list_all safe_record rs"
proof -
  define port where "port = (if tls then httpsPort va else httpPort va)"
  obtain r prob where r: "resolveAndConstructDialer E va 0 (Value ident) port = (r, prob)"
    by (cases "resolveAndConstructDialer E va 0 (Value ident) port")
  have safe0: "safe_record (r\<lparr>URL := u\<rparr>)" for u
  proof (cases prob)
    case None
    with r have "resolved E va 0 (r\<lparr>URL := u\<rparr>)" using resolve_ok by auto
    then show ?thesis using assms(2) by (rule resolved_safe)
  next
    case (Some p)
    with r show ?thesis using resolve_problem by (auto simp: safe_record_def)
  qed
  have ten: "maxRedirect = 10" by (simp add: maxRedirect_def)
  have "rs = [] \<or> (\<exists>u uh uh' res'. rs = [r\<lparr>URL := u\<rparr>] \<or> http_loop E va [r\<lparr>URL := u\<rparr>] uh = (rs, uh', res'))"
    using assms(1) r unfolding fetchHTTP_def port_def
    by (auto simp: Let_def split: if_splits option.splits sum.splits prod.splits)
  then consider "rs = []" | u where "rs = [r\<lparr>URL := u\<rparr>]"
    | u uh uh' res' where "http_loop E va [r\<lparr>URL := u\<rparr>] uh = (rs, uh', res')" by blast
  then show ?thesis
  proof cases
    case 3
    note c = http_loop_chain [OF _ 3, simplified]
    have "safe_record (rs ! i)" if "i < length rs" for i
    proof (cases i)
      case 0
      with c safe0 show ?thesis by (auto simp: nth_append)
    next
      case (Suc j)
      with c that have "resolved E va i (rs ! i) \<or> AddressUsed (rs ! i) = None"
        by (auto simp: redirect_chain_def)
      then show ?thesis using resolved_safe assms(2) by (auto simp: safe_record_def)
    qed
    with c show ?thesis by (auto simp: list_all_length ten)
  qed (use safe0 ten in simp_all)
qed

lemma getAddr_safe:
  assumes "getAddr E va n h = (addr, alls, prob)" "\<not> allowRestrictedAddresses (dnsResolver va)" "AddressUsed r = addr"
  shows "safe_record r"
proof (cases prob)
  case None
  with assms(1) obtain addrs where "LookupHost (ve_dns E n) (dnsResolver va) h = Inr addrs" "addrs \<noteq> []"
    "addr = Some (hd addrs)" using getAddr_ok by blast
  with assms(2,3) LookupHost_public [of "ve_dns E n" "dnsResolver va" h addrs "hd addrs"] show ?thesis
    by (simp add: safe_record_def)
next
  case (Some p)
  with assms(1) have "addr = Some []" by (auto simp: getAddr_def split: sum.splits if_splits)
  with assms(3) show ?thesis by (simp add: safe_record_def)
qed

lemma validateChallenge_records:
  assumes "validateChallenge E va ident challenge = (rs, prob)" "\<not> allowRestrictedAddresses (dnsResolver va)"
  shows "length rs \<le> maxRedirect \<and> list_all safe_record rs"
proof -
  have ten: "maxRedirect = 10" by (simp add: maxRedirect_def)
  have http: "length rs \<le> maxRedirect \<and> list_all safe_record rs"
    if "validateHTTP01 E va ident challenge = (rs, prob)" for rs prob
    using that fetchHTTP_records [OF _ assms(2)]
    by (fastforce simp: validateHTTP01_def Let_def split: if_splits sum.splits prod.splits)
  have sni1: "length rs = 1 \<and> list_all safe_record rs"
    if "validateTLSSNI01WithZName E va ident challenge z = (rs, prob)" for rs prob z
    using that getAddr_safe [OF _ assms(2)]
    by (fastforce simp: validateTLSSNI01WithZName_def Let_def split: if_splits sum.splits prod.splits option.splits)
  have sni2: "length rs = 1 \<and> list_all safe_record rs"
    if "validateTLSSNI02WithZNames E va ident challenge a b = (rs, prob)" for rs prob a b
    using that getAddr_safe [OF _ assms(2)]
    by (fastforce simp: validateTLSSNI02WithZNames_def Let_def split: if_splits sum.splits prod.splits option.splits)
  have dns: "length rs \<le> 1 \<and> list_all safe_record rs"
    if "validateDNS01 E va ident challenge = (rs, prob)" for rs prob
    using that
    by (auto simp: validateDNS01_def Let_def zero_record_def safe_record_def split: if_splits sum.splits prod.splits)
  show ?thesis
    using assms(1) http sni1 sni2 dns ten
    by (fastforce simp: validateChallenge_def validateTLSSNI01_def validateTLSSNI02_def split: if_splits)
qed

lemma PerformValidation_records:
  "PerformValidation E va domain challenge authz = (rs, err, ev) \<Longrightarrow>
     \<exists>prob. validateChallenge E va \<lparr>id_Type = ''dns'', Value = domain\<rparr> challenge = (rs, prob)"
  by (auto simp: PerformValidation_def validateChallengeAndCAA_def Let_def split: prod.splits option.splits)

section \<open>A concrete validation\<close>

text \<open>An HTTP challenge for \<^verbatim>\<open>a.com\<close>, answered at the first try.\<close>

definition sample_va :: ValidationAuthorityImpl where
  "sample_va = NewValidationAuthorityImpl \<lparr>HTTPPort = 80, HTTPSPort = 443, TLSPort = 443\<rparr> None None
     sample_resolver ''agent'' ''ca.com''"

definition sample_word :: string where
  "sample_word = replicate 43 (CHR ''a'')"

definition sample_key_auth :: string where
  "sample_key_auth = sample_word @ ''.'' @ sample_word"

definition sample_http_challenge :: Challenge where
  "sample_http_challenge =
     \<lparr>ch_ID = 1, ch_Type = ''http-01'', ch_Status = StatusPending, ch_Error = None, URI = [], Token = sample_word,
      ProvidedKeyAuthorization = sample_key_auth, ch_Records = []\<rparr>"

definition sample_va_env :: va_env where
  "sample_va_env =
     \<lparr>ve_dns = (\<lambda>_. sample_answers [TypeA \<mapsto> [RR_A ip_public]]), ve_dnsTXT = sample_answers Map.empty,
      ve_dnsCAA = sample_answers [TypeCAA \<mapsto> []], ve_cdr = sample_cdr_env, ve_arrival = (\<lambda>_. [0, 1]),
      ve_newRequest = (\<lambda>_. True), ve_http = (\<lambda>_ _. HttpResponse 200 (Inr sample_key_auth)),
      ve_tls = (\<lambda>_ _. Inr []), ve_ipString = (\<lambda>_. ''93.184.216.34''), ve_rcodeToString = (\<lambda>_. []),
      ve_typeToString = (\<lambda>_. []), ve_sha256 = (\<lambda>b. b)\<rparr>"

definition sample_authz_va :: Authorization where
  "sample_authz_va =
     \<lparr>az_ID = ''id'', Identifier = \<lparr>id_Type = ''dns'', Value = ''a.com''\<rparr>, RegistrationID = 1, az_Status = StatusPending,
      az_Expires = None, Challenges = [sample_http_challenge], Combinations = [[0]]\<rparr>"

lemma sample_lookup_host: "LookupHost (sample_answers [TypeA \<mapsto> [RR_A ip_public]]) sample_resolver h = Inr [ip_public]"
proof -
  have r: "\<not> allowRestrictedAddresses sample_resolver" by (simp add: sample_resolver_def)
  have "lookupIP (sample_answers [TypeA \<mapsto> [RR_A ip_public]]) sample_resolver h TypeA = Inr [RR_A ip_public]"
    by (simp add: lookupIP_def sample_exchange)
  moreover have "\<exists>e. lookupIP (sample_answers [TypeA \<mapsto> [RR_A ip_public]]) sample_resolver h TypeAAAA = Inl e"
    by (simp add: lookupIP_def sample_exchange TypeA_def TypeAAAA_def)
  moreover have "usable_A sample_resolver (RR_A ip_public) = Some ip_public"
    using r by (simp add: usable_A_iff public_ip_def sample_addresses To4_def reserved_v4_def)
  ultimately show ?thesis by (auto simp: LookupHost_def map_filter_simps)
qed

lemma sample_sane: "IsSaneForValidation sample_http_challenge"
proof -
  have "LooksLikeAToken sample_word"
    by (simp add: LooksLikeAToken_def sample_word_def word_char_def list_all_iff)
  then show ?thesis
    using looksLikeKeyAuthorization_iff [of sample_key_auth]
    by (auto simp: IsSaneForValidation_def IsSane_def sample_http_challenge_def sample_key_auth_def)
qed

lemma trim_right_id: "s \<noteq> [] \<Longrightarrow> last s \<notin> set cutset \<Longrightarrow> trim_right s cutset = s"
  by (cases s rule: rev_cases) (auto simp: trim_right_def)

lemma sample_trim: "trim_right sample_key_auth whitespaceCutset = sample_key_auth"
  by (rule trim_right_id) (simp_all add: sample_key_auth_def sample_word_def whitespaceCutset_def)

lemma sample_va_fields [simp]:
  "dnsResolver sample_va = sample_resolver" "httpPort sample_va = 80" "caaDR sample_va = None"
  "issuerDomain sample_va = ''ca.com''"
  by (simp_all add: sample_va_def NewValidationAuthorityImpl_def)

lemma sample_va_env_fields [simp]:
  "ve_dns sample_va_env n = sample_answers [TypeA \<mapsto> [RR_A ip_public]]"
  "ve_dnsCAA sample_va_env = sample_answers [TypeCAA \<mapsto> []]" "ve_newRequest sample_va_env u"
  "ve_http sample_va_env n r = HttpResponse 200 (Inr sample_key_auth)"
  by (simp_all add: sample_va_env_def)

lemma sample_http:
  "\<exists>r. validateHTTP01 sample_va_env sample_va \<lparr>id_Type = ''dns'', Value = ''a.com''\<rparr> sample_http_challenge = ([r], None) \<and>
     URL r \<noteq> [] \<and> Hostname r = ''a.com'' \<and> Port r \<noteq> [] \<and> AddressUsed r \<noteq> None \<and> AddressesResolved r \<noteq> []"
proof -
  have len: "length sample_key_auth = 87" by (simp add: sample_key_auth_def sample_word_def)
  have "Itoa 80 \<noteq> []" by (simp add: Itoa_def)
  then show ?thesis
    using len
    by (simp add: validateHTTP01_def fetchHTTP_def IdentifierDNS_def Let_def resolveAndConstructDialer_def getAddr_def
        sample_lookup_host http_loop.simps maxResponseSize_def sample_trim)
      (simp add: sample_http_challenge_def zero_record_def url_String_def Let_def)
qed

lemma sample_caa_ok: "checkCAA sample_va_env sample_va \<lparr>id_Type = ''dns'', Value = ''a.com''\<rparr> = None"
proof -
  have none: "lookup_caa sample_va_env sample_va name = Inr []" for name
    by (simp add: lookup_caa_def LookupCAA_def sample_exchange RcodeSuccess_def RcodeServerFailure_def map_filter_simps)
  have "relevant_records (lookup_caa sample_va_env sample_va) labels = Inr []" for labels
    by (induction labels) (simp_all add: none)
  then show ?thesis by (simp add: checkCAA_iff caa_ok_def caa_permits_def)
qed

lemma sample_validation:
  "\<exists>rs ev. PerformValidation sample_va_env sample_va ''a.com'' sample_http_challenge sample_authz_va = (rs, None, ev)"
proof -
  obtain r where r: "validateHTTP01 sample_va_env sample_va \<lparr>id_Type = ''dns'', Value = ''a.com''\<rparr> sample_http_challenge = ([r], None)"
    "URL r \<noteq> []" "Hostname r = ''a.com''" "Port r \<noteq> []" "AddressUsed r \<noteq> None" "AddressesResolved r \<noteq> []"
    using sample_http by blast
  have t: "ch_Type sample_http_challenge = ChallengeTypeHTTP01"
    by (simp add: sample_http_challenge_def ChallengeTypeHTTP01_def)
  with r(1) sample_sane sample_caa_ok
  have "validateChallengeAndCAA sample_va_env sample_va \<lparr>id_Type = ''dns'', Value = ''a.com''\<rparr> sample_http_challenge = ([r], None)"
    by (simp add: validateChallengeAndCAA_def validateChallenge_def Let_def)
  moreover have "RecordsSane (sample_http_challenge\<lparr>ch_Records := [r]\<rparr>)"
    using r t by (simp add: RecordsSane_def)
  ultimately show ?thesis by (simp add: PerformValidation_def Let_def)
qed

section \<open>Properties\<close>





text \<open>
  C12: The CAA check, which asks for all ancestors of the name at once, decides as the tree
  climbing of RFC 6844: the records of the closest ancestor that has any count, and they
  permit issuance exactly when no unknown tag is critical and the issuer is named if any
  issuer is. When that check does not pass, for whatever reason, and a distributed resolver
  is configured, the decision is the distributed resolver's alone.
\<close>

theorem caa_check_iff:
  "checkCAA E va ident = None \<longleftrightarrow>
     caa_ok (lookup_caa E va) (issuerDomain va) (trim_right (to_lower (Value ident)) ''.'') \<or>
     (\<exists>cdr. caaDR va = Some cdr \<and>
        caa_ok (\<lambda>name. LookupCAA_cdr (ve_cdr E) cdr (ve_arrival E name) name) (issuerDomain va) (Value ident))"
  by (rule checkCAA_iff)

end
