(* ===== verification/Sa.thy ===== *)
theory Sa
  imports SaModel
begin

text \<open>
  The storage authority's operations (\<^verbatim>\<open>sa/sa.go\<close>, \<^verbatim>\<open>sa/authz.go\<close>). An operation takes the
  environment of its database calls and the database, and returns its result with, when it
  writes, the new database.
\<close>

section \<open>Helpers\<close>

definition statusIsPending :: "AcmeStatus \<Rightarrow> bool" where
  "statusIsPending status =
     (status = StatusPending \<or> status = StatusProcessing \<or> status = StatusUnknown)"

text \<open>The error of the counting query is dropped, which leaves the count at 0.\<close>

definition existingPending :: "sa_env \<Rightarrow> database \<Rightarrow> string \<Rightarrow> bool" where
  "existingPending E db aid =
     (fault E (DbSelect ''count pendingAuthorizations'') = None \<and>
      list_ex (\<lambda>r. ar_ID r = aid) (pendingAuthorizations db))"

definition existingFinal :: "sa_env \<Rightarrow> database \<Rightarrow> string \<Rightarrow> bool" where
  "existingFinal E db aid =
     (fault E (DbSelect ''count authz'') = None \<and> list_ex (\<lambda>r. ar_ID r = aid) (authz_table db))"

definition existingRegistration :: "sa_env \<Rightarrow> database \<Rightarrow> int \<Rightarrow> bool" where
  "existingRegistration E db rid =
     (fault E (DbSelect ''count registrations'') = None \<and>
      list_ex (\<lambda>r. rm_ID r = rid) (registrations db))"

definition challenges_of :: "database \<Rightarrow> string \<Rightarrow> challModel list" where
  "challenges_of db aid = sort_key cm_ID (filter (\<lambda>c. cm_AuthorizationID c = aid) (challenges db))"

definition update_challenge :: "sa_env \<Rightarrow> nat \<Rightarrow> challModel \<Rightarrow> database \<Rightarrow> goerror + database" where
  "update_challenge E i chall db =
     bind_result
       (update_rows (db_fault E (DbUpdate ''challenges'' i)) (cm_LockCol chall)
          (\<lambda>r. cm_ID r = cm_ID chall \<and> cm_LockCol r = bind_version (cm_LockCol chall))
          (\<lambda>_. chall\<lparr>cm_LockCol := cm_LockCol chall + 1\<rparr>) (challenges db))
       (\<lambda>(rows, _). Inr (db\<lparr>challenges := rows\<rparr>))"

fun update_challenges_from ::
  "sa_env \<Rightarrow> nat \<Rightarrow> challModel list \<Rightarrow> Challenge list \<Rightarrow> database \<Rightarrow> goerror + database" where
  "update_challenges_from E i (row # rows) (authChall # rest) db =
     bind_result (challengeToModel E authChall (cm_AuthorizationID row)) (\<lambda>chall.
       bind_result (update_challenge E i (chall\<lparr>cm_ID := cm_ID row\<rparr>) db) (\<lambda>db.
         update_challenges_from E (Suc i) rows rest db))"
| "update_challenges_from E i _ _ db = Inr db"

definition updateChallenges ::
  "sa_env \<Rightarrow> string \<Rightarrow> Challenge list \<Rightarrow> database \<Rightarrow> goerror + database" where
  "updateChallenges E authID chs db =
     (case db_fault E (DbSelect ''challenges'') of
        Some err \<Rightarrow> Inl err
      | None \<Rightarrow>
          (let challs = challenges_of db authID in
           if length challs \<noteq> length chs
           then Inl (OtherError ''Invalid number of challenges provided'')
           else update_challenges_from E 0 challs chs db))"

section \<open>Registrations\<close>

definition reg_not_found :: "int \<Rightarrow> goerror" where
  "reg_not_found rid =
     BoulderError NotFound (''registration with ID '' @ apos @ Itoa rid @ apos @ '' not found'')"

definition GetRegistration :: "sa_env \<Rightarrow> database \<Rightarrow> int \<Rightarrow> goerror + Registration" where
  "GetRegistration E db rid =
     (case select_one (db_fault E (DbSelect ''registrations'')) (\<lambda>r. rm_ID r = rid)
             (registrations db) of
        Inl err \<Rightarrow> if err = ErrNoRows then Inl (reg_not_found rid) else Inl err
      | Inr model \<Rightarrow> modelToRegistration E model)"

definition GetRegistrationByKey ::
  "sa_env \<Rightarrow> database \<Rightarrow> JsonWebKey option \<Rightarrow> goerror + Registration" where
  "GetRegistrationByKey E db key =
     (case key of
        None \<Rightarrow> Inl (OtherError ''key argument to GetRegistrationByKey must not be nil'')
      | Some k \<Rightarrow>
          (case KeyDigest (sha256 E) (marshalPKIX E) (RawKey (jwk_Key k)) of
             Inl err \<Rightarrow> Inl (OtherError err)
           | Inr sha \<Rightarrow>
               (case select_one (db_fault E (DbSelect ''registrations''))
                       (\<lambda>r. rm_KeySHA256 r = sha) (registrations db) of
                  Inl err \<Rightarrow>
                    if err = ErrNoRows
                    then Inl (BoulderError NotFound
                           (''no registrations with public key sha256 '' @ quote sha))
                    else Inl err
                | Inr model \<Rightarrow> modelToRegistration E model)))"

text \<open>
  The registrations table has unique ids and unique key digests; its IP column is not null.
\<close>

definition reg_clash :: "regModel \<Rightarrow> regModel \<Rightarrow> bool" where
  "reg_clash a b = (rm_ID a = rm_ID b \<or> rm_KeySHA256 a = rm_KeySHA256 b)"

definition null_ip :: "regModel \<Rightarrow> goerror option" where
  "null_ip rm = (if rm_InitialIP rm = None
     then Some (OtherError (''Error 1048: Column '' @ apos @ ''initialIP'' @ apos @ '' cannot be null''))
     else None)"

definition NewRegistration_sa ::
  "sa_env \<Rightarrow> database \<Rightarrow> Registration \<Rightarrow> database \<times> (goerror + Registration)" where
  "NewRegistration_sa E db reg =
     (let reg = reg\<lparr>CreatedAt := now E\<rparr> in
      case registrationToModel E reg of
        Inl err \<Rightarrow> (db, Inl err)
      | Inr rm \<Rightarrow>
          (case null_ip rm of
             Some err \<Rightarrow> (db, Inl err)
           | None \<Rightarrow>
               (let rm = rm\<lparr>rm_ID := next_reg_id db, rm_LockCol := 1\<rparr> in
                case insert_row (db_fault E (DbInsert ''registrations'' 0)) reg_clash rm
                       (registrations db) of
                  Inl err \<Rightarrow> (db, Inl err)
                | Inr rows \<Rightarrow>
                    (db\<lparr>registrations := rows, next_reg_id := next_reg_id db + 1\<rparr>,
                     modelToRegistration E rm))))"

text \<open>
  \<^verbatim>\<open>UpdateRegistration\<close> reads the row's version and writes the row in two separate statements:
  \<open>db0\<close> is the database the read sees, \<open>db\<close> the one the write runs on. An error of the read
  other than a missing row is overwritten, and the version is then that of the zero model.
  Without \<open>AllowAccountDeactivation\<close> the status column is not written.
\<close>

definition write_registration ::
  "sa_env \<Rightarrow> database \<Rightarrow> regModel \<Rightarrow> goerror + database \<times> nat" where
  "write_registration E db urm =
     (case null_ip urm of
        Some err \<Rightarrow> Inl err
      | None \<Rightarrow>
          (let match = (\<lambda>r. rm_ID r = rm_ID urm \<and> rm_LockCol r = bind_version (rm_LockCol urm)) in
           if list_ex match (registrations db) \<and>
              list_ex (\<lambda>r. rm_ID r \<noteq> rm_ID urm \<and> rm_KeySHA256 r = rm_KeySHA256 urm) (registrations db) \<and>
              db_fault E (DbUpdate ''registrations'' 0) = None
           then Inl (OtherError dup_entry)
           else
             bind_result
               (update_rows (db_fault E (DbUpdate ''registrations'' 0)) (rm_LockCol urm) match
                  (\<lambda>r. urm\<lparr>rm_LockCol := rm_LockCol urm + 1,
                           rm_Status := (if feat E AllowAccountDeactivation then rm_Status urm
                                         else rm_Status r)\<rparr>)
                  (registrations db))
               (\<lambda>(rows, n). Inr (db\<lparr>registrations := rows\<rparr>, n))))"

definition UpdateRegistration_sa ::
  "sa_env \<Rightarrow> database \<Rightarrow> database \<Rightarrow> Registration \<Rightarrow> database \<times> (goerror + unit)" where
  "UpdateRegistration_sa E db0 db reg =
     (let sel = select_one (db_fault E (DbSelect ''registrations'')) (\<lambda>r. rm_ID r = reg_ID reg)
                  (registrations db0) in
      if sel = Inl ErrNoRows then (db, Inl (reg_not_found (reg_ID reg)))
      else
        (case registrationToModel E reg of
           Inl err \<Rightarrow> (db, Inl err)
         | Inr urm \<Rightarrow>
             (let erm_LockCol = (case sel of Inl _ \<Rightarrow> 0 | Inr erm \<Rightarrow> rm_LockCol erm) in
              case write_registration E db (urm\<lparr>rm_LockCol := erm_LockCol\<rparr>) of
                Inl err \<Rightarrow> (db, Inl err)
              | Inr (db', n) \<Rightarrow>
                  if n = 0 then (db', Inl (reg_not_found (reg_ID reg))) else (db', Inr ()))))"

definition DeactivateRegistration_sa ::
  "sa_env \<Rightarrow> database \<Rightarrow> int \<Rightarrow> database \<times> (goerror + unit)" where
  "DeactivateRegistration_sa E db rid =
     (case db_fault E (DbExec ''registrations'') of
        Some err \<Rightarrow> (db, Inl err)
      | None \<Rightarrow>
          (db\<lparr>registrations := map (\<lambda>r. if rm_Status r = StatusValid \<and> rm_ID r = rid
                                       then r\<lparr>rm_Status := StatusDeactivated\<rparr> else r)
                (registrations db)\<rparr>, Inr ()))"

section \<open>Authorizations\<close>

definition select_authz :: "sa_env \<Rightarrow> database \<Rightarrow> string \<Rightarrow> goerror + authzRow" where
  "select_authz E db aid =
     (case select_one (db_fault E (DbSelect ''pendingAuthorizations'')) (\<lambda>r. ar_ID r = aid)
             (pendingAuthorizations db) of
        Inr pa \<Rightarrow> Inr pa
      | Inl err \<Rightarrow>
          if err \<noteq> ErrNoRows then Inl err
          else
            (case select_one (db_fault E (DbSelect ''authz'')) (\<lambda>r. ar_ID r = aid) (authz_table db) of
               Inr fa \<Rightarrow> Inr fa
             | Inl err \<Rightarrow>
                 if err = ErrNoRows
                 then Inl (OtherError (''No pendingAuthorization or authz with ID '' @ aid))
                 else Inl err))"

definition GetAuthorization :: "sa_env \<Rightarrow> database \<Rightarrow> string \<Rightarrow> goerror + Authorization" where
  "GetAuthorization E db aid =
     snd (in_tx E db (\<lambda>db.
       bind_result (select_authz E db aid) (\<lambda>authz.
         case db_fault E (DbSelect ''challenges'') of
           Some err \<Rightarrow> Inl err
         | None \<Rightarrow>
             bind_result (traverse (modelToChallenge E) (challenges_of db (ar_ID authz))) (\<lambda>challs.
               Inr (db, row_authz authz challs)))))"

fun by_name_loop ::
  "(string \<times> Authorization) list \<Rightarrow> Authorization list \<Rightarrow> goerror + (string \<times> Authorization) list" where
  "by_name_loop byName [] = Inr byName"
| "by_name_loop byName (auth # auths) =
     (case az_Expires auth of
        None \<Rightarrow> by_name_loop byName auths
      | Some expires \<Rightarrow>
          if id_Type (Identifier auth) \<noteq> IdentifierDNS
          then Inl (OtherError (''unknown identifier type: '' @ quote (id_Type (Identifier auth)) @
                 '' on authz id '' @ quote (az_ID auth)))
          else
            (case map_of byName (Value (Identifier auth)) of
               None \<Rightarrow> by_name_loop (AList.update (Value (Identifier auth)) auth byName) auths
             | Some existing \<Rightarrow>
                 if (case az_Expires existing of Some e \<Rightarrow> expires > e | None \<Rightarrow> True)
                 then by_name_loop (AList.update (Value (Identifier auth)) auth byName) auths
                 else by_name_loop byName auths))"

definition valid_rows :: "database \<Rightarrow> int \<Rightarrow> string list \<Rightarrow> time \<Rightarrow> authzRow list" where
  "valid_rows db registrationID names nw =
     filter (\<lambda>r. ar_RegistrationID r = registrationID \<and>
                 (case ar_Expires r of None \<Rightarrow> False | Some e \<Rightarrow> e > nw) \<and>
                 ar_Identifier r \<in> set (map (\<lambda>name. \<lparr>id_Type = IdentifierDNS, Value = name\<rparr>) names) \<and>
                 ar_Status r = StatusValid) (authz_table db)"

definition GetValidAuthorizations ::
  "sa_env \<Rightarrow> database \<Rightarrow> int \<Rightarrow> string list \<Rightarrow> time \<Rightarrow> goerror + (string \<times> Authorization) list" where
  "GetValidAuthorizations E db registrationID names nw =
     (if length names = 0 then Inl (BoulderError InternalServer ''no names received'')
      else
        (case db_fault E (DbSelect ''authz'') of
           Some err \<Rightarrow> Inl err
         | None \<Rightarrow>
             by_name_loop [] (map (\<lambda>r. row_authz r []) (valid_rows db registrationID names nw))))"

text \<open>
  The tokens drawn by \<^verbatim>\<open>core.NewToken\<close>, one after the other, until one is not in use; no result
  when the draws run out.
\<close>

fun fresh_id :: "sa_env \<Rightarrow> database \<Rightarrow> bytes list \<Rightarrow> string option" where
  "fresh_id E db [] = None"
| "fresh_id E db (r # rs) =
     (if existingPending E db (NewToken r) \<or> existingFinal E db (NewToken r)
      then fresh_id E db rs else Some (NewToken r))"

fun insert_challenges ::
  "sa_env \<Rightarrow> nat \<Rightarrow> string \<Rightarrow> Challenge list \<Rightarrow> database \<Rightarrow> goerror + database \<times> Challenge list" where
  "insert_challenges E i aid [] db = Inr (db, [])"
| "insert_challenges E i aid (c # cs) db =
     bind_result (challengeToModel E c aid) (\<lambda>cm.
       bind_result
         (insert_row (db_fault E (DbInsert ''challenges'' i)) (\<lambda>a b. cm_ID a = cm_ID b)
            (cm\<lparr>cm_ID := next_chall_id db, cm_LockCol := cm_LockCol cm + 1\<rparr>) (challenges db))
         (\<lambda>rows.
           bind_result (modelToChallenge E (cm\<lparr>cm_ID := next_chall_id db, cm_LockCol := cm_LockCol cm + 1\<rparr>))
             (\<lambda>challenge.
               bind_result
                 (insert_challenges E (Suc i) aid cs
                    (db\<lparr>challenges := rows, next_chall_id := next_chall_id db + 1\<rparr>))
                 (\<lambda>(db, rest). Inr (db, challenge # rest)))))"

definition NewPendingAuthorization ::
  "sa_env \<Rightarrow> bytes list \<Rightarrow> database \<Rightarrow> Authorization \<Rightarrow> (database \<times> (goerror + Authorization)) option" where
  "NewPendingAuthorization E draws db authz =
     (case db_fault E DbBegin of
        Some err \<Rightarrow> Some (db, Inl err)
      | None \<Rightarrow>
          (case fresh_id E db draws of
             None \<Rightarrow> None
           | Some aid \<Rightarrow>
               Some (in_tx E db (\<lambda>db.
                 bind_result
                   (insert_row (db_fault E (DbInsert ''pendingAuthorizations'' 0))
                      (\<lambda>a b. ar_ID a = ar_ID b) (authz_row (authz\<lparr>az_ID := aid\<rparr>) 1)
                      (pendingAuthorizations db))
                   (\<lambda>rows.
                     bind_result
                       (insert_challenges E 0 aid (Challenges authz)
                          (db\<lparr>pendingAuthorizations := rows\<rparr>))
                       (\<lambda>(db, challs). Inr (db, authz\<lparr>az_ID := aid, Challenges := challs\<rparr>)))))))"

definition UpdatePendingAuthorization ::
  "sa_env \<Rightarrow> database \<Rightarrow> Authorization \<Rightarrow> database \<times> (goerror + unit)" where
  "UpdatePendingAuthorization E db authz =
     in_tx E db (\<lambda>db.
       if \<not> statusIsPending (az_Status authz)
       then Inl (BoulderError InternalServer ''authorization is not pending'')
       else if existingFinal E db (az_ID authz)
       then Inl (BoulderError InternalServer ''cannot update a finalized authorization'')
       else if \<not> existingPending E db (az_ID authz)
       then Inl (BoulderError InternalServer
              (''authorization with ID '' @ apos @ ''%!d(string='' @ az_ID authz @ '')'' @ apos @ '' not found''))
       else
         (case select_one (db_fault E (DbSelect ''pendingAuthorizations''))
                 (\<lambda>r. ar_ID r = az_ID authz) (pendingAuthorizations db) of
            Inl err \<Rightarrow>
              if err = ErrNoRows
              then Inl (BoulderError InternalServer
                     (''authorization with ID '' @ apos @ ''%!d(string='' @ az_ID authz @ '')'' @ apos @
                      '' not found''))
              else Inl err
          | Inr pa \<Rightarrow>
              bind_result
                (update_rows (db_fault E (DbUpdate ''pendingAuthorizations'' 0)) (ar_LockCol pa)
                   (\<lambda>r. ar_ID r = az_ID authz \<and> ar_LockCol r = bind_version (ar_LockCol pa))
                   (\<lambda>_. authz_row authz (ar_LockCol pa + 1)) (pendingAuthorizations db))
                (\<lambda>(rows, _).
                  bind_result
                    (updateChallenges E (az_ID authz) (Challenges authz)
                       (db\<lparr>pendingAuthorizations := rows\<rparr>))
                    (\<lambda>db. Inr (db, ())))))"

definition FinalizeAuthorization ::
  "sa_env \<Rightarrow> database \<Rightarrow> Authorization \<Rightarrow> database \<times> (goerror + unit)" where
  "FinalizeAuthorization E db authz =
     in_tx E db (\<lambda>db.
       if \<not> existingPending E db (az_ID authz)
       then Inl (BoulderError InternalServer
              (''authorization with ID '' @ quote (az_ID authz) @ '' not found''))
       else if statusIsPending (az_Status authz)
       then Inl (BoulderError InternalServer
              (''authorization with ID '' @ quote (az_ID authz) @ '' is not pending''))
       else
         (case select_one (db_fault E (DbSelect ''pendingAuthorizations''))
                 (\<lambda>r. ar_ID r = az_ID authz) (pendingAuthorizations db) of
            Inl err \<Rightarrow>
              if err = ErrNoRows
              then Inl (BoulderError InternalServer
                     (''authorization with ID '' @ quote (az_ID authz) @ '' not found''))
              else Inl err
          | Inr pa \<Rightarrow>
              bind_result
                (insert_row (db_fault E (DbInsert ''authz'' 0)) (\<lambda>a b. ar_ID a = ar_ID b)
                   (authz_row authz 0) (authz_table db))
                (\<lambda>final.
                  case db_fault E (DbDelete ''pendingAuthorizations'') of
                    Some err \<Rightarrow> Inl err
                  | None \<Rightarrow>
                      (let match = (\<lambda>r. ar_ID r = ar_ID pa \<and> ar_LockCol r = ar_LockCol pa) in
                       if \<not> list_ex match (pendingAuthorizations db) \<and> ar_LockCol pa > 0
                       then Inl lock_error
                       else
                         bind_result
                           (updateChallenges E (az_ID authz) (Challenges authz)
                              (db\<lparr>authz_table := final,
                                  pendingAuthorizations :=
                                    filter (\<lambda>r. \<not> match r) (pendingAuthorizations db)\<rparr>))
                           (\<lambda>db. Inr (db, ()))))))"

definition DeactivateAuthorization_sa ::
  "sa_env \<Rightarrow> database \<Rightarrow> string \<Rightarrow> database \<times> (goerror + unit)" where
  "DeactivateAuthorization_sa E db aid =
     in_tx E db (\<lambda>db.
       if existingPending E db aid then
         (case db_fault E (DbExec ''pendingAuthorizations'') of
            Some err \<Rightarrow> Inl err
          | None \<Rightarrow>
              Inr (db\<lparr>pendingAuthorizations :=
                     map (\<lambda>r. if ar_ID r = aid \<and> ar_Status r = StatusPending
                              then r\<lparr>ar_Status := StatusDeactivated\<rparr> else r)
                       (pendingAuthorizations db)\<rparr>, ()))
       else
         (case db_fault E (DbExec ''authz'') of
            Some err \<Rightarrow> Inl err
          | None \<Rightarrow>
              Inr (db\<lparr>authz_table :=
                     map (\<lambda>r. if ar_ID r = aid \<and> ar_Status r = StatusValid
                              then r\<lparr>ar_Status := StatusDeactivated\<rparr> else r)
                       (authz_table db)\<rparr>, ())))"

section \<open>Revoking the authorizations of a domain\<close>

text \<open>\<^verbatim>\<open>sa/authz.go\<close>; the same statements run on both authorization tables.\<close>

definition getAuthorizationIDsMax :: nat where
  "getAuthorizationIDsMax = 1000"

definition revocable :: "AcmeIdentifier \<Rightarrow> time \<Rightarrow> authzRow \<Rightarrow> bool" where
  "revocable ident nw r =
     (ar_Identifier r = ident \<and> ar_Status r \<noteq> StatusInvalid \<and> ar_Status r \<noteq> StatusRevoked \<and>
      (case ar_Expires r of None \<Rightarrow> False | Some e \<Rightarrow> e > nw))"

definition getAuthorizationIDsByDomain ::
  "goerror option \<Rightarrow> authzRow list \<Rightarrow> AcmeIdentifier \<Rightarrow> time \<Rightarrow> goerror + string list" where
  "getAuthorizationIDsByDomain flt rows ident nw =
     (case flt of
        Some err \<Rightarrow> Inl err
      | None \<Rightarrow> Inr (take getAuthorizationIDsMax (map ar_ID (filter (revocable ident nw) rows))))"

definition revokeAuthorizations ::
  "goerror option \<Rightarrow> authzRow list \<Rightarrow> string list \<Rightarrow> goerror + authzRow list \<times> nat" where
  "revokeAuthorizations flt rows authIDs =
     (case flt of
        Some err \<Rightarrow> Inl err
      | None \<Rightarrow>
          Inr (map (\<lambda>r. if ar_ID r \<in> set authIDs then r\<lparr>ar_Status := StatusRevoked\<rparr> else r) rows,
               length (filter (\<lambda>r. ar_ID r \<in> set authIDs) rows)))"

text \<open>
  The loop over the batches of one table: the rows and the number revoked so far, with the
  error that ended it.
\<close>

function revoke_loop ::
  "goerror option \<Rightarrow> goerror option \<Rightarrow> AcmeIdentifier \<Rightarrow> time \<Rightarrow> authzRow list \<Rightarrow> nat \<Rightarrow>
   authzRow list \<times> nat \<times> goerror option" where
  "revoke_loop selFlt execFlt ident nw rows sofar =
     (case getAuthorizationIDsByDomain selFlt rows ident nw of
        Inl err \<Rightarrow> (rows, sofar, Some err)
      | Inr authz \<Rightarrow>
          if authz = [] then (rows, sofar, None)
          else
            (case revokeAuthorizations execFlt rows authz of
               Inl err \<Rightarrow> (rows, sofar, Some err)
             | Inr (rows', numRevoked) \<Rightarrow>
                 if numRevoked < length authz
                 then (rows', sofar + numRevoked,
                       Some (OtherError (''Didn'' @ apos @ ''t revoke all found authorizations'')))
                 else revoke_loop selFlt execFlt ident nw rows' (sofar + numRevoked)))"
  by pat_completeness auto

lemma revoked_not_revocable: "\<not> revocable ident nw (r\<lparr>ar_Status := StatusRevoked\<rparr>)"
  by (simp add: revocable_def)

lemma filter_map_decreases:
  assumes "\<And>r. P (f r) \<Longrightarrow> P r" "x \<in> set xs" "P x" "\<not> P (f x)"
  shows "length (filter P (map f xs)) < length (filter P xs)"
proof -
  have le: "length (filter P (map f ys)) \<le> length (filter P ys)" for ys
    by (induction ys) (auto dest: assms(1))
  obtain as bs where xs: "xs = as @ x # bs" using assms(2) by (meson split_list)
  show ?thesis using assms(3,4) le [of as] le [of bs] by (simp add: xs)
qed

lemma revoke_round_decreases:
  assumes "getAuthorizationIDsByDomain f rows ident nw = Inr ids" "ids \<noteq> []"
    and "revokeAuthorizations g rows ids = Inr (rows', n)"
  shows "length (filter (revocable ident nw) rows') < length (filter (revocable ident nw) rows)"
proof -
  have ids: "ids = take getAuthorizationIDsMax (map ar_ID (filter (revocable ident nw) rows))"
    using assms(1) by (auto simp: getAuthorizationIDsByDomain_def split: option.splits)
  with assms(2) have ne: "filter (revocable ident nw) rows \<noteq> []" by auto
  define x where "x = hd (filter (revocable ident nw) rows)"
  have x: "x \<in> set rows" "revocable ident nw x"
    using ne hd_in_set [OF ne] by (auto simp: x_def)
  have "ar_ID x \<in> set ids" using ne unfolding ids x_def getAuthorizationIDsMax_def
    by (cases "filter (revocable ident nw) rows") simp_all
  moreover define f where "f r = (if ar_ID r \<in> set ids then r\<lparr>ar_Status := StatusRevoked\<rparr> else r)" for r :: authzRow
  moreover have "rows' = map f rows"
    using assms(3) unfolding f_def by (auto simp: revokeAuthorizations_def split: option.splits)
  ultimately show ?thesis
    using x by (simp only:) (rule filter_map_decreases [where x = x],
      auto simp: revoked_not_revocable split: if_splits)
qed

termination revoke_loop
  by (relation "measure (\<lambda>(_, _, ident, nw, rows, _). length (filter (revocable ident nw) rows))")
     (auto intro: revoke_round_decreases)

declare revoke_loop.simps [simp del]

definition RevokeAuthorizationsByDomain ::
  "sa_env \<Rightarrow> database \<Rightarrow> AcmeIdentifier \<Rightarrow> database \<times> nat \<times> nat \<times> goerror option" where
  "RevokeAuthorizationsByDomain E db ident =
     (case revoke_loop (db_fault E (DbSelect ''authz'')) (db_fault E (DbExec ''authz'')) ident (now E)
             (authz_table db) 0 of
        (rows, n, Some err) \<Rightarrow> (db\<lparr>authz_table := rows\<rparr>, n, 0, Some err)
      | (rows, n, None) \<Rightarrow>
          (case revoke_loop (db_fault E (DbSelect ''pendingAuthorizations''))
                  (db_fault E (DbExec ''pendingAuthorizations'')) ident (now E)
                  (pendingAuthorizations db) 0 of
             (rows', m, err) \<Rightarrow>
               (db\<lparr>authz_table := rows, pendingAuthorizations := rows'\<rparr>, n, m, err)))"

section \<open>Counting registrations by address\<close>

text \<open>
  Addresses as numbers: \<open>be_nat\<close> is \<^verbatim>\<open>big.Int.SetBytes\<close>, \<open>be_bytes\<close> its inverse at a given width.
  A \<^verbatim>\<open>BINARY(16)\<close> column is compared byte by byte, which is the order of the numbers.
\<close>

definition be_nat :: "bytes \<Rightarrow> nat" where
  "be_nat bs = foldl (\<lambda>n c. n * 256 + of_char c) 0 bs"

fun be_bytes :: "nat \<Rightarrow> nat \<Rightarrow> bytes" where
  "be_bytes 0 n = []"
| "be_bytes (Suc w) n = be_bytes w (n div 256) @ [char_of (n mod 256)]"

definition incrementIP :: "bytes \<Rightarrow> nat \<Rightarrow> bytes" where
  "incrementIP ip index =
     (let bigInt = be_nat ip + 2 ^ (128 - index) in
      if bigInt \<ge> 256 ^ 16 then replicate 16 (char_of (255::nat)) else be_bytes 16 bigInt)"

definition is_v4_in_v6 :: "bytes \<Rightarrow> bool" where
  "is_v4_in_v6 ip =
     (length ip = 16 \<and>
      take 12 ip = replicate 10 (char_of (0::nat)) @ replicate 2 (char_of (255::nat)))"

text \<open>\<^verbatim>\<open>ip.Mask(net.CIDRMask(m, 128))\<close> for a prefix length that is a multiple of 8.\<close>

definition mask_bytes :: "bytes \<Rightarrow> nat \<Rightarrow> bytes" where
  "mask_bytes ip m =
     (if length ip = 16 then take (m div 8) ip @ replicate (16 - m div 8) (char_of (0::nat)) else [])"

definition ipRange :: "bytes \<Rightarrow> bytes \<times> bytes" where
  "ipRange ip0 =
     (let ip = ip_bytes (To16 ip0);
          maskLength = (if is_v4_in_v6 ip then 128 else 48);
          begin_ip = mask_bytes ip maskLength
      in (begin_ip, incrementIP begin_ip maskLength))"

definition CountRegistrationsByIP ::
  "sa_env \<Rightarrow> database \<Rightarrow> bytes \<Rightarrow> time \<Rightarrow> time \<Rightarrow> goerror + nat" where
  "CountRegistrationsByIP E db ip earliest latest_t =
     (case db_fault E (DbSelect ''registrations'') of
        Some err \<Rightarrow> Inl err
      | None \<Rightarrow>
          (case ipRange ip of (beginIP, endIP) \<Rightarrow>
             Inr (length (filter (\<lambda>r.
               be_nat beginIP \<le> be_nat (ip_bytes (rm_InitialIP r)) \<and>
               be_nat (ip_bytes (rm_InitialIP r)) < be_nat endIP \<and>
               earliest < rm_CreatedAt r \<and> rm_CreatedAt r \<le> latest_t) (registrations db)))))"

section \<open>Certificates\<close>

definition reverseName :: "string \<Rightarrow> string" where
  "reverseName domain = join_with ''.'' (rev (split_on (CHR ''.'') domain))"

text \<open>
  The variable \<^verbatim>\<open>count\<close> that the guard compares with the maximum is never assigned.
\<close>

definition countCertificatesByName ::
  "sa_env \<Rightarrow> database \<Rightarrow> string \<Rightarrow> time \<Rightarrow> time \<Rightarrow> goerror + nat" where
  "countCertificatesByName E db domain earliest latest_t =
     (let count = (0::nat); max_certs = 10000; reversedDomain = reverseName domain in
      case db_fault E (DbSelect ''issuedNames'') of
        Some err \<Rightarrow> if err = ErrNoRows then Inr 0 else Inl err
      | None \<Rightarrow>
          (let serials = take (max_certs + 1) (map in_Serial (filter (\<lambda>r.
                 (ReversedName r = reversedDomain \<or> has_prefix (ReversedName r) (reversedDomain @ ''.'')) \<and>
                 in_NotBefore r > earliest \<and> in_NotBefore r \<le> latest_t) (issuedNames db)))
           in if count > max_certs
              then Inl (OtherError (''More than '' @ format_nat max_certs @ '' issuedName entries for '' @
                     domain @ ''.''))
              else Inr (length (remdups serials))))"

fun count_names ::
  "sa_env \<Rightarrow> database \<Rightarrow> time \<Rightarrow> time \<Rightarrow> (string \<times> nat) list \<Rightarrow> string list \<Rightarrow>
   goerror + (string \<times> nat) list" where
  "count_names E db earliest latest_t ret [] = Inr ret"
| "count_names E db earliest latest_t ret (domain # domains) =
     bind_result (countCertificatesByName E db domain earliest latest_t) (\<lambda>currentCount.
       count_names E db earliest latest_t (AList.update domain currentCount ret) domains)"

definition CountCertificatesByNames ::
  "sa_env \<Rightarrow> database \<Rightarrow> string list \<Rightarrow> time \<Rightarrow> time \<Rightarrow> goerror + (string \<times> nat) list" where
  "CountCertificatesByNames E db domains earliest latest_t =
     count_names E db earliest latest_t [] domains"

definition GetCertificate :: "sa_env \<Rightarrow> database \<Rightarrow> string \<Rightarrow> goerror + Certificate" where
  "GetCertificate E db ser =
     (if \<not> ValidSerial ser then Inl (OtherError (''Invalid certificate serial '' @ ser))
      else
        (case select_one (db_fault E (DbSelect ''certificates'')) (\<lambda>c. cert_Serial c = ser)
                (certificates db) of
           Inl err \<Rightarrow>
             if err = ErrNoRows
             then Inl (BoulderError NotFound (''certificate with serial '' @ quote ser @ '' not found''))
             else Inl err
         | Inr cert \<Rightarrow> Inr cert))"

definition zero_status :: CertificateStatus where
  "zero_status =
     \<lparr>cs_Serial = [], SubscriberApproved = False, cs_Status = [], OCSPLastUpdated = zero_time,
      RevokedDate = zero_time, RevokedReason = 0, LastExpirationNagSent = zero_time, cs_OCSPResponse = [],
      NotAfter = zero_time, IsExpired = False, LockCol = 0\<rparr>"

text \<open>A missing status row is not an error: the zero status is returned.\<close>

definition GetCertificateStatus :: "sa_env \<Rightarrow> database \<Rightarrow> string \<Rightarrow> goerror + CertificateStatus" where
  "GetCertificateStatus E db ser =
     (if \<not> ValidSerial ser then Inl (OtherError (''Invalid certificate serial '' @ ser))
      else
        (case db_fault E (DbSelect ''certificateStatus'') of
           Some err \<Rightarrow> Inl err
         | None \<Rightarrow>
             (case find (\<lambda>s. cs_Serial s = ser) (certificateStatus db) of
                None \<Rightarrow> Inr zero_status
              | Some status \<Rightarrow> Inr status)))"

definition MarkCertificateRevoked ::
  "sa_env \<Rightarrow> database \<Rightarrow> string \<Rightarrow> int \<Rightarrow> database \<times> (goerror + unit)" where
  "MarkCertificateRevoked E db ser reasonCode =
     (case GetCertificate E db ser of
        Inl _ \<Rightarrow>
          (db, Inl (OtherError (''Unable to mark certificate '' @ ser @ '' revoked: cert not found.'')))
      | Inr _ \<Rightarrow>
          (case GetCertificateStatus E db ser of
             Inl _ \<Rightarrow>
               (db, Inl (OtherError
                  (''Unable to mark certificate '' @ ser @ '' revoked: cert status not found.'')))
           | Inr _ \<Rightarrow>
               in_tx E db (\<lambda>db.
                 case select_one (db_fault E (DbSelect ''tx certificateStatus''))
                        (\<lambda>s. cs_Serial s = ser) (certificateStatus db) of
                   Inl err \<Rightarrow>
                     if err = ErrNoRows
                     then Inl (OtherError (''No certificate with serial '' @ ser))
                     else Inl err
                 | Inr statusObj \<Rightarrow>
                     bind_result
                       (update_rows (db_fault E (DbUpdate ''certificateStatus'' 0)) (LockCol statusObj)
                          (\<lambda>s. cs_Serial s = cs_Serial statusObj \<and>
                               LockCol s = bind_version (LockCol statusObj))
                          (\<lambda>_. statusObj\<lparr>cs_Status := OCSPStatusRevoked, RevokedDate := now E,
                                RevokedReason := reasonCode, LockCol := LockCol statusObj + 1\<rparr>)
                          (certificateStatus db))
                       (\<lambda>(rows, n).
                         if n = 0 then Inl (BoulderError InternalServer ''no certificate updated'')
                         else Inr (db\<lparr>certificateStatus := rows\<rparr>, ())))))"

text \<open>\<open>hashNames\<close> and the rows a new certificate adds.\<close>

definition hashNames :: "sa_env \<Rightarrow> string list \<Rightarrow> bytes" where
  "hashNames E names = sha256 E (join_with '','' (UniqueLowerNames names))"

definition addFQDNSet ::
  "sa_env \<Rightarrow> string list \<Rightarrow> string \<Rightarrow> time \<Rightarrow> time \<Rightarrow> database \<Rightarrow> goerror + database" where
  "addFQDNSet E names ser issued expires db =
     bind_result
       (insert_row (db_fault E (DbInsert ''fqdnSets'' 0)) (\<lambda>a b. fqdn_Serial a = fqdn_Serial b)
          \<lparr>SetHash = hashNames E names, fqdn_Serial = ser, fqdn_Issued = issued, fqdn_Expires = expires\<rparr>
          (fqdnSets db))
       (\<lambda>rows. Inr (db\<lparr>fqdnSets := rows\<rparr>))"

text \<open>
  All names are inserted by one statement; without names the statement is not valid SQL.
\<close>

definition addIssuedNames :: "sa_env \<Rightarrow> x509Cert \<Rightarrow> database \<Rightarrow> goerror + database" where
  "addIssuedNames E cert db =
     (case db_fault E (DbExec ''issuedNames'') of
        Some err \<Rightarrow> Inl err
      | None \<Rightarrow>
          if x_DNSNames cert = [] then Inl (OtherError ''Error 1064: You have an error in your SQL syntax'')
          else
            Inr (db\<lparr>issuedNames := issuedNames db @
                   map (\<lambda>name. \<lparr>ReversedName = reverseName name, in_NotBefore = x_NotBefore cert,
                                in_Serial = SerialToString (x_SerialNumber cert)\<rparr>)
                     (x_DNSNames cert)\<rparr>))"

definition new_status :: "sa_env \<Rightarrow> string \<Rightarrow> time \<Rightarrow> bytes \<Rightarrow> CertificateStatus" where
  "new_status E ser notAfter ocspResponse =
     zero_status\<lparr>cs_Serial := ser, cs_Status := OCSPStatusGood, NotAfter := notAfter,
       cs_OCSPResponse := (if length ocspResponse \<noteq> 0 then ocspResponse else []),
       OCSPLastUpdated := (if length ocspResponse \<noteq> 0 then now E else zero_time), LockCol := 1\<rparr>"

definition AddCertificate ::
  "sa_env \<Rightarrow> (bytes \<Rightarrow> string + x509Cert) \<Rightarrow> database \<Rightarrow> bytes \<Rightarrow> int \<Rightarrow> bytes \<Rightarrow>
   database \<times> (goerror + string)" where
  "AddCertificate E parseCertificate db certDER regID ocspResponse =
     (case parseCertificate certDER of
        Inl err \<Rightarrow> (db, Inl (OtherError err))
      | Inr parsed \<Rightarrow>
          (let digest = Fingerprint256 (sha256 E) certDER; ser = SerialToString (x_SerialNumber parsed);
               cert = \<lparr>cert_RegID = regID, cert_Serial = ser, Digest = digest, DER = certDER,
                       Issued = now E, cert_Expires = x_NotAfter parsed\<rparr>
           in in_tx E db (\<lambda>db.
                bind_result
                  (insert_row (db_fault E (DbInsert ''certificates'' 0))
                     (\<lambda>a b. cert_Serial a = cert_Serial b) cert (certificates db))
                  (\<lambda>certs.
                    bind_result
                      (insert_row (db_fault E (DbInsert ''certificateStatus'' 0))
                         (\<lambda>a b. cs_Serial a = cs_Serial b)
                         (new_status E ser (x_NotAfter parsed) ocspResponse) (certificateStatus db))
                      (\<lambda>stats.
                        bind_result
                          (addIssuedNames E parsed (db\<lparr>certificates := certs, certificateStatus := stats\<rparr>))
                          (\<lambda>db.
                            bind_result
                              (addFQDNSet E (x_DNSNames parsed) ser (x_NotBefore parsed)
                                 (x_NotAfter parsed) db)
                              (\<lambda>db. Inr (db, digest))))))))"

section \<open>Counts\<close>

definition CountCertificatesRange :: "sa_env \<Rightarrow> database \<Rightarrow> time \<Rightarrow> time \<Rightarrow> goerror + nat" where
  "CountCertificatesRange E db start_t end_t =
     (case db_fault E (DbSelect ''certificates'') of
        Some err \<Rightarrow> Inl err
      | None \<Rightarrow>
          Inr (length (filter (\<lambda>c. Issued c \<ge> start_t \<and> Issued c < end_t) (certificates db))))"

definition CountPendingAuthorizations :: "sa_env \<Rightarrow> database \<Rightarrow> int \<Rightarrow> goerror + nat" where
  "CountPendingAuthorizations E db regID =
     (case db_fault E (DbSelect ''pendingAuthorizations'') of
        Some err \<Rightarrow> Inl err
      | None \<Rightarrow>
          Inr (length (filter (\<lambda>r. ar_RegistrationID r = regID \<and>
                 (case ar_Expires r of None \<Rightarrow> False | Some e \<Rightarrow> e > now E) \<and>
                 ar_Status r = StatusPending) (pendingAuthorizations db))))"

definition CountInvalidAuthorizations ::
  "sa_env \<Rightarrow> database \<Rightarrow> int \<Rightarrow> string \<Rightarrow> time \<Rightarrow> time \<Rightarrow> goerror + nat" where
  "CountInvalidAuthorizations E db regID hostname earliest latest_t =
     (case db_fault E (DbSelect ''authz'') of
        Some err \<Rightarrow> Inl err
      | None \<Rightarrow>
          Inr (length (filter (\<lambda>r. ar_RegistrationID r = regID \<and>
                 ar_Identifier r = \<lparr>id_Type = IdentifierDNS, Value = hostname\<rparr> \<and>
                 (case ar_Expires r of None \<Rightarrow> False | Some e \<Rightarrow> e > earliest \<and> e \<le> latest_t) \<and>
                 ar_Status r = StatusInvalid) (authz_table db))))"

definition CountFQDNSets :: "sa_env \<Rightarrow> database \<Rightarrow> duration \<Rightarrow> string list \<Rightarrow> goerror + nat" where
  "CountFQDNSets E db window names =
     (case db_fault E (DbSelect ''fqdnSets'') of
        Some err \<Rightarrow> Inl err
      | None \<Rightarrow>
          Inr (length (filter (\<lambda>r. SetHash r = hashNames E names \<and> fqdn_Issued r > now E - window)
                 (fqdnSets db))))"

definition FQDNSetExists :: "sa_env \<Rightarrow> database \<Rightarrow> string list \<Rightarrow> goerror + bool" where
  "FQDNSetExists E db names =
     (case db_fault E (DbSelect ''fqdnSets'') of
        Some err \<Rightarrow> Inl err
      | None \<Rightarrow> Inr (length (filter (\<lambda>r. SetHash r = hashNames E names) (fqdnSets db)) > 0))"

section \<open>Signed certificate timestamps\<close>

definition GetSCTReceipt ::
  "sa_env \<Rightarrow> database \<Rightarrow> string \<Rightarrow> string \<Rightarrow> goerror + SignedCertificateTimestamp" where
  "GetSCTReceipt E db ser logID =
     (case select_one (db_fault E (DbSelect ''sctReceipts''))
             (\<lambda>r. CertificateSerial r = ser \<and> LogID r = logID) (sctReceipts db) of
        Inl err \<Rightarrow> if err = ErrNoRows then Inl (OtherError (Error err)) else Inl err
      | Inr receipt \<Rightarrow> Inr receipt)"

definition AddSCTReceipt ::
  "sa_env \<Rightarrow> database \<Rightarrow> SignedCertificateTimestamp \<Rightarrow> database \<times> (goerror + unit)" where
  "AddSCTReceipt E db sct =
     (case insert_row (db_fault E (DbInsert ''sctReceipts'' 0))
             (\<lambda>a b. CertificateSerial a = CertificateSerial b \<and> LogID a = LogID b)
             (sct\<lparr>sct_ID := next_sct_id db\<rparr>) (sctReceipts db) of
        Inl err \<Rightarrow>
          if has_prefix (Error err) ''Error 1062: Duplicate entry'' then (db, Inr ()) else (db, Inl err)
      | Inr rows \<Rightarrow> (db\<lparr>sctReceipts := rows, next_sct_id := next_sct_id db + 1\<rparr>, Inr ()))"

end
