(* ===== verification/SaInv.thy ===== *)
theory SaInv
  imports Sa
begin

text \<open>
  The invariant of the storage authority's database and what each operation does to it:
  the effect of the operations on challenges, authorizations, registrations and
  certificates, for every pattern of database failures.
\<close>

section \<open>Challenges\<close>

definition chall_inv :: "database \<Rightarrow> bool" where
  "chall_inv db \<longleftrightarrow> sorted_wrt (<) (map cm_ID (challenges db)) \<and>
     (\<forall>c \<in> set (challenges db). cm_ID c < next_chall_id db \<and> cm_LockCol c = 1)"

lemma challenges_of_eq:
  assumes "chall_inv db"
  shows "challenges_of db aid = filter (\<lambda>c. cm_AuthorizationID c = aid) (challenges db)"
proof -
  have "sorted_wrt (\<lambda>a b. cm_ID a < cm_ID b) (filter (\<lambda>c. cm_AuthorizationID c = aid) (challenges db))"
    using assms by (auto simp: chall_inv_def sorted_wrt_map intro: sorted_wrt_filter)
  then have "sorted (map cm_ID (filter (\<lambda>c. cm_AuthorizationID c = aid) (challenges db)))"
    unfolding sorted_map by (rule sorted_wrt_mono_rel [rotated]) simp
  then show ?thesis unfolding challenges_of_def by (rule sort_key_id_if_sorted)
qed

lemma chall_inv_distinct: "chall_inv db \<Longrightarrow> distinct (map cm_ID (challenges db))"
  by (simp add: chall_inv_def strict_sorted_iff)

lemma challengeToModel_fields:
  "challengeToModel E c aid = Inr cm \<Longrightarrow>
     cm_AuthorizationID cm = aid \<and> cm_LockCol cm = 0 \<and> cm_ID cm = ch_ID c"
proof (cases "ch_Error c")
  case None
  then show "challengeToModel E c aid = Inr cm \<Longrightarrow> ?thesis"
    by (cases "marshalRecords E (ch_Records c)") (auto simp: challengeToModel_def Let_def split: if_splits)
next
  case (Some p)
  then show "challengeToModel E c aid = Inr cm \<Longrightarrow> ?thesis"
    by (cases "marshalProblem E p"; cases "marshalRecords E (ch_Records c)")
       (auto simp: challengeToModel_def Let_def split: if_splits)
qed

lemma modelToChallenge_LockCol [simp]:
  "modelToChallenge E (cm\<lparr>cm_LockCol := l\<rparr>) = modelToChallenge E cm"
  by (simp add: modelToChallenge_def cong: if_cong)

lemma modelToChallenge_id:
  "modelToChallenge E cm = Inr c \<Longrightarrow> ch_ID c = cm_ID cm"
  by (cases "unmarshalProblem E (cm_Error cm)"; cases "unmarshalRecords E (cm_ValidationRecord cm)")
     (auto simp: modelToChallenge_def Let_def split: if_splits)

text \<open>The rows after an update of the challenges with the given ids.\<close>

definition apply_challs :: "int list \<Rightarrow> challModel list \<Rightarrow> challModel \<Rightarrow> challModel" where
  "apply_challs ids cms r =
     (case map_of (zip ids cms) (cm_ID r) of
        None \<Rightarrow> r
      | Some cm \<Rightarrow> cm\<lparr>cm_ID := cm_ID r, cm_LockCol := 1\<rparr>)"

lemma apply_challs_ID [simp]: "cm_ID (apply_challs ids cms r) = cm_ID r"
  by (simp add: apply_challs_def split: option.splits)

lemma map_apply_challs_Nil [simp]: "map (apply_challs [] []) rs = rs"
  by (induction rs) (simp_all add: apply_challs_def)

lemma update_challenge_eq:
  assumes "update_challenge E i chall db = Inr db'" "cm_LockCol chall = 0"
    and "\<forall>c \<in> set (challenges db). cm_LockCol c = 1"
  shows "db' = db\<lparr>challenges :=
     map (\<lambda>r. if cm_ID r = cm_ID chall then chall\<lparr>cm_LockCol := 1\<rparr> else r) (challenges db)\<rparr>"
  using assms
  by (auto simp: update_challenge_def go_result bind_version_def intro!: map_cong)

lemma update_challenges_from_eq:
  assumes "update_challenges_from E i rows cs db = Inr db'" "length rows = length cs"
    and "\<forall>r \<in> set rows. cm_AuthorizationID r = aid" "distinct (map cm_ID rows)"
    and "\<forall>c \<in> set (challenges db). cm_LockCol c = 1"
  shows "\<exists>cms. traverse (\<lambda>c. challengeToModel E c aid) cs = Inr cms \<and>
     db' = db\<lparr>challenges := map (apply_challs (map cm_ID rows) cms) (challenges db)\<rparr>"
  using assms
proof (induction E i rows cs db rule: update_challenges_from.induct)
  case (1 E i row rows c rest db)
  then obtain cm db1 where m: "challengeToModel E c aid = Inr cm"
    and u: "update_challenge E i (cm\<lparr>cm_ID := cm_ID row\<rparr>) db = Inr db1"
    and r: "update_challenges_from E (Suc i) rows rest db1 = Inr db'"
    by (auto simp: go_result)
  define g where "g r = (if cm_ID r = cm_ID row then cm\<lparr>cm_ID := cm_ID row, cm_LockCol := 1\<rparr> else r)" for r
  have db1: "db1 = db\<lparr>challenges := map g (challenges db)\<rparr>"
    using update_challenge_eq [OF u] challengeToModel_fields [OF m] "1.prems"
    by (simp add: g_def)
  have "\<forall>c \<in> set (challenges db1). cm_LockCol c = 1" using "1.prems" by (auto simp: db1 g_def)
  with "1.IH" [of cm db1] m u r "1.prems" obtain cms
    where c: "traverse (\<lambda>c. challengeToModel E c aid) rest = Inr cms"
      "db' = db1\<lparr>challenges := map (apply_challs (map cm_ID rows) cms) (challenges db1)\<rparr>"
    by auto
  have "apply_challs (map cm_ID rows) cms (g r) = apply_challs (map cm_ID (row # rows)) (cm # cms) r" for r
  proof (cases "cm_ID r = cm_ID row")
    case True
    then have "map_of (zip (map cm_ID rows) cms) (cm_ID row) = None"
      using "1.prems"(4) by (auto simp: map_of_eq_None_iff dest: set_zip_leftD)
    with True show ?thesis by (simp add: apply_challs_def g_def)
  next
    case False
    then show ?thesis by (simp add: apply_challs_def g_def)
  qed
  with c m db1 show ?case by (intro exI [of _ "cm # cms"]) simp
qed auto

text \<open>What is left unchanged when the challenges of an authorization are updated.\<close>

lemma updateChallenges_eq:
  assumes "updateChallenges E aid cs db = Inr db'" "chall_inv db"
  shows "\<exists>cms. traverse (\<lambda>c. challengeToModel E c aid) cs = Inr cms \<and>
     length cs = length (challenges_of db aid) \<and>
     db' = db\<lparr>challenges := map (apply_challs (map cm_ID (challenges_of db aid)) cms) (challenges db)\<rparr>"
proof -
  have rows: "update_challenges_from E 0 (challenges_of db aid) cs db = Inr db'"
      "length (challenges_of db aid) = length cs"
    using assms(1) by (auto simp: updateChallenges_def Let_def split: option.splits if_splits)
  have "distinct (map cm_ID (challenges_of db aid))"
    using chall_inv_distinct [OF assms(2)] assms(2) by (simp add: challenges_of_eq distinct_map_filter)
  with update_challenges_from_eq [OF rows, of aid] assms(2) rows(2) show ?thesis
    by (auto simp: challenges_of_eq chall_inv_def)
qed

lemma apply_challs_authz:
  assumes "traverse (\<lambda>c. challengeToModel E c aid) cs = Inr cms"
    and "chall_inv db" "r \<in> set (challenges db)"
  shows "cm_AuthorizationID (apply_challs (map cm_ID (challenges_of db aid)) cms r) = cm_AuthorizationID r"
proof (cases "map_of (zip (map cm_ID (challenges_of db aid)) cms) (cm_ID r)")
  case None
  then show ?thesis by (simp add: apply_challs_def)
next
  case (Some cm)
  then have "(cm_ID r, cm) \<in> set (zip (map cm_ID (challenges_of db aid)) cms)" by (rule map_of_SomeD)
  then have "cm_ID r \<in> cm_ID ` set (challenges_of db aid)" "cm \<in> set cms"
    by (auto dest: set_zip_leftD set_zip_rightD)
  then obtain r' where r': "r' \<in> set (challenges db)" "cm_ID r' = cm_ID r" "cm_AuthorizationID r' = aid"
    using assms(2) by (auto simp: challenges_of_eq)
  then have "r' = r" using chall_inv_distinct [OF assms(2)] assms(3) by (auto simp: distinct_map inj_on_def)
  moreover have "cm_AuthorizationID cm = aid"
    using assms(1) \<open>cm \<in> set cms\<close> challengeToModel_fields
    by (fastforce simp: traverse_Inr_iff list_all2_conv_all_nth in_set_conv_nth)
  ultimately show ?thesis using Some r' by (simp add: apply_challs_def)
qed

lemma apply_challs_LockCol:
  "cm_LockCol r = 1 \<Longrightarrow> cm_LockCol (apply_challs ids cms r) = 1"
  by (simp add: apply_challs_def split: option.splits)

lemma updateChallenges_inv:
  assumes "updateChallenges E aid cs db = Inr db'" "chall_inv db"
  shows "chall_inv db'" "map cm_AuthorizationID (challenges db') = map cm_AuthorizationID (challenges db)"
    "\<exists>chs. db' = db\<lparr>challenges := chs\<rparr>"
proof -
  obtain cms where c: "traverse (\<lambda>c. challengeToModel E c aid) cs = Inr cms"
     "db' = db\<lparr>challenges := map (apply_challs (map cm_ID (challenges_of db aid)) cms) (challenges db)\<rparr>"
    using updateChallenges_eq [OF assms] by blast
  then show "chall_inv db'" using assms(2)
    by (auto simp: chall_inv_def apply_challs_LockCol comp_def)
  show "map cm_AuthorizationID (challenges db') = map cm_AuthorizationID (challenges db)"
    using c apply_challs_authz [OF c(1) assms(2)] by simp
  show "\<exists>chs. db' = db\<lparr>challenges := chs\<rparr>" using c(2) by blast
qed

text \<open>New challenge rows get consecutive ids.\<close>

fun number_rows :: "int \<Rightarrow> challModel list \<Rightarrow> challModel list" where
  "number_rows n [] = []"
| "number_rows n (cm # cms) = cm\<lparr>cm_ID := n, cm_LockCol := 1\<rparr> # number_rows (n + 1) cms"

lemma number_rows_ID: "map cm_ID (number_rows n cms) = [n..n + int (length cms) - 1]"
proof (induction cms arbitrary: n)
  case (Cons cm cms)
  show ?case using Cons [of "n + 1"] by (simp add: upto_rec1 [of n] algebra_simps)
qed simp

lemma number_rows_fields:
  "r \<in> set (number_rows n cms) \<Longrightarrow> cm_LockCol r = 1 \<and> n \<le> cm_ID r \<and> cm_ID r < n + int (length cms)"
  by (induction cms arbitrary: n) fastforce+

lemma number_rows_authz:
  "map cm_AuthorizationID (number_rows n cms) = map cm_AuthorizationID cms"
  by (induction cms arbitrary: n) simp_all

lemma length_number_rows [simp]: "length (number_rows n cms) = length cms"
  by (induction cms arbitrary: n) simp_all

lemma insert_challenges_eq:
  assumes "insert_challenges E i aid cs db = Inr (db', challs)"
  shows "\<exists>cms. traverse (\<lambda>c. challengeToModel E c aid) cs = Inr cms \<and>
     db' = db\<lparr>challenges := challenges db @ number_rows (next_chall_id db) cms,
             next_chall_id := next_chall_id db + int (length cms)\<rparr> \<and>
     traverse (modelToChallenge E) (number_rows (next_chall_id db) cms) = Inr challs"
  using assms
proof (induction E i aid cs db arbitrary: challs rule: insert_challenges.induct)
  case (2 E i aid c cs db)
  then obtain cm where m: "challengeToModel E c aid = Inr cm" by (auto simp: go_result)
  then have "cm_LockCol cm = 0" by (simp add: challengeToModel_fields)
  define cm1 where "cm1 = cm\<lparr>cm_ID := next_chall_id db, cm_LockCol := 1\<rparr>"
  define db1 where "db1 = db\<lparr>challenges := challenges db @ [cm1], next_chall_id := next_chall_id db + 1\<rparr>"
  from 2(2) m \<open>cm_LockCol cm = 0\<close> obtain ch rest
    where r: "modelToChallenge E cm1 = Inr ch" "insert_challenges E (Suc i) aid cs db1 = Inr (db', rest)"
      "challs = ch # rest"
    by (auto simp: go_result cm1_def db1_def)
  have ins: "insert_row (db_fault E (DbInsert ''challenges'' i)) (\<lambda>a b. cm_ID a = cm_ID b)
      (cm\<lparr>cm_ID := next_chall_id db, cm_LockCol := cm_LockCol cm + 1\<rparr>) (challenges db) =
      Inr (challenges db @ [cm1])"
    using 2(2) m \<open>cm_LockCol cm = 0\<close> by (auto simp: go_result cm1_def)
  from 2(1) [OF m ins, of ch rest] r \<open>cm_LockCol cm = 0\<close> obtain cms
    where c: "traverse (\<lambda>c. challengeToModel E c aid) cs = Inr cms"
      "db' = db1\<lparr>challenges := challenges db1 @ number_rows (next_chall_id db1) cms,
              next_chall_id := next_chall_id db1 + int (length cms)\<rparr>"
      "traverse (modelToChallenge E) (number_rows (next_chall_id db1) cms) = Inr rest"
    by (auto simp: cm1_def db1_def)
  show ?case using m c r
    by (intro exI [of _ "cm # cms"]) (simp add: db1_def cm1_def algebra_simps)
qed simp

lemma insert_challenges_inv:
  assumes "insert_challenges E i aid cs db = Inr (db', challs)" "chall_inv db"
  shows "chall_inv db'" "set (map cm_AuthorizationID (challenges db')) \<subseteq>
      insert aid (set (map cm_AuthorizationID (challenges db)))"
    "\<exists>chs n. db' = db\<lparr>challenges := chs, next_chall_id := n\<rparr>"
proof -
  obtain cms where c: "traverse (\<lambda>c. challengeToModel E c aid) cs = Inr cms"
     "db' = db\<lparr>challenges := challenges db @ number_rows (next_chall_id db) cms,
             next_chall_id := next_chall_id db + int (length cms)\<rparr>"
    using insert_challenges_eq [OF assms(1)] by blast
  have "sorted_wrt (<) [next_chall_id db..next_chall_id db + int (length cms) - 1]" by simp
  then show "chall_inv db'" using assms(2) c(2) number_rows_fields
    by (fastforce simp: chall_inv_def number_rows_ID sorted_wrt_append)
  have "\<forall>cm \<in> set cms. cm_AuthorizationID cm = aid"
    using c(1) challengeToModel_fields
    by (fastforce simp: traverse_Inr_iff list_all2_conv_all_nth in_set_conv_nth)
  then have "set (map cm_AuthorizationID (number_rows (next_chall_id db) cms)) \<subseteq> {aid}"
    unfolding number_rows_authz by auto
  then show "set (map cm_AuthorizationID (challenges db')) \<subseteq>
      insert aid (set (map cm_AuthorizationID (challenges db)))"
    using c(2) by auto
  show "\<exists>chs n. db' = db\<lparr>challenges := chs, next_chall_id := n\<rparr>" using c(2) by blast
qed

section \<open>The invariant\<close>

definition pending_ids :: "database \<Rightarrow> string set" where
  "pending_ids db = ar_ID ` set (pendingAuthorizations db)"

definition final_ids :: "database \<Rightarrow> string set" where
  "final_ids db = ar_ID ` set (authz_table db)"

definition authz_inv :: "database \<Rightarrow> bool" where
  "authz_inv db \<longleftrightarrow> chall_inv db \<and>
     distinct (map ar_ID (pendingAuthorizations db)) \<and> distinct (map ar_ID (authz_table db)) \<and>
     pending_ids db \<inter> final_ids db = {} \<and>
     (\<forall>r \<in> set (pendingAuthorizations db). ar_LockCol r > 0) \<and>
     (\<forall>r \<in> set (authz_table db). \<not> statusIsPending (ar_Status r)) \<and>
     (\<forall>c \<in> set (challenges db). cm_AuthorizationID c \<in> pending_ids db \<union> final_ids db)"

definition reg_inv :: "database \<Rightarrow> bool" where
  "reg_inv db \<longleftrightarrow> distinct (map rm_ID (registrations db)) \<and>
     distinct (map rm_KeySHA256 (registrations db)) \<and>
     (\<forall>r \<in> set (registrations db). rm_ID r < next_reg_id db \<and> rm_LockCol r > 0 \<and> rm_InitialIP r \<noteq> None)"

definition cert_inv :: "database \<Rightarrow> bool" where
  "cert_inv db \<longleftrightarrow> distinct (map cert_Serial (certificates db)) \<and>
     map cs_Serial (certificateStatus db) = map cert_Serial (certificates db) \<and>
     map fqdn_Serial (fqdnSets db) = map cert_Serial (certificates db) \<and>
     set (map in_Serial (issuedNames db)) = set (map cert_Serial (certificates db)) \<and>
     (\<forall>s \<in> set (certificateStatus db). LockCol s > 0 \<and> cs_Status s \<in> {OCSPStatusGood, OCSPStatusRevoked})"

definition db_inv :: "database \<Rightarrow> bool" where
  "db_inv db \<longleftrightarrow> authz_inv db \<and> reg_inv db \<and> cert_inv db"

lemma empty_db_inv: "db_inv empty_db"
  by (simp add: db_inv_def authz_inv_def chall_inv_def reg_inv_def cert_inv_def empty_db_def
      pending_ids_def final_ids_def)

section \<open>Authorizations\<close>

definition authz_only :: "database \<Rightarrow> database \<Rightarrow> bool" where
  "authz_only db db' \<longleftrightarrow>
     (\<exists>p a c n. db' = db\<lparr>pendingAuthorizations := p, authz_table := a, challenges := c, next_chall_id := n\<rparr>)"

lemma authz_only_refl [simp]: "authz_only db db"
  unfolding authz_only_def
  by (intro exI [of _ "pendingAuthorizations db"] exI [of _ "authz_table db"] exI [of _ "challenges db"]
      exI [of _ "next_chall_id db"]) simp

lemma authz_only_keeps: "authz_only db db' \<Longrightarrow> reg_inv db' = reg_inv db \<and> cert_inv db' = cert_inv db"
  unfolding authz_only_def by (elim exE) (simp add: reg_inv_def cert_inv_def)

lemma authz_onlyI:
  assumes "registrations db' = registrations db" "issuedNames db' = issuedNames db"
    "certificates db' = certificates db" "certificateStatus db' = certificateStatus db"
    "sctReceipts db' = sctReceipts db" "fqdnSets db' = fqdnSets db" "next_reg_id db' = next_reg_id db"
    "next_sct_id db' = next_sct_id db"
  shows "authz_only db db'"
  unfolding authz_only_def using assms
  by (intro exI [of _ "pendingAuthorizations db'"] exI [of _ "authz_table db'"] exI [of _ "challenges db'"]
      exI [of _ "next_chall_id db'"]) simp

lemma fresh_id_spec:
  "fresh_id E db draws = Some aid \<Longrightarrow> \<not> existingPending E db aid \<and> \<not> existingFinal E db aid"
  by (induction E db draws rule: fresh_id.induct) (auto split: if_splits)

lemma NewPending_success:
  assumes "NewPendingAuthorization E draws db az = Some (db', Inr az')"
  shows "\<exists>aid challs db1. fresh_id E db draws = Some aid \<and> aid \<notin> pending_ids db \<and>
     db1 = db\<lparr>pendingAuthorizations := pendingAuthorizations db @ [authz_row (az\<lparr>az_ID := aid\<rparr>) 1]\<rparr> \<and>
     insert_challenges E 0 aid (Challenges az) db1 = Inr (db', challs) \<and>
     az' = az\<lparr>az_ID := aid, Challenges := challs\<rparr>"
  using assms
  by (auto simp: NewPendingAuthorization_def go_result list_ex_iff pending_ids_def authz_row_def
      split: option.splits)

lemma NewPending_failure: "NewPendingAuthorization E draws db az = Some (db', Inl e) \<Longrightarrow> db' = db"
  by (auto simp: NewPendingAuthorization_def split: option.splits dest: in_tx_atomic)

lemma NewPending_inv:
  assumes "NewPendingAuthorization E draws db az = Some (db', r)" "authz_inv db"
    and "fault E (DbSelect ''count authz'') = None"
  shows "authz_inv db' \<and> authz_only db db'"
proof (cases r)
  case (Inl e)
  with assms NewPending_failure [of E draws db az db' e] show ?thesis by auto
next
  case (Inr az')
  then obtain aid challs db1 where s: "fresh_id E db draws = Some aid" "aid \<notin> pending_ids db"
      "db1 = db\<lparr>pendingAuthorizations := pendingAuthorizations db @ [authz_row (az\<lparr>az_ID := aid\<rparr>) 1]\<rparr>"
      "insert_challenges E 0 aid (Challenges az) db1 = Inr (db', challs)"
    using NewPending_success assms(1) by blast
  have "aid \<notin> final_ids db"
    using fresh_id_spec [OF s(1)] assms(3) by (auto simp: existingFinal_def final_ids_def list_ex_iff)
  have "chall_inv db1" using assms(2) s(3) by (simp add: authz_inv_def chall_inv_def)
  note ch = insert_challenges_inv [OF s(4) this]
  from ch(3) obtain chs n where db': "db' = db1\<lparr>challenges := chs, next_chall_id := n\<rparr>" by blast
  have "\<forall>c \<in> set (challenges db'). cm_AuthorizationID c \<in> insert aid (pending_ids db \<union> final_ids db)"
    using ch(2) assms(2) s(3) by (fastforce simp: authz_inv_def)
  then have "authz_inv db'" using ch(1) db' s(2,3) assms(2) \<open>aid \<notin> final_ids db\<close>
    by (auto simp: authz_inv_def pending_ids_def final_ids_def authz_row_def)
  moreover have "authz_only db db'" by (rule authz_onlyI) (simp_all add: db' s(3))
  ultimately show ?thesis by blast
qed

lemma existingPending_iff:
  "existingPending E db aid \<longleftrightarrow>
     fault E (DbSelect ''count pendingAuthorizations'') = None \<and> aid \<in> pending_ids db"
  by (auto simp: existingPending_def pending_ids_def list_ex_iff)

lemma owners_kept:
  assumes "map f cs' = map f cs" "\<forall>c \<in> set cs. P (f c)"
  shows "\<forall>c \<in> set cs'. P (f c)"
proof -
  have "\<forall>x \<in> set (map f cs'). P x" unfolding assms(1) using assms(2) by auto
  then show ?thesis by auto
qed

definition replace_authz :: "Authorization \<Rightarrow> int \<Rightarrow> authzRow \<Rightarrow> authzRow" where
  "replace_authz az l r = (if ar_ID r = az_ID az then authz_row az l else r)"

lemma replace_authz_ID [simp]: "ar_ID (replace_authz az l r) = ar_ID r"
  by (simp add: replace_authz_def authz_row_def)

lemma UpdatePending_success:
  assumes "UpdatePendingAuthorization E db az = (db', Inr ())" "authz_inv db"
  shows "\<exists>pa. pa \<in> set (pendingAuthorizations db) \<and> ar_ID pa = az_ID az \<and> statusIsPending (az_Status az) \<and>
     updateChallenges E (az_ID az) (Challenges az)
       (db\<lparr>pendingAuthorizations :=
           map (replace_authz az (ar_LockCol pa + 1)) (pendingAuthorizations db)\<rparr>) = Inr db'"
proof -
  obtain pa rows n where pa: "find (\<lambda>r. ar_ID r = az_ID az) (pendingAuthorizations db) = Some pa"
    and rows: "rows = map (\<lambda>r. if ar_ID r = az_ID az \<and> ar_LockCol r = bind_version (ar_LockCol pa)
         then authz_row az (ar_LockCol pa + 1) else r) (pendingAuthorizations db)"
    and u: "updateChallenges E (az_ID az) (Challenges az) (db\<lparr>pendingAuthorizations := rows\<rparr>) = Inr db'"
    and st: "statusIsPending (az_Status az)"
    using assms(1)
    by (auto simp: UpdatePendingAuthorization_def go_result split: if_splits sum.splits)
  from pa have p: "pa \<in> set (pendingAuthorizations db)" "ar_ID pa = az_ID az"
    by (auto simp: find_Some_iff)
  have "ar_LockCol r = bind_version (ar_LockCol pa)"
    if "r \<in> set (pendingAuthorizations db)" "ar_ID r = az_ID az" for r
  proof -
    have "r = pa" using that p assms(2) by (auto simp: authz_inv_def distinct_map inj_on_def)
    then show ?thesis using p assms(2) by (auto simp: bind_version_def authz_inv_def)
  qed
  then have "rows = map (replace_authz az (ar_LockCol pa + 1)) (pendingAuthorizations db)"
    unfolding rows replace_authz_def by (intro map_cong) auto
  with u p st show ?thesis by blast
qed

lemma UpdatePending_inv:
  assumes "UpdatePendingAuthorization E db az = (db', r)" "authz_inv db"
  shows "authz_inv db' \<and> authz_only db db'"
proof (cases r)
  case (Inl e)
  then have "db' = db" using assms(1) by (auto simp: UpdatePendingAuthorization_def dest: in_tx_atomic)
  with assms show ?thesis by simp
next
  case (Inr u)
  define db1 where "db1 l = db\<lparr>pendingAuthorizations :=
      map (replace_authz az l) (pendingAuthorizations db)\<rparr>" for l
  obtain pa where pa: "pa \<in> set (pendingAuthorizations db)"
      "updateChallenges E (az_ID az) (Challenges az) (db1 (ar_LockCol pa + 1)) = Inr db'"
    using UpdatePending_success [of E db az db'] assms Inr unfolding db1_def by auto
  have "chall_inv (db1 (ar_LockCol pa + 1))"
    using assms(2) by (simp add: db1_def authz_inv_def chall_inv_def)
  note ch = updateChallenges_inv [OF pa(2) this]
  from ch(3) obtain chs where db': "db' = (db1 (ar_LockCol pa + 1))\<lparr>challenges := chs\<rparr>" by blast
  have ids: "pending_ids db' = pending_ids db" "final_ids db' = final_ids db"
    by (simp_all add: db' db1_def pending_ids_def final_ids_def image_image)
  have "map cm_AuthorizationID (challenges db') = map cm_AuthorizationID (challenges db)"
    using ch(2) by (simp add: db1_def)
  then have "\<forall>c \<in> set (challenges db'). cm_AuthorizationID c \<in> pending_ids db \<union> final_ids db"
    by (rule owners_kept) (use assms(2) in \<open>simp add: authz_inv_def\<close>)
  moreover have "\<forall>r \<in> set (pendingAuthorizations db'). ar_LockCol r > 0"
    using assms(2) pa(1) by (auto simp: db' db1_def authz_inv_def replace_authz_def authz_row_def)
  ultimately have "authz_inv db'"
    using ch(1) assms(2) unfolding authz_inv_def ids by (simp add: db' db1_def comp_def)
  moreover have "authz_only db db'" by (rule authz_onlyI) (simp_all add: db' db1_def)
  ultimately show ?thesis by blast
qed

lemma Finalize_success:
  assumes "FinalizeAuthorization E db az = (db', Inr ())" "authz_inv db"
  shows "az_ID az \<in> pending_ids db \<and> \<not> statusIsPending (az_Status az) \<and>
     updateChallenges E (az_ID az) (Challenges az)
       (db\<lparr>authz_table := authz_table db @ [authz_row az 0],
          pendingAuthorizations := filter (\<lambda>r. ar_ID r \<noteq> az_ID az) (pendingAuthorizations db)\<rparr>) = Inr db'"
proof -
  obtain pa where pa: "find (\<lambda>r. ar_ID r = az_ID az) (pendingAuthorizations db) = Some pa"
    and u: "updateChallenges E (az_ID az) (Challenges az)
       (db\<lparr>authz_table := authz_table db @ [authz_row az 0],
          pendingAuthorizations := filter (\<lambda>r. \<not> (ar_ID r = ar_ID pa \<and> ar_LockCol r = ar_LockCol pa))
            (pendingAuthorizations db)\<rparr>) = Inr db'"
    and st: "\<not> statusIsPending (az_Status az)"
    using assms(1)
    by (auto simp: FinalizeAuthorization_def go_result Let_def split: if_splits sum.splits option.splits)
  from pa have p: "pa \<in> set (pendingAuthorizations db)" "ar_ID pa = az_ID az"
    by (auto simp: find_Some_iff)
  have "\<not> (ar_ID r = ar_ID pa \<and> ar_LockCol r = ar_LockCol pa) \<longleftrightarrow> ar_ID r \<noteq> az_ID az"
    if "r \<in> set (pendingAuthorizations db)" for r
  proof -
    have "ar_ID r = ar_ID pa \<Longrightarrow> r = pa"
      using that p assms(2) by (auto simp: authz_inv_def distinct_map inj_on_def)
    then show ?thesis using p by auto
  qed
  then have "filter (\<lambda>r. \<not> (ar_ID r = ar_ID pa \<and> ar_LockCol r = ar_LockCol pa)) (pendingAuthorizations db) =
      filter (\<lambda>r. ar_ID r \<noteq> az_ID az) (pendingAuthorizations db)"
    by (intro filter_cong) auto
  moreover have "az_ID az \<in> pending_ids db" unfolding pending_ids_def p(2) [symmetric] using p(1) by blast
  ultimately show ?thesis using u st by simp
qed

lemma Finalize_inv:
  assumes "FinalizeAuthorization E db az = (db', r)" "authz_inv db"
  shows "authz_inv db' \<and> authz_only db db'"
proof (cases r)
  case (Inl e)
  then have "db' = db" using assms(1) by (auto simp: FinalizeAuthorization_def dest: in_tx_atomic)
  with assms show ?thesis by simp
next
  case (Inr u)
  define db1 where "db1 = db\<lparr>authz_table := authz_table db @ [authz_row az 0],
      pendingAuthorizations := filter (\<lambda>r. ar_ID r \<noteq> az_ID az) (pendingAuthorizations db)\<rparr>"
  have f: "az_ID az \<in> pending_ids db" "\<not> statusIsPending (az_Status az)"
      "updateChallenges E (az_ID az) (Challenges az) db1 = Inr db'"
    using Finalize_success [of E db az db'] assms Inr unfolding db1_def by auto
  have "chall_inv db1" using assms(2) by (simp add: db1_def authz_inv_def chall_inv_def)
  note ch = updateChallenges_inv [OF f(3) this]
  from ch(3) obtain chs where db': "db' = db1\<lparr>challenges := chs\<rparr>" by blast
  have ids: "pending_ids db' = pending_ids db - {az_ID az}" "final_ids db' = insert (az_ID az) (final_ids db)"
    by (auto simp: db' db1_def pending_ids_def final_ids_def authz_row_def)
  have "map cm_AuthorizationID (challenges db') = map cm_AuthorizationID (challenges db)"
    using ch(2) by (simp add: db1_def)
  then have "\<forall>c \<in> set (challenges db'). cm_AuthorizationID c \<in> pending_ids db \<union> final_ids db"
    by (rule owners_kept) (use assms(2) in \<open>simp add: authz_inv_def\<close>)
  moreover have "az_ID az \<notin> final_ids db" using f(1) assms(2) by (auto simp: authz_inv_def)
  then have "distinct (map ar_ID (authz_table db'))"
    using assms(2) by (auto simp: db' db1_def authz_inv_def final_ids_def authz_row_def)
  moreover have "distinct (map ar_ID (pendingAuthorizations db'))"
    using assms(2) by (simp add: db' db1_def authz_inv_def distinct_map_filter)
  moreover have "\<forall>r \<in> set (authz_table db'). \<not> statusIsPending (ar_Status r)"
    "\<forall>r \<in> set (pendingAuthorizations db'). ar_LockCol r > 0"
    using assms(2) f(2) by (auto simp: db' db1_def authz_inv_def authz_row_def)
  moreover have "pending_ids db \<inter> final_ids db = {}" using assms(2) by (simp add: authz_inv_def)
  ultimately have "authz_inv db'" using ch(1) unfolding authz_inv_def ids by blast
  moreover have "authz_only db db'" by (rule authz_onlyI) (simp_all add: db' db1_def)
  ultimately show ?thesis by blast
qed

text \<open>
  Changes of the status column of some rows to a final status keep the invariant.
\<close>

definition set_status :: "(authzRow \<Rightarrow> bool) \<Rightarrow> AcmeStatus \<Rightarrow> authzRow \<Rightarrow> authzRow" where
  "set_status P st r = (if P r then r\<lparr>ar_Status := st\<rparr> else r)"

lemma set_status_ID [simp]: "ar_ID (set_status P st r) = ar_ID r"
  by (simp add: set_status_def)

lemma set_status_LockCol [simp]: "ar_LockCol (set_status P st r) = ar_LockCol r"
  by (simp add: set_status_def)

lemma set_status_inv:
  assumes "authz_inv db" "\<not> statusIsPending st"
  shows "authz_inv (db\<lparr>pendingAuthorizations := map (set_status P st) (pendingAuthorizations db),
     authz_table := map (set_status Q st) (authz_table db)\<rparr>)"
proof -
  have "statusIsPending (ar_Status (set_status Q st r)) \<Longrightarrow> statusIsPending (ar_Status r)" for r
    using assms(2) by (simp add: set_status_def split: if_splits)
  then show ?thesis using assms
    by (auto simp: authz_inv_def chall_inv_def pending_ids_def final_ids_def image_image comp_def)
qed

lemma set_status_compose:
  "map (set_status Q st) (map (set_status P st) rs) =
     map (set_status (\<lambda>r. P r \<or> Q (set_status P st r)) st) rs"
  by (induction rs) (auto simp: set_status_def)

lemma set_status_none [simp]: "map (set_status (\<lambda>_. False) st) rs = rs"
  by (induction rs) (simp_all add: set_status_def)

lemma statusRevoked_not_pending [simp]:
  "\<not> statusIsPending StatusRevoked" "\<not> statusIsPending StatusDeactivated"
  by (simp_all add: statusIsPending_def status_defs)

lemma set_status_pending_inv:
  assumes "authz_inv db" "\<not> statusIsPending st"
  shows "authz_inv (db\<lparr>pendingAuthorizations := map (set_status P st) (pendingAuthorizations db)\<rparr>)"
  using set_status_inv [OF assms, where P = P and Q = "\<lambda>_. False"] by simp

lemma set_status_final_inv:
  assumes "authz_inv db" "\<not> statusIsPending st"
  shows "authz_inv (db\<lparr>authz_table := map (set_status P st) (authz_table db)\<rparr>)"
  using set_status_inv [OF assms, where P = "\<lambda>_. False" and Q = P] by simp

lemma Deactivate_success:
  assumes "DeactivateAuthorization_sa E db aid = (db', Inr ())"
  shows "db' = db\<lparr>pendingAuthorizations :=
             map (set_status (\<lambda>r. ar_ID r = aid \<and> ar_Status r = StatusPending) StatusDeactivated)
               (pendingAuthorizations db)\<rparr> \<or>
         (fault E (DbSelect ''count pendingAuthorizations'') \<noteq> None \<or> aid \<notin> pending_ids db) \<and>
         db' = db\<lparr>authz_table :=
             map (set_status (\<lambda>r. ar_ID r = aid \<and> ar_Status r = StatusValid) StatusDeactivated)
               (authz_table db)\<rparr>"
  using assms
  by (auto simp: DeactivateAuthorization_sa_def go_result existingPending_iff set_status_def
      split: if_splits option.splits)

lemma Deactivate_inv:
  assumes "DeactivateAuthorization_sa E db aid = (db', r)" "authz_inv db"
  shows "authz_inv db' \<and> authz_only db db'"
proof (cases r)
  case (Inl e)
  then have "db' = db" using assms(1) by (auto simp: DeactivateAuthorization_sa_def dest: in_tx_atomic)
  with assms show ?thesis by simp
next
  case (Inr u)
  with Deactivate_success [of E db aid db'] assms show ?thesis
    by (auto intro!: set_status_pending_inv set_status_final_inv authz_onlyI)
qed

subsection \<open>The revocation loop\<close>

lemma revokeAuthorizations_Inr:
  "revokeAuthorizations f rows ids = Inr (rows', n) \<longleftrightarrow>
     f = None \<and> rows' = map (set_status (\<lambda>r. ar_ID r \<in> set ids) StatusRevoked) rows \<and>
     n = length (filter (\<lambda>r. ar_ID r \<in> set ids) rows)"
  by (auto simp: revokeAuthorizations_def set_status_def split: option.splits)

lemma revoke_loop_shape:
  "\<exists>P. fst (revoke_loop f g ident nw rows n) = map (set_status P StatusRevoked) rows"
proof (induction f g ident nw rows n rule: revoke_loop.induct)
  case (1 f g ident nw rows n)
  have stay: "\<exists>P. rows = map (set_status P StatusRevoked) rows"
    by (rule exI [of _ "\<lambda>_. False"]) simp
  show ?case
  proof (cases "\<exists>ids rows' m. getAuthorizationIDsByDomain f rows ident nw = Inr ids \<and> ids \<noteq> [] \<and>
      revokeAuthorizations g rows ids = Inr (rows', m)")
    case True
    then obtain ids rows' m where r: "getAuthorizationIDsByDomain f rows ident nw = Inr ids" "ids \<noteq> []"
        "revokeAuthorizations g rows ids = Inr (rows', m)" by blast
    then have rows': "rows' = map (set_status (\<lambda>r. ar_ID r \<in> set ids) StatusRevoked) rows"
      by (simp add: revokeAuthorizations_Inr)
    show ?thesis
    proof (cases "m < length ids")
      case True
      then show ?thesis using r rows' by (subst revoke_loop.simps) auto
    next
      case False
      with "1.IH" [OF r(1,2) r(3)] obtain P
        where "fst (revoke_loop f g ident nw rows' (n + m)) = map (set_status P StatusRevoked) rows'" by auto
      then show ?thesis using r False unfolding rows' set_status_compose
        by (subst revoke_loop.simps) auto
    qed
  next
    case False
    then show ?thesis using stay
      by (subst revoke_loop.simps) (auto split: sum.splits if_splits)
  qed
qed

lemma Revoke_inv:
  assumes "authz_inv db"
  shows "authz_inv (fst (RevokeAuthorizationsByDomain E db ident)) \<and>
    authz_only db (fst (RevokeAuthorizationsByDomain E db ident))"
proof -
  obtain rows n e where l: "revoke_loop (db_fault E (DbSelect ''authz'')) (db_fault E (DbExec ''authz''))
      ident (now E) (authz_table db) 0 = (rows, n, e)" by (rule prod_cases3)
  then obtain P where P: "rows = map (set_status P StatusRevoked) (authz_table db)"
    using revoke_loop_shape by (metis fst_conv)
  obtain rows' m e' where l': "revoke_loop (db_fault E (DbSelect ''pendingAuthorizations''))
      (db_fault E (DbExec ''pendingAuthorizations'')) ident (now E) (pendingAuthorizations db) 0 =
      (rows', m, e')" by (rule prod_cases3)
  then obtain Q where Q: "rows' = map (set_status Q StatusRevoked) (pendingAuthorizations db)"
    using revoke_loop_shape by (metis fst_conv)
  have i1: "authz_inv (db\<lparr>authz_table := rows\<rparr>)" unfolding P by (rule set_status_final_inv) (simp_all add: assms)
  have "authz_inv (db\<lparr>pendingAuthorizations := rows', authz_table := rows\<rparr>)"
    unfolding P Q by (rule set_status_inv) (simp_all add: assms)
  moreover have "db\<lparr>pendingAuthorizations := rows', authz_table := rows\<rparr> =
      db\<lparr>authz_table := rows, pendingAuthorizations := rows'\<rparr>" by simp
  ultimately show ?thesis using i1 l l'
    by (cases e) (auto simp: RevokeAuthorizationsByDomain_def intro!: authz_onlyI)
qed

text \<open>
  Without failures the loop revokes exactly the revocable rows and counts them, however many
  batches that takes.
\<close>

lemma count_partition:
  "(\<And>r. r \<in> set rs \<Longrightarrow> P r \<Longrightarrow> Q r) \<Longrightarrow>
   length (filter P rs) + length (filter (\<lambda>r. Q r \<and> \<not> P r) rs) = length (filter Q rs)"
  by (induction rs) auto

lemma batch_size:
  assumes "distinct (map ar_ID rows)" "ids = take k (map ar_ID (filter R rows))"
  shows "length ids \<le> length (filter (\<lambda>r. ar_ID r \<in> set ids) rows)"
proof -
  have "distinct ids" using assms by (simp add: distinct_map_filter)
  then have "length ids = card (set ids)" by (simp add: distinct_card)
  also have "\<dots> \<le> card (ar_ID ` set (filter (\<lambda>r. ar_ID r \<in> set ids) rows))"
  proof (rule card_mono)
    show "set ids \<subseteq> ar_ID ` set (filter (\<lambda>r. ar_ID r \<in> set ids) rows)"
    proof
      fix i assume i: "i \<in> set ids"
      then have "i \<in> ar_ID ` set (filter R rows)" unfolding assms(2) by (auto dest: in_set_takeD)
      with i show "i \<in> ar_ID ` set (filter (\<lambda>r. ar_ID r \<in> set ids) rows)" by auto
    qed
  qed simp
  also have "\<dots> \<le> length (filter (\<lambda>r. ar_ID r \<in> set ids) rows)"
    by (meson card_image_le card_length finite_set order_trans)
  finally show ?thesis .
qed

lemma revoke_loop_complete:
  assumes "distinct (map ar_ID rows)"
  shows "revoke_loop None None ident nw rows n =
     (map (set_status (revocable ident nw) StatusRevoked) rows,
      n + length (filter (revocable ident nw) rows), None)"
  using assms
proof (induction "None :: goerror option" "None :: goerror option" ident nw rows n rule: revoke_loop.induct)
  case (1 ident nw rows n)
  define ids where "ids = take getAuthorizationIDsMax (map ar_ID (filter (revocable ident nw) rows))"
  have sel: "getAuthorizationIDsByDomain None rows ident nw = Inr ids"
    by (simp add: getAuthorizationIDsByDomain_def ids_def)
  show ?case
  proof (cases "ids = []")
    case True
    then have none: "filter (revocable ident nw) rows = []"
      by (auto simp: ids_def getAuthorizationIDsMax_def take_eq_Nil)
    then have "map (set_status (revocable ident nw) StatusRevoked) rows = rows"
      by (intro map_idI) (auto simp: set_status_def filter_empty_conv)
    with True none show ?thesis by (subst revoke_loop.simps) (simp add: sel)
  next
    case False
    define I where "I = (\<lambda>r :: authzRow. ar_ID r \<in> set ids)"
    define rows' where "rows' = map (set_status I StatusRevoked) rows"
    have rev: "revokeAuthorizations None rows ids = Inr (rows', length (filter I rows))"
      by (simp add: revokeAuthorizations_Inr rows'_def I_def)
    have size: "\<not> length (filter I rows) < length ids"
      using batch_size [OF "1.prems" ids_def] by (simp add: I_def)
    have I: "revocable ident nw r" if rI: "r \<in> set rows" "I r" for r
    proof -
      have "ar_ID r \<in> ar_ID ` set (filter (revocable ident nw) rows)"
        using rI(2) set_take_subset [of getAuthorizationIDsMax "map ar_ID (filter (revocable ident nw) rows)"]
        by (auto simp: I_def ids_def)
      then obtain r' where "r' \<in> set rows" "revocable ident nw r'" "ar_ID r' = ar_ID r" by auto
      with rI(1) "1.prems" show ?thesis by (auto simp: distinct_map inj_on_def)
    qed
    have d: "distinct (map ar_ID rows')" using "1.prems" by (simp add: rows'_def comp_def)
    have "map (set_status (revocable ident nw) StatusRevoked) rows' =
        map (set_status (revocable ident nw) StatusRevoked) rows"
      unfolding rows'_def map_map using I
      by (intro map_cong) (auto simp: set_status_def revoked_not_revocable)
    moreover have "length (filter (revocable ident nw) rows') =
        length (filter (\<lambda>r. revocable ident nw r \<and> \<not> I r) rows)"
      unfolding rows'_def filter_map length_map
      by (intro arg_cong [of _ _ length] filter_cong)
         (auto simp: set_status_def revoked_not_revocable)
    ultimately show ?thesis
      using "1.hyps" [OF sel False rev refl size d] count_partition [of rows I "revocable ident nw"] I size False
      by (subst revoke_loop.simps) (simp add: sel rev)
  qed
qed

end
