(* ===== verification/SaTables.thy ===== *)
theory SaTables
  imports SaInv
begin

text \<open>
  What the storage authority's operations on registrations and certificates do to the
  database invariant, and the operations taken together as a transition system.
\<close>

section \<open>Registrations\<close>

definition reg_only :: "database \<Rightarrow> database \<Rightarrow> bool" where
  "reg_only db db' \<longleftrightarrow> (\<exists>r n. db' = db\<lparr>registrations := r, next_reg_id := n\<rparr>)"

lemma reg_only_refl [simp]: "reg_only db db"
  unfolding reg_only_def by (intro exI [of _ "registrations db"] exI [of _ "next_reg_id db"]) simp

lemma reg_only_keeps: "reg_only db db' \<Longrightarrow> authz_inv db' = authz_inv db \<and> cert_inv db' = cert_inv db"
  unfolding reg_only_def
  by (elim exE) (simp add: authz_inv_def chall_inv_def pending_ids_def final_ids_def cert_inv_def)

lemma NewRegistration_success:
  assumes "NewRegistration_sa E db reg = (db', r)" "db' \<noteq> db"
  shows "\<exists>rm. registrationToModel E (reg\<lparr>CreatedAt := now E\<rparr>) = Inr rm \<and> rm_InitialIP rm \<noteq> None \<and>
     (\<forall>x \<in> set (registrations db). rm_KeySHA256 x \<noteq> rm_KeySHA256 rm) \<and>
     db' = db\<lparr>registrations := registrations db @ [rm\<lparr>rm_ID := next_reg_id db, rm_LockCol := 1\<rparr>],
             next_reg_id := next_reg_id db + 1\<rparr>"
proof -
  obtain rm where rm: "registrationToModel E (reg\<lparr>CreatedAt := now E\<rparr>) = Inr rm" "null_ip rm = None"
    using assms by (auto simp: NewRegistration_sa_def Let_def split: sum.splits option.splits)
  obtain rows where "insert_row (db_fault E (DbInsert ''registrations'' 0)) reg_clash
      (rm\<lparr>rm_ID := next_reg_id db, rm_LockCol := 1\<rparr>) (registrations db) = Inr rows"
    and db': "db' = db\<lparr>registrations := rows, next_reg_id := next_reg_id db + 1\<rparr>"
    using assms rm by (auto simp: NewRegistration_sa_def Let_def split: sum.splits)
  then have "\<not> list_ex (reg_clash (rm\<lparr>rm_ID := next_reg_id db, rm_LockCol := 1\<rparr>)) (registrations db)"
    and rows: "rows = registrations db @ [rm\<lparr>rm_ID := next_reg_id db, rm_LockCol := 1\<rparr>]"
    by (simp_all add: insert_row_Inr)
  then have "\<forall>x \<in> set (registrations db). rm_KeySHA256 x \<noteq> rm_KeySHA256 rm"
    by (auto simp: list_ex_iff reg_clash_def)
  with rm db' rows show ?thesis by (auto simp: null_ip_def split: if_splits)
qed

lemma NewRegistration_inv:
  assumes "NewRegistration_sa E db reg = (db', r)" "reg_inv db"
  shows "reg_inv db' \<and> reg_only db db'"
proof (cases "db' = db")
  case False
  then obtain rm where rm: "rm_InitialIP rm \<noteq> None"
     "\<forall>x \<in> set (registrations db). rm_KeySHA256 x \<noteq> rm_KeySHA256 rm"
     "db' = db\<lparr>registrations := registrations db @ [rm\<lparr>rm_ID := next_reg_id db, rm_LockCol := 1\<rparr>],
             next_reg_id := next_reg_id db + 1\<rparr>"
    using NewRegistration_success [OF assms(1)] by blast
  then have "reg_inv db'" using assms(2) by (fastforce simp: reg_inv_def)
  with rm(3) show ?thesis by (auto simp: reg_only_def)
qed (use assms in simp)

text \<open>The row written by an update of a registration.\<close>

definition new_row :: "sa_env \<Rightarrow> regModel \<Rightarrow> regModel \<Rightarrow> regModel" where
  "new_row E urm r =
     urm\<lparr>rm_LockCol := rm_LockCol urm + 1,
         rm_Status := (if feat E AllowAccountDeactivation then rm_Status urm else rm_Status r)\<rparr>"

definition replace_reg :: "sa_env \<Rightarrow> regModel \<Rightarrow> regModel \<Rightarrow> regModel" where
  "replace_reg E urm r =
     (if rm_ID r = rm_ID urm \<and> rm_LockCol r = bind_version (rm_LockCol urm) then new_row E urm r else r)"

lemma replace_reg_ID [simp]: "rm_ID (replace_reg E urm r) = rm_ID r"
  by (simp add: replace_reg_def new_row_def)

lemma write_registration_success:
  assumes "write_registration E db urm = Inr (db', n)"
  shows "rm_InitialIP urm \<noteq> None \<and> db' = db\<lparr>registrations := map (replace_reg E urm) (registrations db)\<rparr> \<and>
     n = length (filter (\<lambda>r. rm_ID r = rm_ID urm \<and> rm_LockCol r = bind_version (rm_LockCol urm))
           (registrations db)) \<and>
     (n = 0 \<or> (\<forall>r \<in> set (registrations db). rm_ID r \<noteq> rm_ID urm \<longrightarrow> rm_KeySHA256 r \<noteq> rm_KeySHA256 urm))"
proof -
  define m where "m = (\<lambda>r :: regModel. rm_ID r = rm_ID urm \<and> rm_LockCol r = bind_version (rm_LockCol urm))"
  have m: "map (replace_reg E urm) rs = map (\<lambda>r. if m r then urm\<lparr>rm_LockCol := rm_LockCol urm + 1,
         rm_Status := (if feat E AllowAccountDeactivation then rm_Status urm else rm_Status r)\<rparr> else r) rs" for rs
    by (induction rs) (simp_all add: replace_reg_def m_def new_row_def)
  have ip: "null_ip urm = None" using assms by (auto simp: write_registration_def split: option.splits)
  have "rm_InitialIP urm \<noteq> None" using ip by (auto simp: null_ip_def split: if_splits)
  moreover have "n = length (filter m (registrations db))"
      "db' = db\<lparr>registrations := map (replace_reg E urm) (registrations db)\<rparr>"
    using assms ip unfolding m
    by (auto simp: write_registration_def Let_def m_def [symmetric] go_result split: if_splits)
  moreover have "n = 0 \<or> (\<forall>r \<in> set (registrations db). rm_ID r \<noteq> rm_ID urm \<longrightarrow> rm_KeySHA256 r \<noteq> rm_KeySHA256 urm)"
    using assms ip calculation(2)
    by (auto simp: write_registration_def Let_def m_def [symmetric] go_result list_ex_iff filter_empty_conv
        split: if_splits)
  ultimately show ?thesis by (simp add: m_def)
qed

lemma write_registration_inv:
  assumes "write_registration E db urm = Inr (db', n)" "reg_inv db" "rm_LockCol urm \<ge> 0"
  shows "reg_inv db' \<and> reg_only db db'"
proof -
  note w = write_registration_success [OF assms(1)]
  define m where "m z \<longleftrightarrow> rm_ID z = rm_ID urm \<and> rm_LockCol z = bind_version (rm_LockCol urm)" for z :: regModel
  have d: "distinct (registrations db)" "distinct (map rm_ID (registrations db))"
    using assms(2) by (auto simp: reg_inv_def distinct_map)
  have "inj_on (rm_KeySHA256 \<circ> replace_reg E urm) (set (registrations db))"
  proof (rule inj_onI)
    fix x y assume x: "x \<in> set (registrations db)" and y: "y \<in> set (registrations db)"
      and e: "(rm_KeySHA256 \<circ> replace_reg E urm) x = (rm_KeySHA256 \<circ> replace_reg E urm) y"
    have id: "rm_ID x = rm_ID y \<Longrightarrow> x = y" using x y d(2) by (auto simp: distinct_map inj_on_def)
    have key: "rm_KeySHA256 x = rm_KeySHA256 y \<Longrightarrow> x = y"
      using x y assms(2) by (auto simp: reg_inv_def distinct_map inj_on_def)
    have same_id: "rm_ID z = rm_ID urm"
      if "m v" "v \<in> set (registrations db)" "z \<in> set (registrations db)" "rm_KeySHA256 z = rm_KeySHA256 urm" for v z
    proof -
      have "n \<noteq> 0" using w that(1,2) unfolding m_def by (auto simp: filter_empty_conv)
      with w that(3,4) show ?thesis by blast
    qed
    have mk: "rm_KeySHA256 (replace_reg E urm z) = (if m z then rm_KeySHA256 urm else rm_KeySHA256 z)" for z
      by (simp add: replace_reg_def new_row_def m_def)
    have mi: "m z \<Longrightarrow> rm_ID z = rm_ID urm" for z by (simp add: m_def)
    show "x = y"
    proof (cases "m x"; cases "m y")
      assume "m x" "m y" then show ?thesis using id mi by metis
    next
      assume "m x" "\<not> m y" then show ?thesis using e id mi same_id x y by (metis comp_apply mk)
    next
      assume "\<not> m x" "m y" then show ?thesis using e id mi same_id x y by (metis comp_apply mk)
    next
      assume "\<not> m x" "\<not> m y" then show ?thesis using e key by (simp add: mk)
    qed
  qed
  then have "distinct (map rm_KeySHA256 (map (replace_reg E urm) (registrations db)))"
    using d(1) by (simp add: distinct_map comp_def)
  moreover have "\<forall>r \<in> set (registrations db'). rm_ID r < next_reg_id db' \<and> rm_LockCol r > 0 \<and> rm_InitialIP r \<noteq> None"
    using w assms(2,3) by (auto simp: reg_inv_def replace_reg_def new_row_def split: if_splits)
  ultimately have "reg_inv db'" using w d(2) by (simp add: reg_inv_def comp_def)
  moreover have "reg_only db db'" unfolding reg_only_def using w
    by (intro exI [of _ "map (replace_reg E urm) (registrations db)"] exI [of _ "next_reg_id db"]) simp
  ultimately show ?thesis by blast
qed

lemma UpdateRegistration_written:
  assumes "UpdateRegistration_sa E db0 db reg = (db', r)"
  shows "db' = db \<or> (\<exists>urm n l. write_registration E db (urm\<lparr>rm_LockCol := l\<rparr>) = Inr (db', n) \<and>
     (l = 0 \<or> (\<exists>x \<in> set (registrations db0). rm_ID x = reg_ID reg \<and> l = rm_LockCol x)))"
proof -
  define sel where "sel = select_one (db_fault E (DbSelect ''registrations'')) (\<lambda>r. rm_ID r = reg_ID reg)
      (registrations db0)"
  define l where "l = (case sel of Inl _ \<Rightarrow> 0 | Inr erm \<Rightarrow> rm_LockCol erm)"
  have l: "l = 0 \<or> (\<exists>x \<in> set (registrations db0). rm_ID x = reg_ID reg \<and> l = rm_LockCol x)"
  proof (cases sel)
    case (Inr x)
    then have "x \<in> set (registrations db0)" "rm_ID x = reg_ID reg"
      unfolding sel_def by (auto simp: select_one_Inr find_Some_iff)
    with Inr show ?thesis by (auto simp: l_def)
  qed (simp add: l_def)
  show ?thesis
  proof (cases "sel = Inl ErrNoRows \<or> (\<exists>e. registrationToModel E reg = Inl e)")
    case True
    with assms show ?thesis by (auto simp: UpdateRegistration_sa_def sel_def [symmetric] split: if_splits)
  next
    case False
    then obtain urm where urm: "registrationToModel E reg = Inr urm" "sel \<noteq> Inl ErrNoRows"
      by (cases "registrationToModel E reg") auto
    show ?thesis
    proof (cases "write_registration E db (urm\<lparr>rm_LockCol := l\<rparr>)")
      case (Inl e)
      with assms urm show ?thesis
        by (simp add: UpdateRegistration_sa_def sel_def [symmetric] l_def [symmetric])
    next
      case (Inr p)
      with assms urm have "fst p = db'"
        by (cases p) (auto simp: UpdateRegistration_sa_def sel_def [symmetric] l_def [symmetric] split: if_splits)
      with Inr l show ?thesis by (cases p) auto
    qed
  qed
qed

lemma UpdateRegistration_inv:
  assumes "UpdateRegistration_sa E db0 db reg = (db', r)" "reg_inv db0" "reg_inv db"
  shows "reg_inv db' \<and> reg_only db db'"
  using UpdateRegistration_written [OF assms(1)]
proof (elim disjE exE conjE)
  fix urm n l assume w: "write_registration E db (urm\<lparr>rm_LockCol := l\<rparr>) = Inr (db', n)"
  { assume "l = 0"
    with write_registration_inv [OF w assms(3)] show ?thesis by simp }
  { assume "\<exists>x \<in> set (registrations db0). rm_ID x = reg_ID reg \<and> l = rm_LockCol x"
    then have "l > 0" using assms(2) by (auto simp: reg_inv_def)
    with write_registration_inv [OF w assms(3)] show ?thesis by simp }
qed (use assms in simp)

lemma DeactivateRegistration_inv:
  assumes "DeactivateRegistration_sa E db rid = (db', r)" "reg_inv db"
  shows "reg_inv db' \<and> reg_only db db'"
proof -
  define f where "f r = (if rm_Status r = StatusValid \<and> rm_ID r = rid
      then r\<lparr>rm_Status := StatusDeactivated\<rparr> else r)" for r :: regModel
  have f [simp]: "rm_ID (f r) = rm_ID r" "rm_KeySHA256 (f r) = rm_KeySHA256 r"
    "rm_LockCol (f r) = rm_LockCol r" "rm_InitialIP (f r) = rm_InitialIP r" for r
    by (simp_all add: f_def)
  have "db' = db \<or> db' = db\<lparr>registrations := map f (registrations db)\<rparr>"
    using assms(1) unfolding f_def
    by (auto simp: DeactivateRegistration_sa_def split: option.splits)
  moreover have "reg_inv (db\<lparr>registrations := map f (registrations db)\<rparr>)"
    using assms(2) by (auto simp: reg_inv_def comp_def)
  moreover have "reg_only db (db\<lparr>registrations := map f (registrations db)\<rparr>)"
    unfolding reg_only_def
    by (intro exI [of _ "map f (registrations db)"] exI [of _ "next_reg_id db"]) simp
  ultimately show ?thesis using assms(2) by auto
qed

section \<open>Certificates\<close>

definition cert_only :: "database \<Rightarrow> database \<Rightarrow> bool" where
  "cert_only db db' \<longleftrightarrow> (\<exists>c s i f t n. db' = db\<lparr>certificates := c, certificateStatus := s, issuedNames := i,
     fqdnSets := f, sctReceipts := t, next_sct_id := n\<rparr>)"

lemma cert_only_keeps: "cert_only db db' \<Longrightarrow> authz_inv db' = authz_inv db \<and> reg_inv db' = reg_inv db"
  unfolding cert_only_def
  by (elim exE) (simp add: authz_inv_def chall_inv_def pending_ids_def final_ids_def reg_inv_def)

lemma cert_onlyI:
  assumes "registrations db' = registrations db" "pendingAuthorizations db' = pendingAuthorizations db"
    "authz_table db' = authz_table db" "challenges db' = challenges db"
    "next_reg_id db' = next_reg_id db" "next_chall_id db' = next_chall_id db"
  shows "cert_only db db'"
  unfolding cert_only_def using assms
  by (intro exI [of _ "certificates db'"] exI [of _ "certificateStatus db'"] exI [of _ "issuedNames db'"]
      exI [of _ "fqdnSets db'"] exI [of _ "sctReceipts db'"] exI [of _ "next_sct_id db'"]) simp

text \<open>The database with the rows of a new certificate.\<close>

definition with_certificate ::
  "sa_env \<Rightarrow> x509Cert \<Rightarrow> bytes \<Rightarrow> int \<Rightarrow> bytes \<Rightarrow> database \<Rightarrow> database" where
  "with_certificate E x der regID ocsp db =
     (let ser = SerialToString (x_SerialNumber x) in
      db\<lparr>certificates := certificates db @ [\<lparr>cert_RegID = regID, cert_Serial = ser,
           Digest = Fingerprint256 (sha256 E) der, DER = der, Issued = now E,
           cert_Expires = x_NotAfter x\<rparr>],
         certificateStatus := certificateStatus db @ [new_status E ser (x_NotAfter x) ocsp],
         issuedNames := issuedNames db @ map (\<lambda>name. \<lparr>ReversedName = reverseName name,
           in_NotBefore = x_NotBefore x, in_Serial = ser\<rparr>) (x_DNSNames x),
         fqdnSets := fqdnSets db @ [\<lparr>SetHash = hashNames E (x_DNSNames x), fqdn_Serial = ser,
           fqdn_Issued = x_NotBefore x, fqdn_Expires = x_NotAfter x\<rparr>]\<rparr>)"

lemma AddCertificate_success:
  assumes "AddCertificate E pc db der regID ocsp = (db', Inr digest)"
  shows "\<exists>x. pc der = Inr x \<and> SerialToString (x_SerialNumber x) \<notin> cert_Serial ` set (certificates db) \<and>
     x_DNSNames x \<noteq> [] \<and> digest = Fingerprint256 (sha256 E) der \<and>
     db' = with_certificate E x der regID ocsp db"
proof -
  obtain x where x: "pc der = Inr x" using assms by (auto simp: AddCertificate_def split: sum.splits)
  show ?thesis using assms x
    by (auto simp: AddCertificate_def Let_def go_result addIssuedNames_def addFQDNSet_def list_ex_iff
        with_certificate_def split: option.splits if_splits)
qed

lemma AddCertificate_failure:
  "AddCertificate E pc db der regID ocsp = (db', Inl e) \<Longrightarrow> db' = db"
  by (auto simp: AddCertificate_def Let_def split: sum.splits dest: in_tx_atomic)

lemma with_certificate_inv:
  assumes "SerialToString (x_SerialNumber x) \<notin> cert_Serial ` set (certificates db)" "x_DNSNames x \<noteq> []"
    and "cert_inv db"
  shows "cert_inv (with_certificate E x der regID ocsp db)"
proof -
  have "(\<lambda>_. SerialToString (x_SerialNumber x)) ` set (x_DNSNames x) = {SerialToString (x_SerialNumber x)}"
    using assms(2) by (auto simp: image_constant_conv)
  moreover have "in_Serial ` set (issuedNames db) = cert_Serial ` set (certificates db)"
    using assms(3) by (simp add: cert_inv_def)
  ultimately show ?thesis using assms(1,3)
    by (simp add: cert_inv_def with_certificate_def Let_def new_status_def image_Un image_image)
qed

lemma AddCertificate_inv:
  assumes "AddCertificate E pc db der regID ocsp = (db', r)" "cert_inv db"
  shows "cert_inv db' \<and> cert_only db db'"
proof (cases r)
  case (Inl e)
  with assms(1) have "db' = db" by (simp add: AddCertificate_failure)
  with assms(2) show ?thesis by (simp add: cert_onlyI)
next
  case (Inr digest)
  with AddCertificate_success [of E pc db der regID ocsp db' digest] assms(1) obtain x
    where x: "SerialToString (x_SerialNumber x) \<notin> cert_Serial ` set (certificates db)" "x_DNSNames x \<noteq> []"
      "db' = with_certificate E x der regID ocsp db" by auto
  have "cert_only db db'" unfolding x(3) by (rule cert_onlyI) (simp_all add: with_certificate_def Let_def)
  with with_certificate_inv [OF x(1,2) assms(2)] x(3) show ?thesis by simp
qed

definition revoke_status :: "sa_env \<Rightarrow> string \<Rightarrow> int \<Rightarrow> CertificateStatus \<Rightarrow> CertificateStatus" where
  "revoke_status E ser reason s =
     (if cs_Serial s = ser
      then s\<lparr>cs_Status := OCSPStatusRevoked, RevokedDate := now E, RevokedReason := reason,
            LockCol := LockCol s + 1\<rparr>
      else s)"

lemma revoke_status_Serial [simp]: "cs_Serial (revoke_status E ser reason s) = cs_Serial s"
  by (simp add: revoke_status_def)

lemma MarkCertificateRevoked_failure:
  "MarkCertificateRevoked E db ser reason = (db', Inl e) \<Longrightarrow> db' = db"
  by (auto simp: MarkCertificateRevoked_def split: sum.splits dest: in_tx_atomic)

lemma mark_body:
  assumes "MarkCertificateRevoked E db ser reason = (db', Inr ())"
  shows "\<exists>st. find (\<lambda>s. cs_Serial s = ser) (certificateStatus db) = Some st \<and>
     db' = db\<lparr>certificateStatus := map (\<lambda>s. if cs_Serial s = cs_Serial st \<and>
        LockCol s = bind_version (LockCol st)
        then st\<lparr>cs_Status := OCSPStatusRevoked, RevokedDate := now E, RevokedReason := reason,
          LockCol := LockCol st + 1\<rparr> else s) (certificateStatus db)\<rparr>"
proof (cases "GetCertificate E db ser")
  case (Inr c)
  show ?thesis
  proof (cases "GetCertificateStatus E db ser")
    case (Inr st0)
    show ?thesis
      using assms \<open>GetCertificate E db ser = Inr c\<close> Inr
      by (cases "select_one (db_fault E (DbSelect ''tx certificateStatus'')) (\<lambda>s. cs_Serial s = ser)
            (certificateStatus db)")
         (simp_all add: MarkCertificateRevoked_def in_tx_Inr bind_result_eq_Inr select_one_Inr
            update_rows_Inr split_paired_Ex split: if_splits)
  qed (use assms Inr in \<open>simp add: MarkCertificateRevoked_def\<close>)
qed (use assms in \<open>simp add: MarkCertificateRevoked_def\<close>)

lemma MarkCertificateRevoked_success:
  assumes "MarkCertificateRevoked E db ser reason = (db', Inr ())" "cert_inv db"
  shows "ser \<in> cs_Serial ` set (certificateStatus db) \<and>
     db' = db\<lparr>certificateStatus := map (revoke_status E ser reason) (certificateStatus db)\<rparr>"
proof -
  obtain st where st: "find (\<lambda>s. cs_Serial s = ser) (certificateStatus db) = Some st"
    and db': "db' = db\<lparr>certificateStatus := map (\<lambda>s. if cs_Serial s = cs_Serial st \<and>
        LockCol s = bind_version (LockCol st)
        then st\<lparr>cs_Status := OCSPStatusRevoked, RevokedDate := now E, RevokedReason := reason,
          LockCol := LockCol st + 1\<rparr> else s) (certificateStatus db)\<rparr>"
    using mark_body [OF assms(1)] by blast
  have s: "st \<in> set (certificateStatus db)" "cs_Serial st = ser" using st by (auto simp: find_Some_iff)
  have "distinct (map cs_Serial (certificateStatus db))" using assms(2) by (simp add: cert_inv_def)
  then have u: "x = st" if "x \<in> set (certificateStatus db)" "cs_Serial x = ser" for x
    using that s by (auto simp: distinct_map inj_on_def)
  have "LockCol st > 0" using s assms(2) by (auto simp: cert_inv_def)
  have "map (\<lambda>s. if cs_Serial s = cs_Serial st \<and> LockCol s = bind_version (LockCol st)
        then st\<lparr>cs_Status := OCSPStatusRevoked, RevokedDate := now E, RevokedReason := reason,
          LockCol := LockCol st + 1\<rparr> else s) (certificateStatus db) =
      map (revoke_status E ser reason) (certificateStatus db)"
  proof (rule map_cong [OF refl])
    fix x assume x: "x \<in> set (certificateStatus db)"
    show "(if cs_Serial x = cs_Serial st \<and> LockCol x = bind_version (LockCol st)
        then st\<lparr>cs_Status := OCSPStatusRevoked, RevokedDate := now E, RevokedReason := reason,
          LockCol := LockCol st + 1\<rparr> else x) = revoke_status E ser reason x"
    proof (cases "cs_Serial x = ser")
      case True
      then have "x = st" using u x by blast
      with \<open>LockCol st > 0\<close> s show ?thesis by (simp add: revoke_status_def bind_version_def)
    qed (simp add: revoke_status_def s)
  qed
  with db' s show ?thesis by auto
qed

lemma MarkCertificateRevoked_inv:
  assumes "MarkCertificateRevoked E db ser reason = (db', r)" "cert_inv db"
  shows "cert_inv db' \<and> cert_only db db'"
proof (cases r)
  case (Inl e)
  with assms(1) have "db' = db" by (simp add: MarkCertificateRevoked_failure)
  with assms(2) show ?thesis by (simp add: cert_onlyI)
next
  case (Inr u)
  with MarkCertificateRevoked_success [of E db ser reason db'] assms
  have "db' = db\<lparr>certificateStatus := map (revoke_status E ser reason) (certificateStatus db)\<rparr>" by simp
  moreover have "\<forall>s \<in> set (certificateStatus db). LockCol (revoke_status E ser reason s) > 0 \<and>
      cs_Status (revoke_status E ser reason s) \<in> {OCSPStatusGood, OCSPStatusRevoked}"
    using assms(2) by (auto simp: cert_inv_def revoke_status_def)
  ultimately have "cert_inv db'" "db' = db\<lparr>certificateStatus := map (revoke_status E ser reason) (certificateStatus db)\<rparr>"
    using assms(2) by (simp_all add: cert_inv_def comp_def)
  then show ?thesis by (simp add: cert_onlyI)
qed

lemma AddSCTReceipt_inv:
  assumes "AddSCTReceipt E db sct = (db', r)" "cert_inv db"
  shows "cert_inv db' \<and> cert_only db db'"
proof -
  have "db' = db \<or> (\<exists>rows n. db' = db\<lparr>sctReceipts := rows, next_sct_id := n\<rparr>)"
    using assms(1) by (auto simp: AddSCTReceipt_def split: sum.splits if_splits)
  then show ?thesis using assms(2) by (elim disjE exE) (simp_all add: cert_inv_def cert_onlyI)
qed


section \<open>The storage authority as a transition system\<close>

text \<open>
  One step per operation that writes. \<open>UpdReg\<close> carries the database its first statement read,
  which may be older than the one it writes to.
\<close>

datatype sa_op =
    NewReg Registration
  | UpdReg database Registration
  | DeactReg int
  | NewPending "bytes list" Authorization
  | UpdPending Authorization
  | Finalize Authorization
  | DeactAuthz string
  | RevokeDomain AcmeIdentifier
  | AddCert bytes int bytes
  | MarkRevoked string int
  | AddSCT SignedCertificateTimestamp

fun sa_step ::
  "(bytes \<Rightarrow> string + x509Cert) \<Rightarrow> database \<Rightarrow> sa_env \<times> sa_op \<Rightarrow> database" where
  "sa_step pc db (E, NewReg reg) = fst (NewRegistration_sa E db reg)"
| "sa_step pc db (E, UpdReg db0 reg) = fst (UpdateRegistration_sa E db0 db reg)"
| "sa_step pc db (E, DeactReg rid) = fst (DeactivateRegistration_sa E db rid)"
| "sa_step pc db (E, NewPending draws az) =
     (case NewPendingAuthorization E draws db az of None \<Rightarrow> db | Some (db', _) \<Rightarrow> db')"
| "sa_step pc db (E, UpdPending az) = fst (UpdatePendingAuthorization E db az)"
| "sa_step pc db (E, Finalize az) = fst (FinalizeAuthorization E db az)"
| "sa_step pc db (E, DeactAuthz aid) = fst (DeactivateAuthorization_sa E db aid)"
| "sa_step pc db (E, RevokeDomain ident) = fst (RevokeAuthorizationsByDomain E db ident)"
| "sa_step pc db (E, AddCert der regID ocsp) = fst (AddCertificate E pc db der regID ocsp)"
| "sa_step pc db (E, MarkRevoked ser reason) = fst (MarkCertificateRevoked E db ser reason)"
| "sa_step pc db (E, AddSCT sct) = fst (AddSCTReceipt E db sct)"

text \<open>
  The only condition on a step: the query by which \<^verbatim>\<open>NewPendingAuthorization\<close> looks for a
  finalized authorization with the drawn id does not fail, since its error is ignored. The
  database read by an update of a registration satisfied the invariant at its time.
\<close>

fun sa_guard :: "database \<Rightarrow> sa_env \<times> sa_op \<Rightarrow> bool" where
  "sa_guard db (E, NewPending draws az) = (fault E (DbSelect ''count authz'') = None)"
| "sa_guard db (E, UpdReg db0 reg) = reg_inv db0"
| "sa_guard db _ = True"

lemma authz_step_inv:
  "authz_inv db' \<and> authz_only db db' \<Longrightarrow> db_inv db \<Longrightarrow> db_inv db'"
  using authz_only_keeps by (auto simp: db_inv_def)

lemma reg_step_inv:
  "reg_inv db' \<and> reg_only db db' \<Longrightarrow> db_inv db \<Longrightarrow> db_inv db'"
  using reg_only_keeps by (auto simp: db_inv_def)

lemma cert_step_inv:
  "cert_inv db' \<and> cert_only db db' \<Longrightarrow> db_inv db \<Longrightarrow> db_inv db'"
  using cert_only_keeps by (auto simp: db_inv_def)

lemma db_inv_parts: "db_inv db \<Longrightarrow> authz_inv db" "db_inv db \<Longrightarrow> reg_inv db" "db_inv db \<Longrightarrow> cert_inv db"
  by (simp_all add: db_inv_def)

lemma sa_db_inv:
  "db_inv db \<Longrightarrow> db_inv (fst (NewRegistration_sa E db reg))"
  "db_inv db \<Longrightarrow> reg_inv db0 \<Longrightarrow> db_inv (fst (UpdateRegistration_sa E db0 db reg))"
  "db_inv db \<Longrightarrow> db_inv (fst (DeactivateRegistration_sa E db rid))"
  "db_inv db \<Longrightarrow> db_inv (fst (UpdatePendingAuthorization E db az))"
  "db_inv db \<Longrightarrow> db_inv (fst (FinalizeAuthorization E db az))"
  "db_inv db \<Longrightarrow> db_inv (fst (DeactivateAuthorization_sa E db aid))"
  "db_inv db \<Longrightarrow> db_inv (fst (RevokeAuthorizationsByDomain E db ident))"
  "db_inv db \<Longrightarrow> db_inv (fst (AddCertificate E pc db der regID ocsp))"
  "db_inv db \<Longrightarrow> db_inv (fst (MarkCertificateRevoked E db ser reason))"
  "db_inv db \<Longrightarrow> db_inv (fst (AddSCTReceipt E db sct))"
  by (rule reg_step_inv [OF NewRegistration_inv [OF surjective_pairing]], simp_all add: db_inv_parts)
     (rule reg_step_inv [OF UpdateRegistration_inv [OF surjective_pairing]]
        reg_step_inv [OF DeactivateRegistration_inv [OF surjective_pairing]]
        authz_step_inv [OF UpdatePending_inv [OF surjective_pairing]]
        authz_step_inv [OF Finalize_inv [OF surjective_pairing]]
        authz_step_inv [OF Deactivate_inv [OF surjective_pairing]]
        authz_step_inv [OF Revoke_inv]
        cert_step_inv [OF AddCertificate_inv [OF surjective_pairing]]
        cert_step_inv [OF MarkCertificateRevoked_inv [OF surjective_pairing]]
        cert_step_inv [OF AddSCTReceipt_inv [OF surjective_pairing]],
      simp_all add: db_inv_parts)+

lemma NewPending_db_inv:
  assumes "db_inv db" "fault E (DbSelect ''count authz'') = None"
  shows "db_inv (case NewPendingAuthorization E draws db az of None \<Rightarrow> db | Some (db', _) \<Rightarrow> db')"
  using assms NewPending_inv [of E draws db az] authz_step_inv [of _ db]
  by (cases "NewPendingAuthorization E draws db az") (auto simp: db_inv_parts)

lemma sa_step_inv: "db_inv db \<Longrightarrow> sa_guard db x \<Longrightarrow> db_inv (sa_step pc db x)"
  by (cases x; cases "snd x") (auto simp: sa_db_inv NewPending_db_inv)

interpretation storage: machine "sa_step pc" sa_guard db_inv
  for pc
  by unfold_locales (rule sa_step_inv)

end
