(* ===== verification/SaLife.thy ===== *)
theory SaLife
  imports SaTables
begin

text \<open>
  The life of an authorization and of a certificate in the storage authority: an abstract
  relation on the stages of an authorization, which every operation refines for every
  pattern of database failures, and what sequences of operations can do to certificates.
\<close>

section \<open>Finding rows\<close>

lemma find_map_key:
  "(\<And>r. key (f r) = key r) \<Longrightarrow>
   find (\<lambda>r. key r = a) (map f rows) = map_option f (find (\<lambda>r. key r = a) rows)"
  by (induction rows) auto

lemma find_append: "find P (xs @ ys) = (case find P xs of None \<Rightarrow> find P ys | Some x \<Rightarrow> Some x)"
  by (induction xs) auto

lemma find_filter_key:
  "find (\<lambda>r. key r = a) (filter (\<lambda>r. key r \<noteq> b) rows) =
     (if a = b then None else find (\<lambda>r. key r = a) rows)"
  by (induction rows) auto

lemma find_key_None: "find (\<lambda>r. key r = a) rows = None \<longleftrightarrow> a \<notin> key ` set rows"
  by (auto simp: find_None_iff)

lemma find_key_Some: "find (\<lambda>r. key r = a) rows = Some r \<Longrightarrow> r \<in> set rows \<and> key r = a"
  by (auto simp: find_Some_iff)

lemma find_key_ex: "a \<in> key ` set rows \<Longrightarrow> \<exists>r. find (\<lambda>r. key r = a) rows = Some r"
  using find_key_None [of key a rows] by (cases "find (\<lambda>r. key r = a) rows") auto

lemma find_key_distinct:
  assumes "distinct (map key rows)" "r \<in> set rows"
  shows "find (\<lambda>x. key x = key r) rows = Some r"
proof -
  obtain x where x: "find (\<lambda>x. key x = key r) rows = Some x"
    using assms(2) find_key_ex [of "key r" key rows] by auto
  then have "x = r"
    using find_key_Some [OF x] assms by (auto simp: distinct_map inj_on_def)
  with x show ?thesis by simp
qed

section \<open>The life of an authorization\<close>

text \<open>
  Abstractly an authorization does not exist yet, is open (a row of the table of pending
  authorizations) or closed (a row of the table of final ones), with a status.
\<close>

datatype stage = Absent | Open AcmeStatus | Closed AcmeStatus

fun row_stage :: "authzRow option \<Rightarrow> authzRow option \<Rightarrow> stage" where
  "row_stage (Some r) _ = Open (ar_Status r)"
| "row_stage None (Some r) = Closed (ar_Status r)"
| "row_stage None None = Absent"

definition stage_of :: "database \<Rightarrow> string \<Rightarrow> stage" where
  "stage_of db aid = row_stage (find (\<lambda>r. ar_ID r = aid) (pendingAuthorizations db))
     (find (\<lambda>r. ar_ID r = aid) (authz_table db))"

inductive life_step :: "stage \<Rightarrow> stage \<Rightarrow> bool" where
  stay: "life_step s s"
| create: "life_step Absent (Open s)"
| update: "statusIsPending s' \<Longrightarrow> life_step (Open s) (Open s')"
| finalize: "\<not> statusIsPending s' \<Longrightarrow> life_step (Open s) (Closed s')"
| deactivate_open: "life_step (Open StatusPending) (Open StatusDeactivated)"
| deactivate: "life_step (Closed StatusValid) (Closed StatusDeactivated)"
| revoke_open: "s \<noteq> StatusInvalid \<Longrightarrow> s \<noteq> StatusRevoked \<Longrightarrow> life_step (Open s) (Open StatusRevoked)"
| revoke: "s \<noteq> StatusInvalid \<Longrightarrow> s \<noteq> StatusRevoked \<Longrightarrow> life_step (Closed s) (Closed StatusRevoked)"

inductive_cases life_step_ClosedE: "life_step (Closed s) s'"

lemma stage_same_tables:
  "pendingAuthorizations db' = pendingAuthorizations db \<Longrightarrow> authz_table db' = authz_table db \<Longrightarrow>
   stage_of db' = stage_of db"
  by (simp add: stage_of_def fun_eq_iff)

lemma stage_reg_only: "reg_only db db' \<Longrightarrow> stage_of db' = stage_of db"
  by (rule stage_same_tables) (auto simp: reg_only_def)

lemma stage_cert_only: "cert_only db db' \<Longrightarrow> stage_of db' = stage_of db"
  by (rule stage_same_tables) (auto simp: cert_only_def)

lemma stage_Open: "r \<in> set (pendingAuthorizations db) \<Longrightarrow> \<exists>s. stage_of db (ar_ID r) = Open s"
  using find_key_ex [of "ar_ID r" ar_ID "pendingAuthorizations db"] by (auto simp: stage_of_def)

lemma life_NewPending:
  assumes "NewPendingAuthorization E draws db az = Some (db', r)" "authz_inv db"
    and "fault E (DbSelect ''count authz'') = None"
  shows "life_step (stage_of db aid) (stage_of db' aid)"
proof (cases r)
  case (Inl e)
  with assms show ?thesis by (auto dest: NewPending_failure intro: stay)
next
  case (Inr az')
  with NewPending_success assms(1) obtain i challs db1 where
    new: "fresh_id E db draws = Some i" "i \<notin> pending_ids db"
      "db1 = db\<lparr>pendingAuthorizations := pendingAuthorizations db @ [authz_row (az\<lparr>az_ID := i\<rparr>) 1]\<rparr>"
      "insert_challenges E 0 i (Challenges az) db1 = Inr (db', challs)" by blast
  obtain chs n where db': "db' = db1\<lparr>challenges := chs, next_chall_id := n\<rparr>"
    using insert_challenges_eq [OF new(4)] by blast
  show ?thesis
  proof (cases "aid = i")
    case True
    have "find (\<lambda>r. ar_ID r = i) (pendingAuthorizations db) = None"
      using new(2) by (simp add: find_key_None pending_ids_def)
    moreover have "find (\<lambda>r. ar_ID r = i) (authz_table db) = None"
      using fresh_id_spec [OF new(1)] assms(3)
      by (auto simp: find_key_None existingFinal_def list_ex_iff)
    ultimately show ?thesis using True
      by (simp add: stage_of_def db' new(3) find_append authz_row_def create)
  next
    case False
    then have "stage_of db' aid = stage_of db aid"
      by (simp add: stage_of_def db' new(3) find_append authz_row_def option.case_eq_if)
    then show ?thesis by (simp add: stay)
  qed
qed

lemma life_UpdatePending:
  assumes "UpdatePendingAuthorization E db az = (db', r)" "authz_inv db"
  shows "life_step (stage_of db aid) (stage_of db' aid)"
proof (cases r)
  case (Inl e)
  with assms(1) have "db' = db" unfolding UpdatePendingAuthorization_def by (auto dest: in_tx_atomic)
  then show ?thesis by (simp add: stay)
next
  case (Inr u)
  with UpdatePending_success assms obtain pa where
    pa: "pa \<in> set (pendingAuthorizations db)" "ar_ID pa = az_ID az" "statusIsPending (az_Status az)"
      "updateChallenges E (az_ID az) (Challenges az)
       (db\<lparr>pendingAuthorizations :=
           map (replace_authz az (ar_LockCol pa + 1)) (pendingAuthorizations db)\<rparr>) = Inr db'"
    by (metis (full_types) old.unit.exhaust)
  obtain chs where db': "db' = db\<lparr>pendingAuthorizations :=
      map (replace_authz az (ar_LockCol pa + 1)) (pendingAuthorizations db), challenges := chs\<rparr>"
    using updateChallenges_eq [OF pa(4)] assms(2) by (auto simp: authz_inv_def chall_inv_def)
  show ?thesis
  proof (cases "find (\<lambda>r. ar_ID r = aid) (pendingAuthorizations db)")
    case None
    then have "stage_of db' aid = stage_of db aid"
      by (simp add: stage_of_def db' find_map_key)
    then show ?thesis by (simp add: stay)
  next
    case (Some x)
    with find_key_Some [OF Some] pa(3) show ?thesis
      by (auto simp: stage_of_def db' find_map_key replace_authz_def authz_row_def intro: update stay)
  qed
qed

lemma life_Finalize:
  assumes "FinalizeAuthorization E db az = (db', r)" "authz_inv db"
  shows "life_step (stage_of db aid) (stage_of db' aid)"
proof (cases r)
  case (Inl e)
  with assms(1) have "db' = db" unfolding FinalizeAuthorization_def by (auto dest: in_tx_atomic)
  then show ?thesis by (simp add: stay)
next
  case (Inr u)
  with Finalize_success [of E db az db'] assms have
    fin: "az_ID az \<in> pending_ids db" "\<not> statusIsPending (az_Status az)"
      "updateChallenges E (az_ID az) (Challenges az)
       (db\<lparr>authz_table := authz_table db @ [authz_row az 0],
          pendingAuthorizations := filter (\<lambda>r. ar_ID r \<noteq> az_ID az) (pendingAuthorizations db)\<rparr>) = Inr db'"
    by auto
  obtain chs where db': "db' = db\<lparr>authz_table := authz_table db @ [authz_row az 0],
      pendingAuthorizations := filter (\<lambda>r. ar_ID r \<noteq> az_ID az) (pendingAuthorizations db),
      challenges := chs\<rparr>"
    using updateChallenges_eq [OF fin(3)] assms(2) by (auto simp: authz_inv_def chall_inv_def)
  show ?thesis
  proof (cases "aid = az_ID az")
    case True
    have "find (\<lambda>r. ar_ID r = aid) (authz_table db) = None"
      using assms(2) fin(1) True by (auto simp: find_key_None authz_inv_def final_ids_def)
    moreover obtain x where "find (\<lambda>r. ar_ID r = aid) (pendingAuthorizations db) = Some x"
      using find_key_ex [of aid ar_ID] fin(1) True by (auto simp: pending_ids_def)
    ultimately show ?thesis using True fin(2)
      by (simp add: stage_of_def db' find_filter_key find_append authz_row_def finalize)
  next
    case False
    then have "stage_of db' aid = stage_of db aid"
      by (simp add: stage_of_def db' find_filter_key find_append authz_row_def option.case_eq_if)
    then show ?thesis by (simp add: stay)
  qed
qed

text \<open>Steps that only change the status column of some rows.\<close>

lemma life_set_status_pending:
  assumes "\<And>r. r \<in> set (pendingAuthorizations db) \<Longrightarrow> P r \<Longrightarrow> life_step (Open (ar_Status r)) (Open st)"
  shows "life_step (stage_of db aid)
    (stage_of (db\<lparr>pendingAuthorizations := map (set_status P st) (pendingAuthorizations db)\<rparr>) aid)"
proof (cases "find (\<lambda>r. ar_ID r = aid) (pendingAuthorizations db)")
  case None
  then show ?thesis by (simp add: stage_of_def find_map_key stay)
next
  case (Some x)
  with assms [of x] find_key_Some [OF Some] show ?thesis
    by (auto simp: stage_of_def find_map_key set_status_def intro: stay)
qed

lemma life_set_status_final:
  assumes "\<And>r. r \<in> set (authz_table db) \<Longrightarrow> P r \<Longrightarrow> life_step (Closed (ar_Status r)) (Closed st)"
  shows "life_step (stage_of db aid)
    (stage_of (db\<lparr>authz_table := map (set_status P st) (authz_table db)\<rparr>) aid)"
proof (cases "find (\<lambda>r. ar_ID r = aid) (authz_table db)")
  case None
  then show ?thesis by (simp add: stage_of_def find_map_key stay)
next
  case (Some x)
  with assms [of x] find_key_Some [OF Some] show ?thesis
    by (cases "find (\<lambda>r. ar_ID r = aid) (pendingAuthorizations db)")
       (auto simp: stage_of_def find_map_key set_status_def intro: stay)
qed

lemma life_Deactivate:
  assumes "DeactivateAuthorization_sa E db i = (db', r)"
  shows "life_step (stage_of db aid) (stage_of db' aid)"
proof (cases r)
  case (Inl e)
  with assms(1) have "db' = db" unfolding DeactivateAuthorization_sa_def by (auto dest: in_tx_atomic)
  then show ?thesis by (simp add: stay)
next
  case (Inr u)
  then have "DeactivateAuthorization_sa E db i = (db', Inr ())" using assms by simp
  from Deactivate_success [OF this] show ?thesis
    using life_set_status_pending [of db "\<lambda>r. ar_ID r = i \<and> ar_Status r = StatusPending" StatusDeactivated aid]
      life_set_status_final [of db "\<lambda>r. ar_ID r = i \<and> ar_Status r = StatusValid" StatusDeactivated aid]
    by (auto simp: deactivate_open deactivate)
qed

lemma revoke_loop_cases:
  assumes "distinct (map ar_ID rows)"
  shows "\<exists>P. fst (revoke_loop f g ident nw rows n) = map (set_status P StatusRevoked) rows \<and>
    (\<forall>r. P r \<longrightarrow> revocable ident nw r)"
proof (cases "f = None \<and> g = None")
  case True
  then show ?thesis using revoke_loop_complete [OF assms, of ident nw n] by auto
next
  case False
  then have "fst (revoke_loop f g ident nw rows n) = rows"
    by (auto simp: revoke_loop.simps [of f g ident nw rows n] getAuthorizationIDsByDomain_def
        revokeAuthorizations_def split: option.splits)
  then show ?thesis by (intro exI [of _ "\<lambda>_. False"]) simp
qed

lemma Revoke_shape:
  assumes "authz_inv db"
  shows "\<exists>P Q. fst (RevokeAuthorizationsByDomain E db ident) =
      db\<lparr>authz_table := map (set_status P StatusRevoked) (authz_table db),
         pendingAuthorizations := map (set_status Q StatusRevoked) (pendingAuthorizations db)\<rparr> \<and>
    (\<forall>r. P r \<longrightarrow> revocable ident (now E) r) \<and> (\<forall>r. Q r \<longrightarrow> revocable ident (now E) r)"
proof -
  define a where "a = revoke_loop (db_fault E (DbSelect ''authz'')) (db_fault E (DbExec ''authz'')) ident
    (now E) (authz_table db) 0"
  define b where "b = revoke_loop (db_fault E (DbSelect ''pendingAuthorizations''))
    (db_fault E (DbExec ''pendingAuthorizations'')) ident (now E) (pendingAuthorizations db) 0"
  obtain P where P: "fst a = map (set_status P StatusRevoked) (authz_table db)"
    "\<forall>r. P r \<longrightarrow> revocable ident (now E) r"
    using revoke_loop_cases assms unfolding a_def authz_inv_def by blast
  obtain Q where Q: "fst b = map (set_status Q StatusRevoked) (pendingAuthorizations db)"
    "\<forall>r. Q r \<longrightarrow> revocable ident (now E) r"
    using revoke_loop_cases assms unfolding b_def authz_inv_def by blast
  have "fst (RevokeAuthorizationsByDomain E db ident) =
      (if snd (snd a) = None then db\<lparr>authz_table := fst a, pendingAuthorizations := fst b\<rparr>
       else db\<lparr>authz_table := fst a\<rparr>)"
    by (auto simp: RevokeAuthorizationsByDomain_def a_def [symmetric] b_def [symmetric]
        split: prod.splits option.splits)
  then show ?thesis
  proof (cases "snd (snd a) = None")
    case True
    with P Q \<open>fst (RevokeAuthorizationsByDomain E db ident) = _\<close> show ?thesis by auto
  next
    case False
    with P \<open>fst (RevokeAuthorizationsByDomain E db ident) = _\<close> show ?thesis
      by (intro exI [of _ P] exI [of _ "\<lambda>_. False"]) simp
  qed
qed

text \<open>
  The loops of one call touch different tables, so that one authorization sees at most one
  of the two changes.
\<close>

lemma life_Revoke:
  assumes "authz_inv db"
  shows "life_step (stage_of db aid) (stage_of (fst (RevokeAuthorizationsByDomain E db ident)) aid)"
proof -
  obtain P Q where R: "fst (RevokeAuthorizationsByDomain E db ident) =
      db\<lparr>authz_table := map (set_status P StatusRevoked) (authz_table db),
         pendingAuthorizations := map (set_status Q StatusRevoked) (pendingAuthorizations db)\<rparr>"
    "\<forall>r. P r \<longrightarrow> revocable ident (now E) r" "\<forall>r. Q r \<longrightarrow> revocable ident (now E) r"
    using Revoke_shape [OF assms] by blast
  show ?thesis
  proof (cases "find (\<lambda>r. ar_ID r = aid) (pendingAuthorizations db)")
    case None
    then have "stage_of (fst (RevokeAuthorizationsByDomain E db ident)) aid =
        stage_of (db\<lparr>authz_table := map (set_status P StatusRevoked) (authz_table db)\<rparr>) aid"
      by (simp add: stage_of_def R(1) find_map_key)
    then show ?thesis
      using life_set_status_final [of db P StatusRevoked aid] R(2) by (simp add: revocable_def revoke)
  next
    case (Some x)
    then have "stage_of (fst (RevokeAuthorizationsByDomain E db ident)) aid =
        stage_of (db\<lparr>pendingAuthorizations := map (set_status Q StatusRevoked) (pendingAuthorizations db)\<rparr>) aid"
      by (simp add: stage_of_def R(1) find_map_key)
    then show ?thesis
      using life_set_status_pending [of db Q StatusRevoked aid] R(3) by (simp add: revocable_def revoke_open)
  qed
qed

lemma life_reg_only: "reg_inv db' \<and> reg_only db db' \<Longrightarrow> life_step (stage_of db aid) (stage_of db' aid)"
  by (metis stage_reg_only stay)

lemma life_cert_only: "cert_inv db' \<and> cert_only db db' \<Longrightarrow> life_step (stage_of db aid) (stage_of db' aid)"
  by (metis stage_cert_only stay)

lemma sa_step_life:
  assumes "db_inv db" "sa_guard db x"
  shows "life_step (stage_of db aid) (stage_of (sa_step pc db x) aid)"
proof -
  note parts = db_inv_parts [OF assms(1)]
  obtain E c where x: "x = (E, c)" by (cases x)
  show ?thesis
  proof (cases c)
    case (NewPending draws az)
    then show ?thesis
      using life_NewPending [of E draws db az _ _ aid] parts assms(2)
      by (auto simp: x stay split: option.splits prod.splits)
  next
    case (UpdPending az)
    then show ?thesis
      using life_UpdatePending [OF surjective_pairing parts(1)] by (simp add: x)
  next
    case (Finalize az)
    then show ?thesis
      using life_Finalize [OF surjective_pairing parts(1)] by (simp add: x)
  next
    case (DeactAuthz i)
    then show ?thesis using life_Deactivate [OF surjective_pairing] by (simp add: x)
  next
    case (RevokeDomain ident)
    then show ?thesis using life_Revoke [OF parts(1)] by (simp add: x)
  next
    case (NewReg reg)
    then show ?thesis
      using life_reg_only [OF NewRegistration_inv [OF surjective_pairing parts(2)]] by (simp add: x)
  next
    case (UpdReg db0 reg)
    then show ?thesis
      using life_reg_only [OF UpdateRegistration_inv [OF surjective_pairing _ parts(2)]] assms(2)
      by (simp add: x)
  next
    case (DeactReg rid)
    then show ?thesis
      using life_reg_only [OF DeactivateRegistration_inv [OF surjective_pairing parts(2)]] by (simp add: x)
  next
    case (AddCert der regID ocsp)
    then show ?thesis
      using life_cert_only [OF AddCertificate_inv [OF surjective_pairing parts(3)]] by (simp add: x)
  next
    case (MarkRevoked ser reason)
    then show ?thesis
      using life_cert_only [OF MarkCertificateRevoked_inv [OF surjective_pairing parts(3)]] by (simp add: x)
  next
    case (AddSCT sct)
    then show ?thesis
      using life_cert_only [OF AddSCTReceipt_inv [OF surjective_pairing parts(3)]] by (simp add: x)
  qed
qed

lemma run_life:
  "db_inv db \<Longrightarrow> run_ok sa_guard (sa_step pc) db ops \<Longrightarrow>
   life_step\<^sup>*\<^sup>* (stage_of db aid) (stage_of (foldl (sa_step pc) db ops) aid)"
proof (induction ops arbitrary: db)
  case Nil
  then show ?case by simp
next
  case (Cons x ops)
  then have "life_step (stage_of db aid) (stage_of (sa_step pc db x) aid)" "db_inv (sa_step pc db x)"
    by (auto intro: sa_step_life sa_step_inv)
  with Cons show ?case by (auto intro: converse_rtranclp_into_rtranclp)
qed

lemma life_closed:
  assumes "life_step\<^sup>*\<^sup>* s s'" "s = Closed st"
  shows "\<exists>st'. s' = Closed st' \<and> (st' = st \<or> st' = StatusRevoked \<or> st = StatusValid \<and> st' = StatusDeactivated)"
  using assms
proof (induction rule: rtranclp_induct)
  case base
  then show ?case by simp
next
  case (step y z)
  then obtain u where "y = Closed u" "u = st \<or> u = StatusRevoked \<or> st = StatusValid \<and> u = StatusDeactivated"
    by blast
  with \<open>life_step y z\<close> show ?case
    by (auto elim!: life_step_ClosedE simp: StatusRevoked_def StatusValid_def StatusDeactivated_def)
qed

section \<open>The life of a certificate\<close>

fun cert_op :: "sa_op \<Rightarrow> bool" where
  "cert_op (AddCert _ _ _) = True"
| "cert_op (MarkRevoked _ _) = True"
| "cert_op (AddSCT _) = True"
| "cert_op _ = False"

lemma sa_step_frame:
  assumes "db_inv db" "sa_guard db (E, c)" "\<not> cert_op c"
  shows "authz_only db (sa_step pc db (E, c)) \<or> reg_only db (sa_step pc db (E, c))"
proof -
  note parts = db_inv_parts [OF assms(1)]
  note UpdatePending_inv [OF surjective_pairing parts(1)] Finalize_inv [OF surjective_pairing parts(1)]
    Deactivate_inv [OF surjective_pairing parts(1)] Revoke_inv [OF parts(1)]
    NewRegistration_inv [OF surjective_pairing parts(2)]
    UpdateRegistration_inv [OF surjective_pairing _ parts(2)]
    DeactivateRegistration_inv [OF surjective_pairing parts(2)]
    NewPending_inv [OF _ parts(1)]
  then show ?thesis using assms(2,3)
    by (cases c) (auto split: option.splits)
qed

lemma sa_step_certs_frame:
  assumes "db_inv db" "sa_guard db (E, c)" "\<not> cert_op c"
  shows "certificates (sa_step pc db (E, c)) = certificates db \<and>
    certificateStatus (sa_step pc db (E, c)) = certificateStatus db"
  using sa_step_frame [OF assms, of pc] by (auto simp: authz_only_def reg_only_def)

text \<open>
  What a step does to the certificates: new rows are added at the end, and an existing
  status row is at most marked revoked.
\<close>

definition cert_grows :: "database \<Rightarrow> database \<Rightarrow> bool" where
  "cert_grows db db' \<longleftrightarrow> (\<exists>cs. certificates db' = certificates db @ cs) \<and>
     (\<forall>s \<in> set (certificateStatus db). cs_Status s = OCSPStatusRevoked \<longrightarrow>
        (\<exists>s' \<in> set (certificateStatus db'). cs_Serial s' = cs_Serial s \<and> cs_Status s' = OCSPStatusRevoked))"

lemma cert_grows_refl [simp]: "cert_grows db db"
  by (auto simp: cert_grows_def)

lemma cert_grows_trans: "cert_grows a b \<Longrightarrow> cert_grows b c \<Longrightarrow> cert_grows a c"
  by (fastforce simp: cert_grows_def)

lemma cert_grows_Add: "cert_grows db (fst (AddCertificate E pc db der regID ocsp))"
proof (cases "snd (AddCertificate E pc db der regID ocsp)")
  case (Inl e)
  then have "fst (AddCertificate E pc db der regID ocsp) = db"
    by (metis AddCertificate_failure prod.collapse)
  then show ?thesis by simp
next
  case (Inr d)
  then have "AddCertificate E pc db der regID ocsp = (fst (AddCertificate E pc db der regID ocsp), Inr d)"
    by (metis prod.collapse)
  from AddCertificate_success [OF this] show ?thesis
    by (auto simp: cert_grows_def with_certificate_def Let_def)
qed

lemma revoke_status_stays [simp]:
  "cs_Status s = OCSPStatusRevoked \<Longrightarrow> cs_Status (revoke_status E ser reason s) = OCSPStatusRevoked"
  by (simp add: revoke_status_def)

lemma cert_grows_Mark:
  assumes "cert_inv db"
  shows "cert_grows db (fst (MarkCertificateRevoked E db ser reason))"
proof (cases "snd (MarkCertificateRevoked E db ser reason)")
  case (Inl e)
  then have "fst (MarkCertificateRevoked E db ser reason) = db"
    by (metis MarkCertificateRevoked_failure prod.collapse)
  then show ?thesis by simp
next
  case (Inr u)
  then have "MarkCertificateRevoked E db ser reason = (fst (MarkCertificateRevoked E db ser reason), Inr ())"
    by (metis old.unit.exhaust prod.collapse)
  from MarkCertificateRevoked_success [OF this assms] show ?thesis
    by (fastforce simp: cert_grows_def)
qed

lemma cert_grows_step:
  assumes "db_inv db" "sa_guard db x"
  shows "cert_grows db (sa_step pc db x)"
proof -
  obtain E c where x: "x = (E, c)" by (cases x)
  show ?thesis
  proof (cases "cert_op c")
    case True
    then show ?thesis using db_inv_parts(3) [OF assms(1)]
      by (cases c) (auto simp: x cert_grows_Add cert_grows_Mark AddSCTReceipt_def cert_grows_def [of db "db\<lparr>sctReceipts := _, next_sct_id := _\<rparr>"] split: sum.splits)
  next
    case False
    with sa_step_certs_frame [OF assms(1), of E c pc] assms(2) show ?thesis
      by (auto simp: x cert_grows_def)
  qed
qed

lemma run_cert_grows:
  "db_inv db \<Longrightarrow> run_ok sa_guard (sa_step pc) db ops \<Longrightarrow> cert_grows db (foldl (sa_step pc) db ops)"
proof (induction ops arbitrary: db)
  case Nil
  then show ?case by simp
next
  case (Cons x ops)
  then have "cert_grows db (sa_step pc db x)" "db_inv (sa_step pc db x)"
    by (auto intro: cert_grows_step sa_step_inv)
  with Cons show ?case by (auto intro: cert_grows_trans)
qed

lemma run_split:
  assumes "run_ok sa_guard (sa_step pc) empty_db (before @ later)"
  shows "db_inv (foldl (sa_step pc) empty_db before)"
    "run_ok sa_guard (sa_step pc) (foldl (sa_step pc) empty_db before) later"
  using assms storage.run_invar [OF empty_db_inv] by (simp_all add: storage.run_ok_append)

end
