(* ===== verification/SaReads.thy ===== *)
theory SaReads
  imports SaLife
begin

text \<open>
  What reads of the storage authority return: authorizations read back as they were
  written, the valid authorizations of an account, the address ranges by which
  registrations are counted, and when a finalization succeeds.
\<close>

section \<open>Reading back what was written\<close>

text \<open>A later read: the same codecs, no failure, at some time.\<close>

definition reader :: "sa_env \<Rightarrow> time \<Rightarrow> sa_env" where
  "reader E t = E\<lparr>fault := \<lambda>_. None, now := t\<rparr>"

lemma db_fault_reader [simp]: "db_fault (reader E t) c = None"
  by (simp add: db_fault_def reader_def)

lemma modelToChallenge_reader [simp]: "modelToChallenge (reader E t) = modelToChallenge E"
  by (simp add: fun_eq_iff modelToChallenge_def reader_def cong: if_cong)

lemma in_tx_reader [simp]:
  "snd (in_tx (reader E t) db body) =
     (case body db of Inl e \<Rightarrow> Inl (OtherError (Error e)) | Inr (_, x) \<Rightarrow> Inr x)"
  by (auto simp: in_tx_def commit_tx_def Rollback_def reader_def db_fault_def split: sum.splits)

lemma GetAuthorization_reader:
  assumes "find (\<lambda>r. ar_ID r = aid) (pendingAuthorizations db) = Some r \<or>
      find (\<lambda>r. ar_ID r = aid) (pendingAuthorizations db) = None \<and>
      find (\<lambda>r. ar_ID r = aid) (authz_table db) = Some r"
    and "traverse (modelToChallenge E) (challenges_of db aid) = Inr challs"
  shows "GetAuthorization (reader E t) db aid = Inr (row_authz r challs)"
proof -
  have "ar_ID r = aid" using assms(1) by (auto dest: find_key_Some)
  with assms show ?thesis
    by (auto simp: GetAuthorization_def select_authz_def select_one_def)
qed

lemma NewPending_reads_back:
  assumes "NewPendingAuthorization E draws db az = Some (db', Inr az')" "authz_inv db"
    and "fault E (DbSelect ''count authz'') = None"
  shows "GetAuthorization (reader E t) db' (az_ID az') = Inr az'"
proof -
  obtain i challs db1 where
    new: "fresh_id E db draws = Some i" "i \<notin> pending_ids db"
      "db1 = db\<lparr>pendingAuthorizations := pendingAuthorizations db @ [authz_row (az\<lparr>az_ID := i\<rparr>) 1]\<rparr>"
      "insert_challenges E 0 i (Challenges az) db1 = Inr (db', challs)"
      "az' = az\<lparr>az_ID := i, Challenges := challs\<rparr>"
    using NewPending_success [OF assms(1)] by blast
  obtain cms where cms: "traverse (\<lambda>c. challengeToModel E c i) (Challenges az) = Inr cms"
    "db' = db1\<lparr>challenges := challenges db1 @ number_rows (next_chall_id db1) cms,
       next_chall_id := next_chall_id db1 + int (length cms)\<rparr>"
    "traverse (modelToChallenge E) (number_rows (next_chall_id db1) cms) = Inr challs"
    using insert_challenges_eq [OF new(4)] by blast
  have "i \<notin> final_ids db"
    using fresh_id_spec [OF new(1)] assms(3) by (auto simp: existingFinal_def final_ids_def list_ex_iff)
  then have "filter (\<lambda>c. cm_AuthorizationID c = i) (challenges db) = []"
    using assms(2) new(2) by (auto simp: authz_inv_def filter_empty_conv)
  moreover have "filter (\<lambda>c. cm_AuthorizationID c = i) (number_rows n cms) = number_rows n cms" for n
  proof -
    have "\<forall>c \<in> set cms. cm_AuthorizationID c = i"
      using cms(1) by (auto simp: traverse_Inr_iff in_set_conv_nth list_all2_conv_all_nth
          dest!: challengeToModel_fields)
    then have "\<forall>a \<in> set (map cm_AuthorizationID (number_rows n cms)). a = i"
      by (simp add: number_rows_authz)
    then show ?thesis by (simp add: filter_id_conv)
  qed
  moreover have "chall_inv db'"
    using insert_challenges_inv(1) [OF new(4)] assms(2)
    by (simp add: new(3) authz_inv_def chall_inv_def)
  ultimately have "challenges_of db' i = number_rows (next_chall_id db) cms"
    by (simp add: challenges_of_eq) (simp add: cms(2) new(3))
  moreover have "find (\<lambda>r. ar_ID r = i) (pendingAuthorizations db) = None"
    using new(2) by (simp add: find_key_None pending_ids_def)
  then have "find (\<lambda>r. ar_ID r = i) (pendingAuthorizations db') = Some (authz_row (az\<lparr>az_ID := i\<rparr>) 1)"
    by (simp add: cms(2) new(3) find_append authz_row_def)
  ultimately have "GetAuthorization (reader E t) db' i = Inr (row_authz (authz_row (az\<lparr>az_ID := i\<rparr>) 1) challs)"
    using cms(3) by (intro GetAuthorization_reader) (simp_all add: new(3))
  then show ?thesis by (simp add: new(5) row_authz_def authz_row_def)
qed

text \<open>
  After a successful update of the challenges the rows of the authorization read back as the
  challenges given, with the ids of the rows.
\<close>

definition renumbered :: "challModel list \<Rightarrow> Challenge list \<Rightarrow> Challenge list" where
  "renumbered rows cs = map2 (\<lambda>r c. c\<lparr>ch_ID := cm_ID r, URI := []\<rparr>) rows cs"

lemma challenges_of_updated:
  assumes "updateChallenges E aid cs db = Inr db'" "chall_inv db"
    and "traverse (\<lambda>c. challengeToModel E c aid) cs = Inr cms"
  shows "challenges_of db' aid =
    map2 (\<lambda>r cm. cm\<lparr>cm_ID := cm_ID r, cm_LockCol := 1\<rparr>) (challenges_of db aid) cms"
proof -
  let ?rows = "challenges_of db aid"
  obtain cms' where u: "traverse (\<lambda>c. challengeToModel E c aid) cs = Inr cms'" "length cs = length ?rows"
    "db' = db\<lparr>challenges := map (apply_challs (map cm_ID ?rows) cms') (challenges db)\<rparr>"
    using updateChallenges_eq [OF assms(1,2)] by blast
  have [simp]: "cms' = cms" using u(1) assms(3) by simp
  have rows: "?rows = filter (\<lambda>c. cm_AuthorizationID c = aid) (challenges db)"
    by (rule challenges_of_eq [OF assms(2)])
  have owner: "cm_AuthorizationID (apply_challs (map cm_ID ?rows) cms r) = cm_AuthorizationID r"
    if "r \<in> set (challenges db)" for r
    using apply_challs_authz [OF assms(3,2) that] .
  have "challenges_of db' aid = filter (\<lambda>c. cm_AuthorizationID c = aid) (challenges db')"
    by (rule challenges_of_eq [OF updateChallenges_inv(1) [OF assms(1,2)]])
  also have "\<dots> = map (apply_challs (map cm_ID ?rows) cms) ?rows"
    by (simp add: u(3) filter_map o_def owner rows [symmetric] cong: filter_cong)
  also have "\<dots> = map2 (\<lambda>r cm. cm\<lparr>cm_ID := cm_ID r, cm_LockCol := 1\<rparr>) ?rows cms"
  proof (rule nth_equalityI)
    show len: "length (map (apply_challs (map cm_ID ?rows) cms) ?rows) =
        length (map2 (\<lambda>r cm. cm\<lparr>cm_ID := cm_ID r, cm_LockCol := 1\<rparr>) ?rows cms)"
      using traverse_length [OF assms(3)] u(2) by simp
    fix k assume k: "k < length (map (apply_challs (map cm_ID ?rows) cms) ?rows)"
    have "distinct (map cm_ID ?rows)"
      using chall_inv_distinct [OF assms(2)] by (simp add: rows distinct_map_filter)
    then have "map_of (zip (map cm_ID ?rows) cms) (cm_ID (?rows ! k)) = Some (cms ! k)"
      using k traverse_length [OF assms(3)] u(2)
      by (subst map_of_zip_nth [of "map cm_ID ?rows" cms k, symmetric]) auto
    then show "map (apply_challs (map cm_ID ?rows) cms) ?rows ! k =
        map2 (\<lambda>r cm. cm\<lparr>cm_ID := cm_ID r, cm_LockCol := 1\<rparr>) ?rows cms ! k"
      using k len by (simp add: apply_challs_def)
  qed
  finally show ?thesis .
qed

lemma updated_read_back:
  assumes "updateChallenges E aid cs db = Inr db'" "chall_inv db" "list_all (json_stable E) cs"
  shows "traverse (modelToChallenge E) (challenges_of db' aid) = Inr (renumbered (challenges_of db aid) cs)"
proof -
  obtain cms where cms: "traverse (\<lambda>c. challengeToModel E c aid) cs = Inr cms"
    "length cs = length (challenges_of db aid)"
    using updateChallenges_eq [OF assms(1,2)] by blast
  have each: "modelToChallenge E ((cms ! k)\<lparr>cm_ID := i\<rparr>) = Inr ((cs ! k)\<lparr>ch_ID := i, URI := []\<rparr>)"
    if "k < length cs" for k i
  proof -
    have "json_stable E (cs ! k)" using assms(3) that by (simp add: list_all_length)
    then obtain cm where "challengeToModel E (cs ! k) aid = Inr cm"
      "\<forall>i. modelToChallenge E (cm\<lparr>cm_ID := i\<rparr>) = Inr ((cs ! k)\<lparr>ch_ID := i, URI := []\<rparr>)"
      using challenge_model_roundtrip by blast
    moreover have "challengeToModel E (cs ! k) aid = Inr (cms ! k)"
      using cms(1) that by (auto simp: traverse_Inr_iff list_all2_conv_all_nth)
    ultimately show ?thesis by simp
  qed
  show ?thesis
    unfolding challenges_of_updated [OF assms(1,2) cms(1)] traverse_Inr_iff renumbered_def
    using cms traverse_length [OF cms(1)]
    by (auto simp: list_all2_conv_all_nth each)
qed

lemma Finalize_reads_back:
  assumes "FinalizeAuthorization E db az = (db', Inr ())" "authz_inv db"
    and "list_all (json_stable E) (Challenges az)"
  shows "GetAuthorization (reader E t) db' (az_ID az) =
    Inr (az\<lparr>Challenges := renumbered (challenges_of db (az_ID az)) (Challenges az)\<rparr>)"
proof -
  define db1 where "db1 = db\<lparr>authz_table := authz_table db @ [authz_row az 0],
    pendingAuthorizations := filter (\<lambda>r. ar_ID r \<noteq> az_ID az) (pendingAuthorizations db)\<rparr>"
  have fin: "az_ID az \<in> pending_ids db" "updateChallenges E (az_ID az) (Challenges az) db1 = Inr db'"
    using Finalize_success [OF assms(1,2)] by (simp_all add: db1_def)
  have inv: "chall_inv db1" using assms(2) by (simp add: db1_def authz_inv_def chall_inv_def)
  obtain chs where db': "db' = db1\<lparr>challenges := chs\<rparr>"
    using updateChallenges_eq [OF fin(2) inv] by blast
  have "az_ID az \<notin> final_ids db" using assms(2) fin(1) by (auto simp: authz_inv_def)
  then have "find (\<lambda>r. ar_ID r = az_ID az) (authz_table db') = Some (authz_row az 0)"
    unfolding final_ids_def find_key_None [symmetric]
    by (simp add: db' db1_def find_append authz_row_def)
  moreover have "find (\<lambda>r. ar_ID r = az_ID az) (pendingAuthorizations db') = None"
    by (simp add: db' db1_def find_filter_key)
  moreover have "challenges_of db1 (az_ID az) = challenges_of db (az_ID az)"
    by (simp add: challenges_of_def db1_def)
  ultimately have "GetAuthorization (reader E t) db' (az_ID az) =
      Inr (row_authz (authz_row az 0) (renumbered (challenges_of db (az_ID az)) (Challenges az)))"
    using updated_read_back [OF fin(2) inv assms(3)] by (intro GetAuthorization_reader) simp_all
  then show ?thesis by (simp add: row_authz_def authz_row_def)
qed

section \<open>Valid authorizations of an account\<close>

text \<open>
  The loop keeps, for each name, an authorization with the latest expiry among those seen.
\<close>

definition best :: "Authorization list \<Rightarrow> string \<Rightarrow> Authorization option \<Rightarrow> bool" where
  "best seen name res \<longleftrightarrow>
     (case res of
        None \<Rightarrow> \<not> (\<exists>a \<in> set seen. Value (Identifier a) = name)
      | Some a \<Rightarrow> a \<in> set seen \<and> Value (Identifier a) = name \<and>
          (\<forall>b \<in> set seen. Value (Identifier b) = name \<longrightarrow> the (az_Expires b) \<le> the (az_Expires a)))"

lemma by_name_loop_best:
  assumes "\<forall>a \<in> set (seen @ auths). az_Expires a \<noteq> None \<and> id_Type (Identifier a) = IdentifierDNS"
    and "\<forall>name. best seen name (map_of byName name)"
  shows "\<exists>m. by_name_loop byName auths = Inr m \<and> (\<forall>name. best (seen @ auths) name (map_of m name))"
  using assms
proof (induction auths arbitrary: seen byName)
  case Nil
  then show ?case by simp
next
  case (Cons a auths)
  obtain e where e: "az_Expires a = Some e" using Cons.prems(1) by auto
  let ?name = "Value (Identifier a)"
  define keep where "keep = (\<exists>x f. map_of byName ?name = Some x \<and> az_Expires x = Some f \<and> e \<le> f)"
  define byName' where "byName' = (if keep then byName else AList.update ?name a byName)"
  have dns: "id_Type (Identifier a) = IdentifierDNS" using Cons.prems(1) by simp
  have "by_name_loop byName (a # auths) = by_name_loop byName' auths"
    using dns by (auto simp: e byName'_def keep_def split: option.splits)
  moreover have "best (seen @ [a]) name (map_of byName' name)" for name
  proof (cases "name = ?name")
    case True
    have "best seen ?name (map_of byName ?name)" using Cons.prems(2) by simp
    moreover have "az_Expires x \<noteq> None" if "map_of byName ?name = Some x" for x
      using calculation that Cons.prems(1) by (auto simp: best_def)
    ultimately show ?thesis
      by (cases "map_of byName ?name")
         (auto simp: True best_def byName'_def keep_def e update_conv' not_le)
  next
    case False
    then show ?thesis using Cons.prems(2) [rule_format, of name]
      by (auto simp: best_def byName'_def update_conv' split: option.splits)
  qed
  ultimately show ?case using Cons.IH [of "seen @ [a]" byName'] Cons.prems(1) by simp
qed

lemma GetValid_best:
  assumes "names \<noteq> []" "db_fault E (DbSelect ''authz'') = None"
  shows "\<exists>m. GetValidAuthorizations E db regID names nw = Inr m \<and>
    (\<forall>name. best (map (\<lambda>r. row_authz r []) (valid_rows db regID names nw)) name (map_of m name))"
proof -
  have "\<forall>a \<in> set ([] @ map (\<lambda>r. row_authz r []) (valid_rows db regID names nw)).
      az_Expires a \<noteq> None \<and> id_Type (Identifier a) = IdentifierDNS"
    by (auto simp: valid_rows_def row_authz_def split: option.splits)
  from by_name_loop_best [OF this, of "[]"] show ?thesis
    using assms by (simp add: GetValidAuthorizations_def best_def)
qed

section \<open>Addresses\<close>

lemma be_nat_snoc: "be_nat (xs @ [c]) = be_nat xs * 256 + of_char c"
  by (simp add: be_nat_def)

lemma be_nat_append: "be_nat (xs @ ys) = be_nat xs * 256 ^ length ys + be_nat ys"
proof (induction ys rule: rev_induct)
  case Nil
  then show ?case by (simp add: be_nat_def)
next
  case (snoc y ys)
  have "be_nat (xs @ ys @ [y]) = be_nat (xs @ ys) * 256 + of_char y"
    using be_nat_snoc [of "xs @ ys" y] by simp
  then show ?case using snoc by (simp add: be_nat_snoc algebra_simps)
qed

lemma be_nat_bound: "be_nat xs < 256 ^ length xs"
proof (induction xs rule: rev_induct)
  case Nil
  then show ?case by (simp add: be_nat_def)
next
  case (snoc c xs)
  have "(of_char c :: nat) < 256" by simp
  with snoc have "be_nat xs * 256 + of_char c < 256 * 256 ^ length xs" by linarith
  then show ?case by (simp add: be_nat_snoc)
qed

lemma be_nat_zeros [simp]: "be_nat (replicate n (char_of (0::nat))) = 0"
  by (induction n) (simp_all add: be_nat_def)

lemma be_bytes_inverse: "n < 256 ^ w \<Longrightarrow> be_nat (be_bytes w n) = n"
proof (induction w arbitrary: n)
  case 0
  then show ?case by (simp add: be_nat_def)
next
  case (Suc w)
  then have "n div 256 < 256 ^ w" by (simp add: less_mult_imp_div_less)
  with Suc show ?case by (simp add: be_nat_snoc of_char_of)
qed

lemma be_nat_inj: "length xs = length ys \<Longrightarrow> be_nat xs = be_nat ys \<Longrightarrow> xs = ys"
proof (induction xs arbitrary: ys rule: rev_induct)
  case Nil
  then show ?case by simp
next
  case (snoc c xs)
  then obtain d zs where ys: "ys = zs @ [d]" by (cases ys rule: rev_cases) auto
  have eq: "be_nat xs * 256 + of_char c = be_nat zs * 256 + (of_char d :: nat)"
    using snoc.prems by (simp add: ys be_nat_snoc)
  have "(of_char c :: nat) = of_char d" using arg_cong [OF eq, of "\<lambda>n. n mod 256"] by simp
  with eq show ?case using snoc by (simp add: ys)
qed

lemma be_nat_prefix:
  assumes "length xs = length ys" "length us = n"
  shows "be_nat (xs @ us) div 256 ^ n = be_nat ys \<longleftrightarrow> xs = ys"
proof -
  have "be_nat (xs @ us) div 256 ^ length us = be_nat xs"
    using be_nat_bound [of us] by (simp add: be_nat_append)
  with assms be_nat_inj [of xs ys] show ?thesis by metis
qed

lemma div_interval:
  assumes "0 < (k :: nat)"
  shows "(m * k \<le> n \<and> n < m * k + k) = (n div k = m)"
proof -
  have "m * k \<le> n \<longleftrightarrow> m \<le> n div k" using less_eq_div_iff_mult_less_eq [OF assms] by blast
  moreover have "n < m * k + k \<longleftrightarrow> n div k < Suc m"
    using div_less_iff_less_mult [OF assms, of n "Suc m"] by (simp add: add.commute)
  ultimately show ?thesis by linarith
qed

text \<open>Two addresses count as the same client: the same IPv4 address, or the same IPv6 /48.\<close>

definition same_client :: "bytes \<Rightarrow> bytes \<Rightarrow> bool" where
  "same_client b x = (if is_v4_in_v6 b then x = b else take 6 x = take 6 b)"

lemma incrementIP_nat:
  assumes "be_nat b + 2 ^ (128 - i) < 256 ^ 16"
  shows "be_nat (incrementIP b i) = be_nat b + 2 ^ (128 - i)"
  using assms be_bytes_inverse [of "be_nat b + 2 ^ (128 - i)" 16]
  by (simp add: incrementIP_def Let_def del: be_bytes.simps)

lemma range_v4:
  assumes "is_v4_in_v6 b" "length x = 16"
  shows "(be_nat b \<le> be_nat x \<and> be_nat x < be_nat (incrementIP b 128)) = (x = b)"
proof -
  define v where "v = replicate 2 (char_of (255::nat)) @ drop 12 b"
  have b: "b = replicate 10 (char_of (0::nat)) @ v" and v: "length v = 6"
    using assms(1) append_take_drop_id [of 12 b] by (simp_all add: is_v4_in_v6_def v_def)
  have "be_nat b < 256 ^ 6"
    using be_nat_bound [of v] v by (simp only: b be_nat_append be_nat_zeros)
  then have "be_nat (incrementIP b 128) = be_nat b + 1"
    using incrementIP_nat [of b 128] by simp
  moreover have "length b = 16" using b v by simp
  ultimately show ?thesis using assms(2) be_nat_inj [of x b] by auto
qed

lemma range_v6:
  assumes "length p = 6" "length x = 16" "be_nat p + 1 < 256 ^ 6"
  shows "(be_nat (p @ replicate 10 (char_of (0::nat))) \<le> be_nat x \<and>
          be_nat x < be_nat (incrementIP (p @ replicate 10 (char_of (0::nat))) 48)) = (take 6 x = p)"
proof -
  let ?b = "p @ replicate 10 (char_of (0::nat))"
  have b: "be_nat ?b = be_nat p * 256 ^ 10"
    using be_nat_append [of p "replicate 10 (char_of (0::nat))"] by (simp only: be_nat_zeros) simp
  have two: "(2 :: nat) ^ (128 - 48) = 256 ^ 10" by simp
  have "(be_nat p + 1) * 256 ^ 10 < 256 ^ 6 * (256 ^ 10 :: nat)" using assms(3) by (intro mult_strict_right_mono) simp_all
  then have "be_nat ?b + 2 ^ (128 - 48) < 256 ^ 16"
    unfolding b two power_add [symmetric] by (simp add: algebra_simps)
  from incrementIP_nat [OF this] have inc: "be_nat (incrementIP ?b 48) = be_nat p * 256 ^ 10 + 256 ^ 10"
    unfolding b two .
  have "(be_nat p * 256 ^ 10 \<le> be_nat x \<and> be_nat x < be_nat p * 256 ^ 10 + 256 ^ 10) =
      (be_nat x div 256 ^ 10 = be_nat p)"
    by (rule div_interval) simp
  moreover have "be_nat (take 6 x @ drop 6 x) div 256 ^ 10 = be_nat p \<longleftrightarrow> take 6 x = p"
    by (rule be_nat_prefix) (use assms in simp_all)
  ultimately show ?thesis unfolding b inc by (simp only: append_take_drop_id)
qed

lemma To16_length: "To16 ip = Some b \<Longrightarrow> length b = 16"
  by (auto simp: To16_def split: if_splits)

lemma be_nat_ones: "be_nat (replicate n (char_of (255::nat))) + 1 = 256 ^ n"
proof (induction n)
  case 0
  then show ?case by (simp add: be_nat_def)
next
  case (Suc n)
  have "be_nat (replicate (Suc n) (char_of (255::nat))) = be_nat (replicate n (char_of (255::nat))) * 256 + 255"
    unfolding replicate_Suc replicate_append_same [symmetric] be_nat_snoc by (simp add: of_char_of)
  with Suc show ?case by simp
qed

lemma ipRange_same_client:
  assumes "To16 ip = Some b" "length x = 16" "take 6 b \<noteq> replicate 6 (char_of (255::nat))"
  shows "(be_nat (fst (ipRange ip)) \<le> be_nat x \<and> be_nat x < be_nat (snd (ipRange ip))) = same_client b x"
proof (cases "is_v4_in_v6 b")
  case True
  then have "ipRange ip = (b, incrementIP b 128)"
    using To16_length [OF assms(1)] by (simp add: ipRange_def assms(1) ip_bytes_def mask_bytes_def)
  with range_v4 [OF True assms(2)] True show ?thesis by (simp add: same_client_def)
next
  case False
  let ?b = "take 6 b @ replicate 10 (char_of (0::nat))"
  have len: "length (take 6 b) = 6" using To16_length [OF assms(1)] by simp
  have "ipRange ip = (?b, incrementIP ?b 48)"
    using False To16_length [OF assms(1)]
    by (simp add: ipRange_def assms(1) ip_bytes_def mask_bytes_def Let_def)
  moreover have "be_nat (take 6 b) \<noteq> be_nat (replicate 6 (char_of (255::nat)))"
    using be_nat_inj [of "take 6 b" "replicate 6 (char_of (255::nat))"] len assms(3)
    by (metis length_replicate)
  then have "be_nat (take 6 b) + 1 < 256 ^ 6"
    using be_nat_bound [of "take 6 b"] be_nat_ones [of 6] unfolding len by linarith
  ultimately show ?thesis
    using range_v6 [OF len assms(2)] False by (simp add: same_client_def)
qed

section \<open>Finalizing looks at the id only\<close>

lemma update_challenges_from_frame:
  "update_challenges_from E i rows cs (db\<lparr>authz_table := a, pendingAuthorizations := p\<rparr>) =
   map_sum id (\<lambda>d. d\<lparr>authz_table := a, pendingAuthorizations := p\<rparr>) (update_challenges_from E i rows cs db)"
proof (induction E i rows cs db rule: update_challenges_from.induct)
  case (1 E i row rows authChall rest db)
  show ?case
  proof (cases "challengeToModel E authChall (cm_AuthorizationID row)")
    case (Inr chall)
    show ?thesis
    proof (cases "update_challenge E i (chall\<lparr>cm_ID := cm_ID row\<rparr>) db")
      case (Inl e)
      with Inr show ?thesis by (auto simp: update_challenge_def go_result)
    next
      case (Inr db1)
      then have "update_challenge E i (chall\<lparr>cm_ID := cm_ID row\<rparr>)
          (db\<lparr>authz_table := a, pendingAuthorizations := p\<rparr>) =
          Inr (db1\<lparr>authz_table := a, pendingAuthorizations := p\<rparr>)"
        by (auto simp: update_challenge_def go_result)
      with \<open>challengeToModel _ _ _ = Inr chall\<close> Inr 1 show ?thesis by simp
    qed
  qed simp
qed simp_all

lemma updateChallenges_frame:
  "updateChallenges E aid cs (db\<lparr>authz_table := a, pendingAuthorizations := p\<rparr>) =
   map_sum id (\<lambda>d. d\<lparr>authz_table := a, pendingAuthorizations := p\<rparr>) (updateChallenges E aid cs db)"
proof -
  have "challenges_of (db\<lparr>authz_table := a, pendingAuthorizations := p\<rparr>) aid = challenges_of db aid"
    by (simp add: challenges_of_def)
  then show ?thesis
    by (simp add: updateChallenges_def Let_def update_challenges_from_frame split: option.split)
qed

lemma Finalize_success_iff:
  assumes "authz_inv db"
  shows "(\<exists>db'. FinalizeAuthorization E db az = (db', Inr ())) \<longleftrightarrow>
    db_fault E DbBegin = None \<and> db_fault E DbCommit = None \<and>
    existingPending E db (az_ID az) \<and> \<not> statusIsPending (az_Status az) \<and>
    db_fault E (DbSelect ''pendingAuthorizations'') = None \<and> db_fault E (DbInsert ''authz'' 0) = None \<and>
    az_ID az \<notin> final_ids db \<and> db_fault E (DbDelete ''pendingAuthorizations'') = None \<and>
    (\<exists>d. updateChallenges E (az_ID az) (Challenges az) db = Inr d)"
proof (cases "find (\<lambda>r. ar_ID r = az_ID az) (pendingAuthorizations db)")
  case None
  then have "\<not> existingPending E db (az_ID az)"
    by (simp add: existingPending_iff find_key_None pending_ids_def)
  then show ?thesis by (auto simp: FinalizeAuthorization_def go_result)
next
  case (Some pa)
  then have ex: "list_ex (\<lambda>r. ar_ID r = ar_ID pa \<and> ar_LockCol r = ar_LockCol pa) (pendingAuthorizations db)"
    by (auto simp: list_ex_iff dest: find_key_Some)
  have u: "updateChallenges E aid cs (db\<lparr>authz_table := a, pendingAuthorizations := p\<rparr>) = Inr d' \<longleftrightarrow>
      (\<exists>d. updateChallenges E aid cs db = Inr d \<and> d' = d\<lparr>authz_table := a, pendingAuthorizations := p\<rparr>)"
    for aid cs a p d'
    unfolding updateChallenges_frame by (cases "updateChallenges E aid cs db") auto
  have clash: "list_ex (\<lambda>b. ar_ID (authz_row az 0) = ar_ID b) (authz_table db) \<longleftrightarrow> az_ID az \<in> final_ids db"
    by (auto simp: list_ex_iff final_ids_def authz_row_def)
  show ?thesis using Some ex
    by (auto simp: FinalizeAuthorization_def go_result select_one_def u clash Let_def split: option.splits if_splits)
qed

lemma Finalize_stage:
  assumes "FinalizeAuthorization E db az = (db', Inr ())" "authz_inv db"
  shows "stage_of db' (az_ID az) = Closed (az_Status az)"
proof -
  define db1 where "db1 = db\<lparr>authz_table := authz_table db @ [authz_row az 0],
    pendingAuthorizations := filter (\<lambda>r. ar_ID r \<noteq> az_ID az) (pendingAuthorizations db)\<rparr>"
  have fin: "az_ID az \<in> pending_ids db" "updateChallenges E (az_ID az) (Challenges az) db1 = Inr db'"
    using Finalize_success [OF assms] by (simp_all add: db1_def)
  have "chall_inv db1" using assms(2) by (simp add: db1_def authz_inv_def chall_inv_def)
  then obtain chs where db': "db' = db1\<lparr>challenges := chs\<rparr>"
    using updateChallenges_eq [OF fin(2)] by blast
  have "az_ID az \<notin> final_ids db" using assms(2) fin(1) by (auto simp: authz_inv_def)
  then show ?thesis
    unfolding final_ids_def find_key_None [symmetric]
    by (simp add: db' db1_def stage_of_def find_append find_filter_key authz_row_def)
qed

end
