(* ===== verification/SaProps.thy ===== *)
theory SaProps
  imports SaReads
begin

text \<open>
  What the storage authority promises its clients, for every sequence of operations and
  every pattern of failures of the database.
\<close>

section \<open>A sample environment\<close>

text \<open>
  Database calls succeed and values are stored in some readable form; used by the concrete
  instances of the properties.
\<close>

definition sample_env :: sa_env where
  "sample_env = \<lparr>fault = \<lambda>_. None, now = 1000, feat = \<lambda>_. True, sha256 = \<lambda>b. b,
     marshalPKIX = \<lambda>k. Some ''pk'', marshalJWK = \<lambda>k. Inr ''jwk'', unmarshalJWK = \<lambda>b. Inl ''jwk'',
     marshalProblem = \<lambda>p. Inr (Detail p), unmarshalProblem = \<lambda>b. Inl ''problem'',
     marshalRecords = \<lambda>r. Inr ''records'', unmarshalRecords = \<lambda>b. Inl ''records''\<rparr>"

definition sample_draw :: bytes where
  "sample_draw = replicate 32 (CHR ''a'')"

definition sample_authz :: Authorization where
  "sample_authz = \<lparr>az_ID = [], Identifier = \<lparr>id_Type = IdentifierDNS, Value = ''example.com''\<rparr>,
     RegistrationID = 1, az_Status = StatusPending, az_Expires = Some 5000, Challenges = [],
     Combinations = []\<rparr>"

definition sample_ops :: "(sa_env \<times> sa_op) list" where
  "sample_ops = [(sample_env, NewPending [sample_draw] sample_authz),
     (sample_env, Finalize (sample_authz\<lparr>az_ID := NewToken sample_draw, az_Status := StatusInvalid\<rparr>))]"

lemma sample_no_fault [simp]: "fault sample_env c = None"
  by (simp add: sample_env_def)

lemma sample_run:
  "run_ok sa_guard (sa_step pc) empty_db (sample_ops @ [(sample_env, RevokeDomain (Identifier sample_authz))])"
  by (simp add: sample_ops_def sample_env_def)

lemmas sample_simps = sample_env_def db_fault_def in_tx_def commit_tx_def insert_row_def update_rows_def
  select_one_def bind_version_def Let_def

lemma sample_stage:
  "stage_of (foldl (sa_step pc) empty_db sample_ops) (NewToken sample_draw) = Closed StatusInvalid"
  by (simp add: sample_ops_def NewPendingAuthorization_def FinalizeAuthorization_def existingPending_def
      existingFinal_def empty_db_def sample_authz_def authz_row_def sample_simps statusIsPending_def
      status_defs updateChallenges_def challenges_of_def stage_of_def)

definition sample_parse :: "bytes \<Rightarrow> string + x509Cert" where
  "sample_parse der = Inr \<lparr>x_SerialNumber = 5, x_NotBefore = 1000, x_NotAfter = 9000,
     x_PublicKey = OtherKey ''dsa'', x_CommonName = ''example.com'', x_otherSubject = [],
     x_DNSNames = [''example.com''], x_IPAddresses = [], x_EmailAddresses = [],
     x_BasicConstraintsValid = True, x_IsCA = False, x_ExtKeyUsage = []\<rparr>"

definition sample_cert_ops :: "(sa_env \<times> sa_op) list" where
  "sample_cert_ops = [(sample_env, AddCert ''der'' 1 []), (sample_env, MarkRevoked (SerialToString 5) 1)]"

definition sample_revoked :: CertificateStatus where
  "sample_revoked = zero_status\<lparr>cs_Serial := SerialToString 5, cs_Status := OCSPStatusRevoked, NotAfter := 9000,
     RevokedDate := 1000, RevokedReason := 1, LockCol := 2\<rparr>"

lemma sample_serial: "ValidSerial (SerialToString 5)"
  using SerialToString_shape [of 5] by (simp add: ValidSerial_iff)

lemma sample_revoked_row:
  "certificateStatus (foldl (sa_step sample_parse) empty_db sample_cert_ops) = [sample_revoked]"
  by (simp add: sample_cert_ops_def AddCertificate_def MarkCertificateRevoked_def GetCertificate_def
      GetCertificateStatus_def sample_parse_def sample_simps empty_db_def addIssuedNames_def addFQDNSet_def
      new_status_def zero_status_def sample_revoked_def sample_serial)

text \<open>A database with one pending authorization and its challenge.\<close>

definition sample_chall :: challModel where
  "sample_chall = \<lparr>cm_ID = 1, cm_AuthorizationID = ''abc'', cm_Type = ''http-01'', cm_Status = StatusPending,
     cm_Error = [], cm_Token = ''tok'', cm_KeyAuthorization = [], cm_ValidationRecord = [], cm_LockCol = 1\<rparr>"

definition sample_pending :: database where
  "sample_pending = empty_db\<lparr>pendingAuthorizations := [authz_row (sample_authz\<lparr>az_ID := ''abc''\<rparr>) 1],
     challenges := [sample_chall], next_chall_id := 2\<rparr>"

lemma sample_pending_inv: "db_inv sample_pending"
  by (simp add: sample_pending_def empty_db_def sample_chall_def authz_row_def db_inv_def authz_inv_def
      chall_inv_def reg_inv_def cert_inv_def pending_ids_def final_ids_def)

lemma sample_finalize:
  "snd (FinalizeAuthorization sample_env sample_pending (sample_authz\<lparr>az_ID := ''abc'', az_Status := StatusValid,
     Challenges := [newChallenge ''http-01'' ''tok'']\<rparr>)) = Inr ()"
  by (simp add: FinalizeAuthorization_def sample_pending_def existingPending_def empty_db_def
      sample_authz_def authz_row_def sample_simps statusIsPending_def status_defs updateChallenges_def
      challenges_of_def sample_chall_def challengeToModel_def newChallenge_def update_challenge_def)

section \<open>Properties\<close>

text \<open>
  C28: The database stays consistent. Starting from empty tables, after any sequence of
  operations that \<^const>\<open>sa_guard\<close> admits, with any failing statements except the query for a
  drawn identifier among the final ones, ids and key digests are unique, no
  authorization is both pending and final, final ones have a final status, every challenge
  belongs to an authorization, and every certificate has exactly one status row, one set of
  names and at least one issued name.
\<close>

theorem storage_invariant:
  assumes "run_ok sa_guard (sa_step pc) empty_db ops"
  shows "db_inv (foldl (sa_step pc) empty_db ops)"
  by (rule storage.run_invar [OF empty_db_inv assms])

theorem storage_invariant_witness:
  "run_ok sa_guard (sa_step (\<lambda>_. Inl [])) empty_db
     (sample_ops @ [(sample_env, RevokeDomain (Identifier sample_authz))]) \<and>
   db_inv (foldl (sa_step (\<lambda>_. Inl [])) empty_db
     (sample_ops @ [(sample_env, RevokeDomain (Identifier sample_authz))]))"
  using sample_run storage_invariant [OF sample_run] by blast

text \<open>
  C29: The storage authority implements the life cycle of an authorization. Whatever
  operations run between two points in time, with whatever failures except that of the query for a
  drawn identifier among the final ones, the stage of each
  authorization at the second point is reached from the first by steps of the life cycle.
\<close>

theorem storage_refines_lifecycle:
  assumes "run_ok sa_guard (sa_step pc) empty_db (before @ later)"
  shows "life_step\<^sup>*\<^sup>* (stage_of (foldl (sa_step pc) empty_db before) aid)
    (stage_of (foldl (sa_step pc) empty_db (before @ later)) aid)"
  using run_life run_split [OF assms] by simp

theorem storage_refines_lifecycle_witness:
  "run_ok sa_guard (sa_step (\<lambda>_. Inl [])) empty_db
     (sample_ops @ [(sample_env, RevokeDomain (Identifier sample_authz))]) \<and>
   life_step\<^sup>*\<^sup>* (Closed StatusInvalid)
     (stage_of (foldl (sa_step (\<lambda>_. Inl [])) empty_db
        (sample_ops @ [(sample_env, RevokeDomain (Identifier sample_authz))])) (NewToken sample_draw))"
  using sample_run storage_refines_lifecycle [OF sample_run, of "\<lambda>_. Inl []" "NewToken sample_draw"]
  by (simp only: sample_stage simp_thms)

text \<open>
  C30: A failed authorization never becomes valid. Once an authorization is final with any
  status other than valid, no later operation makes it valid, pending or absent again, as long as
  the query for a drawn identifier among the final ones does not fail.
\<close>

theorem failed_authorization_never_valid:
  assumes "run_ok sa_guard (sa_step pc) empty_db (before @ later)"
    and "stage_of (foldl (sa_step pc) empty_db before) aid = Closed st" "st \<noteq> StatusValid"
  shows "\<exists>st'. stage_of (foldl (sa_step pc) empty_db (before @ later)) aid = Closed st' \<and>
    st' \<noteq> StatusValid"
proof -
  have "life_step\<^sup>*\<^sup>* (stage_of (foldl (sa_step pc) empty_db before) aid)
    (stage_of (foldl (sa_step pc) empty_db (before @ later)) aid)"
    using run_life run_split [OF assms(1)] by simp
  from life_closed [OF this assms(2)] assms(3) show ?thesis by (auto simp: status_defs)
qed

theorem failed_authorization_never_valid_witness:
  "\<exists>st'. stage_of (foldl (sa_step (\<lambda>_. Inl [])) empty_db
      (sample_ops @ [(sample_env, RevokeDomain (Identifier sample_authz))])) (NewToken sample_draw) = Closed st' \<and>
    st' \<noteq> StatusValid"
  by (rule failed_authorization_never_valid [OF sample_run sample_stage]) (simp add: status_defs)








definition sample_valid :: database where
  "sample_valid = empty_db\<lparr>authz_table :=
     [authz_row (sample_authz\<lparr>az_ID := ''old'', az_Status := StatusValid, az_Expires := Some 3000\<rparr>) 0,
      authz_row (sample_authz\<lparr>az_ID := ''new'', az_Status := StatusValid\<rparr>) 0]\<rparr>"




text \<open>
  \<^verbatim>\<open>CountRegistrationsByIP\<close> counts one client. The registrations counted are those in the
  time window from the same IPv4 address, or from the same /48 network for IPv6, for every
  address outside the last /48.
\<close>

theorem count_by_ip_same_client:
  assumes "To16 ip = Some b" "take 6 b \<noteq> replicate 6 (char_of (255::nat))"
    and "list_all (\<lambda>r. length (ip_bytes (rm_InitialIP r)) = 16) (registrations db)"
    and "fault E (DbSelect ''registrations'') = None"
  shows "CountRegistrationsByIP E db ip earliest latest_t =
    Inr (length (filter (\<lambda>r. same_client b (ip_bytes (rm_InitialIP r)) \<and>
       earliest < rm_CreatedAt r \<and> rm_CreatedAt r \<le> latest_t) (registrations db)))"
proof -
  have "filter (\<lambda>r. be_nat (fst (ipRange ip)) \<le> be_nat (ip_bytes (rm_InitialIP r)) \<and>
        be_nat (ip_bytes (rm_InitialIP r)) < be_nat (snd (ipRange ip)) \<and>
        earliest < rm_CreatedAt r \<and> rm_CreatedAt r \<le> latest_t) (registrations db) =
      filter (\<lambda>r. same_client b (ip_bytes (rm_InitialIP r)) \<and>
        earliest < rm_CreatedAt r \<and> rm_CreatedAt r \<le> latest_t) (registrations db)"
    using ipRange_same_client [OF assms(1) _ assms(2)] assms(3)
    by (intro filter_cong refl) (auto simp: list_all_iff)
  then show ?thesis using assms(4) by (simp add: CountRegistrationsByIP_def db_fault_def split_def)
qed

theorem count_by_ip_same_client_witness:
  "CountRegistrationsByIP sample_env
     (empty_db\<lparr>registrations := [\<lparr>rm_ID = 1, rm_Key = [], rm_KeySHA256 = [], rm_Contact = [], rm_Agreement = [],
        rm_InitialIP = Some (''abcdef'' @ replicate 10 (CHR ''z'')), rm_CreatedAt = 50, rm_LockCol = 1,
        rm_Status = []\<rparr>]\<rparr>) (''abcdef'' @ replicate 10 (CHR ''a'')) 0 100 = Inr 1"
  by (subst count_by_ip_same_client [where b = "''abcdef'' @ replicate 10 (CHR ''a'')"])
     (simp_all add: To16_def ip_bytes_def empty_db_def same_client_def is_v4_in_v6_def numeral_eq_Suc
        char_of_def)


definition sample_reg :: "int \<Rightarrow> regModel" where
  "sample_reg version = \<lparr>rm_ID = 1, rm_Key = ''jwk'', rm_KeySHA256 = ''digest'', rm_Contact = [], rm_Agreement = [],
     rm_InitialIP = Some (replicate 16 (CHR ''a'')), rm_CreatedAt = 50, rm_LockCol = version,
     rm_Status = StatusValid\<rparr>"

definition sample_regs :: "int \<Rightarrow> database" where
  "sample_regs version = empty_db\<lparr>registrations := [sample_reg version], next_reg_id := 2\<rparr>"

lemma sample_regs_inv: "version > 0 \<Longrightarrow> db_inv (sample_regs version)"
  by (simp add: sample_regs_def sample_reg_def empty_db_def db_inv_def authz_inv_def chall_inv_def reg_inv_def
      cert_inv_def pending_ids_def final_ids_def)

definition sample_registration :: Registration where
  "sample_registration = \<lparr>reg_ID = 1, reg_Key = None, Contact = None, Agreement = ''yes'',
     InitialIP = Some (replicate 16 (CHR ''a'')), CreatedAt = 50, reg_Status = StatusValid\<rparr>"


text \<open>
  The protection is lost when the read fails with an error other than a missing row: the
  error is dropped, and the row is overwritten if it is still in its first version.
\<close>

lemma failed_read_overwrites:
  assumes "fault E (DbSelect ''registrations'') = Some msg" "db_fault E (DbUpdate ''registrations'' 0) = None"
    and "registrationToModel E reg = Inr urm" "rm_InitialIP urm \<noteq> None"
    and "registrations db = [r]" "rm_ID r = reg_ID reg" "rm_LockCol r = 1"
  shows "snd (UpdateRegistration_sa E db0 db reg) = Inr () \<and>
    rm_Agreement (hd (registrations (fst (UpdateRegistration_sa E db0 db reg)))) = rm_Agreement urm"
proof -
  have "rm_ID urm = reg_ID reg"
    using assms(3) by (auto simp: registrationToModel_def split: sum.splits option.splits)
  then show ?thesis using assms
    by (simp add: UpdateRegistration_sa_def select_one_def db_fault_def write_registration_def null_ip_def
        bind_version_def update_rows_def Let_def)
qed

text \<open>
  A revocation of pending authorizations does not stop a validation in flight. If an
  authorization could be finalized as valid before its domain was revoked, it can be so
  afterwards, and is then valid although the revocation covered it: the status of the pending
  row is not looked at.
\<close>

theorem revoked_pending_still_finalized:
  assumes "db_inv db" "FinalizeAuthorization E db az = (db', Inr ())"
  shows "\<exists>db''. FinalizeAuthorization E (fst (RevokeAuthorizationsByDomain E' db ident)) az = (db'', Inr ()) \<and>
    stage_of db'' (az_ID az) = Closed (az_Status az)"
proof -
  let ?db = "fst (RevokeAuthorizationsByDomain E' db ident)"
  note inv = db_inv_parts(1) [OF assms(1)]
  obtain P Q where R: "?db = db\<lparr>authz_table := map (set_status P StatusRevoked) (authz_table db),
      pendingAuthorizations := map (set_status Q StatusRevoked) (pendingAuthorizations db)\<rparr>"
    using Revoke_shape [OF inv] by blast
  have inv': "authz_inv ?db" using Revoke_inv [OF inv] by blast
  have ids: "pending_ids ?db = pending_ids db" "final_ids ?db = final_ids db"
    by (simp_all add: R pending_ids_def final_ids_def image_image)
  have "(\<exists>d. updateChallenges E (az_ID az) (Challenges az) ?db = Inr d) \<longleftrightarrow>
      (\<exists>d. updateChallenges E (az_ID az) (Challenges az) db = Inr d)"
    unfolding R updateChallenges_frame
    by (cases "updateChallenges E (az_ID az) (Challenges az) db") simp_all
  then have "\<exists>d. FinalizeAuthorization E ?db az = (d, Inr ())"
    using assms(2) Finalize_success_iff [OF inv, of E az] Finalize_success_iff [OF inv', of E az]
    unfolding existingPending_iff ids by blast
  then obtain d where d: "FinalizeAuthorization E ?db az = (d, Inr ())" by blast
  from Finalize_stage [OF d inv'] d show ?thesis by blast
qed

theorem revoked_pending_still_finalized_witness:
  "\<exists>db''. FinalizeAuthorization sample_env
      (fst (RevokeAuthorizationsByDomain sample_env sample_pending (Identifier sample_authz)))
      (sample_authz\<lparr>az_ID := ''abc'', az_Status := StatusValid,
         Challenges := [newChallenge ''http-01'' ''tok'']\<rparr>) = (db'', Inr ()) \<and>
    stage_of db'' ''abc'' = Closed StatusValid"
  using revoked_pending_still_finalized [OF sample_pending_inv, of sample_env
      "sample_authz\<lparr>az_ID := ''abc'', az_Status := StatusValid, Challenges := [newChallenge ''http-01'' ''tok'']\<rparr>"
      "fst (FinalizeAuthorization sample_env sample_pending (sample_authz\<lparr>az_ID := ''abc'', az_Status := StatusValid,
         Challenges := [newChallenge ''http-01'' ''tok'']\<rparr>))" sample_env "Identifier sample_authz"]
    sample_finalize
  by (simp add: prod_eq_iff)

end
