(* ===== verification/GoodKey.thy ===== *)
theory GoodKey
  imports Core
begin

text \<open>
  The key policy (\<^verbatim>\<open>goodkey/good_key.go\<close>): which public keys are acceptable for accounts
  and certificates. The arithmetic of an elliptic curve (\<^verbatim>\<open>crypto/elliptic\<close>) is a
  parameter, a record of its parameters and operations.
\<close>

section \<open>Model\<close>

definition smallPrimeInts :: "int list" where
  "smallPrimeInts = [
     2, 3, 5, 7, 11, 13, 17, 19, 23, 29, 31, 37, 41, 43, 47,
     53, 59, 61, 67, 71, 73, 79, 83, 89, 97, 101, 103, 107,
     109, 113, 127, 131, 137, 139, 149, 151, 157, 163, 167,
     173, 179, 181, 191, 193, 197, 199, 211, 223, 227, 229,
     233, 239, 241, 251, 257, 263, 269, 271, 277, 281, 283,
     293, 307, 311, 313, 317, 331, 337, 347, 349, 353, 359,
     367, 373, 379, 383, 389, 397, 401, 409, 419, 421, 431,
     433, 439, 443, 449, 457, 461, 463, 467, 479, 487, 491,
     499, 503, 509, 521, 523, 541, 547, 557, 563, 569, 571,
     577, 587, 593, 599, 601, 607, 613, 617, 619, 631, 641,
     643, 647, 653, 659, 661, 673, 677, 683, 691, 701, 709,
     719, 727, 733, 739, 743, 751]"

record KeyPolicy =
  AllowRSA :: bool
  AllowECDSANISTP256 :: bool
  AllowECDSANISTP384 :: bool

definition NewKeyPolicy :: KeyPolicy where
  "NewKeyPolicy =
     \<lparr>AllowRSA = True, AllowECDSANISTP256 = True, AllowECDSANISTP384 = True\<rparr>"

record CurveParams =
  curve_P :: int
  curve_N :: int
  curve_Name :: string
  IsOnCurve :: "int \<Rightarrow> int \<Rightarrow> bool"
  ScalarMult :: "int \<Rightarrow> int \<Rightarrow> int \<Rightarrow> int \<times> int"

definition isPointAtInfinityNISTP :: "int \<Rightarrow> int \<Rightarrow> bool" where
  "isPointAtInfinityNISTP x y \<longleftrightarrow> x = 0 \<and> y = 0"

definition goodCurve ::
  "(CurveID \<Rightarrow> CurveParams) \<Rightarrow> KeyPolicy \<Rightarrow> CurveID \<Rightarrow> goerror option" where
  "goodCurve ec policy c =
     (if AllowECDSANISTP256 policy \<and> c = P256 then None
      else if AllowECDSANISTP384 policy \<and> c = P384 then None
      else Some (BoulderError Malformed (''ECDSA curve '' @ curve_Name (ec c) @ '' not allowed'')))"

definition goodKeyECDSA ::
  "(CurveID \<Rightarrow> CurveParams) \<Rightarrow> KeyPolicy \<Rightarrow> CurveID \<Rightarrow> int \<Rightarrow> int \<Rightarrow> goerror option" where
  "goodKeyECDSA ec policy c x y =
     (case goodCurve ec policy c of
        Some err \<Rightarrow> Some err
      | None \<Rightarrow>
          (let params = ec c in
           if isPointAtInfinityNISTP x y
           then Some (BoulderError Malformed ''key x, y must not be the point at infinity'')
           else if x < 0 \<or> y < 0
           then Some (BoulderError Malformed ''key x, y must not be negative'')
           else if x \<ge> curve_P params \<or> y \<ge> curve_P params
           then Some (BoulderError Malformed ''key x, y must not exceed P-1'')
           else if \<not> IsOnCurve params x y
           then Some (BoulderError Malformed ''key point is not on the curve'')
           else (let (ox, oy) = ScalarMult params x y (curve_N params) in
                 if \<not> isPointAtInfinityNISTP ox oy
                 then Some (BoulderError Malformed ''public key does not have correct order'')
                 else None)))"

text \<open>\<^verbatim>\<open>big.Int.BitLen\<close>.\<close>

fun bit_len_nat :: "nat \<Rightarrow> nat" where
  "bit_len_nat n = (if n = 0 then 0 else Suc (bit_len_nat (n div 2)))"

declare bit_len_nat.simps [simp del]

definition BitLen :: "int \<Rightarrow> nat" where
  "BitLen n = bit_len_nat (nat \<bar>n\<bar>)"

definition checkSmallPrimes :: "int \<Rightarrow> bool" where
  "checkSmallPrimes i = list_ex (\<lambda>prime. i mod prime = 0) smallPrimeInts"

definition goodKeyRSA :: "KeyPolicy \<Rightarrow> int \<Rightarrow> int \<Rightarrow> goerror option" where
  "goodKeyRSA policy N E =
     (if \<not> AllowRSA policy then Some (BoulderError Malformed ''RSA keys are not allowed'')
      else
        (let modulusBitLen = BitLen N; maxKeySize = 4096 in
         if modulusBitLen < 2048
         then Some (BoulderError Malformed (''key too small: '' @ format_nat modulusBitLen))
         else if modulusBitLen > maxKeySize
         then Some (BoulderError Malformed
                (''key too large: '' @ format_nat modulusBitLen @ '' > '' @ format_nat maxKeySize))
         else if modulusBitLen mod 8 \<noteq> 0
         then Some (BoulderError Malformed
                (''key length wasn'' @ [char_of (39::nat)] @ ''t a multiple of 8: '' @
                 format_nat modulusBitLen))
         else if E mod 2 = 0 \<or> E < 65537
         then Some (BoulderError Malformed (''key exponent should be odd and >2^16: '' @ Itoa E))
         else if checkSmallPrimes N
         then Some (BoulderError Malformed ''key divisible by small prime'')
         else None))"

fun GoodKey :: "(CurveID \<Rightarrow> CurveParams) \<Rightarrow> KeyPolicy \<Rightarrow> PublicKey \<Rightarrow> goerror option" where
  "GoodKey ec policy (RSAKey N E) = goodKeyRSA policy N E"
| "GoodKey ec policy (ECDSAKey c x y) = goodKeyECDSA ec policy c x y"
| "GoodKey ec policy (OtherKey ty) =
     Some (BoulderError Malformed (''unknown key type '' @ ty))"

section \<open>Lemmas\<close>

lemma bit_len_nat_bounds: "0 < n \<Longrightarrow> 2 ^ (bit_len_nat n - 1) \<le> n \<and> n < 2 ^ bit_len_nat n"
proof (induction n rule: bit_len_nat.induct)
  case (1 n)
  show ?case
  proof (cases "n div 2 = 0")
    case True
    with "1.prems" have "n = 1" by linarith
    then show ?thesis by (simp add: bit_len_nat.simps)
  next
    case False
    define k where "k = bit_len_nat (n div 2)"
    have ih: "2 ^ (k - 1) \<le> n div 2" "n div 2 < 2 ^ k"
      using 1 False by (simp_all add: k_def)
    have k: "0 < k" using False by (simp add: k_def bit_len_nat.simps [of "n div 2"])
    have len: "bit_len_nat n = Suc k" using 1 by (simp add: bit_len_nat.simps [of n] k_def)
    have "2 ^ k \<le> n" using ih(1) k by (cases k) auto
    moreover have "n < 2 * 2 ^ k" using ih(2) by linarith
    ultimately show ?thesis by (simp add: len)
  qed
qed

lemma BitLen_ge_iff: "0 < k \<Longrightarrow> k \<le> BitLen n \<longleftrightarrow> 2 ^ (k - 1) \<le> \<bar>n\<bar>"
proof -
  assume k: "0 < k"
  define m where "m = nat \<bar>n\<bar>"
  have m: "int m = \<bar>n\<bar>" by (simp add: m_def)
  show ?thesis
  proof (cases "m = 0")
    case True
    then show ?thesis using k m by (simp add: BitLen_def bit_len_nat.simps m_def [symmetric])
  next
    case False
    then have b: "2 ^ (BitLen n - 1) \<le> m" "m < 2 ^ BitLen n"
      using bit_len_nat_bounds [of m] by (simp_all add: BitLen_def m_def)
    have "k \<le> BitLen n \<longleftrightarrow> 2 ^ (k - 1) \<le> m"
    proof
      assume "k \<le> BitLen n"
      then have "(2::nat) ^ (k - 1) \<le> 2 ^ (BitLen n - 1)" by (intro power_increasing) auto
      with b show "2 ^ (k - 1) \<le> m" by linarith
    next
      assume "2 ^ (k - 1) \<le> m"
      with b have "(2::nat) ^ (k - 1) < 2 ^ BitLen n" by linarith
      then show "k \<le> BitLen n" using k by (simp add: power_strict_increasing_iff)
    qed
    also have "\<dots> \<longleftrightarrow> 2 ^ (k - 1) \<le> \<bar>n\<bar>"
      unfolding m [symmetric] by (metis of_nat_le_iff of_nat_numeral of_nat_power)
    finally show ?thesis .
  qed
qed

text \<open>
  A number below 752 without a divisor among the first nine primes is itself in the table.
\<close>

definition first_primes :: "int list" where
  "first_primes = take 9 smallPrimeInts"

lemma table_sieve:
  "filter (\<lambda>d. list_all (\<lambda>p. d mod p \<noteq> 0) first_primes) [2..751] = drop 9 smallPrimeInts"
  by code_simp

lemma small_divisor:
  assumes "2 \<le> d" "d < 752"
  shows "\<exists>p \<in> set smallPrimeInts. p dvd d"
proof (cases "list_all (\<lambda>p. d mod p \<noteq> 0) first_primes")
  case True
  have "d \<in> set [2..751]" using assms unfolding set_upto atLeastAtMost_iff by linarith
  with True have "d \<in> set (drop 9 smallPrimeInts)"
    unfolding table_sieve [symmetric] by (simp only: set_filter mem_Collect_eq)
  then have "d \<in> set smallPrimeInts" by (rule in_set_dropD)
  then show ?thesis by (intro bexI [of _ d]) simp_all
next
  case False
  then obtain p where "p \<in> set first_primes" "d mod p = 0"
    by (meson list_all_iff)
  then show ?thesis
    unfolding first_primes_def by (intro bexI [of _ p]) (auto dest: in_set_takeD)
qed

lemma smallPrimeInts_range: "\<forall>p \<in> set smallPrimeInts. 2 \<le> p \<and> p \<le> 751"
  by (simp add: smallPrimeInts_def)

lemma checkSmallPrimes_iff: "checkSmallPrimes N \<longleftrightarrow> (\<exists>d. 2 \<le> d \<and> d < 752 \<and> d dvd N)"
proof
  assume "checkSmallPrimes N"
  then obtain p where "p \<in> set smallPrimeInts" "N mod p = 0"
    by (auto simp: checkSmallPrimes_def list_ex_iff)
  with smallPrimeInts_range show "\<exists>d. 2 \<le> d \<and> d < 752 \<and> d dvd N"
    by (intro exI [of _ p]) auto
next
  assume "\<exists>d. 2 \<le> d \<and> d < 752 \<and> d dvd N"
  then obtain d where d: "2 \<le> d" "d < 752" "d dvd N" by blast
  then obtain p where p: "p \<in> set smallPrimeInts" "p dvd d" using small_divisor by blast
  from p(2) d(3) have "p dvd N" by (rule dvd_trans)
  with p show "checkSmallPrimes N"
    by (auto simp: checkSmallPrimes_def list_ex_iff mod_eq_0_iff_dvd)
qed

lemma good_length_iff:
  "2048 \<le> BitLen N \<and> BitLen N \<le> 4096 \<longleftrightarrow> 2 ^ 2047 \<le> \<bar>N\<bar> \<and> \<bar>N\<bar> < 2 ^ 4096"
proof -
  have "2048 \<le> BitLen N \<longleftrightarrow> 2 ^ (2048 - 1) \<le> \<bar>N\<bar>" by (rule BitLen_ge_iff) simp
  moreover have "Suc 4096 \<le> BitLen N \<longleftrightarrow> 2 ^ (Suc 4096 - 1) \<le> \<bar>N\<bar>" by (rule BitLen_ge_iff) simp
  then have "\<not> BitLen N \<le> 4096 \<longleftrightarrow> \<not> \<bar>N\<bar> < 2 ^ 4096"
    by (simp only: not_le not_less diff_Suc_1 Suc_le_eq)
  ultimately show ?thesis by simp
qed

lemma good_rsa_by_length:
  "GoodKey ec policy (RSAKey N E) = None \<longleftrightarrow>
     AllowRSA policy \<and> (2048 \<le> BitLen N \<and> BitLen N \<le> 4096) \<and> 8 dvd BitLen N \<and>
     odd E \<and> 2 ^ 16 + 1 \<le> E \<and> (\<forall>d. 2 \<le> d \<and> d < 752 \<longrightarrow> \<not> d dvd N)"
  unfolding GoodKey.simps goodKeyRSA_def Let_def checkSmallPrimes_iff
  by (auto simp: even_iff_mod_2_eq_zero not_less split: if_splits)

section \<open>Properties\<close>

text \<open>
  C27: Exactly these RSA keys are accepted: RSA is enabled, the modulus has between 2048
  and 4096 bits, a multiple of eight, and no divisor between 2 and 751, and the exponent
  is odd and at least \<open>2 ^ 16 + 1\<close>.
\<close>

theorem good_rsa_key_iff:
  "GoodKey ec policy (RSAKey N E) = None \<longleftrightarrow>
     AllowRSA policy \<and> 2 ^ 2047 \<le> \<bar>N\<bar> \<and> \<bar>N\<bar> < 2 ^ 4096 \<and> 8 dvd BitLen N \<and>
     odd E \<and> 2 ^ 16 + 1 \<le> E \<and> \<not> (\<exists>d. 2 \<le> d \<and> d < 752 \<and> d dvd N)"
  unfolding good_rsa_by_length using good_length_iff [of N] by blast

end
