(* ===== verification/Reloader.thy ===== *)
theory Reloader
  imports Prelude
begin

text \<open>
  The file reloader (\<^verbatim>\<open>reloader/reloader.go\<close>) that the policy authority and the rate limits
  use for their configuration. The results of \<^verbatim>\<open>os.Stat\<close> and \<^verbatim>\<open>readFile\<close> at each tick are
  inputs; the data callback is a function on the state of the component that owns the file.
\<close>

section \<open>Model\<close>

record 's reloader =
  modTime :: time
  client :: 's
  errors_seen :: "string list"
  running :: bool

datatype reload_event = Tick "string + time" "string + bytes" | StopEvent

definition report :: "string \<Rightarrow> 's reloader \<Rightarrow> 's reloader" where
  "report e r = r\<lparr>errors_seen := errors_seen r @ [e]\<rparr>"

text \<open>
  The first load is synchronous: an error of \<^verbatim>\<open>os.Stat\<close>, of the read or of the callback is
  returned and no goroutine is started. The client's state is returned in every case.
\<close>

definition New_reloader ::
  "('s \<Rightarrow> bytes \<Rightarrow> 's \<times> string option) \<Rightarrow> 's \<Rightarrow> string + time \<Rightarrow> string + bytes \<Rightarrow>
   's \<times> (string + 's reloader)" where
  "New_reloader dataCallback c statRes readRes =
     (case statRes of
        Inl err \<Rightarrow> (c, Inl err)
      | Inr fileInfo \<Rightarrow>
          (case readRes of
             Inl err \<Rightarrow> (c, Inl err)
           | Inr b \<Rightarrow>
               (case dataCallback c b of
                  (c', Some err) \<Rightarrow> (c', Inl err)
                | (c', None) \<Rightarrow>
                    (c', Inr \<lparr>modTime = fileInfo, client = c', errors_seen = [], running = True\<rparr>))))"

fun loop_step ::
  "('s \<Rightarrow> bytes \<Rightarrow> 's \<times> string option) \<Rightarrow> 's reloader \<Rightarrow> reload_event \<Rightarrow> 's reloader" where
  "loop_step dataCallback r StopEvent = r\<lparr>running := False\<rparr>"
| "loop_step dataCallback r (Tick statRes readRes) =
     (if \<not> running r then r
      else case statRes of
          Inl err \<Rightarrow> report err r
        | Inr currentFileInfo \<Rightarrow>
            if \<not> currentFileInfo > modTime r then r
            else case readRes of
                Inl err \<Rightarrow> report err r
              | Inr b \<Rightarrow>
                  (case dataCallback (client r) b of
                     (c', Some err) \<Rightarrow>
                       report err (r\<lparr>modTime := currentFileInfo, client := c'\<rparr>)
                   | (c', None) \<Rightarrow> r\<lparr>modTime := currentFileInfo, client := c'\<rparr>))"

section \<open>Configuration loaders\<close>

text \<open>
  What a data callback promises: whether a file is accepted depends on the file only, a
  refused file leaves the component as it was, and an accepted one replaces what earlier
  files set.
\<close>

locale config_loader =
  fixes load :: "'s \<Rightarrow> bytes \<Rightarrow> 's \<times> string option"
  assumes status_by_file: "snd (load s b) = snd (load s' b)"
    and refused_keeps: "snd (load s b) = Some e \<Longrightarrow> fst (load s b) = s"
    and accepted_replaces:
      "snd (load s b) = None \<Longrightarrow> snd (load s b') = None \<Longrightarrow>
       fst (load (fst (load s b)) b') = fst (load s b')"
begin

definition in_force :: "'s \<Rightarrow> bytes \<Rightarrow> 's \<Rightarrow> bool" where
  "in_force c0 b c \<longleftrightarrow> snd (load c0 b) = None \<and> c = fst (load c0 b)"

lemma New_in_force:
  "New_reloader load c0 st (Inr b) = (c, Inr r) \<Longrightarrow> in_force c0 b c \<and> client r = c"
  by (auto simp: New_reloader_def in_force_def split: sum.splits prod.splits option.splits)

lemma New_failure_keeps: "New_reloader load c0 st rd = (c, Inl e) \<Longrightarrow> c = c0"
  using refused_keeps [of c0]
  by (auto simp: New_reloader_def split: sum.splits prod.splits option.splits)
     (metis fst_conv snd_conv)

text \<open>One step keeps the configuration in force or puts the file just read in force.\<close>

lemma step_in_force:
  assumes "in_force c0 b (client r)"
  shows "in_force c0 b (client (loop_step load r ev)) \<or>
     (\<exists>st b'. ev = Tick st (Inr b') \<and> in_force c0 b' (client (loop_step load r ev)))"
proof (cases ev)
  case (Tick st rd)
  show ?thesis
  proof (cases "running r \<and> (\<exists>m. st = Inr m \<and> modTime r < m) \<and> (\<exists>b'. rd = Inr b')")
    case True
    then obtain m b' where s: "running r" "st = Inr m" "modTime r < m" "rd = Inr b'" by blast
    obtain c' e where l: "load (client r) b' = (c', e)" by (cases "load (client r) b'")
    show ?thesis
    proof (cases e)
      case None
      then have "snd (load c0 b') = None" using status_by_file [of c0 b' "client r"] l by simp
      then have "in_force c0 b' c'"
        using accepted_replaces [of c0 b b'] assms l by (simp add: in_force_def)
      with s l None Tick show ?thesis by simp
    next
      case (Some er)
      then have "c' = client r" using refused_keeps [of "client r" b' er] l by simp
      with s l Some Tick assms show ?thesis by (simp add: report_def)
    qed
  next
    case False
    with Tick assms show ?thesis by (auto simp: report_def split: sum.splits)
  qed
next
  case StopEvent
  with assms show ?thesis by simp
qed

lemma run_in_force:
  assumes "in_force c0 b (client r)"
  shows "\<exists>b' \<in> insert b {b'. \<exists>st. Tick st (Inr b') \<in> set evs}.
     in_force c0 b' (client (foldl (loop_step load) r evs))"
  using assms
proof (induction evs arbitrary: r b)
  case (Cons ev evs)
  from step_in_force [OF Cons.prems, of ev] show ?case
  proof (elim disjE exE conjE)
    assume "in_force c0 b (client (loop_step load r ev))"
    from Cons.IH [OF this] show ?thesis by auto
  next
    fix st b' assume e: "ev = Tick st (Inr b')" and f: "in_force c0 b' (client (loop_step load r ev))"
    from Cons.IH [OF f] show ?thesis using e by auto
  qed
qed auto

lemma newer_file_in_force:
  assumes "in_force c0 b (client r)" "running r" "modTime r < m" "snd (load c0 b') = None"
  shows "in_force c0 b' (client (loop_step load r (Tick (Inr m) (Inr b'))))"
proof -
  have "snd (load (client r) b') = None" using assms(4) status_by_file by metis
  then obtain c' where "load (client r) b' = (c', None)" by (cases "load (client r) b'") simp
  with assms accepted_replaces [of c0 b b'] show ?thesis by (simp add: in_force_def)
qed

end

end
