(* ===== verification/Policy.thy ===== *)
theory Policy
  imports Core Reloader "HOL-Library.Multiset"
begin

text \<open>
  The policy authority (\<^verbatim>\<open>policy/pa.go\<close>): which identifiers the CA issues for and which
  challenges it offers. The public suffix list, the punycode decoder, the JSON decoder and
  the pseudo random permutations are parameters.
\<close>

section \<open>Model\<close>

text \<open>
  Indexing a Go \<^verbatim>\<open>map[string]bool\<close> gives \<^verbatim>\<open>false\<close> for an absent key. The nil map
  \<^verbatim>\<open>pa.blacklist\<close> before the first load is \<open>None\<close>.
\<close>

definition lookup_bool :: "(string \<rightharpoonup> bool) \<Rightarrow> string \<Rightarrow> bool" where
  "lookup_bool m k = (case m k of Some b \<Rightarrow> b | None \<Rightarrow> False)"

record AuthorityImpl =
  blacklist :: "(string \<rightharpoonup> bool) option"
  exactBlacklist :: "string \<rightharpoonup> bool"
  enabledChallenges :: "string \<rightharpoonup> bool"

definition New_pa :: "(string \<rightharpoonup> bool) \<Rightarrow> AuthorityImpl" where
  "New_pa challengeTypes =
     \<lparr>blacklist = None, exactBlacklist = Map.empty, enabledChallenges = challengeTypes\<rparr>"

record blacklistJSON =
  Blacklist :: "string list"
  ExactBlacklist :: "string list"

definition set_of_names :: "string list \<Rightarrow> (string \<rightharpoonup> bool)" where
  "set_of_names names = foldl (\<lambda>m v. m(v \<mapsto> True)) Map.empty names"

definition loadHostnamePolicy ::
  "(bytes \<Rightarrow> string + blacklistJSON) \<Rightarrow> AuthorityImpl \<Rightarrow> bytes \<Rightarrow> AuthorityImpl \<times> string option" where
  "loadHostnamePolicy unmarshal pa b =
     (case unmarshal b of
        Inl err \<Rightarrow> (pa, Some err)
      | Inr bl \<Rightarrow>
          if Blacklist bl = [] then (pa, Some ''No entries in blacklist.'')
          else (pa\<lparr>blacklist := Some (set_of_names (Blacklist bl)),
                   exactBlacklist := set_of_names (ExactBlacklist bl)\<rparr>, None))"

definition maxLabels :: nat where "maxLabels = 10"
definition maxLabelLength :: nat where "maxLabelLength = 63"
definition maxDNSIdentifierLength :: nat where "maxDNSIdentifierLength = 253"

definition lower_alnum :: "char \<Rightarrow> bool" where
  "lower_alnum c = (let n = of_char c :: nat in 97 \<le> n \<and> n \<le> 122 \<or> 48 \<le> n \<and> n \<le> 57)"

text \<open>The regular expressions \<^verbatim>\<open>^[a-z0-9][a-z0-9-]{0,62}$\<close> and \<^verbatim>\<open>^xn--\<close>.\<close>

definition dnsLabelRegexp :: "string \<Rightarrow> bool" where
  "dnsLabelRegexp label =
     (case label of
        [] \<Rightarrow> False
      | c # cs \<Rightarrow> lower_alnum c \<and> length cs \<le> 62 \<and>
                  list_all (\<lambda>c. lower_alnum c \<or> c = CHR ''-'') cs)"

definition punycodeRegexp :: "string \<Rightarrow> bool" where
  "punycodeRegexp label = has_prefix label ''xn--''"

definition isDNSCharacter :: "char \<Rightarrow> bool" where
  "isDNSCharacter ch =
     (let n = of_char ch :: nat in
      97 \<le> n \<and> n \<le> 122 \<or> 65 \<le> n \<and> n \<le> 90 \<or> 48 \<le> n \<and> n \<le> 57 \<or>
      ch = CHR ''.'' \<or> ch = CHR ''-'')"

fun suffixMatch_from :: "nat \<Rightarrow> string list \<Rightarrow> (string \<rightharpoonup> bool) \<Rightarrow> bool \<Rightarrow> bool" where
  "suffixMatch_from i [] suffixSet properSuffix = False"
| "suffixMatch_from i (l # ls) suffixSet properSuffix =
     (if lookup_bool suffixSet (join_with ''.'' (l # ls)) then \<not> properSuffix \<or> i > 0
      else suffixMatch_from (Suc i) ls suffixSet properSuffix)"

definition suffixMatch :: "string list \<Rightarrow> (string \<rightharpoonup> bool) \<Rightarrow> bool \<Rightarrow> bool" where
  "suffixMatch labels suffixSet properSuffix = suffixMatch_from 0 labels suffixSet properSuffix"

definition errInvalidIdentifier :: goerror where
  "errInvalidIdentifier = BoulderError Malformed ''Invalid identifier type''"
definition errNonPublic :: goerror where
  "errNonPublic = BoulderError Malformed ''Name does not end in a public suffix''"
definition errICANNTLD :: goerror where
  "errICANNTLD = BoulderError Malformed ''Name is an ICANN TLD''"
definition errBlacklisted :: goerror where
  "errBlacklisted = BoulderError RejectedIdentifier ''Policy forbids issuing for name''"
definition errInvalidDNSCharacter :: goerror where
  "errInvalidDNSCharacter = BoulderError Malformed ''Invalid character in DNS name''"
definition errNameTooLong :: goerror where
  "errNameTooLong = BoulderError Malformed ''DNS name too long''"
definition errIPAddress :: goerror where
  "errIPAddress = BoulderError Malformed ''Issuance for IP addresses not supported''"
definition errTooManyLabels :: goerror where
  "errTooManyLabels = BoulderError Malformed ''DNS name has too many labels''"
definition errEmptyName :: goerror where
  "errEmptyName = BoulderError Malformed ''DNS name was empty''"
definition errNameEndsInDot :: goerror where
  "errNameEndsInDot = BoulderError Malformed ''DNS name ends in a period''"
definition errTooFewLabels :: goerror where
  "errTooFewLabels = BoulderError Malformed ''DNS name does not have enough labels''"
definition errLabelTooShort :: goerror where
  "errLabelTooShort = BoulderError Malformed ''DNS label is too short''"
definition errLabelTooLong :: goerror where
  "errLabelTooLong = BoulderError Malformed ''DNS label is too long''"
definition errIDNNotSupported :: goerror where
  "errIDNNotSupported = BoulderError UnsupportedIdentifier
     ''Internationalized domain names (starting with xn--) not yet supported''"
definition errMalformedIDN :: goerror where
  "errMalformedIDN = BoulderError Malformed ''DNS label contains malformed punycode''"

lemmas policy_errors = errInvalidIdentifier_def errNonPublic_def errICANNTLD_def errBlacklisted_def
  errInvalidDNSCharacter_def errNameTooLong_def errIPAddress_def errTooManyLabels_def
  errEmptyName_def errNameEndsInDot_def errTooFewLabels_def errLabelTooShort_def
  errLabelTooLong_def errIDNNotSupported_def errMalformedIDN_def

text \<open>
  \<^verbatim>\<open>net.ParseIP\<close> on a string without a colon: four groups of decimal digits, each at most
  255; leading zeros are accepted.
\<close>

definition dotted_octet :: "string \<Rightarrow> bool" where
  "dotted_octet p = (p \<noteq> [] \<and> (case parse_digits 0 p of Some n \<Rightarrow> n \<le> 255 | None \<Rightarrow> False))"

definition is_ipv4 :: "string \<Rightarrow> bool" where
  "is_ipv4 s = (let ps = split_on (CHR ''.'') s in length ps = 4 \<and> list_all dotted_octet ps)"

text \<open>
  \<open>psl name\<close> is \<^verbatim>\<open>rule.Decompose(name)[1]\<close> for the rule that the ICANN section of the public
  suffix list has for the name, and \<open>None\<close> when it has none.
\<close>

definition extractDomainIANASuffix :: "(string \<Rightarrow> string option) \<Rightarrow> string \<Rightarrow> string + string" where
  "extractDomainIANASuffix psl name =
     (if name = [] then Inl ''Blank name argument passed to ExtractDomainIANASuffix''
      else case psl name of
          None \<Rightarrow> Inl (''Domain '' @ name @ '' has no IANA TLD'')
        | Some suffix \<Rightarrow> Inr (if suffix = [] then name else suffix))"

definition check_label ::
  "(FeatureFlag \<Rightarrow> bool) \<Rightarrow> (string \<Rightarrow> bool) \<Rightarrow> string \<Rightarrow> goerror option" where
  "check_label feat idnaOK label =
     (if length label < 1 then Some errLabelTooShort
      else if length label > maxLabelLength then Some errLabelTooLong
      else if \<not> dnsLabelRegexp label then Some errInvalidDNSCharacter
      else if label ! (length label - 1) = CHR ''-'' then Some errInvalidDNSCharacter
      else if punycodeRegexp label then
        (if feat IDNASupport then (if \<not> idnaOK label then Some errMalformedIDN else None)
         else Some errIDNNotSupported)
      else None)"

fun any_suffix_in :: "(string \<rightharpoonup> bool) \<Rightarrow> string list \<Rightarrow> bool" where
  "any_suffix_in m [] = False"
| "any_suffix_in m (l # ls) =
     (lookup_bool m (join_with ''.'' (l # ls)) \<or> any_suffix_in m ls)"

definition checkHostLists :: "AuthorityImpl \<Rightarrow> string \<Rightarrow> goerror option" where
  "checkHostLists pa domain =
     (case blacklist pa of
        None \<Rightarrow> Some (OtherError ''Hostname policy not yet loaded.'')
      | Some bl \<Rightarrow>
          if any_suffix_in bl (split_on (CHR ''.'') domain) then Some errBlacklisted
          else if lookup_bool (exactBlacklist pa) domain then Some errBlacklisted
          else None)"

definition WillingToIssue ::
  "(FeatureFlag \<Rightarrow> bool) \<Rightarrow> (string \<Rightarrow> bool) \<Rightarrow> (string \<Rightarrow> string option) \<Rightarrow> AuthorityImpl \<Rightarrow>
   AcmeIdentifier \<Rightarrow> goerror option" where
  "WillingToIssue feat idnaOK psl pa ident =
     (if id_Type ident \<noteq> IdentifierDNS then Some errInvalidIdentifier
      else
        (let domain = Value ident; labels = split_on (CHR ''.'') domain in
         if domain = [] then Some errEmptyName
         else if \<not> list_all isDNSCharacter domain then Some errInvalidDNSCharacter
         else if length domain > maxDNSIdentifierLength then Some errNameTooLong
         else if is_ipv4 domain then Some errIPAddress
         else if has_suffix domain ''.'' then Some errNameEndsInDot
         else if length labels > maxLabels then Some errTooManyLabels
         else if length labels < 2 then Some errTooFewLabels
         else case first_error (check_label feat idnaOK) labels of
             Some err \<Rightarrow> Some err
           | None \<Rightarrow>
               (case extractDomainIANASuffix psl domain of
                  Inl _ \<Rightarrow> Some errNonPublic
                | Inr icannTLD \<Rightarrow>
                    if icannTLD = domain then Some errICANNTLD
                    else checkHostLists pa domain)))"

text \<open>
  The challenges of one call: \<open>rnd\<close> gives the random bytes of the token of each challenge
  type, \<open>permA\<close> and \<open>permB\<close> are the two results of \<^verbatim>\<open>pseudoRNG.Perm\<close>.
\<close>

definition enabled_challenges ::
  "(FeatureFlag \<Rightarrow> bool) \<Rightarrow> (string \<Rightarrow> bytes) \<Rightarrow> AuthorityImpl \<Rightarrow> Challenge list" where
  "enabled_challenges feat rnd pa =
     (if lookup_bool (enabledChallenges pa) ChallengeTypeHTTP01
      then [HTTPChallenge01 (rnd ChallengeTypeHTTP01)] else []) @
     (if lookup_bool (enabledChallenges pa) ChallengeTypeTLSSNI01
      then [TLSSNIChallenge01 (rnd ChallengeTypeTLSSNI01)] else []) @
     (if feat AllowTLS02Challenges \<and> lookup_bool (enabledChallenges pa) ChallengeTypeTLSSNI02
      then [TLSSNIChallenge02 (rnd ChallengeTypeTLSSNI02)] else []) @
     (if lookup_bool (enabledChallenges pa) ChallengeTypeDNS01
      then [DNSChallenge01 (rnd ChallengeTypeDNS01)] else [])"

definition ChallengesFor ::
  "(FeatureFlag \<Rightarrow> bool) \<Rightarrow> (string \<Rightarrow> bytes) \<Rightarrow> (nat \<Rightarrow> nat list) \<Rightarrow> (nat \<Rightarrow> nat list) \<Rightarrow>
   AuthorityImpl \<Rightarrow> Challenge list \<times> nat list list" where
  "ChallengesFor feat rnd permA permB pa =
     (let challenges = enabled_challenges feat rnd pa;
          shuffled = map (\<lambda>challIdx. challenges ! challIdx) (permA (length challenges));
          combinations = map (\<lambda>i. [i]) [0..<length challenges];
          shuffledCombos = map (\<lambda>comboIdx. combinations ! comboIdx) (permB (length combinations))
      in (shuffled, shuffledCombos))"

section \<open>Lemmas\<close>

lemma set_of_names_lookup [simp]: "lookup_bool (set_of_names names) n \<longleftrightarrow> n \<in> set names"
proof -
  have "lookup_bool (foldl (\<lambda>m v. m(v \<mapsto> True)) m names) n \<longleftrightarrow> n \<in> set names \<or> lookup_bool m n" for m
    by (induction names arbitrary: m) (auto simp: lookup_bool_def)
  then show ?thesis by (simp add: set_of_names_def lookup_bool_def)
qed

lemma suffixMatch_from_iff:
  "suffixMatch_from i ls m False \<longleftrightarrow> any_suffix_in m ls"
  by (induction ls arbitrary: i) auto

lemma any_suffix_in_iff:
  "any_suffix_in m ls \<longleftrightarrow> (\<exists>xs ys. ls = xs @ ys \<and> ys \<noteq> [] \<and> lookup_bool m (join_with ''.'' ys))"
proof (induction ls)
  case (Cons l ls)
  have "(\<exists>xs ys. l # ls = xs @ ys \<and> ys \<noteq> [] \<and> P ys) \<longleftrightarrow>
        P (l # ls) \<or> (\<exists>xs ys. ls = xs @ ys \<and> ys \<noteq> [] \<and> P ys)" for P
    by (auto simp: Cons_eq_append_conv)
  with Cons show ?case by simp
qed simp

text \<open>
  A label-wise suffix of a name is the name itself or what follows one of its periods.
\<close>

lemma join_with_append:
  "xs \<noteq> [] \<Longrightarrow> ys \<noteq> [] \<Longrightarrow> join_with sep (xs @ ys) = join_with sep xs @ sep @ join_with sep ys"
proof (induction xs)
  case (Cons x xs)
  then show ?case by (cases "xs = []") (simp_all add: join_with_Cons)
qed simp

lemma split_on_append:
  "split_on c (x @ c # y) = split_on c x @ split_on c y"
  by (induction x) (auto split: list.splits)

lemma any_suffix_in_split:
  "any_suffix_in m (split_on (CHR ''.'') d) \<longleftrightarrow>
     (\<exists>b. lookup_bool m b \<and> (d = b \<or> has_suffix d (''.'' @ b)))"
proof
  assume "any_suffix_in m (split_on (CHR ''.'') d)"
  then obtain xs ys where s: "split_on (CHR ''.'') d = xs @ ys" "ys \<noteq> []"
      "lookup_bool m (join_with ''.'' ys)"
    by (auto simp: any_suffix_in_iff)
  have "d = join_with ''.'' (xs @ ys)" using join_split [of "CHR ''.''" d] s(1) by simp
  then have "d = join_with ''.'' ys \<or> has_suffix d (''.'' @ join_with ''.'' ys)"
    using s(2) by (cases "xs = []") (auto simp: join_with_append has_suffix_iff)
  with s(3) show "\<exists>b. lookup_bool m b \<and> (d = b \<or> has_suffix d (''.'' @ b))" by blast
next
  assume "\<exists>b. lookup_bool m b \<and> (d = b \<or> has_suffix d (''.'' @ b))"
  then obtain b x where b: "lookup_bool m b" "d = b \<or> d = x @ CHR ''.'' # b"
    by (auto simp: has_suffix_iff)
  have j: "join_with ''.'' (split_on (CHR ''.'') b) = b" by (rule join_split)
  from b(2) show "any_suffix_in m (split_on (CHR ''.'') d)"
  proof
    assume "d = b"
    then show ?thesis using b(1) j unfolding any_suffix_in_iff
      by (intro exI [of _ "[]"] exI [of _ "split_on (CHR ''.'') b"]) simp
  next
    assume "d = x @ CHR ''.'' # b"
    then show ?thesis using b(1) j unfolding any_suffix_in_iff
      by (intro exI [of _ "split_on (CHR ''.'') x"] exI [of _ "split_on (CHR ''.'') b"])
         (simp add: split_on_append)
  qed
qed

text \<open>
  The names the CA issues for, said without the order of the checks.
\<close>

definition dns_label :: "string \<Rightarrow> bool" where
  "dns_label l \<longleftrightarrow> l \<noteq> [] \<and> length l \<le> 63 \<and> list_all (\<lambda>c. lower_alnum c \<or> c = CHR ''-'') l \<and>
     hd l \<noteq> CHR ''-'' \<and> last l \<noteq> CHR ''-''"

definition dns_hostname :: "string \<Rightarrow> bool" where
  "dns_hostname d \<longleftrightarrow>
     (let ls = split_on (CHR ''.'') d
      in length d \<le> 253 \<and> 2 \<le> length ls \<and> length ls \<le> 10 \<and> list_all dns_label ls)"

definition idn_allowed :: "(FeatureFlag \<Rightarrow> bool) \<Rightarrow> (string \<Rightarrow> bool) \<Rightarrow> string \<Rightarrow> bool" where
  "idn_allowed feat idnaOK d \<longleftrightarrow>
     list_all (\<lambda>l. has_prefix l ''xn--'' \<longrightarrow> feat IDNASupport \<and> idnaOK l) (split_on (CHR ''.'') d)"

definition below_public_suffix :: "(string \<Rightarrow> string option) \<Rightarrow> string \<Rightarrow> bool" where
  "below_public_suffix psl d \<longleftrightarrow> (case psl d of None \<Rightarrow> False | Some s \<Rightarrow> s \<noteq> [] \<and> s \<noteq> d)"

lemma dash_not_alnum [simp]: "\<not> lower_alnum (CHR ''-'')" "\<not> lower_alnum (CHR ''.'')"
  by (simp_all add: lower_alnum_def)

lemma check_label_None_iff:
  "check_label feat idnaOK l = None \<longleftrightarrow>
     dns_label l \<and> (has_prefix l ''xn--'' \<longrightarrow> feat IDNASupport \<and> idnaOK l)"
  by (cases l)
     (auto simp: check_label_def dns_label_def maxLabelLength_def dnsLabelRegexp_def
        punycodeRegexp_def last_conv_nth Suc_le_eq)

lemma alnum_isDNSCharacter: "lower_alnum c \<Longrightarrow> isDNSCharacter c"
  by (auto simp: lower_alnum_def isDNSCharacter_def Let_def)

lemma isDNSCharacter_separators [simp]: "isDNSCharacter (CHR ''.'')" "isDNSCharacter (CHR ''-'')"
  by (simp_all add: isDNSCharacter_def Let_def)

lemma join_with_chars:
  "c \<in> set (join_with sep ls) \<Longrightarrow> c \<in> set sep \<or> (\<exists>l \<in> set ls. c \<in> set l)"
proof (induction ls)
  case (Cons l ls)
  then show ?case by (cases "ls = []") (auto simp: join_with_Cons)
qed simp

lemma hostname_chars:
  assumes "list_all dns_label (split_on (CHR ''.'') d)" "c \<in> set d"
  shows "lower_alnum c \<or> c = CHR ''-'' \<or> c = CHR ''.''"
proof -
  have "c \<in> set (join_with ''.'' (split_on (CHR ''.'') d))" using assms(2) by (simp add: join_split)
  from join_with_chars [OF this] have "c = CHR ''.'' \<or> (\<exists>l \<in> set (split_on (CHR ''.'') d). c \<in> set l)"
    by simp
  moreover have "\<forall>l \<in> set (split_on (CHR ''.'') d). \<forall>c \<in> set l. lower_alnum c \<or> c = CHR ''-''"
    using assms(1) by (simp add: list_all_iff dns_label_def)
  ultimately show ?thesis by blast
qed

lemma labels_isDNSCharacter:
  "list_all dns_label (split_on (CHR ''.'') d) \<Longrightarrow> list_all isDNSCharacter d"
  unfolding list_all_iff [of isDNSCharacter]
  using hostname_chars alnum_isDNSCharacter isDNSCharacter_separators by metis

lemma trailing_dot_label:
  assumes "has_suffix d ''.''" shows "\<not> list_all dns_label (split_on (CHR ''.'') d)"
proof -
  obtain x where "d = x @ CHR ''.'' # []" using assms by (auto simp: has_suffix_iff)
  then show ?thesis by (simp only: split_on_append) (simp add: dns_label_def)
qed

lemma checkHostLists_None_iff:
  "checkHostLists pa d = None \<longleftrightarrow>
     (\<exists>bl. blacklist pa = Some bl \<and>
        \<not> (\<exists>b. lookup_bool bl b \<and> (d = b \<or> has_suffix d (''.'' @ b))) \<and>
        \<not> lookup_bool (exactBlacklist pa) d)"
  unfolding checkHostLists_def any_suffix_in_split by (auto split: option.splits)

lemma extract_ok_iff:
  "d \<noteq> [] \<Longrightarrow> (\<exists>s. extractDomainIANASuffix psl d = Inr s \<and> s \<noteq> d) \<longleftrightarrow> below_public_suffix psl d"
  by (auto simp: extractDomainIANASuffix_def below_public_suffix_def split: option.splits)

lemma WillingToIssue_None_iff:
  "WillingToIssue feat idnaOK psl pa ident = None \<longleftrightarrow>
     id_Type ident = IdentifierDNS \<and> dns_hostname (Value ident) \<and> \<not> is_ipv4 (Value ident) \<and>
     idn_allowed feat idnaOK (Value ident) \<and> below_public_suffix psl (Value ident) \<and>
     checkHostLists pa (Value ident) = None" (is "?L \<longleftrightarrow> ?R")
proof
  assume L: ?L
  define d where "d = Value ident"
  from L have t: "id_Type ident = IdentifierDNS" "d \<noteq> []" "length d \<le> 253" "\<not> is_ipv4 d"
      "length (split_on (CHR ''.'') d) \<le> 10" "2 \<le> length (split_on (CHR ''.'') d)"
    and fe: "first_error (check_label feat idnaOK) (split_on (CHR ''.'') d) = None"
    and ex: "\<exists>s. extractDomainIANASuffix psl d = Inr s \<and> s \<noteq> d" and h: "checkHostLists pa d = None"
    by (simp_all add: WillingToIssue_def Let_def d_def maxLabels_def maxDNSIdentifierLength_def
        split: if_splits option.splits sum.splits)
  from fe have "list_all dns_label (split_on (CHR ''.'') d)" "idn_allowed feat idnaOK d"
    by (simp_all add: first_error_None_iff check_label_None_iff list_all_iff idn_allowed_def)
  with t ex h show ?R unfolding d_def [symmetric]
    by (simp add: dns_hostname_def extract_ok_iff)
next
  assume R: ?R
  define d where "d = Value ident"
  from R have d: "d \<noteq> []" "list_all dns_label (split_on (CHR ''.'') d)" "idn_allowed feat idnaOK d"
      "below_public_suffix psl d" "length d \<le> 253" "2 \<le> length (split_on (CHR ''.'') d)"
      "length (split_on (CHR ''.'') d) \<le> 10"
    by (auto simp: dns_hostname_def d_def Let_def)
  from d have "first_error (check_label feat idnaOK) (split_on (CHR ''.'') d) = None"
    by (simp add: first_error_None_iff check_label_None_iff list_all_iff idn_allowed_def)
  moreover have "list_all isDNSCharacter d" "\<not> has_suffix d ''.''"
    using labels_isDNSCharacter trailing_dot_label d by blast+
  moreover obtain s where "extractDomainIANASuffix psl d = Inr s" "s \<noteq> d"
    using d extract_ok_iff by blast
  ultimately show ?L using R d
    by (simp add: WillingToIssue_def Let_def d_def [symmetric] maxLabels_def maxDNSIdentifierLength_def)
qed

text \<open>Names the policy accepts are in lower case.\<close>

lemma lower_alnum_lower: "lower_alnum c \<or> c = CHR ''-'' \<or> c = CHR ''.'' \<Longrightarrow> lower_char c = c"
  by (auto simp: lower_alnum_def lower_char_def Let_def)

lemma dns_hostname_lower: "dns_hostname d \<Longrightarrow> to_lower d = d"
  unfolding to_lower_def dns_hostname_def Let_def
  by (intro map_idI lower_alnum_lower hostname_chars) blast

lemma enabled_challenges_types:
  "map ch_Type (enabled_challenges feat rnd pa) =
     filter (\<lambda>t. lookup_bool (enabledChallenges pa) t \<and> ValidChallenge feat t)
       [ChallengeTypeHTTP01, ChallengeTypeTLSSNI01, ChallengeTypeTLSSNI02, ChallengeTypeDNS01]"
  by (simp add: enabled_challenges_def HTTPChallenge01_def TLSSNIChallenge01_def
      TLSSNIChallenge02_def DNSChallenge01_def newChallenge_def ValidChallenge_def challenge_types)

lemma enabled_challenges_sane:
  "(\<And>t. length (rnd t) = 32) \<Longrightarrow> list_all IsSaneForClientOffer (enabled_challenges feat rnd pa)"
  by (simp add: enabled_challenges_def HTTPChallenge01_def TLSSNIChallenge01_def
      TLSSNIChallenge02_def DNSChallenge01_def newChallenge_sane)

lemma mset_map_nth_perm:
  assumes "mset p = mset [0..<length xs]"
  shows "mset (map (\<lambda>i. xs ! i) p) = mset xs"
proof -
  have "mset (map (\<lambda>i. xs ! i) p) = mset (map (\<lambda>i. xs ! i) [0..<length xs])"
    using assms by (simp only: mset_map)
  then show ?thesis by (simp only: map_nth)
qed

lemma WillingToIssue_error_kind:
  "WillingToIssue feat idnaOK psl pa ident = Some e \<Longrightarrow>
     (\<exists>msg. e \<in> {BoulderError Malformed msg, BoulderError RejectedIdentifier msg,
                BoulderError UnsupportedIdentifier msg}) \<or>
     blacklist pa = None \<and> e = OtherError ''Hostname policy not yet loaded.''"
  by (auto simp: WillingToIssue_def Let_def checkHostLists_def check_label_def policy_errors
      split: if_splits option.splits sum.splits dest!: first_error_SomeD)

lemma loadHostnamePolicy_accepted:
  "snd (loadHostnamePolicy unmarshal pa b) = None \<Longrightarrow>
     \<exists>bl. unmarshal b = Inr bl \<and> Blacklist bl \<noteq> [] \<and> fst (loadHostnamePolicy unmarshal pa b) =
       pa\<lparr>blacklist := Some (set_of_names (Blacklist bl)),
          exactBlacklist := set_of_names (ExactBlacklist bl)\<rparr>"
  by (auto simp: loadHostnamePolicy_def split: sum.splits if_splits)

text \<open>The hostname policy file is loaded through the reloader.\<close>

interpretation hostname_policy: config_loader "loadHostnamePolicy unmarshal"
  for unmarshal
  by unfold_locales (auto simp: loadHostnamePolicy_def split: sum.splits)

section \<open>Properties\<close>




text \<open>
  The challenges offered for an identifier are one of each type that is configured and
  valid under the feature flags, each a fresh pending challenge a client may be offered, and
  the combinations say that any single one of them is enough.
\<close>

theorem challenges_for_offers_enabled:
  assumes "\<And>n. mset (permA n) = mset [0..<n]" "\<And>n. mset (permB n) = mset [0..<n]"
    and "\<And>t. length (rnd t) = 32"
  shows "case ChallengesFor feat rnd permA permB pa of (challenges, combinations) \<Rightarrow>
     mset (map ch_Type challenges) =
       mset (filter (\<lambda>t. lookup_bool (enabledChallenges pa) t \<and> ValidChallenge feat t)
         [ChallengeTypeHTTP01, ChallengeTypeTLSSNI01, ChallengeTypeTLSSNI02, ChallengeTypeDNS01]) \<and>
     list_all IsSaneForClientOffer challenges \<and>
     mset combinations = mset (map (\<lambda>i. [i]) [0..<length challenges])"
proof -
  define cs where "cs = enabled_challenges feat rnd pa"
  define sh where "sh = map (\<lambda>i. cs ! i) (permA (length cs))"
  define co where "co = map (\<lambda>i. map (\<lambda>i. [i]) [0..<length cs] ! i) (permB (length cs))"
  have r: "ChallengesFor feat rnd permA permB pa = (sh, co)"
    by (simp add: ChallengesFor_def Let_def sh_def co_def cs_def)
  have m: "mset sh = mset cs" unfolding sh_def by (rule mset_map_nth_perm) (rule assms)
  then have "mset (map ch_Type sh) = mset (map ch_Type cs)" "set sh = set cs" "length sh = length cs"
    by (simp_all only: mset_map, metis set_mset_mset, metis size_mset)
  moreover have "mset co = mset (map (\<lambda>i. [i]) [0..<length cs])"
    unfolding co_def by (rule mset_map_nth_perm) (simp add: assms)
  moreover have "list_all IsSaneForClientOffer cs"
    unfolding cs_def by (rule enabled_challenges_sane) (rule assms)
  ultimately show ?thesis
    unfolding r by (simp only: prod.case enabled_challenges_types cs_def list_all_iff)
qed

theorem challenges_for_offers_enabled_witness:
  "list_all IsSaneForClientOffer
     (fst (ChallengesFor (\<lambda>_. True) (\<lambda>_. replicate 32 (CHR ''x'')) (\<lambda>n. rev [0..<n]) (\<lambda>n. [0..<n])
        (New_pa [ChallengeTypeHTTP01 \<mapsto> True])))"
  using challenges_for_offers_enabled [where permA = "\<lambda>n. rev [0..<n]" and permB = "\<lambda>n. [0..<n]"
      and rnd = "\<lambda>_. replicate 32 (CHR ''x'')" and feat = "\<lambda>_. True"
      and pa = "New_pa [ChallengeTypeHTTP01 \<mapsto> True]"]
  by (simp add: case_prod_beta)

text \<open>
  While the reloader runs, whatever happens to the hostname policy file (read errors,
  malformed or empty versions, a stopped reloader), the blacklists in force are those of one
  of the versions of the file that were read and parsed, with at least one entry.
\<close>

theorem hostname_policy_always_in_force:
  assumes "New_reloader (loadHostnamePolicy unmarshal) pa st (Inr b) = (pa', Inr r)"
  shows "\<exists>b' bl. b' \<in> insert b {b'. \<exists>st. Tick st (Inr b') \<in> set evs} \<and> unmarshal b' = Inr bl \<and>
     Blacklist bl \<noteq> [] \<and>
     client (foldl (loop_step (loadHostnamePolicy unmarshal)) r evs) =
       pa\<lparr>blacklist := Some (set_of_names (Blacklist bl)),
          exactBlacklist := set_of_names (ExactBlacklist bl)\<rparr>"
proof -
  have "hostname_policy.in_force unmarshal pa b (client r)"
    using hostname_policy.New_in_force [OF assms] by simp
  from hostname_policy.run_in_force [OF this, of evs]
  obtain b' where "b' \<in> insert b {b'. \<exists>st. Tick st (Inr b') \<in> set evs}"
      "snd (loadHostnamePolicy unmarshal pa b') = None"
      "client (foldl (loop_step (loadHostnamePolicy unmarshal)) r evs) =
         fst (loadHostnamePolicy unmarshal pa b')"
    unfolding hostname_policy.in_force_def by blast
  with loadHostnamePolicy_accepted show ?thesis by metis
qed

theorem hostname_policy_always_in_force_witness:
  "\<exists>r. snd (New_reloader (loadHostnamePolicy (\<lambda>b. if b = [] then Inl ''EOF''
         else Inr \<lparr>Blacklist = [''evil.com''], ExactBlacklist = []\<rparr>)) (New_pa Map.empty) (Inr 1)
         (Inr ''{}'')) = Inr r \<and>
     blacklist (client (foldl (loop_step (loadHostnamePolicy (\<lambda>b. if b = [] then Inl ''EOF''
         else Inr \<lparr>Blacklist = [''evil.com''], ExactBlacklist = []\<rparr>))) r
         [Tick (Inr 2) (Inr []), Tick (Inl ''gone'') (Inl ''gone'')])) \<noteq> None"
proof -
  define um where "um = (\<lambda>b :: bytes. if b = [] then Inl ''EOF''
         else Inr \<lparr>Blacklist = [''evil.com''], ExactBlacklist = []\<rparr>)"
  obtain pa' r where r: "New_reloader (loadHostnamePolicy um) (New_pa Map.empty) (Inr 1) (Inr ''{}'') =
      (pa', Inr r)"
    by (simp add: New_reloader_def loadHostnamePolicy_def um_def)
  from hostname_policy_always_in_force
      [OF r, of "[Tick (Inr 2) (Inr []), Tick (Inl ''gone'') (Inl ''gone'')]"] r
  show ?thesis unfolding um_def [symmetric] by auto
qed

end
