(* ===== verification/Csr.thy ===== *)
theory Csr
  imports GoodKey Policy
begin

text \<open>
  Verification of certificate signing requests (\<^verbatim>\<open>csr/csr.go\<close>). \<^verbatim>\<open>VerifyCSR\<close> changes the
  request it is given, so it returns the new request next to the error. The signature
  check of \<^verbatim>\<open>crypto/x509\<close> works on the raw request and is a parameter, as is the policy
  authority, which is an interface in the code.
\<close>

section \<open>Model\<close>

datatype SignatureAlgorithm = UnknownSignatureAlgorithm | MD2WithRSA | MD5WithRSA | SHA1WithRSA
  | SHA256WithRSA | SHA384WithRSA | SHA512WithRSA | DSAWithSHA1 | DSAWithSHA256
  | ECDSAWithSHA1 | ECDSAWithSHA256 | ECDSAWithSHA384 | ECDSAWithSHA512

record CertificateRequest =
  csr_Raw :: bytes
  csr_PublicKey :: "PublicKey option"
  csr_SignatureAlgorithm :: SignatureAlgorithm
  csr_CommonName :: string
  csr_DNSNames :: "string list"
  csr_EmailAddresses :: "string list"
  csr_IPAddresses :: "IP list"

definition maxCNLength :: nat where "maxCNLength = 64"

fun badSignatureAlgorithms :: "SignatureAlgorithm \<Rightarrow> bool" where
  "badSignatureAlgorithms UnknownSignatureAlgorithm = True"
| "badSignatureAlgorithms MD2WithRSA = True"
| "badSignatureAlgorithms MD5WithRSA = True"
| "badSignatureAlgorithms DSAWithSHA1 = True"
| "badSignatureAlgorithms DSAWithSHA256 = True"
| "badSignatureAlgorithms ECDSAWithSHA1 = True"
| "badSignatureAlgorithms _ = False"

definition normalizeCSR :: "CertificateRequest \<Rightarrow> bool \<Rightarrow> CertificateRequest" where
  "normalizeCSR csr forceCNFromSAN =
     (let csr1 =
        (if forceCNFromSAN \<and> csr_CommonName csr = [] then
           (if length (csr_DNSNames csr) > 0 then csr\<lparr>csr_CommonName := csr_DNSNames csr ! 0\<rparr> else csr)
         else if csr_CommonName csr \<noteq> [] then
           csr\<lparr>csr_DNSNames := csr_DNSNames csr @ [csr_CommonName csr]\<rparr>
         else csr)
      in csr1\<lparr>csr_CommonName := to_lower (csr_CommonName csr1),
              csr_DNSNames := UniqueLowerNames (csr_DNSNames csr1)\<rparr>)"

definition bad_names :: "(AcmeIdentifier \<Rightarrow> goerror option) \<Rightarrow> string list \<Rightarrow> string list" where
  "bad_names willing names =
     map quote (filter (\<lambda>name. willing \<lparr>id_Type = IdentifierDNS, Value = name\<rparr> \<noteq> None) names)"

definition check_normalized ::
  "(bytes \<Rightarrow> bool) \<Rightarrow> (CurveID \<Rightarrow> CurveParams) \<Rightarrow> CertificateRequest \<Rightarrow> int \<Rightarrow> KeyPolicy \<Rightarrow>
   (AcmeIdentifier \<Rightarrow> goerror option) \<Rightarrow> goerror option" where
  "check_normalized checkSignature ec csr maxNames keyPolicy willing =
     (case csr_PublicKey csr of
        None \<Rightarrow> Some (OtherError ''invalid public key in CSR'')
      | Some key \<Rightarrow>
          (case GoodKey ec keyPolicy key of
             Some err \<Rightarrow> Some (OtherError (''invalid public key in CSR: '' @ Error err))
           | None \<Rightarrow>
               if badSignatureAlgorithms (csr_SignatureAlgorithm csr)
               then Some (OtherError ''signature algorithm not supported'')
               else if \<not> checkSignature (csr_Raw csr)
               then Some (OtherError ''invalid signature on CSR'')
               else if length (csr_EmailAddresses csr) > 0
               then Some (OtherError ''CSR contains one or more email address fields'')
               else if length (csr_IPAddresses csr) > 0
               then Some (OtherError ''CSR contains one or more IP address fields'')
               else if length (csr_DNSNames csr) = 0 \<and> csr_CommonName csr = []
               then Some (OtherError ''at least one DNS name is required'')
               else if length (csr_CommonName csr) > maxCNLength
               then Some (OtherError
                      (''CN was longer than '' @ format_nat maxCNLength @ '' bytes''))
               else if maxNames > 0 \<and> int (length (csr_DNSNames csr)) > maxNames
               then Some (OtherError
                      (''CSR contains more than '' @ Itoa maxNames @ '' DNS names''))
               else
                 (let badNames = bad_names willing (csr_DNSNames csr) in
                  if length badNames > 0
                  then Some (OtherError
                         (''policy forbids issuing for: '' @ join_with '', '' badNames))
                  else None)))"

definition VerifyCSR ::
  "(bytes \<Rightarrow> bool) \<Rightarrow> (CurveID \<Rightarrow> CurveParams) \<Rightarrow> CertificateRequest \<Rightarrow> int \<Rightarrow> KeyPolicy \<Rightarrow>
   (AcmeIdentifier \<Rightarrow> goerror option) \<Rightarrow> bool \<Rightarrow> CertificateRequest \<times> goerror option" where
  "VerifyCSR checkSignature ec csr maxNames keyPolicy willing forceCNFromSAN =
     (let csr' = normalizeCSR csr forceCNFromSAN
      in (csr', check_normalized checkSignature ec csr' maxNames keyPolicy willing))"

section \<open>Lemmas\<close>

text \<open>
  What the clients of a policy authority rely on: it accepts DNS identifiers only, and
  their values are not empty and in lower case.
\<close>

locale policy_authority =
  fixes willing :: "AcmeIdentifier \<Rightarrow> goerror option"
  assumes willing_dns: "willing ident = None \<Longrightarrow> id_Type ident = IdentifierDNS"
    and willing_lower: "willing ident = None \<Longrightarrow> to_lower (Value ident) = Value ident"
    and willing_nonempty: "willing ident = None \<Longrightarrow> Value ident \<noteq> []"
begin

lemma unwilling_upper: "to_lower v \<noteq> v \<Longrightarrow> willing \<lparr>id_Type = t, Value = v\<rparr> \<noteq> None"
  using willing_lower [of "\<lparr>id_Type = t, Value = v\<rparr>"] by auto

end

interpretation pa_impl: policy_authority "WillingToIssue feat idnaOK psl pa"
  for feat idnaOK psl pa
  by unfold_locales
     (auto simp: WillingToIssue_None_iff dns_hostname_lower dns_hostname_def Let_def)

lemma normalize_fields [simp]:
  "csr_Raw (normalizeCSR csr f) = csr_Raw csr"
  "csr_PublicKey (normalizeCSR csr f) = csr_PublicKey csr"
  "csr_SignatureAlgorithm (normalizeCSR csr f) = csr_SignatureAlgorithm csr"
  "csr_EmailAddresses (normalizeCSR csr f) = csr_EmailAddresses csr"
  "csr_IPAddresses (normalizeCSR csr f) = csr_IPAddresses csr"
  by (simp_all add: normalizeCSR_def Let_def)

lemma normalize_names:
  "set (csr_DNSNames (normalizeCSR csr f)) =
     to_lower ` (set (csr_DNSNames csr) \<union> {cn. cn = csr_CommonName csr \<and> cn \<noteq> []})"
  by (auto simp: normalizeCSR_def Let_def)

lemma normalize_sorted: "sorted_wrt (<) (csr_DNSNames (normalizeCSR csr f))"
  by (simp add: normalizeCSR_def Let_def UniqueLowerNames_eq)

lemma normalize_lower:
  "n \<in> set (csr_DNSNames (normalizeCSR csr f)) \<Longrightarrow> to_lower n = n"
  "to_lower (csr_CommonName (normalizeCSR csr f)) = csr_CommonName (normalizeCSR csr f)"
  by (auto simp: normalizeCSR_def Let_def)

lemma to_lower_Nil_iff [simp]: "to_lower s = [] \<longleftrightarrow> s = []"
  by (simp add: to_lower_def)

lemma normalize_cn:
  "csr_CommonName (normalizeCSR csr f) = [] \<or>
   csr_CommonName (normalizeCSR csr f) \<in> set (csr_DNSNames (normalizeCSR csr f))"
  by (auto simp: normalizeCSR_def Let_def)

lemma check_normalized_None_iff:
  "check_normalized sig ec csr maxNames kp willing = None \<longleftrightarrow>
     (\<exists>key. csr_PublicKey csr = Some key \<and> GoodKey ec kp key = None) \<and>
     \<not> badSignatureAlgorithms (csr_SignatureAlgorithm csr) \<and> sig (csr_Raw csr) \<and>
     csr_EmailAddresses csr = [] \<and> csr_IPAddresses csr = [] \<and>
     \<not> (csr_DNSNames csr = [] \<and> csr_CommonName csr = []) \<and> length (csr_CommonName csr) \<le> 64 \<and>
     \<not> (0 < maxNames \<and> maxNames < int (length (csr_DNSNames csr))) \<and>
     list_all (\<lambda>n. willing \<lparr>id_Type = IdentifierDNS, Value = n\<rparr> = None) (csr_DNSNames csr)"
  by (simp add: check_normalized_def bad_names_def maxCNLength_def Let_def list_all_iff
      filter_empty_conv not_less split: option.splits)

lemma normalize_idem_unforced:
  "normalizeCSR (normalizeCSR csr f) False = normalizeCSR csr f"
proof -
  define c where "c = normalizeCSR csr f"
  have l: "\<forall>n \<in> set (csr_DNSNames c). to_lower n = n" "to_lower (csr_CommonName c) = csr_CommonName c"
    using normalize_lower by (auto simp: c_def)
  have u: "csr_DNSNames c = sorted_list_of_set (set (csr_DNSNames c))"
    unfolding c_def by (simp add: normalizeCSR_def Let_def UniqueLowerNames_eq)
  have i: "to_lower ` set (csr_DNSNames c) = set (csr_DNSNames c)" using l by force
  have "UniqueLowerNames (csr_DNSNames c) = csr_DNSNames c"
    unfolding UniqueLowerNames_eq i using u by simp
  moreover have "csr_CommonName c \<noteq> [] \<Longrightarrow> UniqueLowerNames (csr_DNSNames c @ [csr_CommonName c]) = csr_DNSNames c"
    using normalize_cn [of csr f] l i u unfolding UniqueLowerNames_eq c_def [symmetric]
    by (simp add: insert_absorb)
  ultimately have "normalizeCSR c False = c" using l(2) by (auto simp: normalizeCSR_def Let_def)
  then show ?thesis by (simp add: c_def)
qed

section \<open>Properties\<close>

text \<open>
  C21: A request that passes verification asks for exactly the names the client put in it
  (the DNS names and the common name, in lower case, sorted and without duplicates), the
  policy accepts every one of them, there is at least one, the common name is empty or one
  of them, and the key is good, the signature valid and no other kind of name present.
\<close>

theorem verified_csr_issuable:
  assumes "VerifyCSR sig ec csr maxNames kp willing force = (csr', None)"
  shows "set (csr_DNSNames csr') =
       to_lower ` (set (csr_DNSNames csr) \<union> {cn. cn = csr_CommonName csr \<and> cn \<noteq> []}) \<and>
     sorted_wrt (<) (csr_DNSNames csr') \<and> csr_DNSNames csr' \<noteq> [] \<and>
     list_all (\<lambda>n. willing \<lparr>id_Type = IdentifierDNS, Value = n\<rparr> = None) (csr_DNSNames csr') \<and>
     csr_CommonName csr' \<in> insert [] (set (csr_DNSNames csr')) \<and> length (csr_CommonName csr') \<le> 64 \<and>
     (\<exists>key. csr_PublicKey csr' = Some key \<and> GoodKey ec kp key = None) \<and> sig (csr_Raw csr) \<and>
     csr_EmailAddresses csr = [] \<and> csr_IPAddresses csr = []"
proof -
  have c: "csr' = normalizeCSR csr force"
    and n: "check_normalized sig ec csr' maxNames kp willing = None"
    using assms by (auto simp: VerifyCSR_def Let_def)
  have "csr_DNSNames csr' \<noteq> []"
    using n normalize_cn [of csr force] unfolding check_normalized_None_iff c by fastforce
  then show ?thesis
    using n normalize_cn [of csr force] normalize_names [of csr force] normalize_sorted [of csr force]
    unfolding check_normalized_None_iff c by auto
qed

theorem verified_csr_issuable_witness:
  "let csr = \<lparr>csr_Raw = [], csr_PublicKey = Some (ECDSAKey P256 1 2),
         csr_SignatureAlgorithm = SHA256WithRSA, csr_CommonName = ''B.com'',
         csr_DNSNames = [''b.com'', ''a.com''], csr_EmailAddresses = [], csr_IPAddresses = []\<rparr>;
       ec = (\<lambda>_. \<lparr>curve_P = 7, curve_N = 5, curve_Name = ''P-256'', IsOnCurve = (\<lambda>_ _. True),
         ScalarMult = (\<lambda>_ _ _. (0, 0))\<rparr>);
       willing = (\<lambda>i. if Value i \<in> {''a.com'', ''b.com''} then None else Some errBlacklisted)
   in sorted_wrt (<) (csr_DNSNames (fst (VerifyCSR (\<lambda>_. True) ec csr 100 NewKeyPolicy willing False)))"
proof -
  define csr where "csr = \<lparr>csr_Raw = [], csr_PublicKey = Some (ECDSAKey P256 1 2),
         csr_SignatureAlgorithm = SHA256WithRSA, csr_CommonName = ''B.com'',
         csr_DNSNames = [''b.com'', ''a.com''], csr_EmailAddresses = [], csr_IPAddresses = []\<rparr>"
  define ec where "ec = (\<lambda>_ :: CurveID. \<lparr>curve_P = 7, curve_N = 5, curve_Name = ''P-256'',
         IsOnCurve = (\<lambda>_ _. True), ScalarMult = (\<lambda>_ _ _. (0, 0))\<rparr>)"
  define willing where "willing = (\<lambda>i :: AcmeIdentifier. if Value i \<in> {''a.com'', ''b.com''} then None
         else Some errBlacklisted)"
  have norm: "csr_DNSNames (normalizeCSR csr False) = [''a.com'', ''b.com'']"
    "csr_CommonName (normalizeCSR csr False) = ''b.com''"
    by (simp_all add: csr_def) code_simp+
  have "check_normalized (\<lambda>_. True) ec (normalizeCSR csr False) 100 NewKeyPolicy willing = None"
    unfolding check_normalized_None_iff norm
    by (simp add: csr_def ec_def willing_def goodKeyECDSA_def goodCurve_def NewKeyPolicy_def
        isPointAtInfinityNISTP_def)
  then have "VerifyCSR (\<lambda>_. True) ec csr 100 NewKeyPolicy willing False = (normalizeCSR csr False, None)"
    by (simp add: VerifyCSR_def Let_def)
  from verified_csr_issuable [OF this] show ?thesis
    unfolding Let_def csr_def [symmetric] ec_def [symmetric] willing_def [symmetric]
    by (simp add: VerifyCSR_def Let_def)
qed

text \<open>
  Normalising a request twice is the same as normalising it once, so a request that was
  verified is not changed when a later stage verifies it again without hoisting a name.
\<close>

theorem normalize_csr_idempotent:
  "normalizeCSR (normalizeCSR csr force) False = normalizeCSR csr force"
  by (rule normalize_idem_unforced)

end
