(* ===== verification/Ca.thy ===== *)
theory Ca
  imports SaProps Csr
begin

text \<open>
  The certificate authority (\<^verbatim>\<open>ca/ca.go\<close>). Signing of certificates and OCSP responses, the PEM
  and X.509 parsers and the random source are parameters; the storage authority that
  certificates are added to is the one of \<open>Sa\<close>. \<open>IssueCertificate\<close> returns the database that its
  one writing call left, what it sent to the signer, the log lines that another program
  reads, and the submission to the transparency logs. Metrics are left out.
\<close>

section \<open>Data\<close>

type_synonym OID = "nat list"

definition oidAuthorityInfoAccess :: OID where "oidAuthorityInfoAccess = [1, 3, 6, 1, 5, 5, 7, 1, 1]"
definition oidAuthorityKeyIdentifier :: OID where "oidAuthorityKeyIdentifier = [2, 5, 29, 35]"
definition oidBasicConstraints :: OID where "oidBasicConstraints = [2, 5, 29, 19]"
definition oidCertificatePolicies :: OID where "oidCertificatePolicies = [2, 5, 29, 32]"
definition oidCrlDistributionPoints :: OID where "oidCrlDistributionPoints = [2, 5, 29, 31]"
definition oidExtKeyUsage :: OID where "oidExtKeyUsage = [2, 5, 29, 37]"
definition oidKeyUsage :: OID where "oidKeyUsage = [2, 5, 29, 15]"
definition oidSubjectAltName :: OID where "oidSubjectAltName = [2, 5, 29, 17]"
definition oidSubjectKeyIdentifier :: OID where "oidSubjectKeyIdentifier = [2, 5, 29, 14]"
definition oidTLSFeature :: OID where "oidTLSFeature = [1, 3, 6, 1, 5, 5, 7, 1, 24]"
definition oidExtensionRequest :: OID where "oidExtensionRequest = [1, 2, 840, 113549, 1, 9, 14]"

definition OID_String :: "OID \<Rightarrow> string" where
  "OID_String oid = join_with ''.'' (map format_nat oid)"

record signer_Extension =
  se_ID :: OID
  se_Critical :: bool
  se_Value :: string

definition mustStapleFeatureValue :: bytes where
  "mustStapleFeatureValue = [CHR 0x30, CHR 0x03, CHR 0x02, CHR 0x01, CHR 0x05]"

definition mustStapleExtension :: signer_Extension where
  "mustStapleExtension =
     \<lparr>se_ID = oidTLSFeature, se_Critical = False, se_Value = hex_encode mustStapleFeatureValue\<rparr>"

text \<open>
  The attributes of a request as \<^verbatim>\<open>crypto/x509\<close> parses them: each has lists of typed values,
  which are byte strings or something else.
\<close>

datatype ext_value = ExtBytes bytes | ExtOther

type_synonym csr_attribute = "OID \<times> (OID \<times> ext_value) list list"

record internalIssuer =
  ii_cert :: x509Cert
  ii_key :: string

record Issuer =
  iss_Signer :: "string option"
  iss_Cert :: "x509Cert option"

record CertificateAuthorityImpl =
  rsaProfile :: string
  ecdsaProfile :: string
  ca_issuers :: "(string \<times> internalIssuer) list"
  defaultIssuer :: internalIssuer
  ca_keyPolicy :: KeyPolicy
  ca_prefix :: int
  validityPeriod :: duration
  ca_maxNames :: int
  ca_forceCNFromSAN :: bool
  enableMustStaple :: bool
  ca_Publisher :: bool

record sign_request =
  sr_Request :: string
  sr_Profile :: string
  sr_Hosts :: "string list"
  sr_CN :: string
  sr_SubjectSerial :: string
  sr_Serial :: int
  sr_Extensions :: "signer_Extension list"

record ocsp_request =
  or_Certificate :: x509Cert
  or_Status :: string
  or_Reason :: int
  or_RevokedAt :: time

record ca_env =
  cae_enabled :: "FeatureFlag \<Rightarrow> bool"
  cae_now :: time
  cae_rand :: "string + bytes"
  cae_willing :: "AcmeIdentifier \<Rightarrow> goerror option"
  cae_ec :: "CurveID \<Rightarrow> CurveParams"
  cae_checkSig :: "bytes \<Rightarrow> bool"
  cae_attributes :: "bytes \<Rightarrow> csr_attribute list"
  cae_pemEncode :: "string \<Rightarrow> bytes \<Rightarrow> string"
  cae_pemDecode :: "string \<Rightarrow> (string \<times> bytes) option"
  cae_sign :: "internalIssuer \<Rightarrow> sign_request \<Rightarrow> string + string"
  cae_ocspSign :: "internalIssuer \<Rightarrow> ocsp_request \<Rightarrow> string + bytes"
  cae_parse :: "bytes \<Rightarrow> string + x509Cert"
  cae_issuerCN :: "bytes \<Rightarrow> string"
  cae_checkSignatureFrom :: "bytes \<Rightarrow> x509Cert \<Rightarrow> string option"
  cae_sa :: "sa_env \<times> database"

section \<open>Construction\<close>

text \<open>\<open>newSigners\<close> makes the two signers of an issuer from its key and certificate.\<close>

fun make_issuers ::
  "(string \<Rightarrow> x509Cert \<Rightarrow> string option) \<Rightarrow> (string \<times> internalIssuer) list \<Rightarrow> Issuer list \<Rightarrow>
   string + (string \<times> internalIssuer) list" where
  "make_issuers newSigners internalIssuers [] = Inr internalIssuers"
| "make_issuers newSigners internalIssuers (iss # issuers) =
     (case (iss_Cert iss, iss_Signer iss) of
        (Some cert, Some key) \<Rightarrow>
          (case newSigners key cert of
             Some err \<Rightarrow> Inl err
           | None \<Rightarrow>
               (let cn = x_CommonName cert in
                if map_of internalIssuers cn \<noteq> None
                then Inl ''Multiple issuer certs with the same CommonName are not supported''
                else make_issuers newSigners
                       (AList.update cn \<lparr>ii_cert = cert, ii_key = key\<rparr> internalIssuers) issuers))
      | _ \<Rightarrow> Inl ''Issuer with nil cert or signer specified.'')"

definition makeInternalIssuers ::
  "(string \<Rightarrow> x509Cert \<Rightarrow> string option) \<Rightarrow> Issuer list \<Rightarrow> string + (string \<times> internalIssuer) list" where
  "makeInternalIssuers newSigners issuers =
     (if length issuers = 0 then Inl ''No issuers specified.'' else make_issuers newSigners [] issuers)"

record CAConfig =
  cac_SerialPrefix :: int
  cac_LifespanOCSP :: duration
  cac_RSAProfile :: string
  cac_ECDSAProfile :: string
  cac_DoNotForceCN :: bool
  cac_EnableMustStaple :: bool
  cac_Expiry :: string
  cac_MaxNames :: int

text \<open>
  \<open>loadConfig\<close> is the error, if any, of the signer's own configuration. The policy authority
  and the publisher are set after construction.
\<close>

definition NewCertificateAuthorityImpl ::
  "string option \<Rightarrow> (string \<Rightarrow> x509Cert \<Rightarrow> string option) \<Rightarrow> (string \<Rightarrow> string + duration) \<Rightarrow>
   CAConfig \<Rightarrow> Issuer list \<Rightarrow> KeyPolicy \<Rightarrow> string + CertificateAuthorityImpl" where
  "NewCertificateAuthorityImpl loadConfig newSigners parseDuration config issuers keyPolicy =
     (if cac_SerialPrefix config \<le> 0 \<or> cac_SerialPrefix config \<ge> 256
      then Inl ''Must have a positive non-zero serial prefix less than 256 for CA.''
      else
        (case loadConfig of
           Some err \<Rightarrow> Inl err
         | None \<Rightarrow>
             if cac_LifespanOCSP config = 0 then Inl ''Config must specify an OCSP lifespan period.''
             else
               (case makeInternalIssuers newSigners issuers of
                  Inl err \<Rightarrow> Inl err
                | Inr internalIssuers \<Rightarrow>
                    (let defaultI = the (map_of internalIssuers (x_CommonName (the (iss_Cert (issuers ! 0))))) in
                     if cac_RSAProfile config = [] \<or> cac_ECDSAProfile config = []
                     then Inl ''must specify rsaProfile and ecdsaProfile''
                     else if cac_Expiry config = [] then Inl ''Config must specify an expiry period.''
                     else
                       (case parseDuration (cac_Expiry config) of
                          Inl err \<Rightarrow> Inl err
                        | Inr period \<Rightarrow>
                            Inr \<lparr>rsaProfile = cac_RSAProfile config, ecdsaProfile = cac_ECDSAProfile config,
                                 ca_issuers = internalIssuers, defaultIssuer = defaultI, ca_keyPolicy = keyPolicy,
                                 ca_prefix = cac_SerialPrefix config, validityPeriod = period,
                                 ca_maxNames = cac_MaxNames config, ca_forceCNFromSAN = \<not> cac_DoNotForceCN config,
                                 enableMustStaple = cac_EnableMustStaple config, ca_Publisher = False\<rparr>)))))"

section \<open>Extensions\<close>

text \<open>
  The loop over the requested extensions: those of the extension requests among the
  attributes, in order. Extensions of the known basic types and all others only count in
  the metrics.
\<close>

fun extensions_loop ::
  "bool \<Rightarrow> OID list \<Rightarrow> signer_Extension list \<Rightarrow> (OID \<times> ext_value) list \<Rightarrow> goerror + signer_Extension list" where
  "extensions_loop mustStaple extensionSeen exts [] = Inr exts"
| "extensions_loop mustStaple extensionSeen exts ((ty, value) # rest) =
     (if ty \<in> set extensionSeen then extensions_loop mustStaple extensionSeen exts rest
      else if ty = oidTLSFeature then
        (case value of
           ExtOther \<Rightarrow> Inl (BoulderError Malformed (''malformed extension with OID '' @ OID_String ty))
         | ExtBytes v \<Rightarrow>
             if v \<noteq> mustStapleFeatureValue
             then Inl (BoulderError Malformed (''unsupported value for extension with OID '' @ OID_String ty))
             else extensions_loop mustStaple (ty # extensionSeen)
                    (if mustStaple then exts @ [mustStapleExtension] else exts) rest)
      else extensions_loop mustStaple (ty # extensionSeen) exts rest)"

definition requested_extensions :: "csr_attribute list \<Rightarrow> (OID \<times> ext_value) list" where
  "requested_extensions attrs = concat (concat (map snd (filter (\<lambda>a. fst a = oidExtensionRequest) attrs)))"

definition extensionsFromCSR ::
  "ca_env \<Rightarrow> CertificateAuthorityImpl \<Rightarrow> CertificateRequest \<Rightarrow> goerror + signer_Extension list" where
  "extensionsFromCSR E ca csr =
     extensions_loop (enableMustStaple ca) [] [] (requested_extensions (cae_attributes E (csr_Raw csr)))"

section \<open>OCSP\<close>

definition GenerateOCSP ::
  "ca_env \<Rightarrow> CertificateAuthorityImpl \<Rightarrow> OCSPSigningRequest \<Rightarrow> goerror + bytes" where
  "GenerateOCSP E ca xferObj =
     (case cae_parse E (CertDER xferObj) of
        Inl err \<Rightarrow> Inl (OtherError err)
      | Inr cert \<Rightarrow>
          (let signRequest = \<lparr>or_Certificate = cert, or_Status = ocsp_Status xferObj, or_Reason = Reason xferObj,
                              or_RevokedAt = RevokedAt xferObj\<rparr>;
               cn = cae_issuerCN E (CertDER xferObj)
           in case map_of (ca_issuers ca) cn of
                None \<Rightarrow> Inl (OtherError
                  (''This CA doesn'' @ apos @ ''t have an issuer cert with CommonName '' @ quote cn))
              | Some issuer \<Rightarrow>
                  (case cae_checkSignatureFrom E (CertDER xferObj) (ii_cert issuer) of
                     Some err \<Rightarrow> Inl (OtherError (''GenerateOCSP was asked to sign OCSP for cert '' @
                       SerialToString (x_SerialNumber cert) @ '' from '' @ quote cn @
                       '', but the cert'' @ apos @ ''s signature was not valid: '' @ err @ ''.''))
                   | None \<Rightarrow>
                       (case cae_ocspSign E issuer signRequest of
                          Inl err \<Rightarrow> Inl (OtherError err) | Inr resp \<Rightarrow> Inr resp))))"

section \<open>Issuance\<close>

datatype ca_effect = SignCall internalIssuer sign_request | AuditErrLine string | PublisherCall bytes

text \<open>\<^verbatim>\<open>big.Int.SetBytes\<close>.\<close>

definition set_bytes :: "bytes \<Rightarrow> int" where
  "set_bytes b = foldl (\<lambda>n c. n * 256 + int (of_char c)) 0 b"

definition serial_number :: "CertificateAuthorityImpl \<Rightarrow> bytes \<Rightarrow> int" where
  "serial_number ca rnd = set_bytes (char_of (ca_prefix ca mod 256) # rnd)"

definition profile_of :: "CertificateAuthorityImpl \<Rightarrow> PublicKey option \<Rightarrow> goerror + string" where
  "profile_of ca key =
     (case key of
        Some (RSAKey _ _) \<Rightarrow> Inr (rsaProfile ca)
      | Some (ECDSAKey _ _ _) \<Rightarrow> Inr (ecdsaProfile ca)
      | Some (OtherKey t) \<Rightarrow> Inl (BoulderError InternalServer (''unsupported key type '' @ t))
      | None \<Rightarrow> Inl (BoulderError InternalServer ''unsupported key type <nil>''))"

definition orphan_line :: "string \<Rightarrow> bytes \<Rightarrow> goerror \<Rightarrow> int \<Rightarrow> string" where
  "orphan_line serialHex certDER err regID =
     ''Failed RPC to store at SA, orphaning certificate: serial=['' @ serialHex @ ''] cert=['' @
     hex_encode certDER @ ''] err=['' @ Error err @ ''], regID=['' @ Itoa regID @ '']''"

text \<open>The request that goes to the signer, or the error before it.\<close>

definition prepare_signing ::
  "ca_env \<Rightarrow> CertificateAuthorityImpl \<Rightarrow> CertificateRequest \<Rightarrow> goerror + sign_request" where
  "prepare_signing E ca req =
     (case VerifyCSR (cae_checkSig E) (cae_ec E) req (ca_maxNames ca) (ca_keyPolicy ca) (cae_willing E)
             (ca_forceCNFromSAN ca) of
        (csr, Some err) \<Rightarrow> Inl (berrors_New Malformed (Error err))
      | (csr, None) \<Rightarrow>
          (case extensionsFromCSR E ca csr of
             Inl err \<Rightarrow> Inl err
           | Inr requestedExtensions \<Rightarrow>
               if x_NotAfter (ii_cert (defaultIssuer ca)) < cae_now E + validityPeriod ca
               then Inl (BoulderError InternalServer
                      ''cannot issue a certificate that expires after the issuer certificate'')
               else
                 (case cae_rand E of
                    Inl err \<Rightarrow> Inl (BoulderError InternalServer (''failed to generate serial: '' @ err))
                  | Inr rnd \<Rightarrow>
                      (let serialBigInt = serial_number ca rnd in
                       case profile_of ca (csr_PublicKey csr) of
                         Inl err \<Rightarrow> Inl err
                       | Inr profile \<Rightarrow>
                           Inr \<lparr>sr_Request = cae_pemEncode E ''CERTIFICATE REQUEST'' (csr_Raw csr),
                                sr_Profile = profile, sr_Hosts = csr_DNSNames csr, sr_CN = csr_CommonName csr,
                                sr_SubjectSerial =
                                  (if \<not> ca_forceCNFromSAN ca then SerialToString serialBigInt else []),
                                sr_Serial = serialBigInt, sr_Extensions = requestedExtensions\<rparr>))))"

definition zero_certificate :: "bytes \<Rightarrow> Certificate" where
  "zero_certificate der = \<lparr>cert_RegID = 0, cert_Serial = [], Digest = [], DER = der, Issued = zero_time, cert_Expires = zero_time\<rparr>"

text \<open>The certificate in what the signer returned.\<close>

definition decode_certificate :: "ca_env \<Rightarrow> string \<Rightarrow> goerror + bytes" where
  "decode_certificate E certPEM =
     (if length certPEM = 0 then Inl (BoulderError InternalServer ''no certificate returned by server'')
      else
        (case cae_pemDecode E certPEM of
           Some (ty, certDER) \<Rightarrow>
             if ty \<noteq> ''CERTIFICATE'' then Inl (BoulderError InternalServer ''invalid certificate value returned'')
             else Inr certDER
         | None \<Rightarrow> Inl (BoulderError InternalServer ''invalid certificate value returned'')))"

definition IssueCertificate ::
  "ca_env \<Rightarrow> CertificateAuthorityImpl \<Rightarrow> CertificateRequest \<Rightarrow> int \<Rightarrow>
   database \<times> ca_effect list \<times> (goerror + Certificate)" where
  "IssueCertificate E ca csr regID =
     (let (saE, db) = cae_sa E in
      case prepare_signing E ca csr of
        Inl err \<Rightarrow> (db, [], Inl err)
      | Inr req \<Rightarrow>
          (let issuer = defaultIssuer ca in
           case cae_sign E issuer req of
             Inl err \<Rightarrow> (db, [SignCall issuer req], Inl (BoulderError InternalServer (''failed to sign certificate: '' @ err)))
           | Inr certPEM \<Rightarrow>
               (case decode_certificate E certPEM of
                  Inl err \<Rightarrow> (db, [SignCall issuer req], Inl err)
                | Inr certDER \<Rightarrow>
                    (let ocspResp =
                       (if cae_enabled E GenerateOCSPEarly then
                          (case GenerateOCSP E ca \<lparr>CertDER = certDER, ocsp_Status = ''good'', Reason = 0, RevokedAt = zero_time\<rparr> of
                             Inr resp \<Rightarrow> resp | Inl _ \<Rightarrow> [])
                        else [])
                     in case AddCertificate saE (cae_parse E) db certDER regID ocspResp of
                          (db', Inl err) \<Rightarrow>
                            (let err = berrors_New InternalServer (Error err) in
                             (db', [SignCall issuer req,
                                    AuditErrLine (orphan_line (SerialToString (sr_Serial req)) certDER err regID)],
                              Inl err))
                        | (db', Inr _) \<Rightarrow>
                            (db', SignCall issuer req # (if ca_Publisher ca then [PublisherCall certDER] else []),
                             Inr (zero_certificate certDER))))))"

end
