(* ===== verification/RateLimit.thy ===== *)
theory RateLimit
  imports Reloader
begin

text \<open>
  Rate limit policies (\<^verbatim>\<open>ratelimit/rate-limits.go\<close>). The YAML decoder is a parameter; the
  nil pointer \<^verbatim>\<open>rlPolicy\<close> before the first load is \<open>None\<close>.
\<close>

section \<open>Model\<close>

record RateLimitPolicy =
  Window :: duration
  Threshold :: int
  Overrides :: "string \<rightharpoonup> int"
  RegistrationOverrides :: "int \<rightharpoonup> int"

definition empty_policy :: RateLimitPolicy where
  "empty_policy = \<lparr>Window = 0, Threshold = 0, Overrides = Map.empty, RegistrationOverrides = Map.empty\<rparr>"

record rateLimitConfig =
  rlc_TotalCertificates :: RateLimitPolicy
  rlc_CertificatesPerName :: RateLimitPolicy
  rlc_RegistrationsPerIP :: RateLimitPolicy
  rlc_PendingAuthorizationsPerAccount :: RateLimitPolicy
  rlc_InvalidAuthorizationsPerAccount :: RateLimitPolicy
  rlc_CertificatesPerFQDNSet :: RateLimitPolicy

record limitsImpl =
  rlPolicy :: "rateLimitConfig option"

definition TotalCertificates :: "limitsImpl \<Rightarrow> RateLimitPolicy" where
  "TotalCertificates r = (case rlPolicy r of None \<Rightarrow> empty_policy | Some p \<Rightarrow> rlc_TotalCertificates p)"

definition CertificatesPerName :: "limitsImpl \<Rightarrow> RateLimitPolicy" where
  "CertificatesPerName r =
     (case rlPolicy r of None \<Rightarrow> empty_policy | Some p \<Rightarrow> rlc_CertificatesPerName p)"

definition RegistrationsPerIP :: "limitsImpl \<Rightarrow> RateLimitPolicy" where
  "RegistrationsPerIP r =
     (case rlPolicy r of None \<Rightarrow> empty_policy | Some p \<Rightarrow> rlc_RegistrationsPerIP p)"

definition PendingAuthorizationsPerAccount :: "limitsImpl \<Rightarrow> RateLimitPolicy" where
  "PendingAuthorizationsPerAccount r =
     (case rlPolicy r of None \<Rightarrow> empty_policy | Some p \<Rightarrow> rlc_PendingAuthorizationsPerAccount p)"

definition InvalidAuthorizationsPerAccount :: "limitsImpl \<Rightarrow> RateLimitPolicy" where
  "InvalidAuthorizationsPerAccount r =
     (case rlPolicy r of None \<Rightarrow> empty_policy | Some p \<Rightarrow> rlc_InvalidAuthorizationsPerAccount p)"

definition CertificatesPerFQDNSet :: "limitsImpl \<Rightarrow> RateLimitPolicy" where
  "CertificatesPerFQDNSet r =
     (case rlPolicy r of None \<Rightarrow> empty_policy | Some p \<Rightarrow> rlc_CertificatesPerFQDNSet p)"

definition LoadPolicies ::
  "(bytes \<Rightarrow> string + rateLimitConfig) \<Rightarrow> limitsImpl \<Rightarrow> bytes \<Rightarrow> limitsImpl \<times> string option" where
  "LoadPolicies unmarshal r contents =
     (case unmarshal contents of
        Inl err \<Rightarrow> (r, Some err)
      | Inr newPolicy \<Rightarrow> (r\<lparr>rlPolicy := Some newPolicy\<rparr>, None))"

definition New_limits :: limitsImpl where
  "New_limits = \<lparr>rlPolicy = None\<rparr>"

definition rlp_Enabled :: "RateLimitPolicy \<Rightarrow> bool" where
  "rlp_Enabled rlp = (Threshold rlp \<noteq> 0)"

definition GetThreshold :: "RateLimitPolicy \<Rightarrow> string \<Rightarrow> int \<Rightarrow> int" where
  "GetThreshold rlp key regID =
     (case RegistrationOverrides rlp regID of
        Some override \<Rightarrow> override
      | None \<Rightarrow>
          (case Overrides rlp key of
             Some override \<Rightarrow> override
           | None \<Rightarrow> Threshold rlp))"

definition WindowBegin :: "RateLimitPolicy \<Rightarrow> time \<Rightarrow> time" where
  "WindowBegin rlp windowEnd = windowEnd + (-1 * Window rlp)"

section \<open>Lemmas\<close>

lemma no_policy_no_limit:
  "\<not> rlp_Enabled (TotalCertificates New_limits)"
  "\<not> rlp_Enabled (CertificatesPerName New_limits)"
  "\<not> rlp_Enabled (RegistrationsPerIP New_limits)"
  "\<not> rlp_Enabled (PendingAuthorizationsPerAccount New_limits)"
  "\<not> rlp_Enabled (InvalidAuthorizationsPerAccount New_limits)"
  "\<not> rlp_Enabled (CertificatesPerFQDNSet New_limits)"
  by (simp_all add: rlp_Enabled_def New_limits_def empty_policy_def TotalCertificates_def
      CertificatesPerName_def RegistrationsPerIP_def PendingAuthorizationsPerAccount_def
      InvalidAuthorizationsPerAccount_def CertificatesPerFQDNSet_def)

text \<open>A registration override wins over an override by key, and both over the threshold.\<close>

lemma GetThreshold_registration [simp]:
  "RegistrationOverrides rlp regID = Some n \<Longrightarrow> GetThreshold rlp key regID = n"
  by (simp add: GetThreshold_def)

lemma GetThreshold_key [simp]:
  "RegistrationOverrides rlp regID = None \<Longrightarrow> Overrides rlp key = Some n \<Longrightarrow>
   GetThreshold rlp key regID = n"
  by (simp add: GetThreshold_def)

lemma GetThreshold_default [simp]:
  "RegistrationOverrides rlp regID = None \<Longrightarrow> Overrides rlp key = None \<Longrightarrow>
   GetThreshold rlp key regID = Threshold rlp"
  by (simp add: GetThreshold_def)

text \<open>The policy file is loaded through the reloader.\<close>

interpretation limits_file: config_loader "LoadPolicies unmarshal"
  for unmarshal
  by unfold_locales (auto simp: LoadPolicies_def split: sum.splits)

end
