(* ===== verification/Ra.thy ===== *)
theory Ra
  imports Csr RateLimit SaProps
begin

text \<open>
  The registration authority (\<^verbatim>\<open>ra/ra.go\<close>). A handler makes a sequence of calls to the storage
  authority, between which other requests may change the database: the \<open>n\<close>-th call of a
  handler runs in the environment and on the database that \<open>re_sa\<close> gives for \<open>n\<close>. A handler
  makes at most one writing call and returns the database that call left. The clock is read
  several times in the same way. The certificate authority, the validation authority, the
  resolver and the parsers of addresses, URLs and certificates are parameters.
\<close>

section \<open>State and environment\<close>

record RegistrationAuthorityImpl =
  ra_PA :: AuthorityImpl
  ra_keyPolicy :: KeyPolicy
  authorizationLifetime :: duration
  pendingAuthorizationLifetime :: duration
  rlPolicies :: limitsImpl
  totalIssuedCount :: int
  totalIssuedLastUpdate :: time
  maxContactsPerReg :: int
  ra_maxNames :: int
  ra_forceCNFromSAN :: bool
  reuseValidAuthz :: bool
  has_publisher :: bool
  usingGRPC :: bool

record ra_env =
  re_sa :: "nat \<Rightarrow> sa_env \<times> database"
  re_clk :: "nat \<Rightarrow> time"
  re_feat :: "FeatureFlag \<Rightarrow> bool"
  re_idnaOK :: "string \<Rightarrow> bool"
  re_psl :: "string \<Rightarrow> string option"
  re_psDomain :: "string \<Rightarrow> string option"
  re_ec :: "CurveID \<Rightarrow> CurveParams"
  re_checkSig :: "bytes \<Rightarrow> bool"
  re_sha256 :: "bytes \<Rightarrow> bytes"
  re_marshalPKIX :: "PublicKey \<Rightarrow> bytes option"
  re_thumbprint :: "JsonWebKey \<Rightarrow> string + bytes"
  re_parseCert :: "bytes \<Rightarrow> string + x509Cert"
  re_parseAddrs :: "string \<Rightarrow> (string \<times> string list) option"
  re_urlParse :: "string \<Rightarrow> (string \<times> string) option"
  re_lookupMX :: "string \<Rightarrow> string list \<times> (bool \<times> string) option"
  re_lookupHost :: "string \<Rightarrow> IP list \<times> (bool \<times> string) option"
  re_isSafe :: "string \<Rightarrow> goerror + bool"
  re_ipString :: "IP \<Rightarrow> string"
  re_fmtTime :: "time \<Rightarrow> string"
  re_fmtDuration :: "duration \<Rightarrow> string"
  re_fmtChallenge :: "Challenge \<Rightarrow> string"

definition call_sa :: "ra_env \<Rightarrow> nat \<Rightarrow> (sa_env \<Rightarrow> database \<Rightarrow> 'a) \<Rightarrow> 'a" where
  "call_sa R n f = f (fst (re_sa R n)) (snd (re_sa R n))"

definition willing :: "ra_env \<Rightarrow> RegistrationAuthorityImpl \<Rightarrow> AcmeIdentifier \<Rightarrow> goerror option" where
  "willing R ra ident = WillingToIssue (re_feat R) (re_idnaOK R) (re_psl R) (ra_PA ra) ident"

definition NewRegistrationAuthorityImpl ::
  "AuthorityImpl \<Rightarrow> int \<Rightarrow> KeyPolicy \<Rightarrow> int \<Rightarrow> bool \<Rightarrow> bool \<Rightarrow> duration \<Rightarrow> duration \<Rightarrow> bool \<Rightarrow> bool \<Rightarrow>
   RegistrationAuthorityImpl" where
  "NewRegistrationAuthorityImpl pa maxContacts keyPol maxN forceCN reuse authzLife pendingLife pubc grpc =
     \<lparr>ra_PA = pa, ra_keyPolicy = keyPol, authorizationLifetime = authzLife,
      pendingAuthorizationLifetime = pendingLife, rlPolicies = New_limits, totalIssuedCount = 0,
      totalIssuedLastUpdate = zero_time, maxContactsPerReg = maxContacts, ra_maxNames = maxN,
      ra_forceCNFromSAN = forceCN, reuseValidAuthz = reuse, has_publisher = pubc, usingGRPC = grpc\<rparr>"

definition updateIssuedCount ::
  "ra_env \<Rightarrow> RegistrationAuthorityImpl \<Rightarrow> RegistrationAuthorityImpl \<times> goerror option" where
  "updateIssuedCount R ra =
     (let totalCertLimit = TotalCertificates (rlPolicies ra) in
      if rlp_Enabled totalCertLimit then
        (let nw = re_clk R 0 in
         case call_sa R 0 (\<lambda>E db. CountCertificatesRange E db (nw + (- Window totalCertLimit)) nw) of
           Inl err \<Rightarrow> (ra, Some err)
         | Inr n \<Rightarrow>
             (ra\<lparr>totalIssuedCount := int n, totalIssuedLastUpdate := re_clk R 1\<rparr>, None))
      else (ra, None))"

section \<open>Contacts\<close>

definition unparseableEmailError :: goerror where
  "unparseableEmailError = BoulderError InvalidEmail ''not a valid e-mail address''"

definition emptyDNSResponseError :: goerror where
  "emptyDNSResponseError = BoulderError InvalidEmail ''empty DNS response''"

definition multipleAddressError :: goerror where
  "multipleAddressError = BoulderError InvalidEmail ''more than one e-mail address''"

text \<open>An error of a lookup with the flag whether it is a \<^verbatim>\<open>bdns.DNSError\<close> that is a timeout.\<close>

definition problemIsTimeout :: "(bool \<times> string) option \<Rightarrow> bool" where
  "problemIsTimeout err = (case err of None \<Rightarrow> False | Some (timeout, _) \<Rightarrow> timeout)"

definition validateEmail :: "ra_env \<Rightarrow> string \<Rightarrow> goerror option" where
  "validateEmail R address =
     (case re_parseAddrs R address of
        None \<Rightarrow> Some unparseableEmailError
      | Some (email, others) \<Rightarrow>
          if length others > 0 then Some multipleAddressError
          else
            (let domain = to_lower (last (split_on (CHR ''@'') email));
                 (resultMX, errMX) = re_lookupMX R domain;
                 (resultA, errA) = re_lookupHost R domain
             in if problemIsTimeout errMX \<or> problemIsTimeout errA then None
                else
                  (case errMX of
                     Some (_, msg) \<Rightarrow> Some (berrors_New InvalidEmail msg)
                   | None \<Rightarrow>
                       if length resultMX > 0 then None
                       else
                         (case errA of
                            Some (_, msg) \<Rightarrow> Some (berrors_New InvalidEmail msg)
                          | None \<Rightarrow> if length resultA > 0 then None else Some emptyDNSResponseError))))"

definition validateContact :: "ra_env \<Rightarrow> string \<Rightarrow> goerror option" where
  "validateContact R contact =
     (if contact = [] then Some (BoulderError Malformed ''empty contact'')
      else
        (case re_urlParse R contact of
           None \<Rightarrow> Some (BoulderError Malformed ''invalid contact'')
         | Some (scheme, opaque) \<Rightarrow>
             if scheme \<noteq> ''mailto''
             then Some (BoulderError Malformed (''contact method '' @ scheme @ '' is not supported''))
             else if \<not> IsASCII contact
             then Some (BoulderError Malformed
                    (''contact email ['' @ contact @ ''] contains non-ASCII characters''))
             else validateEmail R opaque))"

definition validateContacts ::
  "ra_env \<Rightarrow> RegistrationAuthorityImpl \<Rightarrow> string list option \<Rightarrow> goerror option" where
  "validateContacts R ra contacts =
     (case contacts of
        None \<Rightarrow> None
      | Some cs \<Rightarrow>
          if length cs = 0 then None
          else if maxContactsPerReg ra > 0 \<and> int (length cs) > maxContactsPerReg ra
          then Some (BoulderError Malformed (''too many contacts provided: '' @ format_nat (length cs) @
                 '' > '' @ Itoa (maxContactsPerReg ra)))
          else first_error (validateContact R) cs)"

section \<open>Registrations\<close>

definition noRegistrationID :: int where
  "noRegistrationID = - 1"

definition checkRegistrationLimit ::
  "ra_env \<Rightarrow> RegistrationAuthorityImpl \<Rightarrow> IP \<Rightarrow> goerror option" where
  "checkRegistrationLimit R ra ip =
     (let limit = RegistrationsPerIP (rlPolicies ra) in
      if rlp_Enabled limit then
        (let nw = re_clk R 0 in
         case call_sa R 0 (\<lambda>E db. CountRegistrationsByIP E db (ip_bytes ip) (WindowBegin limit nw) nw) of
           Inl err \<Rightarrow> Some err
         | Inr n \<Rightarrow>
             if int n \<ge> GetThreshold limit (re_ipString R ip) noRegistrationID
             then Some (BoulderError RateLimit ''too many registrations for this IP'')
             else None)
      else None)"

text \<open>
  \<^verbatim>\<open>contactsEqual\<close> sorts both lists in place, so it returns them next to its answer.
\<close>

definition contactsEqual ::
  "Registration \<Rightarrow> Registration \<Rightarrow> bool \<times> Registration \<times> Registration" where
  "contactsEqual r other =
     (case (Contact r, Contact other) of
        (Some b, Some a) \<Rightarrow>
          if length a \<noteq> length b then (False, r, other)
          else
            (let a = sort a; b = sort b
             in (list_all (\<lambda>i. a ! i = b ! i) [0..<length a], r\<lparr>Contact := Some b\<rparr>, other\<lparr>Contact := Some a\<rparr>))
      | _ \<Rightarrow> (False, r, other))"

text \<open>
  The base registration of a merge comes from the database or was just made from a request
  with a key, so its key is present.
\<close>

definition mergeUpdate :: "ra_env \<Rightarrow> Registration \<Rightarrow> Registration \<Rightarrow> Registration \<times> bool" where
  "mergeUpdate R r input =
     (let (r, input, changed) =
            (if Contact input \<noteq> None then
               (case contactsEqual r input of
                  (True, r, input) \<Rightarrow> (r, input, False)
                | (False, r, input) \<Rightarrow> (r\<lparr>Contact := Contact input\<rparr>, input, True))
             else (r, input, False));
          (r, changed) =
            (if length (Agreement input) > 0 \<and> Agreement input \<noteq> Agreement r
             then (r\<lparr>Agreement := Agreement input\<rparr>, True) else (r, changed))
      in if re_feat R AllowKeyRollover \<and> reg_Key input \<noteq> None then
           (case PublicKeysEqual (re_marshalPKIX R) (map_option jwk_Key (reg_Key r))
                   (map_option jwk_Key (reg_Key input)) of
              Inr True \<Rightarrow> (r, changed)
            | _ \<Rightarrow> (r\<lparr>reg_Key := reg_Key input\<rparr>, True))
         else (r, changed))"

text \<open>A registration request without a key makes the handler dereference a null pointer.\<close>

definition NewRegistration_ra ::
  "ra_env \<Rightarrow> RegistrationAuthorityImpl \<Rightarrow> Registration \<Rightarrow>
   ((goerror + Registration) \<times> database option) option" where
  "NewRegistration_ra R ra initial_reg =
     (case reg_Key initial_reg of
        None \<Rightarrow> None
      | Some key \<Rightarrow>
          Some (case GoodKey (re_ec R) (ra_keyPolicy ra) (jwk_Key key) of
             Some err \<Rightarrow> (Inl (BoulderError Malformed (''invalid public key: '' @ Error err)), None)
           | None \<Rightarrow>
               (case checkRegistrationLimit R ra (InitialIP initial_reg) of
                  Some err \<Rightarrow> (Inl err, None)
                | None \<Rightarrow>
                    (let reg = \<lparr>reg_ID = 0, reg_Key = Some key, Contact = None, Agreement = [],
                                InitialIP = None, CreatedAt = zero_time, reg_Status = StatusValid\<rparr>;
                         reg = (fst (mergeUpdate R reg initial_reg))\<lparr>InitialIP := InitialIP initial_reg\<rparr>
                     in case validateContacts R ra (Contact reg) of
                          Some err \<Rightarrow> (Inl err, None)
                        | None \<Rightarrow>
                            (case call_sa R 1 (\<lambda>E db. NewRegistration_sa E db reg) of
                               (db', Inl err) \<Rightarrow> (Inl (berrors_New InternalServer (Error err)), Some db')
                             | (db', Inr reg) \<Rightarrow> (Inr reg, Some db'))))))"

text \<open>
  The storage authority's update reads and writes in two statements; \<open>re_sa R 0\<close> is what the
  first of them sees, \<open>re_sa R 1\<close> what the second sees.
\<close>

definition UpdateRegistration_ra ::
  "ra_env \<Rightarrow> RegistrationAuthorityImpl \<Rightarrow> Registration \<Rightarrow> Registration \<Rightarrow>
   (goerror + Registration) \<times> database option" where
  "UpdateRegistration_ra R ra base update_reg =
     (case mergeUpdate R base update_reg of
        (base, False) \<Rightarrow> (Inr base, None)
      | (base, True) \<Rightarrow>
          (case validateContacts R ra (Contact base) of
             Some err \<Rightarrow> (Inl err, None)
           | None \<Rightarrow>
               (case call_sa R 1 (\<lambda>E db. UpdateRegistration_sa E (snd (re_sa R 0)) db base) of
                  (db', Inl err) \<Rightarrow>
                    (Inl (BoulderError InternalServer (''Could not update registration: '' @ Error err)), Some db')
                | (db', Inr _) \<Rightarrow> (Inr base, Some db'))))"

definition DeactivateRegistration_ra :: "ra_env \<Rightarrow> Registration \<Rightarrow> goerror option \<times> database option" where
  "DeactivateRegistration_ra R reg =
     (if reg_Status reg \<noteq> StatusValid
      then (Some (BoulderError Malformed ''only valid registrations can be deactivated''), None)
      else
        (case call_sa R 0 (\<lambda>E db. DeactivateRegistration_sa E db (reg_ID reg)) of
           (db', Inl err) \<Rightarrow> (Some (berrors_New InternalServer (Error err)), Some db')
         | (db', Inr _) \<Rightarrow> (None, Some db')))"

section \<open>Authorizations\<close>

definition checkPendingAuthorizationLimit ::
  "ra_env \<Rightarrow> RegistrationAuthorityImpl \<Rightarrow> int \<Rightarrow> goerror option" where
  "checkPendingAuthorizationLimit R ra regID =
     (let limit = PendingAuthorizationsPerAccount (rlPolicies ra) in
      if rlp_Enabled limit then
        (case call_sa R 0 (\<lambda>E db. CountPendingAuthorizations E db regID) of
           Inl err \<Rightarrow> Some err
         | Inr n \<Rightarrow>
             if int n \<ge> GetThreshold limit [] regID
             then Some (BoulderError RateLimit ''too many currently pending authorizations'')
             else None)
      else None)"

definition checkInvalidAuthorizationLimit ::
  "ra_env \<Rightarrow> RegistrationAuthorityImpl \<Rightarrow> int \<Rightarrow> string \<Rightarrow> goerror option" where
  "checkInvalidAuthorizationLimit R ra regID hostname =
     (let limit = InvalidAuthorizationsPerAccount (rlPolicies ra) in
      if \<not> rlp_Enabled limit \<or> \<not> usingGRPC ra then None
      else
        (let latest_t = re_clk R 0 + pendingAuthorizationLifetime ra;
             earliest = latest_t + (- Window limit)
         in case call_sa R 1 (\<lambda>E db. CountInvalidAuthorizations E db regID hostname earliest latest_t) of
              Inl err \<Rightarrow> Some err
            | Inr n \<Rightarrow>
                if int n \<ge> GetThreshold limit [] regID
                then Some (core_RateLimitedError ''Too many invalid authorizations recently.'')
                else None))"

text \<open>
  The lookup of a valid authorization to reuse: an error, the authorization, or neither.
  One whose expiry is missing makes the comparison of times fail.
\<close>

definition reusable_authz ::
  "ra_env \<Rightarrow> RegistrationAuthorityImpl \<Rightarrow> AcmeIdentifier \<Rightarrow> int \<Rightarrow> (goerror + Authorization option) option" where
  "reusable_authz R ra identifier regID =
     (if \<not> reuseValidAuthz ra then Some (Inr None)
      else
        (case call_sa R 2 (\<lambda>E db. GetValidAuthorizations E db regID [Value identifier] (re_clk R 1)) of
           Inl _ \<Rightarrow> Some (Inl (BoulderError InternalServer
             (''unable to get existing validations for regID: '' @ Itoa regID @ '', identifier: '' @ Value identifier)))
         | Inr auths \<Rightarrow>
             (case map_of auths (Value identifier) of
                None \<Rightarrow> Some (Inr None)
              | Some existingAuthz \<Rightarrow>
                  (case call_sa R 3 (\<lambda>E db. GetAuthorization E db (az_ID existingAuthz)) of
                     Inl _ \<Rightarrow> Some (Inl (BoulderError InternalServer
                       (''unable to get existing authorization for auth ID: '' @ az_ID existingAuthz)))
                   | Inr populatedAuthz \<Rightarrow>
                       (case az_Expires populatedAuthz of
                          None \<Rightarrow> None
                        | Some expires \<Rightarrow>
                            if expires > re_clk R 2 + 24 * 3600 * 1000000000
                            then Some (Inr (Some populatedAuthz)) else Some (Inr None))))))"

definition refusal ::
  "ra_env \<Rightarrow> RegistrationAuthorityImpl \<Rightarrow> AcmeIdentifier \<Rightarrow> int \<Rightarrow> goerror option" where
  "refusal R ra identifier regID =
     (case willing R ra identifier of
        Some err \<Rightarrow> Some err
      | None \<Rightarrow>
          (case checkPendingAuthorizationLimit R ra regID of
             Some err \<Rightarrow> Some err
           | None \<Rightarrow>
               (case checkInvalidAuthorizationLimit R ra regID (Value identifier) of
                  Some err \<Rightarrow> Some err
                | None \<Rightarrow>
                    if id_Type identifier = IdentifierDNS then
                      (case re_isSafe R (Value identifier) of
                         Inl _ \<Rightarrow> Some (BoulderError InternalServer ''unable to determine if domain was safe'')
                       | Inr isSafe \<Rightarrow>
                           if \<not> isSafe
                           then Some (BoulderError Unauthorized (quote (Value identifier) @
                                  '' was considered an unsafe domain by a third-party API''))
                           else None)
                    else None)))"

text \<open>
  \<open>rnd\<close> are the random bytes of the challenges' tokens, \<open>permA\<close> and \<open>permB\<close> the shuffles,
  \<open>draws\<close> the random bytes for the authorization's id.
\<close>

definition NewAuthorization_ra ::
  "ra_env \<Rightarrow> (string \<Rightarrow> bytes) \<Rightarrow> (nat \<Rightarrow> nat list) \<Rightarrow> (nat \<Rightarrow> nat list) \<Rightarrow> bytes list \<Rightarrow>
   RegistrationAuthorityImpl \<Rightarrow> Authorization \<Rightarrow> int \<Rightarrow> ((goerror + Authorization) \<times> database option) option" where
  "NewAuthorization_ra R rnd permA permB draws ra request regID =
     (let identifier = (Identifier request)\<lparr>Value := to_lower (Value (Identifier request))\<rparr> in
      case refusal R ra identifier regID of
        Some err \<Rightarrow> Some (Inl err, None)
      | None \<Rightarrow>
          (case reusable_authz R ra identifier regID of
             None \<Rightarrow> None
           | Some (Inl err) \<Rightarrow> Some (Inl err, None)
           | Some (Inr (Some existing)) \<Rightarrow> Some (Inr existing, None)
           | Some (Inr None) \<Rightarrow>
               (let (challs, combinations) = ChallengesFor (re_feat R) rnd permA permB (ra_PA ra);
                    authz = \<lparr>az_ID = [], Identifier = identifier, RegistrationID = regID,
                             az_Status = StatusPending,
                             az_Expires = Some (re_clk R 3 + pendingAuthorizationLifetime ra),
                             Challenges = challs, Combinations = map (map int) combinations\<rparr>
                in case call_sa R 4 (\<lambda>E db. NewPendingAuthorization E draws db authz) of
                     None \<Rightarrow> None
                   | Some (db', Inl err) \<Rightarrow>
                       Some (Inl (BoulderError InternalServer
                         (''invalid authorization request: '' @ Error err)), Some db')
                   | Some (db', Inr authz) \<Rightarrow>
                       (case find (\<lambda>c. \<not> IsSaneForClientOffer c) (Challenges authz) of
                          Some challenge \<Rightarrow>
                            Some (Inl (BoulderError InternalServer
                              (''challenge didn'' @ apos @ ''t pass sanity check: '' @ re_fmtChallenge R challenge)),
                              Some db')
                        | None \<Rightarrow> Some (Inr authz, Some db')))))"

section \<open>Validation\<close>

text \<open>
  \<^verbatim>\<open>UpdateAuthorization\<close> returns its named results, the database its write left and the
  validation it starts: the authorization and the index of the challenge that the
  background job works on. A negative index is out of range of the list.
\<close>

definition UpdateAuthorization_ra ::
  "ra_env \<Rightarrow> RegistrationAuthorityImpl \<Rightarrow> Authorization \<Rightarrow> int \<Rightarrow> Challenge \<Rightarrow>
   ((Authorization \<times> goerror option) \<times> database option \<times> (Authorization \<times> nat) option) option" where
  "UpdateAuthorization_ra R ra base challengeIndex response =
     (if (case az_Expires base of None \<Rightarrow> True | Some e \<Rightarrow> e < re_clk R 0)
      then Some ((zero_authz, Some (BoulderError Malformed ''expired authorization'')), None, None)
      else if challengeIndex \<ge> int (length (Challenges base))
      then Some ((base, Some (BoulderError Malformed
             (''invalid challenge index '' @ apos @ Itoa challengeIndex @ apos))), None, None)
      else if challengeIndex < 0 then None
      else if reuseValidAuthz ra \<and> az_Status base = StatusValid
      then Some ((base, None), None, None)
      else
        (let idx = nat challengeIndex; ch = Challenges base ! idx in
         case call_sa R 0 (\<lambda>E db. GetRegistration E db (RegistrationID base)) of
           Inl err \<Rightarrow> Some ((base, Some (berrors_New InternalServer (Error err))), None, None)
         | Inr reg \<Rightarrow>
             (case ExpectedKeyAuthorization (re_thumbprint R) ch (reg_Key reg) of
                Inl _ \<Rightarrow> Some ((base, Some (BoulderError InternalServer
                  ''could not compute expected key authorization value'')), None, None)
              | Inr expectedKeyAuthorization \<Rightarrow>
                  if expectedKeyAuthorization \<noteq> ProvidedKeyAuthorization response
                  then Some ((base, Some (BoulderError Malformed
                         ''provided key authorization was incorrect'')), None, None)
                  else
                    (let ch = ch\<lparr>ProvidedKeyAuthorization := ProvidedKeyAuthorization response\<rparr>;
                         authz = base\<lparr>Challenges := (Challenges base)[idx := ch]\<rparr>
                     in if \<not> IsSaneForValidation ch
                        then Some ((authz, Some (BoulderError Malformed
                               ''response does not complete challenge'')), None, None)
                        else
                          (case call_sa R 1 (\<lambda>E db. UpdatePendingAuthorization E db authz) of
                             (db', Inl err) \<Rightarrow>
                               Some ((authz, Some (BoulderError InternalServer
                                 ''could not update pending authorization'')), Some db', None)
                           | (db', Inr _) \<Rightarrow> Some ((authz, None), Some db', Some (authz, idx)))))))"

definition combo_valid :: "Challenge list \<Rightarrow> int list \<Rightarrow> bool" where
  "combo_valid chs combo =
     list_all (\<lambda>i. 0 \<le> i \<and> i < int (length chs) \<and> ch_Status (chs ! nat i) = StatusValid) combo"

definition onValidationUpdate ::
  "ra_env \<Rightarrow> RegistrationAuthorityImpl \<Rightarrow> sa_env \<Rightarrow> database \<Rightarrow> Authorization \<Rightarrow>
   database \<times> (goerror + unit)" where
  "onValidationUpdate R ra E db authz =
     (let authz = (if list_ex (combo_valid (Challenges authz)) (Combinations authz)
                   then authz\<lparr>az_Status := StatusValid\<rparr> else authz);
          authz = (if az_Status authz \<noteq> StatusValid then authz\<lparr>az_Status := StatusInvalid\<rparr>
                   else authz\<lparr>az_Expires := Some (re_clk R 0 + authorizationLifetime ra)\<rparr>)
      in FinalizeAuthorization E db authz)"

text \<open>
  The background job: \<open>records\<close> and \<open>err\<close> are what the validation authority returned.
\<close>

definition record_validation ::
  "Authorization \<Rightarrow> nat \<Rightarrow> ValidationRecord list \<Rightarrow> goerror option \<Rightarrow> Authorization" where
  "record_validation authz idx records err =
     (let prob = (case err of
                    Some (ProblemErr p) \<Rightarrow> Some p
                  | Some _ \<Rightarrow> Some (probs_ServerInternal ''Could not communicate with VA'')
                  | None \<Rightarrow> None);
          challenge = (Challenges authz ! idx)\<lparr>ch_Records := records\<rparr>;
          prob = (if \<not> RecordsSane challenge \<and> prob = None
                  then Some (probs_ServerInternal ''Records for validation failed sanity check'') else prob);
          challenge = (case prob of
                         Some p \<Rightarrow> challenge\<lparr>ch_Status := StatusInvalid, ch_Error := Some p\<rparr>
                       | None \<Rightarrow> challenge\<lparr>ch_Status := StatusValid\<rparr>)
      in authz\<lparr>Challenges := (Challenges authz)[idx := challenge]\<rparr>)"

definition validation_job ::
  "ra_env \<Rightarrow> RegistrationAuthorityImpl \<Rightarrow> sa_env \<Rightarrow> database \<Rightarrow> Authorization \<Rightarrow> nat \<Rightarrow>
   ValidationRecord list \<Rightarrow> goerror option \<Rightarrow> database \<times> (goerror + unit)" where
  "validation_job R ra E db authz idx records err =
     onValidationUpdate R ra E db (record_validation authz idx records err)"

definition DeactivateAuthorization_ra :: "ra_env \<Rightarrow> Authorization \<Rightarrow> goerror option \<times> database option" where
  "DeactivateAuthorization_ra R auth =
     (if az_Status auth \<noteq> StatusValid \<and> az_Status auth \<noteq> StatusPending
      then (Some (BoulderError Malformed ''only valid and pending authorizations can be deactivated''), None)
      else
        (case call_sa R 0 (\<lambda>E db. DeactivateAuthorization_sa E db (az_ID auth)) of
           (db', Inl err) \<Rightarrow> (Some (berrors_New InternalServer (Error err)), Some db')
         | (db', Inr _) \<Rightarrow> (None, Some db')))"

section \<open>Rate limits on certificates\<close>

fun domains_loop :: "(string \<Rightarrow> string option) \<Rightarrow> string list \<Rightarrow> string list \<Rightarrow> string list" where
  "domains_loop psDomain domains [] = domains"
| "domains_loop psDomain domains (name # names) =
     (let domain = (case psDomain name of None \<Rightarrow> name | Some d \<Rightarrow> d) in
      domains_loop psDomain (if domain \<in> set domains then domains else domains @ [domain]) names)"

definition domainsForRateLimiting :: "(string \<Rightarrow> string option) \<Rightarrow> string list \<Rightarrow> string list" where
  "domainsForRateLimiting psDomain names = domains_loop psDomain [] names"

text \<open>The names over the limit, or nothing when a count is missing.\<close>

fun names_over_limit ::
  "RateLimitPolicy \<Rightarrow> int \<Rightarrow> (string \<times> nat) list \<Rightarrow> string list \<Rightarrow> string list option" where
  "names_over_limit limit regID counts [] = Some []"
| "names_over_limit limit regID counts (name # names) =
     (case map_of counts name of
        None \<Rightarrow> None
      | Some n \<Rightarrow>
          map_option (\<lambda>rest. if int n \<ge> GetThreshold limit name regID then name # rest else rest)
            (names_over_limit limit regID counts names))"

definition checkCertificatesPerNameLimit ::
  "ra_env \<Rightarrow> string list \<Rightarrow> RateLimitPolicy \<Rightarrow> int \<Rightarrow> goerror option" where
  "checkCertificatesPerNameLimit R names limit regID =
     (let tldNames = domainsForRateLimiting (re_psDomain R) names;
          nw = re_clk R 1;
          windowBegin = WindowBegin limit nw
      in case call_sa R 1 (\<lambda>E db. CountCertificatesByNames E db tldNames windowBegin nw) of
           Inl err \<Rightarrow> Some err
         | Inr counts \<Rightarrow>
             (case names_over_limit limit regID counts tldNames of
                None \<Rightarrow> Some (OtherError ''CountCertificatesByNames failed to return a count for every name'')
              | Some badNames \<Rightarrow>
                  if length badNames > 0 then
                    (case call_sa R 2 (\<lambda>E db. FQDNSetExists E db names) of
                       Inl err \<Rightarrow> Some err
                     | Inr exists \<Rightarrow>
                         if exists then None
                         else Some (BoulderError RateLimit
                                (''too many certificates already issued for: '' @ join_with '', '' badNames)))
                  else None))"

definition checkCertificatesPerFQDNSetLimit ::
  "ra_env \<Rightarrow> string list \<Rightarrow> RateLimitPolicy \<Rightarrow> int \<Rightarrow> goerror option" where
  "checkCertificatesPerFQDNSetLimit R names limit regID =
     (case call_sa R 3 (\<lambda>E db. CountFQDNSets E db (Window limit) names) of
        Inl err \<Rightarrow> Some err
      | Inr n \<Rightarrow>
          (let names = UniqueLowerNames names in
           if int n > GetThreshold limit (join_with '','' names) regID
           then Some (BoulderError RateLimit
                  (''too many certificates already issued for exact set of domains: '' @ join_with '','' names))
           else None))"

definition checkTotalCertificatesLimit :: "ra_env \<Rightarrow> RegistrationAuthorityImpl \<Rightarrow> goerror option" where
  "checkTotalCertificatesLimit R ra =
     (let totalCertLimits = TotalCertificates (rlPolicies ra) in
      if re_clk R 0 > totalIssuedLastUpdate ra + 5 * 60 * 1000000000 \<or> totalIssuedLastUpdate ra = zero_time
      then Some (BoulderError InternalServer
             (''Total certificate count out of date: updated '' @ re_fmtTime R (totalIssuedLastUpdate ra)))
      else if totalIssuedCount ra \<ge> Threshold totalCertLimits
      then Some (BoulderError RateLimit ''global certificate issuance limit reached. Try again in an hour'')
      else None)"

definition checkLimits ::
  "ra_env \<Rightarrow> RegistrationAuthorityImpl \<Rightarrow> string list \<Rightarrow> int \<Rightarrow> goerror option" where
  "checkLimits R ra names regID =
     (case (if rlp_Enabled (TotalCertificates (rlPolicies ra)) then checkTotalCertificatesLimit R ra else None) of
        Some err \<Rightarrow> Some err
      | None \<Rightarrow>
          (case (if rlp_Enabled (CertificatesPerName (rlPolicies ra))
                 then checkCertificatesPerNameLimit R names (CertificatesPerName (rlPolicies ra)) regID
                 else None) of
             Some err \<Rightarrow> Some err
           | None \<Rightarrow>
               if rlp_Enabled (CertificatesPerFQDNSet (rlPolicies ra))
               then checkCertificatesPerFQDNSetLimit R names (CertificatesPerFQDNSet (rlPolicies ra)) regID
               else None))"

section \<open>Certificates\<close>

text \<open>
  The subject fields other than the common name are gathered in \<open>x_otherSubject\<close>. A list that
  is absent and an empty one are not distinguished.
\<close>

definition MatchesCSR ::
  "ra_env \<Rightarrow> RegistrationAuthorityImpl \<Rightarrow> x509Cert \<Rightarrow> CertificateRequest \<Rightarrow> goerror option" where
  "MatchesCSR R ra parsedCertificate csr =
     (let hostNames = csr_DNSNames csr;
          hostNames = (if length (csr_CommonName csr) > 0 then hostNames @ [csr_CommonName csr] else hostNames);
          hostNames = UniqueLowerNames hostNames
      in
      if \<not> (case csr_PublicKey csr of None \<Rightarrow> False | Some k \<Rightarrow>
               KeyDigestEquals (re_sha256 R) (re_marshalPKIX R) (RawKey (x_PublicKey parsedCertificate)) (RawKey k))
      then Some (BoulderError InternalServer
             (''generated certificate public key doesn'' @ apos @ ''t match CSR public key''))
      else if \<not> ra_forceCNFromSAN ra \<and> length (csr_CommonName csr) > 0 \<and>
              x_CommonName parsedCertificate \<noteq> to_lower (csr_CommonName csr)
      then Some (BoulderError InternalServer
             (''generated certificate CommonName doesn'' @ apos @ ''t match CSR CommonName''))
      else if sort (x_DNSNames parsedCertificate) \<noteq> sort hostNames
      then Some (BoulderError InternalServer
             (''generated certificate DNSNames don'' @ apos @ ''t match CSR DNSNames''))
      else if x_IPAddresses parsedCertificate \<noteq> csr_IPAddresses csr
      then Some (BoulderError InternalServer
             (''generated certificate IPAddresses don'' @ apos @ ''t match CSR IPAddresses''))
      else if x_EmailAddresses parsedCertificate \<noteq> csr_EmailAddresses csr
      then Some (BoulderError InternalServer
             (''generated certificate EmailAddresses don'' @ apos @ ''t match CSR EmailAddresses''))
      else if length (x_otherSubject parsedCertificate) > 0
      then Some (BoulderError InternalServer
             ''generated certificate Subject contains fields other than CommonName, or SerialNumber'')
      else if re_clk R 3 - x_NotBefore parsedCertificate > 24 * 3600 * 1000000000
      then Some (BoulderError InternalServer (''generated certificate is back dated '' @
             re_fmtDuration R (re_clk R 3 - x_NotBefore parsedCertificate)))
      else if \<not> x_BasicConstraintsValid parsedCertificate
      then Some (BoulderError InternalServer
             (''generated certificate doesn'' @ apos @ ''t have basic constraints set''))
      else if x_IsCA parsedCertificate
      then Some (BoulderError InternalServer ''generated certificate can sign other certificates'')
      else if x_ExtKeyUsage parsedCertificate \<noteq> [ExtKeyUsageServerAuth, ExtKeyUsageClientAuth]
      then Some (BoulderError InternalServer
             (''generated certificate doesn'' @ apos @ ''t have correct key usage extensions''))
      else None)"

text \<open>The names without a valid authorization, or the error for one without an expiry.\<close>

fun unauthorized_names ::
  "time \<Rightarrow> (string \<times> Authorization) list \<Rightarrow> string list \<Rightarrow> goerror + string list" where
  "unauthorized_names nw auths [] = Inr []"
| "unauthorized_names nw auths (name # names) =
     (case map_of auths name of
        None \<Rightarrow> bind_result (unauthorized_names nw auths names) (\<lambda>rest. Inr (name # rest))
      | Some authz \<Rightarrow>
          (case az_Expires authz of
             None \<Rightarrow> Inl (BoulderError InternalServer
               (''found an authorization with a nil Expires field: id '' @ az_ID authz))
           | Some expires \<Rightarrow>
               if expires < nw
               then bind_result (unauthorized_names nw auths names) (\<lambda>rest. Inr (name # rest))
               else unauthorized_names nw auths names))"

definition checkAuthorizations ::
  "ra_env \<Rightarrow> string list \<Rightarrow> Registration \<Rightarrow> goerror option" where
  "checkAuthorizations R names registration =
     (let nw = re_clk R 2; names = map to_lower names in
      case call_sa R 4 (\<lambda>E db. GetValidAuthorizations E db (reg_ID registration) names nw) of
        Inl err \<Rightarrow> Some err
      | Inr auths \<Rightarrow>
          (case unauthorized_names nw auths names of
             Inl err \<Rightarrow> Some err
           | Inr badNames \<Rightarrow>
               if length badNames > 0
               then Some (BoulderError Unauthorized
                      (''authorizations for these names not found or expired: '' @ join_with '', '' badNames))
               else None))"

text \<open>
  Everything \<^verbatim>\<open>NewCertificate\<close> checks before it asks for a certificate: the error, or the
  verified request.
\<close>

definition issuance_checks ::
  "ra_env \<Rightarrow> RegistrationAuthorityImpl \<Rightarrow> CertificateRequest \<Rightarrow> int \<Rightarrow> goerror + CertificateRequest" where
  "issuance_checks R ra req regID =
     (if regID \<le> 0 then Inl (BoulderError Malformed (''invalid registration ID: '' @ Itoa regID))
      else
        (case call_sa R 0 (\<lambda>E db. GetRegistration E db regID) of
           Inl err \<Rightarrow> Inl err
         | Inr registration \<Rightarrow>
             (case VerifyCSR (re_checkSig R) (re_ec R) req (ra_maxNames ra) (ra_keyPolicy ra) (willing R ra)
                     (ra_forceCNFromSAN ra) of
                (csr, Some err) \<Rightarrow> Inl (berrors_New Malformed (Error err))
              | (csr, None) \<Rightarrow>
                  (let names = csr_DNSNames csr in
                   if length names = 0 then Inl (BoulderError Unauthorized ''CSR has no names in it'')
                   else if (case csr_PublicKey csr of None \<Rightarrow> False | Some k \<Rightarrow>
                              KeyDigestEquals (re_sha256 R) (re_marshalPKIX R) (RawKey k) (JWKPtr (reg_Key registration)))
                   then Inl (BoulderError Malformed ''certificate public key must be different than account key'')
                   else
                     (case checkLimits R ra names (reg_ID registration) of
                        Some err \<Rightarrow> Inl err
                      | None \<Rightarrow>
                          (case checkAuthorizations R names registration of
                             Some err \<Rightarrow> Inl err
                           | None \<Rightarrow> Inr csr))))))"

text \<open>
  What the handler does besides answering: requests to the certificate authority and
  submissions to the certificate transparency logs.
\<close>

datatype ra_effect = IssueCertificateCall CertificateRequest int | SubmitToCTCall bytes

definition NewCertificate ::
  "ra_env \<Rightarrow> (CertificateRequest \<Rightarrow> int \<Rightarrow> goerror + Certificate) \<Rightarrow> RegistrationAuthorityImpl \<Rightarrow>
   CertificateRequest \<Rightarrow> int \<Rightarrow> ra_effect list \<times> (goerror + Certificate)" where
  "NewCertificate R issue ra req regID =
     (case issuance_checks R ra req regID of
        Inl err \<Rightarrow> ([], Inl err)
      | Inr csr \<Rightarrow>
          (case issue csr regID of
             Inl err \<Rightarrow> ([IssueCertificateCall csr regID], Inl err)
           | Inr cert \<Rightarrow>
               (IssueCertificateCall csr regID # (if has_publisher ra then [SubmitToCTCall (DER cert)] else []),
                case re_parseCert R (DER cert) of
                  Inl err \<Rightarrow> Inl (BoulderError InternalServer (''failed to parse certificate: '' @ err))
                | Inr parsedCertificate \<Rightarrow>
                    (case MatchesCSR R ra parsedCertificate csr of
                       Some err \<Rightarrow> Inl err
                     | None \<Rightarrow> Inr cert))))"

section \<open>Revocation\<close>

definition revokeEvent :: "string \<Rightarrow> string \<Rightarrow> string \<Rightarrow> string list \<Rightarrow> int \<Rightarrow> string" where
  "revokeEvent state serial cn names revocationCode =
     ''Revocation - State: '' @ state @ '', Serial: '' @ serial @ '', CN: '' @ cn @ '', DNS Names: ['' @
     join_with '' '' names @ ''], Reason: '' @
     (case ReasonToString revocationCode of None \<Rightarrow> [] | Some s \<Rightarrow> s)"

text \<open>Both entry points mark the certificate and write one line to the audit log.\<close>

definition RevokeCertificateWithReg ::
  "sa_env \<Rightarrow> database \<Rightarrow> x509Cert \<Rightarrow> int \<Rightarrow> int \<Rightarrow> database \<times> goerror option \<times> string" where
  "RevokeCertificateWithReg E db cert revocationCode regID =
     (let serialString = SerialToString (x_SerialNumber cert);
          audit = (\<lambda>state. revokeEvent state serialString (x_CommonName cert) (x_DNSNames cert) revocationCode @
            '', Request by registration ID: '' @ Itoa regID)
      in case MarkCertificateRevoked E db serialString revocationCode of
           (db', Inl err) \<Rightarrow> (db', Some err, audit (''Failure -- '' @ Error err))
         | (db', Inr _) \<Rightarrow> (db', None, audit ''Success''))"

definition AdministrativelyRevokeCertificate ::
  "sa_env \<Rightarrow> database \<Rightarrow> x509Cert \<Rightarrow> int \<Rightarrow> string \<Rightarrow> database \<times> goerror option \<times> string" where
  "AdministrativelyRevokeCertificate E db cert revocationCode user =
     (let serialString = SerialToString (x_SerialNumber cert);
          audit = (\<lambda>state. revokeEvent state serialString (x_CommonName cert) (x_DNSNames cert) revocationCode @
            '', admin-revoker user: '' @ user)
      in case MarkCertificateRevoked E db serialString revocationCode of
           (db', Inl err) \<Rightarrow> (db', Some err, audit (''Failure -- '' @ Error err))
         | (db', Inr _) \<Rightarrow> (db', None, audit ''Success''))"

end
