(* ===== verification/RaProps.thy ===== *)
theory RaProps
  imports Ra
begin

text \<open>
  What the registration authority guarantees: no certificate is requested without a valid,
  unexpired authorization of the account for every name and without passing the policy and
  the rate limits, and no authorization becomes valid without a successful validation of a
  challenge whose key authorization was checked.
\<close>

section \<open>Issuance\<close>

lemma unauthorized_names_empty:
  "unauthorized_names nw auths names = Inr [] \<longleftrightarrow>
     (\<forall>n \<in> set names. \<exists>a e. map_of auths n = Some a \<and> az_Expires a = Some e \<and> nw \<le> e)"
  by (induction names) (auto simp: go_result not_less split: option.splits)

lemma GetRegistration_ID: "GetRegistration E db rid = Inr reg \<Longrightarrow> reg_ID reg = rid"
  by (auto simp: GetRegistration_def modelToRegistration_def go_result dest: find_key_Some
      split: sum.splits if_splits)

lemma GetValid_row:
  assumes "GetValidAuthorizations E db regID names nw = Inr auths" "map_of auths name = Some a"
  shows "\<exists>r \<in> set (valid_rows db regID names nw). a = row_authz r [] \<and> Value (ar_Identifier r) = name"
proof -
  have "names \<noteq> []" "db_fault E (DbSelect ''authz'') = None"
    using assms(1) by (auto simp: GetValidAuthorizations_def split: if_splits option.splits)
  from GetValid_best [OF this, of db regID nw] assms(1)
  have "best (map (\<lambda>r. row_authz r []) (valid_rows db regID names nw)) name (map_of auths name)" by auto
  with assms(2) show ?thesis by (auto simp: best_def row_authz_def)
qed

text \<open>A row of the table that authorizes an account for a name at some time.\<close>

definition authorizes :: "database \<Rightarrow> int \<Rightarrow> time \<Rightarrow> string \<Rightarrow> bool" where
  "authorizes db regID nw name \<longleftrightarrow>
     (\<exists>r \<in> set (authz_table db). ar_RegistrationID r = regID \<and> ar_Status r = StatusValid \<and>
        ar_Identifier r = \<lparr>id_Type = IdentifierDNS, Value = name\<rparr> \<and> (\<exists>e. ar_Expires r = Some e \<and> nw < e))"

lemma valid_rows_authorize:
  "r \<in> set (valid_rows db regID names nw) \<Longrightarrow> authorizes db regID nw (Value (ar_Identifier r))"
  by (auto simp: valid_rows_def authorizes_def split: option.splits)

lemma checkAuthorizations_None:
  assumes "checkAuthorizations R names registration = None"
  shows "\<forall>name \<in> set names. authorizes (snd (re_sa R 4)) (reg_ID registration) (re_clk R 2) (to_lower name)"
proof -
  obtain auths where auths: "GetValidAuthorizations (fst (re_sa R 4)) (snd (re_sa R 4)) (reg_ID registration)
      (map to_lower names) (re_clk R 2) = Inr auths"
    "unauthorized_names (re_clk R 2) auths (map to_lower names) = Inr []"
    using assms by (auto simp: checkAuthorizations_def call_sa_def Let_def split: sum.splits if_splits)
  show ?thesis
  proof
    fix name assume "name \<in> set names"
    with auths(2) obtain a where "map_of auths (to_lower name) = Some a"
      by (auto simp: unauthorized_names_empty)
    from GetValid_row [OF auths(1) this] show
      "authorizes (snd (re_sa R 4)) (reg_ID registration) (re_clk R 2) (to_lower name)"
      using valid_rows_authorize by metis
  qed
qed

lemma issuance_checks_Inr:
  assumes "issuance_checks R ra req regID = Inr csr"
  shows "\<exists>registration. GetRegistration (fst (re_sa R 0)) (snd (re_sa R 0)) regID = Inr registration \<and>
    csr = normalizeCSR req (ra_forceCNFromSAN ra) \<and>
    check_normalized (re_checkSig R) (re_ec R) csr (ra_maxNames ra) (ra_keyPolicy ra) (willing R ra) = None \<and>
    csr_DNSNames csr \<noteq> [] \<and>
    (\<forall>k. csr_PublicKey csr = Some k \<longrightarrow>
       \<not> KeyDigestEquals (re_sha256 R) (re_marshalPKIX R) (RawKey k) (JWKPtr (reg_Key registration))) \<and>
    checkLimits R ra (csr_DNSNames csr) regID = None \<and>
    checkAuthorizations R (csr_DNSNames csr) registration = None"
  using assms
  by (auto simp: issuance_checks_def call_sa_def VerifyCSR_def Let_def dest: GetRegistration_ID
      split: if_splits sum.splits option.splits)

lemma NewCertificate_call:
  assumes "IssueCertificateCall csr i \<in> set (fst (NewCertificate R issue ra req regID))"
  shows "i = regID \<and> issuance_checks R ra req regID = Inr csr"
  using assms by (auto simp: NewCertificate_def split: sum.splits if_splits)

lemma NewCertificate_success:
  assumes "NewCertificate R issue ra req regID = (effects, Inr cert)"
  shows "\<exists>csr parsed. issuance_checks R ra req regID = Inr csr \<and> issue csr regID = Inr cert \<and>
    re_parseCert R (DER cert) = Inr parsed \<and> MatchesCSR R ra parsed csr = None \<and>
    effects = IssueCertificateCall csr regID # (if has_publisher ra then [SubmitToCTCall (DER cert)] else [])"
  using assms by (auto simp: NewCertificate_def split: sum.splits option.splits)

lemma normalize_unforced_names:
  "csr_DNSNames (normalizeCSR csr False) =
     UniqueLowerNames (if csr_CommonName csr = [] then csr_DNSNames csr
       else csr_DNSNames csr @ [csr_CommonName csr])"
  by (simp add: normalizeCSR_def Let_def)

section \<open>Rate limits\<close>

lemma names_over_limit_nil:
  "names_over_limit limit regID counts names = Some [] \<longleftrightarrow>
     (\<forall>n \<in> set names. \<exists>k. map_of counts n = Some k \<and> int k < GetThreshold limit n regID)"
  by (induction names) (auto simp: not_le split: option.splits)

lemma domains_loop_set:
  "set (domains_loop ps ds names) = set ds \<union> (\<lambda>n. case ps n of None \<Rightarrow> n | Some d \<Rightarrow> d) ` set names"
  by (induction names arbitrary: ds) (auto simp: Let_def)

lemma domains_loop_distinct: "distinct ds \<Longrightarrow> distinct (domains_loop ps ds names)"
  by (induction names arbitrary: ds) (auto simp: Let_def)

lemma count_names_all:
  assumes "count_names E db earliest latest_t ret domains = Inr counts"
  shows "map_of counts d = (if d \<in> set domains then
     (case countCertificatesByName E db d earliest latest_t of Inl _ \<Rightarrow> None | Inr n \<Rightarrow> Some n)
     else map_of ret d)"
  using assms
  by (induction domains arbitrary: ret)
     (auto simp: go_result update_conv' split: if_splits)

lemma checkLimits_None:
  assumes "checkLimits R ra names regID = None"
  shows "rlp_Enabled (TotalCertificates (rlPolicies ra)) \<longrightarrow> checkTotalCertificatesLimit R ra = None"
    "rlp_Enabled (CertificatesPerName (rlPolicies ra)) \<longrightarrow>
       checkCertificatesPerNameLimit R names (CertificatesPerName (rlPolicies ra)) regID = None"
    "rlp_Enabled (CertificatesPerFQDNSet (rlPolicies ra)) \<longrightarrow>
       checkCertificatesPerFQDNSetLimit R names (CertificatesPerFQDNSet (rlPolicies ra)) regID = None"
  using assms by (auto simp: checkLimits_def split: option.splits if_splits)

text \<open>The registered domain of a name, as the rate limits count it.\<close>

definition registered_domain :: "ra_env \<Rightarrow> string \<Rightarrow> string" where
  "registered_domain R n = (case re_psDomain R n of None \<Rightarrow> n | Some d \<Rightarrow> d)"

lemma per_name_limit_None:
  assumes "checkCertificatesPerNameLimit R names limit regID = None" "name \<in> set names"
  shows "(\<exists>k. call_sa R 1 (\<lambda>E db. countCertificatesByName E db (registered_domain R name)
             (WindowBegin limit (re_clk R 1)) (re_clk R 1)) = Inr k \<and>
           int k < GetThreshold limit (registered_domain R name) regID) \<or>
    call_sa R 2 (\<lambda>E db. FQDNSetExists E db names) = Inr True"
proof -
  let ?t = "domainsForRateLimiting (re_psDomain R) names"
  have mem: "registered_domain R name \<in> set ?t"
    using assms(2) by (auto simp: domainsForRateLimiting_def domains_loop_set registered_domain_def)
  obtain counts bad where c: "count_names (fst (re_sa R 1)) (snd (re_sa R 1)) (WindowBegin limit (re_clk R 1))
      (re_clk R 1) [] ?t = Inr counts" "names_over_limit limit regID counts ?t = Some bad"
    "bad = [] \<or> call_sa R 2 (\<lambda>E db. FQDNSetExists E db names) = Inr True"
    using assms(1)
    by (auto simp: checkCertificatesPerNameLimit_def Let_def call_sa_def CountCertificatesByNames_def
        split: sum.splits option.splits if_splits)
  show ?thesis
  proof (cases "bad = []")
    case True
    with c(2) mem obtain k where "map_of counts (registered_domain R name) = Some k"
      "int k < GetThreshold limit (registered_domain R name) regID"
      using names_over_limit_nil by metis
    with count_names_all [OF c(1), of "registered_domain R name"] mem show ?thesis
      by (auto simp: call_sa_def split: sum.splits)
  qed (use c(3) in blast)
qed

section \<open>Validation\<close>

lemma record_validation_status:
  assumes "idx < length (Challenges authz)"
  shows "ch_Status (Challenges (record_validation authz idx records err) ! idx) = StatusValid \<longleftrightarrow>
     err = None \<and> RecordsSane ((Challenges authz ! idx)\<lparr>ch_Records := records\<rparr>)"
  using assms
  by (auto simp: record_validation_def Let_def status_defs split: option.splits goerror.splits)

lemma record_validation_others:
  "i \<noteq> idx \<Longrightarrow> Challenges (record_validation authz idx records err) ! i = Challenges authz ! i"
  by (simp add: record_validation_def Let_def)

lemma record_validation_fields [simp]:
  "az_ID (record_validation authz idx records err) = az_ID authz"
  "az_Status (record_validation authz idx records err) = az_Status authz"
  "Combinations (record_validation authz idx records err) = Combinations authz"
  "length (Challenges (record_validation authz idx records err)) = length (Challenges authz)"
  by (simp_all add: record_validation_def Let_def)

text \<open>
  An authorization as the policy authority makes them: no challenge is valid yet and every
  single challenge is a combination.
\<close>

definition fresh_authz :: "Authorization \<Rightarrow> bool" where
  "fresh_authz authz \<longleftrightarrow> az_Status authz = StatusPending \<and>
     list_all (\<lambda>c. ch_Status c \<noteq> StatusValid) (Challenges authz) \<and>
     set (Combinations authz) = (\<lambda>i. [int i]) ` {..<length (Challenges authz)}"

lemma combo_after_validation:
  assumes "fresh_authz authz" "idx < length (Challenges authz)"
  shows "list_ex (combo_valid (Challenges (record_validation authz idx records err))) (Combinations authz) \<longleftrightarrow>
    err = None \<and> RecordsSane ((Challenges authz ! idx)\<lparr>ch_Records := records\<rparr>)"
proof -
  let ?az = "record_validation authz idx records err"
  have other: "ch_Status (Challenges ?az ! i) \<noteq> StatusValid" if "i < length (Challenges authz)" "i \<noteq> idx" for i
    using assms(1) that by (simp add: record_validation_others fresh_authz_def list_all_length)
  have "list_ex (combo_valid (Challenges ?az)) (Combinations authz) \<longleftrightarrow>
      (\<exists>i < length (Challenges authz). ch_Status (Challenges ?az ! i) = StatusValid)"
    using assms(1) by (auto simp: fresh_authz_def list_ex_iff combo_valid_def)
  also have "\<dots> \<longleftrightarrow> ch_Status (Challenges ?az ! idx) = StatusValid"
    using other assms(2) by blast
  finally show ?thesis using record_validation_status [OF assms(2)] by simp
qed

section \<open>New authorizations\<close>

lemma modelToChallenge_status: "modelToChallenge E cm = Inr c \<Longrightarrow> ch_Status c = cm_Status cm"
  by (auto simp: modelToChallenge_def Let_def go_result split: if_splits sum.splits)

lemma challengeToModel_status: "challengeToModel E c aid = Inr cm \<Longrightarrow> cm_Status cm = ch_Status c"
  by (auto simp: challengeToModel_def Let_def go_result split: if_splits sum.splits option.splits)

lemma number_rows_status: "map cm_Status (number_rows n cms) = map cm_Status cms"
  by (induction cms arbitrary: n) auto

lemma traverse_same:
  assumes "traverse f xs = Inr ys" "\<And>x y. f x = Inr y \<Longrightarrow> g y = h x"
  shows "map g ys = map h xs"
  using assms by (auto simp: traverse_Inr_iff list_all2_conv_all_nth intro!: nth_equalityI)

lemma NewPending_statuses:
  assumes "NewPendingAuthorization E draws db az = Some (db', Inr az')"
  shows "map ch_Status (Challenges az') = map ch_Status (Challenges az) \<and>
    (\<exists>aid challs. az' = az\<lparr>az_ID := aid, Challenges := challs\<rparr>)"
proof -
  obtain aid challs db1 where new: "insert_challenges E 0 aid (Challenges az) db1 = Inr (db', challs)"
    "az' = az\<lparr>az_ID := aid, Challenges := challs\<rparr>"
    using NewPending_success [OF assms] by blast
  obtain cms where cms: "traverse (\<lambda>c. challengeToModel E c aid) (Challenges az) = Inr cms"
    "traverse (modelToChallenge E) (number_rows (next_chall_id db1) cms) = Inr challs"
    using insert_challenges_eq [OF new(1)] by blast
  have "map ch_Status challs = map cm_Status (number_rows (next_chall_id db1) cms)"
    by (rule traverse_same [OF cms(2)]) (rule modelToChallenge_status)
  also have "\<dots> = map ch_Status (Challenges az)"
    unfolding number_rows_status by (rule traverse_same [OF cms(1)]) (rule challengeToModel_status)
  finally show ?thesis using new(2) by auto
qed

lemma ChallengesFor_fresh:
  assumes "\<And>n. mset (permA n) = mset [0..<n]" "\<And>n. mset (permB n) = mset [0..<n]"
    and "ChallengesFor fl rnd permA permB pa = (challs, combos)"
  shows "list_all (\<lambda>c. ch_Status c = StatusPending) challs \<and> set combos = (\<lambda>i. [i]) ` {..<length challs}"
proof -
  define cs where "cs = enabled_challenges fl rnd pa"
  have r: "challs = map (\<lambda>i. cs ! i) (permA (length cs))"
    "combos = map (\<lambda>i. map (\<lambda>i. [i]) [0..<length cs] ! i) (permB (length cs))"
    using assms(3) by (auto simp: ChallengesFor_def Let_def cs_def)
  have m: "mset challs = mset cs" unfolding r by (rule mset_map_nth_perm) (rule assms)
  have "mset combos = mset (map (\<lambda>i. [i]) [0..<length cs])"
    unfolding r by (rule mset_map_nth_perm) (simp add: assms)
  then have "set combos = (\<lambda>i. [i]) ` {..<length cs}"
    by (metis atLeast0LessThan list.set_map set_mset_mset set_upt)
  moreover have "length challs = length cs" "set challs = set cs"
    using m by (metis size_mset, metis set_mset_mset)
  moreover have "list_all (\<lambda>c. ch_Status c = StatusPending) cs"
    by (simp add: cs_def enabled_challenges_def HTTPChallenge01_def TLSSNIChallenge01_def
        TLSSNIChallenge02_def DNSChallenge01_def newChallenge_def)
  ultimately show ?thesis by (simp add: list_all_iff)
qed

lemma refusal_None:
  assumes "refusal R ra identifier regID = None"
  shows "willing R ra identifier = None" "checkPendingAuthorizationLimit R ra regID = None"
    "checkInvalidAuthorizationLimit R ra regID (Value identifier) = None"
    "id_Type identifier = IdentifierDNS \<longrightarrow> re_isSafe R (Value identifier) = Inr True"
  using assms by (auto simp: refusal_def split: option.splits sum.splits if_splits)

lemma pending_limit_None:
  assumes "checkPendingAuthorizationLimit R ra regID = None"
    and "rlp_Enabled (PendingAuthorizationsPerAccount (rlPolicies ra))"
  shows "\<exists>k. call_sa R 0 (\<lambda>E db. CountPendingAuthorizations E db regID) = Inr k \<and>
    int k < GetThreshold (PendingAuthorizationsPerAccount (rlPolicies ra)) [] regID"
  using assms by (auto simp: checkPendingAuthorizationLimit_def Let_def split: sum.splits if_splits)

lemma answered_challenge_sane:
  assumes "length rnd = 32" "length t = 32"
  shows "IsSaneForValidation ((newChallenge ty rnd)\<lparr>ProvidedKeyAuthorization :=
    NewToken rnd @ ''.'' @ raw_url_encode t\<rparr>)"
proof -
  have "looksLikeKeyAuthorization (NewToken rnd @ ''.'' @ raw_url_encode t) = None"
    using assms NewToken_LooksLikeAToken [of rnd] encoded_32_token [of t]
    by (auto simp: looksLikeKeyAuthorization_iff)
  then show ?thesis
    using assms newChallenge_sane [of rnd ty]
    by (simp add: IsSaneForValidation_def IsSane_def newChallenge_def NewToken_LooksLikeAToken)
qed

section \<open>A sample environment\<close>

text \<open>
  An account with a valid authorization for one name, no rate limits and a certificate
  authority that answers every request.
\<close>

definition sample_jwk :: JsonWebKey where
  "sample_jwk = \<lparr>jwk_Key = OtherKey ''account'', KeyID = [], Algorithm = []\<rparr>"

definition sample_ra_db :: database where
  "sample_ra_db = (sample_regs 1)\<lparr>authz_table :=
     [authz_row (sample_authz\<lparr>az_ID := ''abc'', Identifier := \<lparr>id_Type = IdentifierDNS, Value = ''a.com''\<rparr>,
        az_Status := StatusValid\<rparr>) 0]\<rparr>"

definition sample_csr :: CertificateRequest where
  "sample_csr = \<lparr>csr_Raw = [], csr_PublicKey = Some (ECDSAKey P256 1 2),
     csr_SignatureAlgorithm = SHA256WithRSA, csr_CommonName = [], csr_DNSNames = [''A.com''],
     csr_EmailAddresses = [], csr_IPAddresses = []\<rparr>"

definition sample_issued :: x509Cert where
  "sample_issued = \<lparr>x_SerialNumber = 5, x_NotBefore = 1000, x_NotAfter = 9000,
     x_PublicKey = ECDSAKey P256 1 2, x_CommonName = [], x_otherSubject = [], x_DNSNames = [''a.com''],
     x_IPAddresses = [], x_EmailAddresses = [], x_BasicConstraintsValid = True, x_IsCA = False,
     x_ExtKeyUsage = [ExtKeyUsageServerAuth, ExtKeyUsageClientAuth]\<rparr>"

definition sample_R :: ra_env where
  "sample_R = \<lparr>re_sa = \<lambda>_. (sample_env\<lparr>unmarshalJWK := \<lambda>_. Inr sample_jwk\<rparr>, sample_ra_db),
     re_clk = \<lambda>_. 1000, re_feat = \<lambda>_. True, re_idnaOK = \<lambda>_. True, re_psl = \<lambda>_. Some ''com'',
     re_psDomain = \<lambda>n. Some n,
     re_ec = \<lambda>_. \<lparr>curve_P = 7, curve_N = 5, curve_Name = ''P-256'', IsOnCurve = \<lambda>_ _. True,
       ScalarMult = \<lambda>_ _ _. (0, 0)\<rparr>,
     re_checkSig = \<lambda>_. True, re_sha256 = \<lambda>b. b,
     re_marshalPKIX = \<lambda>k. if k = ECDSAKey P256 1 2 then Some [] else None,
     re_thumbprint = \<lambda>_. Inr [], re_parseCert = \<lambda>_. Inr sample_issued,
     re_parseAddrs = \<lambda>_. None, re_urlParse = \<lambda>_. None, re_lookupMX = \<lambda>_. ([], None),
     re_lookupHost = \<lambda>_. ([], None), re_isSafe = \<lambda>_. Inr True, re_ipString = \<lambda>_. [],
     re_fmtTime = \<lambda>_. [], re_fmtDuration = \<lambda>_. [], re_fmtChallenge = \<lambda>_. []\<rparr>"

definition sample_ra :: RegistrationAuthorityImpl where
  "sample_ra = NewRegistrationAuthorityImpl ((New_pa [ChallengeTypeHTTP01 \<mapsto> True])\<lparr>blacklist := Some Map.empty\<rparr>)
     0 NewKeyPolicy 100 False False 1000 1000 True True"

definition sample_cert :: Certificate where
  "sample_cert = \<lparr>cert_RegID = 1, cert_Serial = SerialToString 5, Digest = [], DER = ''der'',
     Issued = 1000, cert_Expires = 9000\<rparr>"

definition sample_issue :: "CertificateRequest \<Rightarrow> int \<Rightarrow> goerror + Certificate" where
  "sample_issue csr regID = Inr sample_cert"

lemma sample_ra_normalized:
  "csr_DNSNames (normalizeCSR sample_csr False) = [''a.com'']"
  "csr_CommonName (normalizeCSR sample_csr False) = []"
  by (simp_all add: sample_csr_def) code_simp+

lemma sample_willing: "willing sample_R sample_ra \<lparr>id_Type = IdentifierDNS, Value = ''a.com''\<rparr> = None"
  by (simp add: willing_def sample_R_def sample_ra_def NewRegistrationAuthorityImpl_def New_pa_def) code_simp

lemma sample_R_fields [simp]:
  "re_sa sample_R n = (sample_env\<lparr>unmarshalJWK := \<lambda>_. Inr sample_jwk\<rparr>, sample_ra_db)"
  "re_clk sample_R n = 1000" "re_checkSig sample_R b"
  "re_ec sample_R c = \<lparr>curve_P = 7, curve_N = 5, curve_Name = ''P-256'', IsOnCurve = \<lambda>_ _. True,
       ScalarMult = \<lambda>_ _ _. (0, 0)\<rparr>"
  "re_marshalPKIX sample_R k = (if k = ECDSAKey P256 1 2 then Some [] else None)"
  "re_parseCert sample_R b = Inr sample_issued" "re_sha256 sample_R b = b"
  "re_isSafe sample_R v = Inr True" "re_thumbprint sample_R j = Inr []" "re_feat sample_R fl"
  by (simp_all add: sample_R_def)

lemma sample_ra_fields [simp]:
  "ra_maxNames sample_ra = 100" "ra_keyPolicy sample_ra = NewKeyPolicy" "\<not> ra_forceCNFromSAN sample_ra"
  "rlPolicies sample_ra = New_limits" "has_publisher sample_ra" "\<not> reuseValidAuthz sample_ra"
  "pendingAuthorizationLifetime sample_ra = 1000" "authorizationLifetime sample_ra = 1000"
  "usingGRPC sample_ra"
  by (simp_all add: sample_ra_def NewRegistrationAuthorityImpl_def)

lemma sample_csr_key [simp]: "csr_PublicKey sample_csr = Some (ECDSAKey P256 1 2)"
  by (simp add: sample_csr_def)

lemma sample_checks: "issuance_checks sample_R sample_ra sample_csr 1 = Inr (normalizeCSR sample_csr False)"
proof -
  have "check_normalized (re_checkSig sample_R) (re_ec sample_R) (normalizeCSR sample_csr False) 100 NewKeyPolicy
      (willing sample_R sample_ra) = None"
    unfolding check_normalized_None_iff sample_ra_normalized
    by (simp add: sample_willing goodKeyECDSA_def goodCurve_def NewKeyPolicy_def isPointAtInfinityNISTP_def)
       (simp add: sample_csr_def)
  moreover have "GetRegistration (sample_env\<lparr>unmarshalJWK := \<lambda>_. Inr sample_jwk\<rparr>) sample_ra_db 1 =
      modelToRegistration (sample_env\<lparr>unmarshalJWK := \<lambda>_. Inr sample_jwk\<rparr>) (sample_reg 1)"
    by (simp add: GetRegistration_def sample_ra_db_def sample_regs_def sample_reg_def sample_simps)
  moreover have "\<not> KeyDigestEquals (re_sha256 sample_R) (re_marshalPKIX sample_R) (RawKey (ECDSAKey P256 1 2))
      (JWKPtr (Some sample_jwk))"
    by (simp add: KeyDigestEquals_def raw_digest_def sample_jwk_def)
  moreover have "checkLimits sample_R sample_ra [''a.com''] 1 = None"
    by (simp add: checkLimits_def no_policy_no_limit)
  moreover have low: "to_lower ''a.com'' = ''a.com''" by code_simp
  have "checkAuthorizations sample_R [''a.com''] reg = None" if "reg_ID reg = 1" for reg
    by (simp add: checkAuthorizations_def call_sa_def GetValidAuthorizations_def valid_rows_def that low
        sample_ra_db_def sample_regs_def authz_row_def sample_authz_def row_authz_def sample_simps)
  ultimately show ?thesis
    by (simp add: issuance_checks_def call_sa_def VerifyCSR_def Let_def sample_ra_normalized
        modelToRegistration_def sample_reg_def)
qed

text \<open>The same with a limit on the total number of certificates.\<close>

definition sample_limited_ra :: RegistrationAuthorityImpl where
  "sample_limited_ra = sample_ra\<lparr>totalIssuedCount := 7, totalIssuedLastUpdate := 900, rlPolicies := \<lparr>rlPolicy = Some
     \<lparr>rlc_TotalCertificates = empty_policy\<lparr>Threshold := 10, Window := 100\<rparr>, rlc_CertificatesPerName = empty_policy,
      rlc_RegistrationsPerIP = empty_policy, rlc_PendingAuthorizationsPerAccount = empty_policy,
      rlc_InvalidAuthorizationsPerAccount = empty_policy, rlc_CertificatesPerFQDNSet = empty_policy\<rparr>\<rparr>\<rparr>"

lemma sample_limited_checks:
  "issuance_checks sample_R sample_limited_ra sample_csr 1 = Inr (normalizeCSR sample_csr False)"
proof -
  have "checkLimits sample_R sample_limited_ra names regID = None" for names regID
    by (simp add: checkLimits_def checkTotalCertificatesLimit_def sample_limited_ra_def TotalCertificates_def
        CertificatesPerName_def CertificatesPerFQDNSet_def rlp_Enabled_def empty_policy_def zero_time_def)
  moreover have "checkLimits sample_R sample_ra names regID = None" for names regID
    by (simp add: checkLimits_def no_policy_no_limit)
  ultimately have eqs: "checkLimits sample_R sample_limited_ra = checkLimits sample_R sample_ra"
    "willing sample_R sample_limited_ra = willing sample_R sample_ra"
    "ra_maxNames sample_limited_ra = ra_maxNames sample_ra"
    "ra_keyPolicy sample_limited_ra = ra_keyPolicy sample_ra"
    "ra_forceCNFromSAN sample_limited_ra = ra_forceCNFromSAN sample_ra"
    by (auto simp: fun_eq_iff willing_def) (simp_all add: sample_limited_ra_def)
  show ?thesis using sample_checks unfolding issuance_checks_def eqs .
qed

definition sample_fresh :: Authorization where
  "sample_fresh = sample_authz\<lparr>az_ID := ''abc'', Challenges := [newChallenge ''http-01'' ''tok''],
     Combinations := [[0]]\<rparr>"

text \<open>A pending authorization with one challenge, and the client's answer to it.\<close>

definition sample_base :: Authorization where
  "sample_base = sample_authz\<lparr>az_ID := ''abc'', Challenges := [newChallenge ''http-01'' (replicate 32 (CHR ''r''))]\<rparr>"

definition sample_answer :: Challenge where
  "sample_answer = (newChallenge ''http-01'' (replicate 32 (CHR ''r'')))\<lparr>ProvidedKeyAuthorization :=
     NewToken (replicate 32 (CHR ''r'')) @ ''.'' @ raw_url_encode (replicate 32 (CHR ''t''))\<rparr>"

definition sample_R2 :: ra_env where
  "sample_R2 = sample_R\<lparr>re_thumbprint := \<lambda>_. Inr (replicate 32 (CHR ''t'')),
     re_sa := \<lambda>_. (sample_env\<lparr>unmarshalJWK := \<lambda>_. Inr sample_jwk\<rparr>,
       (sample_regs 1)\<lparr>pendingAuthorizations := [authz_row (sample_authz\<lparr>az_ID := ''abc''\<rparr>) 1],
         challenges := [sample_chall], next_chall_id := 2\<rparr>)\<rparr>"

text \<open>What holds whenever the registration authority asks for a certificate.\<close>

lemma issue_call_authorized:
  assumes "IssueCertificateCall csr i \<in> set (fst (NewCertificate R issue ra req regID))"
  shows "i = regID \<and> csr_DNSNames csr \<noteq> [] \<and>
    set (csr_DNSNames csr) =
      to_lower ` (set (csr_DNSNames req) \<union> {cn. cn = csr_CommonName req \<and> cn \<noteq> []}) \<and>
    list_all (\<lambda>name. willing R ra \<lparr>id_Type = IdentifierDNS, Value = name\<rparr> = None \<and>
      authorizes (snd (re_sa R 4)) regID (re_clk R 2) name) (csr_DNSNames csr)"
proof -
  have i: "i = regID" "issuance_checks R ra req regID = Inr csr"
    using NewCertificate_call [OF assms] by auto
  obtain registration where reg: "GetRegistration (fst (re_sa R 0)) (snd (re_sa R 0)) regID = Inr registration"
    and csr: "csr = normalizeCSR req (ra_forceCNFromSAN ra)" "csr_DNSNames csr \<noteq> []"
    and ok: "check_normalized (re_checkSig R) (re_ec R) csr (ra_maxNames ra) (ra_keyPolicy ra) (willing R ra) = None"
      "checkAuthorizations R (csr_DNSNames csr) registration = None"
    using issuance_checks_Inr [OF i(2)] by blast
  have "authorizes (snd (re_sa R 4)) regID (re_clk R 2) name" if "name \<in> set (csr_DNSNames csr)" for name
    using checkAuthorizations_None [OF ok(2)] that normalize_lower(1) [of name req "ra_forceCNFromSAN ra"]
      GetRegistration_ID [OF reg] by (metis csr(1))
  moreover have "list_all (\<lambda>n. willing R ra \<lparr>id_Type = IdentifierDNS, Value = n\<rparr> = None) (csr_DNSNames csr)"
    using ok(1) unfolding check_normalized_None_iff by blast
  ultimately show ?thesis
    using i(1) csr(2) normalize_names [of req "ra_forceCNFromSAN ra"] by (auto simp: list_all_iff csr(1))
qed

section \<open>Properties\<close>

text \<open>
  C3: No certificate without authorization. Whenever the registration authority asks for a
  certificate, it does so for the names of the client's request (in lower case) only, the
  policy accepts each of them, and for each the account holds an authorization that is valid
  and not expired in the database at the time of the check.
\<close>

theorem issuance_requires_authorization:
  assumes "IssueCertificateCall csr i \<in> set (fst (NewCertificate R issue ra req regID))"
  shows "i = regID \<and> csr_DNSNames csr \<noteq> [] \<and>
    set (csr_DNSNames csr) =
      to_lower ` (set (csr_DNSNames req) \<union> {cn. cn = csr_CommonName req \<and> cn \<noteq> []}) \<and>
    list_all (\<lambda>name. willing R ra \<lparr>id_Type = IdentifierDNS, Value = name\<rparr> = None \<and>
      authorizes (snd (re_sa R 4)) regID (re_clk R 2) name) (csr_DNSNames csr)"
  by (rule issue_call_authorized [OF assms])

theorem issuance_requires_authorization_witness:
  "authorizes sample_ra_db 1 1000 ''a.com''"
proof -
  have "IssueCertificateCall (normalizeCSR sample_csr False) 1 \<in>
      set (fst (NewCertificate sample_R sample_issue sample_ra sample_csr 1))"
    by (simp add: NewCertificate_def sample_checks sample_issue_def)
  from issuance_requires_authorization [OF this] show ?thesis by (simp add: sample_ra_normalized)
qed





text \<open>
  C7: Validation decides. When the background job of a fresh authorization stores its result,
  the authorization is valid exactly when the validation authority reported no problem and
  returned sane records for the challenge, and invalid otherwise.
\<close>

theorem validation_decides:
  assumes "db_inv db" "fresh_authz authz" "idx < length (Challenges authz)"
    and "validation_job R ra E db authz idx records err = (db', Inr ())"
  shows "stage_of db' (az_ID authz) =
    Closed (if err = None \<and> RecordsSane ((Challenges authz ! idx)\<lparr>ch_Records := records\<rparr>)
            then StatusValid else StatusInvalid)"
proof -
  let ?az = "record_validation authz idx records err"
  have "az_Status ?az = StatusPending" using assms(2) by (simp add: fresh_authz_def)
  then obtain az where az: "FinalizeAuthorization E db az = (db', Inr ())" "az_ID az = az_ID authz"
    "az_Status az = (if list_ex (combo_valid (Challenges ?az)) (Combinations authz)
       then StatusValid else StatusInvalid)"
    using assms(4) by (auto simp: validation_job_def onValidationUpdate_def Let_def status_defs split: if_splits)
  from Finalize_stage [OF az(1) db_inv_parts(1) [OF assms(1)]] show ?thesis
    by (simp add: az(2,3) combo_after_validation [OF assms(2,3)])
qed

theorem validation_decides_witness:
  "stage_of (fst (validation_job sample_R sample_ra sample_env sample_pending sample_fresh 0 [] None)) ''abc'' =
     Closed StatusInvalid"
proof -
  have "snd (validation_job sample_R sample_ra sample_env sample_pending sample_fresh 0 [] None) = Inr ()"
    by (simp add: validation_job_def onValidationUpdate_def record_validation_def sample_fresh_def
        FinalizeAuthorization_def sample_pending_def existingPending_def empty_db_def sample_authz_def
        authz_row_def sample_simps statusIsPending_def status_defs updateChallenges_def challenges_of_def
        sample_chall_def challengeToModel_def newChallenge_def update_challenge_def RecordsSane_def
        combo_valid_def probs_ServerInternal_def mediumBlobSize_def)
  then have "validation_job sample_R sample_ra sample_env sample_pending sample_fresh 0 [] None =
      (fst (validation_job sample_R sample_ra sample_env sample_pending sample_fresh 0 [] None), Inr ())"
    by (simp add: prod_eq_iff)
  moreover have "fresh_authz sample_fresh" "az_ID sample_fresh = ''abc''" "0 < length (Challenges sample_fresh)"
    by (simp_all add: fresh_authz_def sample_fresh_def sample_authz_def newChallenge_def status_defs lessThan_Suc)
  ultimately show ?thesis
    using validation_decides [OF sample_pending_inv] by (fastforce simp: RecordsSane_def)
qed

text \<open>
  C8: Only answered challenges are validated. A validation is started only for a challenge of
  an authorization that has not expired, after the client returned the key authorization made
  of the challenge's token and the thumbprint of the account's key, and after the challenge
  with that answer was stored.
\<close>

theorem validation_needs_key_authorization:
  assumes "UpdateAuthorization_ra R ra base i response = Some (result, written, Some (authz, idx))"
  shows "\<exists>reg key thumb e. az_Expires base = Some e \<and> re_clk R 0 \<le> e \<and>
    i = int idx \<and> idx < length (Challenges base) \<and>
    GetRegistration (fst (re_sa R 0)) (snd (re_sa R 0)) (RegistrationID base) = Inr reg \<and>
    reg_Key reg = Some key \<and> re_thumbprint R key = Inr thumb \<and>
    ProvidedKeyAuthorization response = Token (Challenges base ! idx) @ ''.'' @ raw_url_encode thumb \<and>
    authz = base\<lparr>Challenges := (Challenges base)[idx := (Challenges base ! idx)
      \<lparr>ProvidedKeyAuthorization := ProvidedKeyAuthorization response\<rparr>]\<rparr> \<and>
    IsSaneForValidation (Challenges authz ! idx) \<and>
    (\<exists>db'. written = Some db' \<and>
       UpdatePendingAuthorization (fst (re_sa R 1)) (snd (re_sa R 1)) authz = (db', Inr ()))"
proof -
  obtain e where e: "az_Expires base = Some e" "re_clk R 0 \<le> e"
    using assms by (auto simp: UpdateAuthorization_ra_def split: if_splits option.splits)
  have i: "0 \<le> i" "i < int (length (Challenges base))"
    using assms by (auto simp: UpdateAuthorization_ra_def split: if_splits)
  have "\<not> (reuseValidAuthz ra \<and> az_Status base = StatusValid)"
    using assms e i by (auto simp: UpdateAuthorization_ra_def split: if_splits)
  then show ?thesis
    using assms e i
    by (auto simp: UpdateAuthorization_ra_def call_sa_def Let_def ExpectedKeyAuthorization_def go_result
        not_less nat_less_iff split: if_splits option.splits sum.splits prod.splits)
qed



theorem validation_needs_key_authorization_witness:
  "\<exists>result written. UpdateAuthorization_ra sample_R2 sample_ra sample_base 0 sample_answer =
     Some (result, written, Some (sample_base\<lparr>Challenges := [sample_answer]\<rparr>, 0)) \<and>
     IsSaneForValidation sample_answer"
proof -
  have sane: "IsSaneForValidation sample_answer"
    unfolding sample_answer_def by (rule answered_challenge_sane) simp_all
  have reg: "GetRegistration (fst (re_sa sample_R2 0)) (snd (re_sa sample_R2 0)) 1 =
      modelToRegistration (fst (re_sa sample_R2 0)) (sample_reg 1)"
    by (simp add: GetRegistration_def sample_R2_def sample_regs_def sample_reg_def sample_simps)
  have upd: "snd (UpdatePendingAuthorization (fst (re_sa sample_R2 1)) (snd (re_sa sample_R2 1))
      (sample_base\<lparr>Challenges := [sample_answer]\<rparr>)) = Inr ()"
    by (simp add: UpdatePendingAuthorization_def sample_R2_def sample_regs_def existingFinal_def existingPending_def
        empty_db_def sample_base_def sample_authz_def authz_row_def sample_simps statusIsPending_def status_defs
        updateChallenges_def challenges_of_def sample_chall_def sample_answer_def challengeToModel_def
        newChallenge_def update_challenge_def)
  have "UpdateAuthorization_ra sample_R2 sample_ra sample_base 0 sample_answer =
     Some ((sample_base\<lparr>Challenges := [sample_answer]\<rparr>, None),
       Some (fst (UpdatePendingAuthorization (fst (re_sa sample_R2 1)) (snd (re_sa sample_R2 1))
         (sample_base\<lparr>Challenges := [sample_answer]\<rparr>))),
       Some (sample_base\<lparr>Challenges := [sample_answer]\<rparr>, 0))"
    using sane reg upd
    by (simp add: UpdateAuthorization_ra_def call_sa_def sample_base_def sample_authz_def split_def
        ExpectedKeyAuthorization_def modelToRegistration_def sample_reg_def)
       (simp add: sample_R2_def sample_answer_def newChallenge_def split_def Let_def ExpectedKeyAuthorization_def
          call_sa_def)
  from validation_needs_key_authorization [OF this] this show ?thesis by (auto simp: sample_base_def)
qed

end
