(* ===== verification/CaProps.thy ===== *)
theory CaProps
  imports Ca RaProps
begin

text \<open>
  What the certificate authority signs, what happens to a certificate once it is signed, and
  for which certificates it answers status requests.
\<close>

section \<open>Serial numbers\<close>

lemma set_bytes_snoc: "set_bytes (b @ [c]) = set_bytes b * 256 + int (of_char c)"
  by (simp add: set_bytes_def)

lemma set_bytes_bound: "0 \<le> set_bytes b \<and> set_bytes b < 256 ^ length b"
proof (induction b rule: rev_induct)
  case Nil
  then show ?case by (simp add: set_bytes_def)
next
  case (snoc c b)
  have "int (of_char c) < 256" "0 \<le> int (of_char c)" using of_char_less [of c] by linarith+
  moreover have "(256::int) ^ length (b @ [c]) = 256 * 256 ^ length b" by simp
  ultimately show ?case using snoc unfolding set_bytes_snoc by linarith
qed

lemma set_bytes_Cons: "set_bytes (c # b) = int (of_char c) * 256 ^ length b + set_bytes b"
proof (induction b rule: rev_induct)
  case Nil
  then show ?case by (simp add: set_bytes_def)
next
  case (snoc x b)
  have "set_bytes (c # b @ [x]) = set_bytes (c # b) * 256 + int (of_char x)"
    using set_bytes_snoc [of "c # b" x] by simp
  with snoc show ?case by (simp add: set_bytes_snoc algebra_simps)
qed

lemma serial_number_prefix:
  assumes "0 < ca_prefix ca" "ca_prefix ca < 256" "length rnd = 17"
  shows "serial_number ca rnd div 2 ^ 136 = ca_prefix ca" "0 < serial_number ca rnd" "serial_number ca rnd < 2 ^ 144"
proof -
  have pow: "(256::int) ^ 17 = 2 ^ 136" using power_mult [of "2::int" 8 17] by simp
  have "int (of_char (char_of (ca_prefix ca) :: char)) = ca_prefix ca"
    using assms(1,2) by (simp add: of_nat_of_char)
  then have s: "serial_number ca rnd = ca_prefix ca * 2 ^ 136 + set_bytes rnd"
    using assms pow by (simp add: serial_number_def set_bytes_Cons)
  have b: "0 \<le> set_bytes rnd" "set_bytes rnd < 2 ^ 136" using set_bytes_bound [of rnd] assms(3) pow by auto
  show "serial_number ca rnd div 2 ^ 136 = ca_prefix ca" using s b by simp
  have "ca_prefix ca * 2 ^ 136 \<le> 255 * 2 ^ 136" "1 * 2 ^ 136 \<le> ca_prefix ca * 2 ^ 136"
    using assms(1,2) by simp_all
  then show "0 < serial_number ca rnd" "serial_number ca rnd < 2 ^ 144" using s b by simp_all
qed

section \<open>Extensions\<close>

lemma extensions_loop_shape:
  "extensions_loop ms seen exts todo = Inr out \<Longrightarrow>
     out = exts \<or>
     (ms \<and> out = exts @ [mustStapleExtension] \<and> oidTLSFeature \<notin> set seen \<and>
      (oidTLSFeature, ExtBytes mustStapleFeatureValue) \<in> set todo)"
proof (induction ms seen exts todo rule: extensions_loop.induct)
  case (1 ms seen exts)
  then show ?case by simp
next
  case (2 ms seen exts ty v rest)
  show ?case
  proof (cases "ty \<in> set seen")
    case True
    with 2 show ?thesis by auto
  next
    case new: False
    show ?thesis
    proof (cases "ty = oidTLSFeature")
      case True
      with 2(4) new have v: "v = ExtBytes mustStapleFeatureValue"
        "extensions_loop ms (ty # seen) (if ms then exts @ [mustStapleExtension] else exts) rest = Inr out"
        by (auto split: ext_value.splits if_splits)
      with 2(2) [OF new True] True have "out = (if ms then exts @ [mustStapleExtension] else exts)" by auto
      with True new v show ?thesis by auto
    next
      case False
      with 2 new show ?thesis by auto
    qed
  qed
qed

lemma extensionsFromCSR_shape:
  assumes "extensionsFromCSR E ca csr = Inr exts"
  shows "exts = [] \<or> exts = [mustStapleExtension] \<and> enableMustStaple ca \<and>
    (oidTLSFeature, ExtBytes mustStapleFeatureValue) \<in> set (requested_extensions (cae_attributes E (csr_Raw csr)))"
  using extensions_loop_shape [OF assms [unfolded extensionsFromCSR_def]] by auto

section \<open>Issuance\<close>

lemma prepare_signing_Inr:
  assumes "prepare_signing E ca req = Inr sr"
  obtains csr exts rnd where
    "csr = normalizeCSR req (ca_forceCNFromSAN ca)"
    "check_normalized (cae_checkSig E) (cae_ec E) csr (ca_maxNames ca) (ca_keyPolicy ca) (cae_willing E) = None"
    "extensionsFromCSR E ca csr = Inr exts"
    "cae_now E + validityPeriod ca \<le> x_NotAfter (ii_cert (defaultIssuer ca))" "cae_rand E = Inr rnd"
    "profile_of ca (csr_PublicKey csr) = Inr (sr_Profile sr)"
    "sr_Hosts sr = csr_DNSNames csr" "sr_CN sr = csr_CommonName csr" "sr_Serial sr = serial_number ca rnd"
    "sr_Extensions sr = exts"
  using assms
  by (auto simp: prepare_signing_def VerifyCSR_def Let_def not_less split: prod.splits option.splits sum.splits if_splits)

lemma IssueCertificate_SignCall:
  assumes "IssueCertificate E ca req regID = (db', effects, r)" "SignCall issuer sr \<in> set effects"
  shows "issuer = defaultIssuer ca \<and> prepare_signing E ca req = Inr sr"
  using assms
  by (auto simp: IssueCertificate_def Let_def split: prod.splits option.splits sum.splits if_splits)

lemma checked_names:
  assumes "check_normalized sig ec (normalizeCSR req f) maxN kp willingToIssue = None"
  shows "csr_DNSNames (normalizeCSR req f) \<noteq> []"
  using assms normalize_cn [of req f] unfolding check_normalized_None_iff by fastforce

text \<open>What the signer made of a request, and the bytes of the certificate in it.\<close>

definition signed_cert :: "ca_env \<Rightarrow> CertificateAuthorityImpl \<Rightarrow> CertificateRequest \<Rightarrow> bytes \<Rightarrow> bool" where
  "signed_cert E ca req der \<longleftrightarrow>
     (\<exists>sr pem. prepare_signing E ca req = Inr sr \<and> cae_sign E (defaultIssuer ca) sr = Inr pem \<and>
        decode_certificate E pem = Inr der)"

definition stored_in :: "bytes \<Rightarrow> int \<Rightarrow> database \<Rightarrow> bool" where
  "stored_in der regID db \<longleftrightarrow> list_ex (\<lambda>c. DER c = der \<and> cert_RegID c = regID) (certificates db)"

lemma IssueCertificate_cases:
  assumes "IssueCertificate E ca req regID = (db', effects, r)"
  shows "(\<exists>der. signed_cert E ca req der \<and> r = Inr (zero_certificate der) \<and>
            (\<exists>ocsp digest. AddCertificate (fst (cae_sa E)) (cae_parse E) (snd (cae_sa E)) der regID ocsp = (db', Inr digest)) \<and>
            (PublisherCall der \<in> set effects \<longleftrightarrow> ca_Publisher ca)) \<or>
         (\<exists>der sr err. signed_cert E ca req der \<and> prepare_signing E ca req = Inr sr \<and> r = Inl err \<and> db' = snd (cae_sa E) \<and>
            AuditErrLine (orphan_line (SerialToString (sr_Serial sr)) der err regID) \<in> set effects) \<or>
         (\<exists>err. (\<forall>der. \<not> signed_cert E ca req der) \<and> r = Inl err \<and> db' = snd (cae_sa E))"
proof -
  obtain saE db where sa: "cae_sa E = (saE, db)" by (cases "cae_sa E")
  show ?thesis
  proof (cases "\<exists>der. signed_cert E ca req der")
    case False
    with assms sa show ?thesis
      by (intro disjI2)
        (auto simp: IssueCertificate_def signed_cert_def Let_def split: prod.splits sum.splits option.splits if_splits)
  next
    case True
    then obtain der sr pem where d: "prepare_signing E ca req = Inr sr"
      "cae_sign E (defaultIssuer ca) sr = Inr pem" "decode_certificate E pem = Inr der"
      by (auto simp: signed_cert_def)
    then have sg: "signed_cert E ca req der" by (auto simp: signed_cert_def)
    define ocsp where "ocsp = (if cae_enabled E GenerateOCSPEarly then
      (case GenerateOCSP E ca \<lparr>CertDER = der, ocsp_Status = ''good'', Reason = 0, RevokedAt = zero_time\<rparr> of
         Inr resp \<Rightarrow> resp | Inl _ \<Rightarrow> []) else [])"
    obtain db2 res where add: "AddCertificate saE (cae_parse E) db der regID ocsp = (db2, res)"
      by (cases "AddCertificate saE (cae_parse E) db der regID ocsp")
    show ?thesis
    proof (cases res)
      case (Inl e)
      with add have "db2 = db" by (simp add: AddCertificate_failure)
      with assms sa d add Inl sg show ?thesis
        by (intro disjI2 disjI1 exI [of _ der] exI [of _ sr])
          (auto simp: IssueCertificate_def Let_def ocsp_def)
    next
      case (Inr digest)
      with assms sa d add sg show ?thesis
        by (intro disjI1 exI [of _ der])
          (auto simp: IssueCertificate_def Let_def ocsp_def split: if_splits)
    qed
  qed
qed

lemma signed_cert_unique: "signed_cert E ca req der \<Longrightarrow> signed_cert E ca req der' \<Longrightarrow> der = der'"
  by (auto simp: signed_cert_def)

lemma AddCertificate_stores:
  "AddCertificate saE pc db der regID ocsp = (db', Inr digest) \<Longrightarrow> stored_in der regID db'"
  using AddCertificate_success [of saE pc db der regID ocsp db' digest]
  by (auto simp: stored_in_def with_certificate_def Let_def)

section \<open>Construction\<close>

text \<open>
  A well-formed authority: every issuer is filed under its own common name, the default
  issuer is one of them, and the serial prefix is one non-zero byte.
\<close>

definition issuers_wf :: "(string \<times> internalIssuer) list \<Rightarrow> bool" where
  "issuers_wf m \<longleftrightarrow> wf_map m \<and> list_all (\<lambda>(cn, i). x_CommonName (ii_cert i) = cn) m"

definition ca_wf :: "CertificateAuthorityImpl \<Rightarrow> bool" where
  "ca_wf ca \<longleftrightarrow> 0 < ca_prefix ca \<and> ca_prefix ca < 256 \<and> issuers_wf (ca_issuers ca) \<and>
     map_of (ca_issuers ca) (x_CommonName (ii_cert (defaultIssuer ca))) = Some (defaultIssuer ca) \<and>
     rsaProfile ca \<noteq> [] \<and> ecdsaProfile ca \<noteq> []"

lemma list_all_update: "list_all P m \<Longrightarrow> P (k, v) \<Longrightarrow> list_all P (AList.update k v m)"
  by (induction m) auto

lemma issuers_wf_update:
  "issuers_wf m \<Longrightarrow> x_CommonName (ii_cert i) = cn \<Longrightarrow> issuers_wf (AList.update cn i m)"
  by (simp add: issuers_wf_def list_all_update)

lemma make_issuers_wf:
  "make_issuers ns m issuers = Inr out \<Longrightarrow> issuers_wf m \<Longrightarrow>
     issuers_wf out \<and> (\<forall>cn i. map_of m cn = Some i \<longrightarrow> map_of out cn = Some i)"
proof (induction ns m issuers rule: make_issuers.induct)
  case (1 ns m)
  then show ?case by simp
next
  case (2 ns m iss issuers)
  then obtain cert key where c: "iss_Cert iss = Some cert" "iss_Signer iss = Some key" "ns key cert = None"
    "map_of m (x_CommonName cert) = None"
    "make_issuers ns (AList.update (x_CommonName cert) \<lparr>ii_cert = cert, ii_key = key\<rparr> m) issuers = Inr out"
    by (auto simp: Let_def split: option.splits if_splits)
  have "issuers_wf out \<and> (\<forall>cn i. map_of (AList.update (x_CommonName cert) \<lparr>ii_cert = cert, ii_key = key\<rparr> m) cn = Some i \<longrightarrow>
      map_of out cn = Some i)"
    using 2(1) [OF refl c(1,2,3) refl _ c(5)] 2(3) c(4) by (simp add: issuers_wf_update)
  with c(4) show ?case unfolding update_conv' fun_upd_apply by (metis option.distinct(1))
qed

lemma makeInternalIssuers_wf:
  assumes "makeInternalIssuers ns issuers = Inr out"
  shows "issuers_wf out" "\<exists>i. map_of out (x_CommonName (the (iss_Cert (issuers ! 0)))) = Some i \<and>
    x_CommonName (ii_cert i) = x_CommonName (the (iss_Cert (issuers ! 0)))"
proof -
  obtain iss rest where i: "issuers = iss # rest" and m: "make_issuers ns [] issuers = Inr out"
    using assms by (cases issuers) (auto simp: makeInternalIssuers_def)
  have e: "issuers_wf []" by (simp add: issuers_wf_def)
  show "issuers_wf out" using make_issuers_wf [OF m e] by blast
  from m i obtain cert key where c: "iss_Cert iss = Some cert"
    "make_issuers ns [(x_CommonName cert, \<lparr>ii_cert = cert, ii_key = key\<rparr>)] rest = Inr out"
    by (auto simp: Let_def split: option.splits if_splits)
  have "issuers_wf [(x_CommonName cert, \<lparr>ii_cert = cert, ii_key = key\<rparr>)]"
    by (simp add: issuers_wf_def wf_map_def)
  with make_issuers_wf [OF c(2)] c(1) i
  show "\<exists>i. map_of out (x_CommonName (the (iss_Cert (issuers ! 0)))) = Some i \<and>
    x_CommonName (ii_cert i) = x_CommonName (the (iss_Cert (issuers ! 0)))" by auto
qed

lemma NewCertificateAuthorityImpl_wf:
  assumes "NewCertificateAuthorityImpl lc ns pd config issuers kp = Inr ca"
  shows "ca_wf ca"
proof -
  obtain out where out: "makeInternalIssuers ns issuers = Inr out" "ca_issuers ca = out"
    "defaultIssuer ca = the (map_of out (x_CommonName (the (iss_Cert (issuers ! 0)))))"
    "0 < ca_prefix ca" "ca_prefix ca < 256" "rsaProfile ca \<noteq> []" "ecdsaProfile ca \<noteq> []"
    using assms
    by (auto simp: NewCertificateAuthorityImpl_def Let_def split: if_splits option.splits sum.splits)
  with makeInternalIssuers_wf [OF out(1)] show ?thesis by (auto simp: ca_wf_def)
qed

section \<open>A sample authority\<close>

definition sample_issuer_cert :: x509Cert where
  "sample_issuer_cert = sample_issued\<lparr>x_NotAfter := 1000000, x_CommonName := ''happy hacker'', x_IsCA := True\<rparr>"

definition sample_ca_config :: CAConfig where
  "sample_ca_config = \<lparr>cac_SerialPrefix = 255, cac_LifespanOCSP = 10, cac_RSAProfile = ''rsaEE'', cac_ECDSAProfile = ''ecdsaEE'',
     cac_DoNotForceCN = True, cac_EnableMustStaple = True, cac_Expiry = ''8000ns'', cac_MaxNames = 100\<rparr>"

definition sample_issuers :: "Issuer list" where
  "sample_issuers = [\<lparr>iss_Signer = Some ''key'', iss_Cert = Some sample_issuer_cert\<rparr>]"

definition sample_ca :: CertificateAuthorityImpl where
  "sample_ca = \<lparr>rsaProfile = ''rsaEE'', ecdsaProfile = ''ecdsaEE'',
     ca_issuers = [(''happy hacker'', \<lparr>ii_cert = sample_issuer_cert, ii_key = ''key''\<rparr>)],
     defaultIssuer = \<lparr>ii_cert = sample_issuer_cert, ii_key = ''key''\<rparr>, ca_keyPolicy = NewKeyPolicy,
     ca_prefix = 255, validityPeriod = 8000, ca_maxNames = 100, ca_forceCNFromSAN = False,
     enableMustStaple = True, ca_Publisher = False\<rparr>"

lemma sample_ca_new:
  "NewCertificateAuthorityImpl None (\<lambda>_ _. None) (\<lambda>_. Inr 8000) sample_ca_config sample_issuers NewKeyPolicy = Inr sample_ca"
  by (simp add: NewCertificateAuthorityImpl_def sample_ca_config_def makeInternalIssuers_def sample_issuers_def
      sample_ca_def sample_issuer_cert_def Let_def)

definition sample_ca_env :: ca_env where
  "sample_ca_env = \<lparr>cae_enabled = \<lambda>_. False, cae_now = 1000, cae_rand = Inr (replicate 17 (CHR ''s'')),
     cae_willing = willing sample_R sample_ra, cae_ec = re_ec sample_R, cae_checkSig = \<lambda>_. True,
     cae_attributes = \<lambda>_. [], cae_pemEncode = \<lambda>ty b. b, cae_pemDecode = \<lambda>s. Some (''CERTIFICATE'', s),
     cae_sign = \<lambda>_ _. Inr ''der'', cae_ocspSign = \<lambda>_ _. Inr [], cae_parse = \<lambda>_. Inr sample_issued,
     cae_issuerCN = \<lambda>_. ''happy hacker'', cae_checkSignatureFrom = \<lambda>_ _. None, cae_sa = (sample_env, empty_db)\<rparr>"

lemma sample_csr_checked:
  "check_normalized (\<lambda>_. True) (re_ec sample_R) (normalizeCSR sample_csr False) 100 NewKeyPolicy
      (willing sample_R sample_ra) = None"
  unfolding check_normalized_None_iff sample_ra_normalized
  by (simp add: sample_willing goodKeyECDSA_def goodCurve_def NewKeyPolicy_def isPointAtInfinityNISTP_def)
     (simp add: sample_csr_def)

definition sample_sign_request :: sign_request where
  "sample_sign_request = \<lparr>sr_Request = [], sr_Profile = ''ecdsaEE'', sr_Hosts = [''a.com''], sr_CN = [],
     sr_SubjectSerial = SerialToString (serial_number sample_ca (replicate 17 (CHR ''s''))),
     sr_Serial = serial_number sample_ca (replicate 17 (CHR ''s'')), sr_Extensions = []\<rparr>"

lemma sample_prepared: "prepare_signing sample_ca_env sample_ca sample_csr = Inr sample_sign_request"
  by (simp add: prepare_signing_def VerifyCSR_def sample_ca_env_def sample_ca_def sample_csr_checked Let_def
      extensionsFromCSR_def requested_extensions_def sample_issuer_cert_def sample_ra_normalized profile_of_def
      sample_sign_request_def serial_number_def)
     (simp add: sample_csr_def)

lemma sample_added:
  "\<exists>db' digest. AddCertificate sample_env (\<lambda>_. Inr sample_issued) empty_db ''der'' 1 [] = (db', Inr digest)"
  by (simp add: AddCertificate_def sample_issued_def sample_simps empty_db_def addIssuedNames_def addFQDNSet_def)

lemma sample_issuance:
  obtains db' r where "IssueCertificate sample_ca_env sample_ca sample_csr 1 =
     (db', [SignCall (defaultIssuer sample_ca) sample_sign_request], r)"
proof -
  obtain db' digest where add:
    "AddCertificate sample_env (\<lambda>_. Inr sample_issued) empty_db ''der'' 1 [] = (db', Inr digest)"
    using sample_added by blast
  have "cae_sa sample_ca_env = (sample_env, empty_db)" "cae_parse sample_ca_env = (\<lambda>_. Inr sample_issued)"
    "cae_sign sample_ca_env i sr = Inr ''der''" "decode_certificate sample_ca_env ''der'' = Inr ''der''"
    "\<not> cae_enabled sample_ca_env fl" "\<not> ca_Publisher sample_ca" for i sr fl
    by (simp_all add: sample_ca_env_def sample_ca_def decode_certificate_def)
  with add have "IssueCertificate sample_ca_env sample_ca sample_csr 1 =
     (db', [SignCall (defaultIssuer sample_ca) sample_sign_request], Inr (zero_certificate ''der''))"
    by (simp add: IssueCertificate_def sample_prepared Let_def)
  then show thesis by (rule that)
qed

lemma sample_signed: "signed_cert sample_ca_env sample_ca sample_csr ''der''"
  by (simp add: signed_cert_def sample_prepared) (simp add: sample_ca_env_def decode_certificate_def)

section \<open>Properties\<close>





text \<open>
  C15: No signed certificate is lost. When the signer has produced a certificate, the authority
  either stores it for the account and returns it, or it returns an error, leaves the
  database as it was and writes a log line with the certificate and the account.
\<close>

theorem signed_certificate_not_lost:
  assumes "IssueCertificate E ca req regID = (db', effects, r)" and "signed_cert E ca req der"
  shows "r = Inr (zero_certificate der) \<and> stored_in der regID db' \<or>
    (\<exists>err serialHex. r = Inl err \<and> db' = snd (cae_sa E) \<and>
       AuditErrLine (orphan_line serialHex der err regID) \<in> set effects)"
  using IssueCertificate_cases [OF assms(1)]
proof (elim disjE exE conjE)
  fix d ocsp digest
  assume "signed_cert E ca req d" "r = Inr (zero_certificate d)"
    "AddCertificate (fst (cae_sa E)) (cae_parse E) (snd (cae_sa E)) d regID ocsp = (db', Inr digest)"
  then show ?thesis using signed_cert_unique [OF assms(2)] AddCertificate_stores by blast
next
  fix d sr err
  assume "signed_cert E ca req d" "r = Inl err" "db' = snd (cae_sa E)"
    "AuditErrLine (orphan_line (SerialToString (sr_Serial sr)) d err regID) \<in> set effects"
  then show ?thesis using signed_cert_unique [OF assms(2)] by blast
qed (use assms(2) in blast)

theorem signed_certificate_not_lost_witness:
  "\<exists>db' effects r. IssueCertificate sample_ca_env sample_ca sample_csr 1 = (db', effects, r) \<and>
     (r = Inr (zero_certificate ''der'') \<and> stored_in ''der'' 1 db' \<or>
      (\<exists>err serialHex. r = Inl err \<and> AuditErrLine (orphan_line serialHex ''der'' err 1) \<in> set effects))"
proof -
  obtain db' r where run: "IssueCertificate sample_ca_env sample_ca sample_csr 1 =
     (db', [SignCall (defaultIssuer sample_ca) sample_sign_request], r)"
    by (rule sample_issuance)
  from signed_certificate_not_lost [OF run sample_signed] run show ?thesis by blast
qed

end
