(* ===== verification/Orphan.thy ===== *)
theory Orphan
  imports CaProps "HOL-Library.Sublist"
begin

text \<open>
  The orphan finder (\<^verbatim>\<open>cmd/orphan-finder/main.go\<close>): it reads the log of the certificate
  authority, or a file, and stores the certificates that the authority could not store. The
  two regular expressions are searched by \<open>find_submatch\<close>. The storage authority is an
  interface with two operations, interpreted below by those of \<open>Sa\<close>.
\<close>

section \<open>Model\<close>

text \<open>
  The leftmost match of a literal, a non-empty run of a character class, and a closing bracket
  that is not in the class; the value is the run. The run is greedy and there is no other.
\<close>

definition match_at :: "string \<Rightarrow> (char \<Rightarrow> bool) \<Rightarrow> string \<Rightarrow> string option" where
  "match_at pre cls s =
     (if prefix pre s then
        (let rest = drop (length pre) s; run = takeWhile cls rest in
         if run \<noteq> [] \<and> prefix '']'' (drop (length run) rest) then Some run else None)
      else None)"

fun find_submatch :: "string \<Rightarrow> (char \<Rightarrow> bool) \<Rightarrow> string \<Rightarrow> string option" where
  "find_submatch pre cls [] = None"
| "find_submatch pre cls (c # s) =
     (case match_at pre cls (c # s) of Some run \<Rightarrow> Some run | None \<Rightarrow> find_submatch pre cls s)"

definition decimal_class :: "char \<Rightarrow> bool" where
  "decimal_class c = (let n = of_char c :: nat in 48 \<le> n \<and> n \<le> 57)"

definition hex_class :: "char \<Rightarrow> bool" where
  "hex_class c = (let n = of_char c :: nat in 48 \<le> n \<and> n \<le> 57 \<or> 97 \<le> n \<and> n \<le> 102)"

definition derOrphan :: "string \<Rightarrow> string option" where
  "derOrphan = find_submatch ''cert=['' hex_class"

definition regOrphan :: "string \<Rightarrow> string option" where
  "regOrphan = find_submatch ''regID=['' decimal_class"

definition contains :: "string \<Rightarrow> string \<Rightarrow> bool" where
  "contains s sub = sublist sub s"

datatype der_error = DerError string | errAlreadyExists

definition checkDER ::
  "(bytes \<Rightarrow> string + x509Cert) \<Rightarrow> (string \<Rightarrow> goerror + Certificate) \<Rightarrow> bytes \<Rightarrow> der_error option" where
  "checkDER parseCertificate getCertificate der =
     (case parseCertificate der of
        Inl err \<Rightarrow> Some (DerError (''Failed to parse DER: '' @ err))
      | Inr cert \<Rightarrow>
          (case getCertificate (SerialToString (x_SerialNumber cert)) of
             Inr _ \<Rightarrow> Some errAlreadyExists
           | Inl err \<Rightarrow>
               if (case err of core_NotFoundError _ \<Rightarrow> True | _ \<Rightarrow> False) \<or> berrors_Is err NotFound
               then None
               else Some (DerError (''Existing certificate lookup failed: '' @ Error err))))"

text \<open>The state of the storage, and whether an orphan was found and was added.\<close>

definition parseLogLine ::
  "(bytes \<Rightarrow> string + x509Cert) \<Rightarrow> ('s \<Rightarrow> string \<Rightarrow> goerror + Certificate) \<Rightarrow>
   ('s \<Rightarrow> bytes \<Rightarrow> int \<Rightarrow> bytes \<Rightarrow> 's \<times> (goerror + string)) \<Rightarrow> 's \<Rightarrow> string \<Rightarrow> 's \<times> bool \<times> bool" where
  "parseLogLine parseCertificate getCertificate addCertificate s line =
     (if \<not> contains line ''cert='' \<or> \<not> contains line ''orphaning certificate'' then (s, False, False)
      else
        (case derOrphan line of
           None \<Rightarrow> (s, True, False)
         | Some derStr \<Rightarrow>
             (case hex_decode derStr of
                None \<Rightarrow> (s, True, False)
              | Some der \<Rightarrow>
                  (case checkDER parseCertificate (getCertificate s) der of
                     Some _ \<Rightarrow> (s, True, False)
                   | None \<Rightarrow>
                       (case regOrphan line of
                          None \<Rightarrow> (s, True, False)
                        | Some regStr \<Rightarrow>
                            (case Atoi regStr of
                               None \<Rightarrow> (s, True, False)
                             | Some regID \<Rightarrow>
                                 (case addCertificate s der regID [] of
                                    (s', Inl _) \<Rightarrow> (s', True, False)
                                  | (s', Inr _) \<Rightarrow> (s', True, True))))))))"

definition newline :: char where "newline = CHR 0x0A"

fun parse_lines ::
  "('s \<Rightarrow> string \<Rightarrow> 's \<times> bool \<times> bool) \<Rightarrow> 's \<Rightarrow> nat \<Rightarrow> nat \<Rightarrow> string list \<Rightarrow> 's \<times> nat \<times> nat" where
  "parse_lines parseLine s orphansFound orphansAdded [] = (s, orphansFound, orphansAdded)"
| "parse_lines parseLine s orphansFound orphansAdded (line # lines) =
     (case parseLine s line of
        (s', found, added) \<Rightarrow>
          parse_lines parseLine s' (if found then orphansFound + 1 else orphansFound)
            (if found \<and> added then orphansAdded + 1 else orphansAdded) lines)"

definition parse_ca_log ::
  "(bytes \<Rightarrow> string + x509Cert) \<Rightarrow> ('s \<Rightarrow> string \<Rightarrow> goerror + Certificate) \<Rightarrow>
   ('s \<Rightarrow> bytes \<Rightarrow> int \<Rightarrow> bytes \<Rightarrow> 's \<times> (goerror + string)) \<Rightarrow> 's \<Rightarrow> string \<Rightarrow> 's \<times> nat \<times> nat" where
  "parse_ca_log parseCertificate getCertificate addCertificate s logData =
     parse_lines (parseLogLine parseCertificate getCertificate addCertificate) s 0 0 (split_on newline logData)"

text \<open>
  The program: its outcome is the final state with the counts, the usage message, or a fatal
  error. \<open>parseFlags\<close> is the flag parser of the standard library and \<open>setup\<close> reads the
  configuration and connects to the storage authority.
\<close>

record finder_flags =
  ff_config :: string
  ff_logFile :: string
  ff_derFile :: string
  ff_regID :: int

datatype finder_exit = Parsed nat nat | AddedDER | UsageExit | FailOnError string

definition orphan_finder ::
  "(string list \<Rightarrow> string + finder_flags) \<Rightarrow> (string \<Rightarrow> string option) \<Rightarrow> (string \<Rightarrow> string + bytes) \<Rightarrow>
   (bytes \<Rightarrow> string + x509Cert) \<Rightarrow> ('s \<Rightarrow> string \<Rightarrow> goerror + Certificate) \<Rightarrow>
   ('s \<Rightarrow> bytes \<Rightarrow> int \<Rightarrow> bytes \<Rightarrow> 's \<times> (goerror + string)) \<Rightarrow> 's \<Rightarrow> string list \<Rightarrow> 's \<times> finder_exit" where
  "orphan_finder parseFlags setup readFile parseCertificate getCertificate addCertificate s args =
     (if length args \<le> 2 then (s, UsageExit)
      else
        (case parseFlags (drop 2 args) of
           Inl err \<Rightarrow> (s, FailOnError (''Error parsing flagset: '' @ err))
         | Inr flags \<Rightarrow>
             if ff_config flags = [] then (s, UsageExit)
             else if args ! 1 = ''parse-ca-log'' then
               (case setup (ff_config flags) of
                  Some err \<Rightarrow> (s, FailOnError err)
                | None \<Rightarrow>
                    if ff_logFile flags = [] then (s, UsageExit)
                    else
                      (case readFile (ff_logFile flags) of
                         Inl err \<Rightarrow> (s, FailOnError (''Failed to read log file: '' @ err))
                       | Inr logData \<Rightarrow>
                           (case parse_ca_log parseCertificate getCertificate addCertificate s logData of
                              (s', found, added) \<Rightarrow> (s', Parsed found added))))
             else if args ! 1 = ''parse-der'' then
               (case setup (ff_config flags) of
                  Some err \<Rightarrow> (s, FailOnError err)
                | None \<Rightarrow>
                    if ff_derFile flags = [] \<or> ff_regID flags = 0 then (s, UsageExit)
                    else
                      (case readFile (ff_derFile flags) of
                         Inl err \<Rightarrow> (s, FailOnError (''Failed to read DER file: '' @ err))
                       | Inr der \<Rightarrow>
                           (case checkDER parseCertificate (getCertificate s) der of
                              Some (DerError err) \<Rightarrow> (s, FailOnError (''Pre-AddCertificate checks failed: '' @ err))
                            | Some errAlreadyExists \<Rightarrow>
                                (s, FailOnError ''Pre-AddCertificate checks failed: Certificate already exists in DB'')
                            | None \<Rightarrow>
                                (case addCertificate s der (ff_regID flags) [] of
                                   (s', Inl err) \<Rightarrow>
                                     (s', FailOnError (''Failed to add certificate to database: '' @ Error err))
                                 | (s', Inr _) \<Rightarrow> (s', AddedDER)))))
             else (s, UsageExit)))"

section \<open>The log line of the authority\<close>

lemma hex_class_encode: "c \<in> set (hex_encode b) \<Longrightarrow> hex_class c"
proof (induction b)
  case (Cons x b)
  have "hex_class (hex_char n)" if "n < 16" for n
    using that by (auto simp: hex_class_def hex_char_def Let_def)
  moreover have "(of_char x :: nat) div 16 < 16" using of_char_less [of x] by (simp add: less_mult_imp_div_less)
  ultimately show ?case using Cons by auto
qed simp

lemma decimal_class_format: "c \<in> set (format_nat n) \<Longrightarrow> decimal_class c"
  using format_nat_digits [of c n] by (auto simp: decimal_class_def digit_val_def Let_def split: if_splits)

text \<open>A text without the literal is skipped up to a character that is not in the literal.\<close>

lemma find_submatch_skip:
  "\<not> sublist pre a \<Longrightarrow> x \<notin> set pre \<Longrightarrow> find_submatch pre cls (a @ x # b) = find_submatch pre cls (x # b)"
proof (induction a)
  case (Cons c a)
  have "\<not> prefix pre (c # a @ x # b)"
  proof
    assume "prefix pre (c # a @ x # b)"
    then have "prefix pre ((c # a) @ x # b)" by simp
    then obtain r where r: "pre @ r = (c # a) @ x # b" by (metis prefix_def)
    have "length pre \<le> length (c # a)"
    proof (rule ccontr)
      assume l: "\<not> length pre \<le> length (c # a)"
      have "((c # a) @ x # b) ! length (c # a) = x" by (simp only: nth_append_length)
      then have "pre ! length (c # a) = x" using r l by (metis not_le nth_append)
      with l Cons(3) show False by (metis not_le nth_mem)
    qed
    then have "prefix pre (c # a)" using r by (metis append_eq_append_conv_if prefixI take_is_prefix)
    with Cons(2) show False by (metis prefix_imp_sublist)
  qed
  moreover have "\<not> sublist pre a" using Cons(2) by (metis sublist_Cons_right)
  ultimately show ?case using Cons by (simp add: match_at_def)
qed simp

text \<open>One step over a literal, by how much of the pattern it begins.\<close>

lemma find_submatch_step:
  "c \<noteq> p1 \<Longrightarrow> find_submatch (p1 # ps) cls (c # s) = find_submatch (p1 # ps) cls s"
  "c \<noteq> p2 \<Longrightarrow> find_submatch (p1 # p2 # ps) cls (p1 # c # s) = find_submatch (p1 # p2 # ps) cls (c # s)"
  "c \<noteq> p3 \<Longrightarrow> find_submatch (p1 # p2 # p3 # ps) cls (p1 # p2 # c # s) =
     find_submatch (p1 # p2 # p3 # ps) cls (p2 # c # s)"
  "c \<noteq> p5 \<Longrightarrow> find_submatch (p1 # p2 # p3 # p4 # p5 # ps) cls (p1 # p2 # p3 # p4 # c # s) =
     find_submatch (p1 # p2 # p3 # p4 # p5 # ps) cls (p2 # p3 # p4 # c # s)"
  by (simp_all add: match_at_def)

lemma match_at_here:
  assumes "run \<noteq> []" "\<forall>c \<in> set run. cls c" "\<not> cls (CHR '']'')" "pre \<noteq> []"
  shows "find_submatch pre cls (pre @ run @ CHR '']'' # rest) = Some run"
proof -
  have "takeWhile cls (run @ CHR '']'' # rest) = run" using assms by (simp add: takeWhile_append2)
  then have "match_at pre cls (pre @ run @ CHR '']'' # rest) = Some run"
    using assms(1) by (simp add: match_at_def)
  moreover obtain c pre' where "pre = c # pre'" using assms(4) by (cases pre) auto
  ultimately show ?thesis by simp
qed

lemma skip_hex:
  assumes "\<forall>c \<in> set h. hex_val c \<noteq> None" "CHR ''='' \<in> set pre" "x \<notin> set pre"
  shows "find_submatch pre cls (h @ x # b) = find_submatch pre cls (x # b)"
proof (rule find_submatch_skip)
  show "\<not> sublist pre h"
  proof
    assume "sublist pre h"
    with assms(2) have "CHR ''='' \<in> set h" by (auto dest: set_mono_sublist)
    with assms(1) have "hex_val (CHR ''='') \<noteq> None" by blast
    then show False by (simp add: hex_val_def)
  qed
qed (rule assms(3))

lemma der_skip:
  "find_submatch ''cert=['' cls (''ailed RPC to store at SA, orphaning certificate: serial=['' @ s) = find_submatch ''cert=['' cls s"
  "find_submatch ''cert=['' cls (CHR ''F'' # s) = find_submatch ''cert=['' cls s"
  "find_submatch ''cert=['' cls (CHR '']'' # CHR '' '' # s) = find_submatch ''cert=['' cls s"
  by (simp_all add: find_submatch_step del: find_submatch.simps)

lemma reg_skip:
  "find_submatch ''regID=['' cls (''ailed RPC to store at SA, orphaning certificate: serial=['' @ s) = find_submatch ''regID=['' cls s"
  "find_submatch ''regID=['' cls (CHR ''F'' # s) = find_submatch ''regID=['' cls s"
  "find_submatch ''regID=['' cls (CHR '']'' # '' cert=['' @ s) = find_submatch ''regID=['' cls s"
  "find_submatch ''regID=['' cls (CHR '']'' # '' err=['' @ s) = find_submatch ''regID=['' cls s"
  "find_submatch ''regID=['' cls (CHR '']'' # '', '' @ s) = find_submatch ''regID=['' cls s"
  by (simp_all add: find_submatch_step del: find_submatch.simps)

lemma orphan_line_shape:
  "orphan_line ser der err regID = CHR ''F'' # ''ailed RPC to store at SA, orphaning certificate: serial=['' @ ser @
     CHR '']'' # '' cert=['' @ hex_encode der @ CHR '']'' # '' err=['' @ Error err @ CHR '']'' # '', '' @ ''regID=['' @
     Itoa regID @ CHR '']'' # []"
  by (simp add: orphan_line_def)

lemma orphan_line_der:
  assumes "\<not> sublist ''cert=['' hdr" "\<forall>c \<in> set ser. hex_val c \<noteq> None" "der \<noteq> []"
  shows "derOrphan (hdr @ orphan_line ser der err regID) = Some (hex_encode der)"
proof -
  define tail where "tail = '' err=['' @ Error err @ CHR '']'' # '', '' @ ''regID=['' @ Itoa regID @ CHR '']'' # []"
  have "derOrphan (hdr @ orphan_line ser der err regID) =
      find_submatch ''cert=['' hex_class (hdr @ CHR ''F'' # ''ailed RPC to store at SA, orphaning certificate: serial=['' @ ser @
        CHR '']'' # '' cert=['' @ hex_encode der @ CHR '']'' # tail)"
    unfolding derOrphan_def orphan_line_shape tail_def ..
  also have "\<dots> = find_submatch ''cert=['' hex_class (ser @ CHR '']'' # '' cert=['' @ hex_encode der @ CHR '']'' # tail)"
    by (subst find_submatch_skip [OF assms(1)]) (simp_all only: der_skip, simp)
  also have "\<dots> = find_submatch ''cert=['' hex_class (CHR '']'' # '' cert=['' @ hex_encode der @ CHR '']'' # tail)"
    by (rule skip_hex [OF assms(2)]) simp_all
  also have "\<dots> = find_submatch ''cert=['' hex_class (''cert=['' @ hex_encode der @ CHR '']'' # tail)"
    by (simp only: append_Cons append_Nil der_skip)
  also have "\<dots> = Some (hex_encode der)"
  proof (rule match_at_here)
    show "hex_encode der \<noteq> []" using assms(3) by (cases der) auto
    show "\<forall>c \<in> set (hex_encode der). hex_class c" using hex_class_encode by blast
  qed (simp_all add: hex_class_def)
  finally show ?thesis .
qed

lemma orphan_line_reg:
  assumes "\<not> sublist ''regID=['' hdr" "\<not> sublist ''regID=['' (Error err)" "\<forall>c \<in> set ser. hex_val c \<noteq> None" "0 \<le> regID"
  shows "regOrphan (hdr @ orphan_line ser der err regID) = Some (Itoa regID)"
proof -
  define tail where "tail = ''regID=['' @ Itoa regID @ CHR '']'' # []"
  have der: "\<forall>c \<in> set (hex_encode der). hex_val c \<noteq> None"
    using hex_decode_Some_iff [of "hex_encode der"] hex_decode_encode by blast
  have "regOrphan (hdr @ orphan_line ser der err regID) =
      find_submatch ''regID=['' decimal_class (hdr @ CHR ''F'' # ''ailed RPC to store at SA, orphaning certificate: serial=['' @ ser @
        CHR '']'' # '' cert=['' @ hex_encode der @ CHR '']'' # '' err=['' @ Error err @ CHR '']'' # '', '' @ tail)"
    unfolding regOrphan_def orphan_line_shape tail_def ..
  also have "\<dots> = find_submatch ''regID=['' decimal_class (ser @ CHR '']'' # '' cert=['' @ hex_encode der @ CHR '']'' #
      '' err=['' @ Error err @ CHR '']'' # '', '' @ tail)"
    by (subst find_submatch_skip [OF assms(1)]) (simp_all only: reg_skip, simp)
  also have "\<dots> = find_submatch ''regID=['' decimal_class (hex_encode der @ CHR '']'' # '' err=['' @ Error err @ CHR '']'' # '', '' @ tail)"
    by (subst skip_hex [OF assms(3)]) (simp_all only: reg_skip, simp_all)
  also have "\<dots> = find_submatch ''regID=['' decimal_class (Error err @ CHR '']'' # '', '' @ tail)"
    by (subst skip_hex [OF der]) (simp_all only: reg_skip, simp_all)
  also have "\<dots> = find_submatch ''regID=['' decimal_class tail"
    by (subst find_submatch_skip [OF assms(2)]) (simp_all only: reg_skip, simp_all)
  also have "\<dots> = Some (Itoa regID)"
    unfolding tail_def
  proof (rule match_at_here)
    show "\<forall>c \<in> set (Itoa regID). decimal_class c" using assms(4) decimal_class_format by (auto simp: Itoa_def)
  qed (simp_all add: decimal_class_def Itoa_def)
  finally show ?thesis .
qed

lemma orphan_line_contains:
  "contains (hdr @ orphan_line ser der err regID) ''cert=''"
  "contains (hdr @ orphan_line ser der err regID) ''orphaning certificate''"
proof -
  have "hdr @ orphan_line ser der err regID =
      (hdr @ ''Failed RPC to store at SA, orphaning certificate: serial=['' @ ser @ ''] '') @ ''cert='' @
      (''['' @ hex_encode der @ ''] err=['' @ Error err @ ''], regID=['' @ Itoa regID @ '']'')"
    by (simp add: orphan_line_def)
  then show "contains (hdr @ orphan_line ser der err regID) ''cert=''"
    unfolding contains_def by (simp only: sublist_appendI)
  have "hdr @ orphan_line ser der err regID =
      (hdr @ ''Failed RPC to store at SA, '') @ ''orphaning certificate'' @
      ('': serial=['' @ ser @ ''] cert=['' @ hex_encode der @ ''] err=['' @ Error err @ ''], regID=['' @ Itoa regID @ '']'')"
    by (simp add: orphan_line_def)
  then show "contains (hdr @ orphan_line ser der err regID) ''orphaning certificate''"
    unfolding contains_def by (simp only: sublist_appendI)
qed

text \<open>What the finder does with a line of the authority depends on the storage only.\<close>

lemma parseLogLine_orphan_line:
  assumes "\<not> sublist ''cert=['' hdr" "\<not> sublist ''regID=['' hdr" "\<not> sublist ''regID=['' (Error err)"
    and "\<forall>c \<in> set ser. hex_val c \<noteq> None" "der \<noteq> []" "0 \<le> regID" "regID < 2 ^ 63"
  shows "parseLogLine pc getc addc s (hdr @ orphan_line ser der err regID) =
    (case checkDER pc (getc s) der of
       Some _ \<Rightarrow> (s, True, False)
     | None \<Rightarrow> (case addc s der regID [] of (s', Inl _) \<Rightarrow> (s', True, False) | (s', Inr _) \<Rightarrow> (s', True, True)))"
proof -
  have "Atoi (Itoa regID) = Some regID" using assms(6,7) by (simp add: Atoi_Itoa)
  then show ?thesis
    using orphan_line_contains [of hdr ser der err regID] orphan_line_der [OF assms(1,4,5)]
      orphan_line_reg [OF assms(2,3,4,6)]
    by (simp add: parseLogLine_def hex_decode_encode split: option.splits)
qed

section \<open>The storage interface\<close>

text \<open>
  What the finder relies on: a certificate that is not stored is reported as not found, one
  with a new serial number and names can be added, what was added is stored, and nothing
  stored is lost. \<open>has s ser\<close> says that a certificate with that serial is stored.
\<close>

locale certificate_storage =
  fixes parse :: "bytes \<Rightarrow> string + x509Cert"
    and getc :: "'s \<Rightarrow> string \<Rightarrow> goerror + Certificate"
    and addc :: "'s \<Rightarrow> bytes \<Rightarrow> int \<Rightarrow> bytes \<Rightarrow> 's \<times> (goerror + string)"
    and ok :: "'s \<Rightarrow> bool"
    and has :: "'s \<Rightarrow> string \<Rightarrow> bool"
  assumes get_missing: "ok s \<Longrightarrow> ValidSerial ser \<Longrightarrow> \<not> has s ser \<Longrightarrow> \<exists>m. getc s ser = Inl (BoulderError NotFound m)"
    and add_succeeds: "ok s \<Longrightarrow> parse der = Inr x \<Longrightarrow> x_DNSNames x \<noteq> [] \<Longrightarrow>
      \<not> has s (SerialToString (x_SerialNumber x)) \<Longrightarrow> \<exists>s' d. addc s der regID ocsp = (s', Inr d)"
    and add_stores: "addc s der regID ocsp = (s', Inr d) \<Longrightarrow> parse der = Inr x \<Longrightarrow>
      has s' (SerialToString (x_SerialNumber x))"
    and add_keeps: "addc s der regID ocsp = (s', r) \<Longrightarrow> ok s \<Longrightarrow> ok s' \<and> (has s ser \<longrightarrow> has s' ser)"
begin

lemma parse_line_keeps:
  assumes "parseLogLine parse getc addc s line = (s', found, added)" "ok s"
  shows "ok s' \<and> (has s ser \<longrightarrow> has s' ser)"
  using assms
  by (auto simp: parseLogLine_def split: if_splits option.splits prod.splits sum.splits dest: add_keeps)

lemma parse_lines_keep:
  "parse_lines (parseLogLine parse getc addc) s f a lines = (s', f', a') \<Longrightarrow> ok s \<Longrightarrow>
     ok s' \<and> (has s ser \<longrightarrow> has s' ser)"
proof (induction lines arbitrary: s f a)
  case (Cons line lines)
  obtain s1 found added where l: "parseLogLine parse getc addc s line = (s1, found, added)"
    by (cases "parseLogLine parse getc addc s line")
  with Cons(1) [of s1] Cons(2,3) parse_line_keeps [OF l] show ?case by auto
qed simp

text \<open>A line of the authority is worked off: the certificate is stored afterwards.\<close>

lemma line_stores:
  assumes "\<not> sublist ''cert=['' hdr" "\<not> sublist ''regID=['' hdr" "\<not> sublist ''regID=['' (Error err)"
    and "\<forall>c \<in> set ser. hex_val c \<noteq> None" "der \<noteq> []" "0 \<le> regID" "regID < 2 ^ 63"
    and x: "parse der = Inr x" "x_DNSNames x \<noteq> []" "ValidSerial (SerialToString (x_SerialNumber x))" and "ok s"
    and run: "parseLogLine parse getc addc s (hdr @ orphan_line ser der err regID) = (s', found, added)"
  shows "has s' (SerialToString (x_SerialNumber x))"
proof (cases "has s (SerialToString (x_SerialNumber x))")
  case True
  then show ?thesis using parse_line_keeps [OF run \<open>ok s\<close>] by blast
next
  case False
  then obtain m where "getc s (SerialToString (x_SerialNumber x)) = Inl (BoulderError NotFound m)"
    using get_missing [OF \<open>ok s\<close> x(3)] by blast
  then have "checkDER parse (getc s) der = None" using x(1) by (simp add: checkDER_def berrors_Is_def)
  moreover obtain s1 d where add: "addc s der regID [] = (s1, Inr d)"
    using add_succeeds [OF \<open>ok s\<close> x(1,2) False] by blast
  ultimately have "s' = s1" using run unfolding parseLogLine_orphan_line [OF assms(1-7)] by simp
  then show ?thesis using add_stores [OF add x(1)] by simp
qed

lemma log_stores:
  assumes "\<not> sublist ''cert=['' hdr" "\<not> sublist ''regID=['' hdr" "\<not> sublist ''regID=['' (Error err)"
    and "\<forall>c \<in> set ser. hex_val c \<noteq> None" "der \<noteq> []" "0 \<le> regID" "regID < 2 ^ 63"
    and "parse der = Inr x" "x_DNSNames x \<noteq> []" "ValidSerial (SerialToString (x_SerialNumber x))"
  shows "parse_lines (parseLogLine parse getc addc) s f a lines = (s', f', a') \<Longrightarrow> ok s \<Longrightarrow>
    hdr @ orphan_line ser der err regID \<in> set lines \<Longrightarrow> has s' (SerialToString (x_SerialNumber x))"
proof (induction lines arbitrary: s f a)
  case (Cons line lines)
  obtain s1 found added where l: "parseLogLine parse getc addc s line = (s1, found, added)"
    by (cases "parseLogLine parse getc addc s line")
  have ok: "ok s1" using parse_line_keeps [OF l Cons(3)] by blast
  obtain f1 a1 where rest: "parse_lines (parseLogLine parse getc addc) s1 f1 a1 lines = (s', f', a')"
    using Cons(2) l by simp
  show ?case
  proof (cases "line = hdr @ orphan_line ser der err regID")
    case True
    with line_stores [OF assms Cons(3)] l have "has s1 (SerialToString (x_SerialNumber x))" by blast
    with parse_lines_keep [OF rest ok] show ?thesis by blast
  next
    case False
    with Cons(1) [OF rest ok] Cons(4) show ?thesis by auto
  qed
qed simp

end

text \<open>The storage authority is such a storage while its database answers every statement.\<close>

definition reliable :: "sa_env \<Rightarrow> sa_env" where
  "reliable E = E\<lparr>fault := \<lambda>_. None\<rparr>"

definition has_certificate :: "database \<Rightarrow> string \<Rightarrow> bool" where
  "has_certificate db ser \<longleftrightarrow> ser \<in> cert_Serial ` set (certificates db)"

lemma reliable_fault [simp]: "fault (reliable E) c = None" "db_fault (reliable E) c = None"
  by (simp_all add: reliable_def db_fault_def)

lemma AddCertificate_reliable:
  assumes "cert_inv db" "pc der = Inr x" "x_DNSNames x \<noteq> []" "\<not> has_certificate db (SerialToString (x_SerialNumber x))"
  shows "AddCertificate (reliable E) pc db der regID ocsp =
    (with_certificate (reliable E) x der regID ocsp db, Inr (Fingerprint256 (sha256 (reliable E)) der))"
proof -
  have fresh: "SerialToString (x_SerialNumber x) \<notin> set (map cert_Serial (certificates db))"
    using assms(4) by (simp add: has_certificate_def)
  have "SerialToString (x_SerialNumber x) \<notin> set (map cs_Serial (certificateStatus db))"
    "SerialToString (x_SerialNumber x) \<notin> set (map fqdn_Serial (fqdnSets db))"
    using fresh assms(1) unfolding cert_inv_def by metis+
  with fresh assms(2,3) show ?thesis
    by (auto simp: AddCertificate_def Let_def in_tx_def commit_tx_def insert_row_def addIssuedNames_def
        addFQDNSet_def list_ex_iff with_certificate_def new_status_def)
qed

interpretation sa_store: certificate_storage pc "GetCertificate (reliable E)" "AddCertificate (reliable E) pc" cert_inv has_certificate
  for pc E
proof
  fix db ser
  assume "cert_inv db" "ValidSerial ser" "\<not> has_certificate db ser"
  moreover from this have "find (\<lambda>c. cert_Serial c = ser) (certificates db) = None"
    by (auto simp: find_None_iff has_certificate_def)
  ultimately show "\<exists>m. GetCertificate (reliable E) db ser = Inl (BoulderError NotFound m)"
    by (simp add: GetCertificate_def select_one_def)
next
  fix db der x regID ocsp
  assume "cert_inv db" "pc der = Inr x" "x_DNSNames x \<noteq> []" "\<not> has_certificate db (SerialToString (x_SerialNumber x))"
  then show "\<exists>db' d. AddCertificate (reliable E) pc db der regID ocsp = (db', Inr d)"
    using AddCertificate_reliable by blast
next
  fix db der regID ocsp db' d x
  assume "AddCertificate (reliable E) pc db der regID ocsp = (db', Inr d)" "pc der = Inr x"
  then show "has_certificate db' (SerialToString (x_SerialNumber x))"
    using AddCertificate_success [of "reliable E" pc db der regID ocsp db' d]
    by (auto simp: has_certificate_def with_certificate_def Let_def)
next
  fix db der regID ocsp db' r ser
  assume add: "AddCertificate (reliable E) pc db der regID ocsp = (db', r)" "cert_inv db"
  show "cert_inv db' \<and> (has_certificate db ser \<longrightarrow> has_certificate db' ser)"
  proof (cases r)
    case (Inl e)
    with add show ?thesis by (auto dest: AddCertificate_failure)
  next
    case (Inr d)
    with add AddCertificate_success [of "reliable E" pc db der regID ocsp db' d] AddCertificate_inv [OF add]
    show ?thesis by (auto simp: has_certificate_def with_certificate_def Let_def)
  qed
qed

section \<open>Properties\<close>

lemma SerialToString_hex: "0 \<le> n \<Longrightarrow> c \<in> set (SerialToString n) \<Longrightarrow> hex_val c \<noteq> None"
proof -
  have "hex_val (CHR ''0'') \<noteq> None" by (simp add: hex_val_def)
  then show "0 \<le> n \<Longrightarrow> c \<in> set (SerialToString n) \<Longrightarrow> hex_val c \<noteq> None"
    by (auto simp: SerialToString_def Let_def dest: format_hex_chars)
qed

lemma serial_number_nonneg: "0 \<le> serial_number ca rnd"
  using set_bytes_bound by (simp add: serial_number_def)

lemma prepared_serial_hex:
  assumes "prepare_signing E ca req = Inr sr"
  shows "\<forall>c \<in> set (SerialToString (sr_Serial sr)). hex_val c \<noteq> None"
  using prepare_signing_Inr [OF assms] SerialToString_hex serial_number_nonneg by metis

lemma orphaned_line:
  assumes "IssueCertificate E ca req regID = (db, effects, Inl err)" "signed_cert E ca req der"
  obtains ser where "AuditErrLine (orphan_line ser der err regID) \<in> set effects" "\<forall>c \<in> set ser. hex_val c \<noteq> None"
proof -
  obtain d sr where d: "signed_cert E ca req d" "prepare_signing E ca req = Inr sr"
    "AuditErrLine (orphan_line (SerialToString (sr_Serial sr)) d err regID) \<in> set effects"
    using IssueCertificate_cases [OF assms(1)] assms(2) by auto
  with signed_cert_unique [OF assms(2)] prepared_serial_hex [OF d(2)] that show thesis by blast
qed

text \<open>
  C16: Orphaned certificates are recovered. When the authority has signed a certificate and
  could not store it, it writes a log line from which the orphan finder restores the
  certificate: run on a log with that line, behind any header, over a storage authority that
  works, the finder leaves a certificate with that serial number stored; and when there was
  none, the line alone stores the certificate for the account it was issued to.
\<close>

theorem orphan_recovered:
  assumes "IssueCertificate E ca req regID = (db, effects, Inl err)" "signed_cert E ca req der"
    and "der \<noteq> []" "0 \<le> regID" "regID < 2 ^ 63" "\<not> sublist ''regID=['' (Error err)"
    and x: "cae_parse E der = Inr x" "x_DNSNames x \<noteq> []" "ValidSerial (SerialToString (x_SerialNumber x))"
  shows "\<exists>line. AuditErrLine line \<in> set effects \<and>
    (\<forall>hdr logData db0. \<not> sublist ''cert=['' hdr \<and> \<not> sublist ''regID=['' hdr \<and> cert_inv db0 \<longrightarrow>
       (hdr @ line \<in> set (split_on newline logData) \<longrightarrow>
          has_certificate (fst (parse_ca_log (cae_parse E) (GetCertificate (reliable F)) (AddCertificate (reliable F) (cae_parse E))
            db0 logData)) (SerialToString (x_SerialNumber x))) \<and>
       (\<not> has_certificate db0 (SerialToString (x_SerialNumber x)) \<longrightarrow>
          parseLogLine (cae_parse E) (GetCertificate (reliable F)) (AddCertificate (reliable F) (cae_parse E)) db0 (hdr @ line) =
            (with_certificate (reliable F) x der regID [] db0, True, True)))"
proof -
  obtain ser where line: "AuditErrLine (orphan_line ser der err regID) \<in> set effects"
    and ser: "\<forall>c \<in> set ser. hex_val c \<noteq> None"
    using orphaned_line [OF assms(1,2)] .
  show ?thesis
  proof (intro exI [of _ "orphan_line ser der err regID"] conjI allI impI line; elim conjE)
    fix hdr logData db0
    assume hdr: "\<not> sublist ''cert=['' hdr" "\<not> sublist ''regID=['' hdr" and inv: "cert_inv db0"
      and mem: "hdr @ orphan_line ser der err regID \<in> set (split_on newline logData)"
    show "has_certificate (fst (parse_ca_log (cae_parse E) (GetCertificate (reliable F))
        (AddCertificate (reliable F) (cae_parse E)) db0 logData)) (SerialToString (x_SerialNumber x))"
      using sa_store.log_stores [where pc = "cae_parse E", OF hdr assms(6) ser assms(3,4,5) x _ inv mem]
      unfolding parse_ca_log_def by (metis prod.collapse)
  next
    fix hdr logData db0
    assume hdr: "\<not> sublist ''cert=['' hdr" "\<not> sublist ''regID=['' hdr" and inv: "cert_inv db0"
      and new: "\<not> has_certificate db0 (SerialToString (x_SerialNumber x))"
    obtain m where "GetCertificate (reliable F) db0 (SerialToString (x_SerialNumber x)) = Inl (BoulderError NotFound m)"
      using sa_store.get_missing [OF inv x(3) new] by blast
    then have "checkDER (cae_parse E) (GetCertificate (reliable F) db0) der = None"
      using x(1) by (simp add: checkDER_def berrors_Is_def)
    then show "parseLogLine (cae_parse E) (GetCertificate (reliable F)) (AddCertificate (reliable F) (cae_parse E)) db0
        (hdr @ orphan_line ser der err regID) = (with_certificate (reliable F) x der regID [] db0, True, True)"
      unfolding parseLogLine_orphan_line [OF hdr assms(6) ser assms(3,4,5)]
      by (simp add: AddCertificate_reliable [where pc = "cae_parse E", OF inv x(1,2) new])
  qed
qed

text \<open>The sample authority with a storage authority whose transactions cannot begin.\<close>

definition sample_broken :: ca_env where
  "sample_broken = sample_ca_env\<lparr>cae_sa := (sample_env\<lparr>fault := \<lambda>_. Some ''timeout''\<rparr>, empty_db)\<rparr>"

definition sample_store_error :: goerror where
  "sample_store_error = berrors_New InternalServer (Error (OtherError ''timeout''))"

lemma prepare_signing_sa: "prepare_signing (E\<lparr>cae_sa := sa\<rparr>) ca req = prepare_signing E ca req"
proof -
  have "extensionsFromCSR (E\<lparr>cae_sa := sa\<rparr>) ca = extensionsFromCSR E ca"
    by (simp add: extensionsFromCSR_def fun_eq_iff)
  then show ?thesis
    by (simp add: prepare_signing_def cong: prod.case_cong option.case_cong sum.case_cong if_cong)
qed

lemma sample_broken_prepared: "prepare_signing sample_broken sample_ca sample_csr = Inr sample_sign_request"
  by (simp add: sample_broken_def prepare_signing_sa sample_prepared)

lemma sample_broken_signed: "signed_cert sample_broken sample_ca sample_csr ''der''"
  by (simp add: signed_cert_def sample_broken_prepared)
     (simp add: sample_broken_def sample_ca_env_def decode_certificate_def)

lemma sample_broken_issue:
  obtains effects where "IssueCertificate sample_broken sample_ca sample_csr 1 = (empty_db, effects, Inl sample_store_error)"
proof -
  have "cae_sa sample_broken = (sample_env\<lparr>fault := \<lambda>_. Some ''timeout''\<rparr>, empty_db)"
    "cae_parse sample_broken = (\<lambda>_. Inr sample_issued)"
    "cae_sign sample_broken i sr = Inr ''der''" "decode_certificate sample_broken ''der'' = Inr ''der''"
    "\<not> cae_enabled sample_broken fl" for i sr fl
    by (simp_all add: sample_broken_def sample_ca_env_def decode_certificate_def)
  then have "\<exists>effects. IssueCertificate sample_broken sample_ca sample_csr 1 = (empty_db, effects, Inl sample_store_error)"
    by (simp add: IssueCertificate_def sample_broken_prepared Let_def AddCertificate_def in_tx_def db_fault_def sample_store_error_def)
  with that show thesis by blast
qed

theorem orphan_recovered_witness:
  "\<exists>effects line. AuditErrLine line \<in> set effects \<and>
     IssueCertificate sample_broken sample_ca sample_csr 1 = (empty_db, effects, Inl sample_store_error) \<and>
     parseLogLine (cae_parse sample_broken) (GetCertificate (reliable sample_env))
       (AddCertificate (reliable sample_env) (cae_parse sample_broken)) empty_db ([] @ line) =
       (with_certificate (reliable sample_env) sample_issued ''der'' 1 [] empty_db, True, True)"
proof -
  obtain effects where run: "IssueCertificate sample_broken sample_ca sample_csr 1 = (empty_db, effects, Inl sample_store_error)"
    by (rule sample_broken_issue)
  have parse: "cae_parse sample_broken ''der'' = Inr sample_issued" by (simp add: sample_broken_def sample_ca_env_def)
  have names: "x_DNSNames sample_issued \<noteq> []" "ValidSerial (SerialToString (x_SerialNumber sample_issued))"
    using sample_serial by (simp_all add: sample_issued_def)
  have txt_ok: "\<not> sublist ''regID=['' (Error sample_store_error)"
    by (simp add: sample_store_error_def berrors_New_def) code_simp
  have store: "cert_inv empty_db" "\<not> has_certificate empty_db (SerialToString (x_SerialNumber sample_issued))"
    using empty_db_inv by (simp_all add: db_inv_def has_certificate_def empty_db_def)
  obtain line where l: "AuditErrLine line \<in> set effects"
    "\<forall>hdr logData db0. \<not> sublist ''cert=['' hdr \<and> \<not> sublist ''regID=['' hdr \<and> cert_inv db0 \<longrightarrow>
       (hdr @ line \<in> set (split_on newline logData) \<longrightarrow>
          has_certificate (fst (parse_ca_log (cae_parse sample_broken) (GetCertificate (reliable sample_env))
            (AddCertificate (reliable sample_env) (cae_parse sample_broken)) db0 logData))
            (SerialToString (x_SerialNumber sample_issued))) \<and>
       (\<not> has_certificate db0 (SerialToString (x_SerialNumber sample_issued)) \<longrightarrow>
          parseLogLine (cae_parse sample_broken) (GetCertificate (reliable sample_env))
            (AddCertificate (reliable sample_env) (cae_parse sample_broken)) db0 (hdr @ line) =
            (with_certificate (reliable sample_env) sample_issued ''der'' 1 [] db0, True, True))"
    using orphan_recovered [OF run sample_broken_signed _ _ _ txt_ok parse names, of sample_env] by auto
  have hdr: "\<not> sublist ''cert=['' []" "\<not> sublist ''regID=['' []" by simp_all
  from l(2) [rule_format, of "[]" empty_db] hdr store l(1) run show ?thesis by blast
qed

end
