(* ===== verification/Nonce.thy ===== *)
theory Nonce
  imports Encodings
begin

text \<open>
  The anti-replay nonces of the web front end (\<^verbatim>\<open>nonce/nonce.go\<close>). A nonce is an
  encrypted counter. The service remembers the highest counter issued, the counters
  already redeemed, and, once more than \<^verbatim>\<open>maxUsed\<close> are remembered, the counter at or
  below which everything is refused. AES-GCM is a parameter of the model (record
  \<open>AEAD\<close>); the bytes read from the random source are arguments.
\<close>

section \<open>Model\<close>

record AEAD =
  Seal :: "bytes \<Rightarrow> bytes \<Rightarrow> bytes"
  Open :: "bytes \<Rightarrow> bytes \<Rightarrow> bytes option"

record NonceService =
  latest :: int64
  earliest :: int64
  used :: "(int64 \<times> bool) list"
  gcm :: AEAD
  maxUsed :: nat

definition MaxUsed :: nat where
  "MaxUsed = 65536"

definition nonceLen :: nat where
  "nonceLen = 32"

definition NewNonceService :: "AEAD \<Rightarrow> NonceService" where
  "NewNonceService g = \<lparr>latest = 0, earliest = 0, used = [], gcm = g, maxUsed = MaxUsed\<rparr>"

text \<open>
  \<^verbatim>\<open>copy(dst[off:], src)\<close>; \<^verbatim>\<open>big.Int.Bytes\<close> and \<^verbatim>\<open>SetBytes\<close> (minimal big-endian bytes
  of the absolute value); \<^verbatim>\<open>big.Int.Int64\<close> (the low 64 bits).
\<close>

definition copy_at :: "nat \<Rightarrow> bytes \<Rightarrow> bytes \<Rightarrow> bytes" where
  "copy_at off src dst = take off dst @ take (length dst - off) src @ drop (off + length src) dst"

fun be_bytes :: "nat \<Rightarrow> bytes" where
  "be_bytes n = (if n = 0 then [] else be_bytes (n div 256) @ [char_of (n mod 256)])"

declare be_bytes.simps [simp del]

definition be_val :: "bytes \<Rightarrow> nat" where
  "be_val bs = foldl (\<lambda>a b. a * 256 + of_char b) 0 bs"

definition zero_bytes :: "nat \<Rightarrow> bytes" where
  "zero_bytes n = replicate n (char_of (0::nat))"

definition encrypt :: "NonceService \<Rightarrow> bytes option \<Rightarrow> int64 \<Rightarrow> string + string" where
  "encrypt ns rnd counter =
     (case rnd of
        None \<Rightarrow> Inl ''rand.Read''
      | Some r \<Rightarrow>
          (let nonce = copy_at 4 r (zero_bytes 12);
               ctr = be_bytes (nat \<bar>sint counter\<bar>);
               pad = 8 - length ctr;
               pt = copy_at pad ctr (zero_bytes 8);
               ct = Seal (gcm ns) nonce pt;
               ret = copy_at 8 ct (copy_at 0 (drop 4 nonce) (zero_bytes nonceLen))
           in Inr (raw_url_encode ret)))"

definition decrypt :: "NonceService \<Rightarrow> string \<Rightarrow> string + int64" where
  "decrypt ns nonce =
     bind_result (raw_url_decode nonce) (\<lambda>decoded.
       if length decoded \<noteq> nonceLen then Inl ''invalid nonce length''
       else (let n = copy_at 4 (take 8 decoded) (zero_bytes 12)
             in (case Open (gcm ns) n (drop 8 decoded) of
                   None \<Rightarrow> Inl ''cipher: message authentication failed''
                 | Some pt \<Rightarrow> Inr (of_nat (be_val pt)))))"

text \<open>\<^verbatim>\<open>Nonce\<close> of the source: bump the counter under the lock, then encrypt it.\<close>

definition NewNonce :: "NonceService \<Rightarrow> bytes option \<Rightarrow> NonceService \<times> (string + string)" where
  "NewNonce ns rnd =
     (let ns' = ns\<lparr>latest := latest ns + 1\<rparr> in (ns', encrypt ns' rnd (latest ns')))"

definition minUsed :: "NonceService \<Rightarrow> int64" where
  "minUsed ns =
     foldl (\<lambda>m t. if sint t < sint m then t else m) (latest ns) (map fst (used ns))"

definition is_used :: "NonceService \<Rightarrow> int64 \<Rightarrow> bool" where
  "is_used ns c = (map_of (used ns) c = Some True)"

definition redeem :: "NonceService \<Rightarrow> int64 \<Rightarrow> NonceService \<times> bool" where
  "redeem ns c =
     (if sint c > sint (latest ns) then (ns, False)
      else if sint c \<le> sint (earliest ns) then (ns, False)
      else if is_used ns c then (ns, False)
      else
        (let ns1 = ns\<lparr>used := AList.update c True (used ns)\<rparr>
         in if length (used ns1) > maxUsed ns1
            then (let e = minUsed ns1
                  in (ns1\<lparr>earliest := e, used := AList.delete e (used ns1)\<rparr>, True))
            else (ns1, True)))"

definition Valid :: "NonceService \<Rightarrow> string \<Rightarrow> NonceService \<times> bool" where
  "Valid ns nonce =
     (case decrypt ns nonce of Inl _ \<Rightarrow> (ns, False) | Inr c \<Rightarrow> redeem ns c)"

section \<open>Counters as bytes\<close>

lemma be_val_append: "be_val (xs @ [b]) = be_val xs * 256 + of_char b"
  by (simp add: be_val_def)

lemma be_val_bytes: "be_val (be_bytes n) = n"
proof (induction n rule: be_bytes.induct)
  case (1 n)
  show ?case
  proof (cases "n = 0")
    case True
    then show ?thesis by (simp add: be_bytes.simps be_val_def)
  next
    case False
    with 1 show ?thesis by (simp add: be_bytes.simps [of n] be_val_append)
  qed
qed

lemma length_be_bytes: "n < 256 ^ k \<Longrightarrow> length (be_bytes n) \<le> k"
proof (induction n arbitrary: k rule: be_bytes.induct)
  case (1 n)
  show ?case
  proof (cases "n = 0")
    case True
    then show ?thesis by (simp add: be_bytes.simps)
  next
    case False
    with "1.prems" obtain j where k: "k = Suc j" by (cases k) auto
    with "1.prems" have "n div 256 < 256 ^ j"
      by (simp add: less_mult_imp_div_less mult.commute)
    with 1 False k show ?thesis by (simp add: be_bytes.simps [of n])
  qed
qed

lemma be_val_zeros: "be_val (zero_bytes k @ bs) = be_val bs"
proof -
  have "foldl (\<lambda>a b. a * 256 + of_char b) 0 (replicate k (char_of (0::nat))) = (0::nat)"
    by (induction k) simp_all
  then show ?thesis by (simp add: be_val_def zero_bytes_def)
qed

lemma copy_at_pad:
  "length bs \<le> n \<Longrightarrow> copy_at (n - length bs) bs (zero_bytes n) = zero_bytes (n - length bs) @ bs"
  by (simp add: copy_at_def zero_bytes_def)

section \<open>Encrypting and decrypting a counter\<close>

text \<open>
  What the service relies on of AES-GCM with a 12-byte nonce and a 16-byte tag: opening
  a sealed message gives the plaintext back, and sealing adds 16 bytes.
\<close>

definition aead_laws :: "AEAD \<Rightarrow> bool" where
  "aead_laws g \<longleftrightarrow>
     (\<forall>n p. Open g n (Seal g n p) = Some p) \<and> (\<forall>n p. length (Seal g n p) = length p + 16)"

lemma length_copy_at: "off \<le> length dst \<Longrightarrow> off + length src \<le> length dst \<Longrightarrow>
    length (copy_at off src dst) = length dst"
  by (simp add: copy_at_def)

lemma length_zero_bytes [simp]: "length (zero_bytes n) = n"
  by (simp add: zero_bytes_def)

lemma sint_counter_bytes:
  assumes "0 \<le> sint (c :: int64)"
  shows "length (be_bytes (nat \<bar>sint c\<bar>)) \<le> 8" and "of_nat (nat \<bar>sint c\<bar>) = c"
proof -
  have "sint c < 2 ^ 63" using sint_lt [of c] by simp
  then have "nat \<bar>sint c\<bar> < 256 ^ 8" using assms by simp
  then show "length (be_bytes (nat \<bar>sint c\<bar>)) \<le> 8" by (rule length_be_bytes)
  have "of_int (sint c) = c" by simp
  with assms show "of_nat (nat \<bar>sint c\<bar>) = c" by simp
qed

lemma decrypt_encrypt_aux:
  assumes "aead_laws (gcm ns)" "length r = 8" "0 \<le> sint c"
  shows "\<exists>s. encrypt ns (Some r) c = Inr s \<and> decrypt ns s = Inr c"
proof -
  define ctr where "ctr = be_bytes (nat \<bar>sint c\<bar>)"
  define nonce where "nonce = copy_at 4 r (zero_bytes 12)"
  define pt where "pt = copy_at (8 - length ctr) ctr (zero_bytes 8)"
  define ct where "ct = Seal (gcm ns) nonce pt"
  have ctr: "length ctr \<le> 8" "of_nat (be_val ctr) = c"
    using sint_counter_bytes [OF assms(3)] by (simp_all add: ctr_def be_val_bytes)
  have nonce: "nonce = zero_bytes 4 @ r"
    using assms(2) by (simp add: nonce_def copy_at_def zero_bytes_def)
  have pt: "pt = zero_bytes (8 - length ctr) @ ctr"
    using ctr(1) by (simp add: pt_def copy_at_pad)
  have lct: "length ct = 24"
    using assms(1) ctr(1) by (simp add: ct_def pt aead_laws_def)
  have ret: "copy_at 8 ct (copy_at 0 (drop 4 nonce) (zero_bytes nonceLen)) = r @ ct"
    using assms(2) lct by (simp add: copy_at_def nonce nonceLen_def)
  have enc: "encrypt ns (Some r) c = Inr (raw_url_encode (r @ ct))"
    using ret by (simp add: encrypt_def Let_def flip: ctr_def nonce_def)
      (simp add: pt_def ct_def nonce_def ctr_def)
  have "decrypt ns (raw_url_encode (r @ ct)) = Inr c"
    using assms ctr lct
    by (simp add: decrypt_def raw_url.dec_enc nonceLen_def Let_def flip: nonce_def)
      (simp add: ct_def aead_laws_def pt be_val_zeros)
  with enc show ?thesis by blast
qed

section \<open>The replay window\<close>

text \<open>
  The counters that will never be accepted again: those at or below \<^verbatim>\<open>earliest\<close> and
  those recorded as used.
\<close>

definition spent :: "NonceService \<Rightarrow> int64 set" where
  "spent ns = {c. sint c \<le> sint (earliest ns)} \<union> map_keys (used ns)"

definition nonce_inv :: "NonceService \<Rightarrow> bool" where
  "nonce_inv ns \<longleftrightarrow>
     wf_map (used ns) \<and> (\<forall>kv \<in> set (used ns). snd kv) \<and>
     (\<forall>c \<in> map_keys (used ns). sint (earliest ns) < sint c \<and> sint c \<le> sint (latest ns)) \<and>
     0 \<le> sint (earliest ns) \<and> sint (earliest ns) \<le> sint (latest ns) \<and>
     length (used ns) \<le> maxUsed ns"

lemma is_used_iff: "nonce_inv ns \<Longrightarrow> is_used ns c \<longleftrightarrow> c \<in> map_keys (used ns)"
  by (fastforce simp: nonce_inv_def is_used_def map_of_keys dest: map_of_SomeD)

lemma foldl_min_sint:
  fixes xs :: "int64 list"
  defines "f \<equiv> (\<lambda>m t. if sint t < sint m then t else m)"
  shows "foldl f a xs \<in> insert a (set xs)" and "\<forall>x \<in> insert a (set xs). sint (foldl f a xs) \<le> sint x"
proof -
  have "foldl f a xs \<in> insert a (set xs) \<and> (\<forall>x \<in> insert a (set xs). sint (foldl f a xs) \<le> sint x)"
    by (induction xs arbitrary: a) (fastforce simp: f_def)+
  then show "foldl f a xs \<in> insert a (set xs)" "\<forall>x \<in> insert a (set xs). sint (foldl f a xs) \<le> sint x"
    by auto
qed

lemma minUsed_in:
  assumes "used ns \<noteq> []" "\<forall>c \<in> map_keys (used ns). sint c \<le> sint (latest ns)"
  shows "minUsed ns \<in> map_keys (used ns)"
    and "\<forall>c \<in> map_keys (used ns). sint (minUsed ns) \<le> sint c"
proof -
  note m = foldl_min_sint [of "latest ns" "map fst (used ns)", folded minUsed_def]
  show le: "\<forall>c \<in> map_keys (used ns). sint (minUsed ns) \<le> sint c"
    using m(2) by (auto simp: map_keys_def)
  obtain c where c: "c \<in> map_keys (used ns)" using assms(1) by (cases "used ns") (auto simp: map_keys_def)
  show "minUsed ns \<in> map_keys (used ns)"
  proof (cases "minUsed ns = latest ns")
    case True
    with le c assms(2) have "sint c = sint (minUsed ns)" by (simp add: order_antisym)
    then have "c = minUsed ns" by (rule signed_word_eqI)
    with c show ?thesis by simp
  next
    case False
    with m(1) show ?thesis by (simp add: map_keys_def)
  qed
qed

lemma redeem_accept_iff:
  assumes "nonce_inv ns"
  shows "snd (redeem ns c) \<longleftrightarrow> sint c \<le> sint (latest ns) \<and> c \<notin> spent ns"
  using is_used_iff [OF assms, of c]
  by (auto simp: redeem_def spent_def Let_def)

lemma redeem_refused: "\<not> snd (redeem ns c) \<Longrightarrow> fst (redeem ns c) = ns"
  by (auto simp: redeem_def Let_def split: if_splits)

lemma redeem_latest [simp]: "latest (fst (redeem ns c)) = latest ns"
  by (auto simp: redeem_def Let_def)

lemma redeem_gcm [simp]: "gcm (fst (redeem ns c)) = gcm ns"
  by (auto simp: redeem_def Let_def)

lemma redeem_maxUsed [simp]: "maxUsed (fst (redeem ns c)) = maxUsed ns"
  by (auto simp: redeem_def Let_def)

text \<open>
  The two ways an accepted counter is recorded: the table has room, or its least counter
  is dropped and becomes the new lower end of the window.
\<close>

lemma redeem_cases:
  assumes inv: "nonce_inv ns" and acc: "snd (redeem ns c)"
  defines "ns1 \<equiv> ns\<lparr>used := AList.update c True (used ns)\<rparr>"
  obtains (room) "fst (redeem ns c) = ns1" "length (used ns1) \<le> maxUsed ns"
  | (full) "fst (redeem ns c) =
        ns1\<lparr>earliest := minUsed ns1, used := AList.delete (minUsed ns1) (used ns1)\<rparr>"
      "length (used ns1) = Suc (maxUsed ns)" "minUsed ns1 \<in> map_keys (used ns1)"
      "\<forall>x \<in> map_keys (used ns1). sint (minUsed ns1) \<le> sint x"
proof (cases "length (used ns1) \<le> maxUsed ns")
  case True
  with acc room show thesis
    by (auto simp: redeem_def Let_def ns1_def split: if_splits)
next
  case False
  have c: "sint c \<le> sint (latest ns)"
    using redeem_accept_iff [OF inv] acc by simp
  have "used ns1 \<noteq> []" using False by auto
  moreover have "\<forall>x \<in> map_keys (used ns1). sint x \<le> sint (latest ns1)"
    using inv c by (auto simp: ns1_def nonce_inv_def)
  ultimately have m: "minUsed ns1 \<in> map_keys (used ns1)"
      "\<forall>x \<in> map_keys (used ns1). sint (minUsed ns1) \<le> sint x"
    by (rule minUsed_in)+
  have "length (used ns1) = Suc (maxUsed ns)"
    using False inv by (auto simp: ns1_def length_alist_update nonce_inv_def split: if_splits)
  moreover have "fst (redeem ns c) =
      ns1\<lparr>earliest := minUsed ns1, used := AList.delete (minUsed ns1) (used ns1)\<rparr>"
    using False acc by (auto simp: redeem_def Let_def ns1_def split: if_splits)
  ultimately show thesis using full m by blast
qed

lemma redeem_inv:
  assumes "nonce_inv ns"
  shows "nonce_inv (fst (redeem ns c))"
proof (cases "snd (redeem ns c)")
  case False
  with assms show ?thesis by (simp add: redeem_refused)
next
  case True
  have c: "sint c \<le> sint (latest ns)" "sint (earliest ns) < sint c" "c \<notin> map_keys (used ns)"
    using redeem_accept_iff [OF assms] True by (auto simp: spent_def)
  define ns1 where "ns1 = ns\<lparr>used := AList.update c True (used ns)\<rparr>"
  have keys: "map_keys (used ns1) = insert c (map_keys (used ns))"
    by (simp add: ns1_def )
  have bounds: "\<forall>x \<in> map_keys (used ns1). sint (earliest ns) < sint x \<and> sint x \<le> sint (latest ns)"
    unfolding keys using assms c by (auto simp: nonce_inv_def)
  have ok: "wf_map (used ns1)" "\<forall>kv \<in> set (used ns1). snd kv"
    using assms map_values_update [of "used ns" "\<lambda>b. b"] by (simp_all add: ns1_def nonce_inv_def)
  from assms True show ?thesis
  proof (cases rule: redeem_cases)
    case room
    with assms ok bounds show ?thesis
      by (simp add: nonce_inv_def flip: ns1_def) (simp add: ns1_def)
  next
    case full
    note full = full [folded ns1_def]
    let ?m = "minUsed ns1"
    have "Suc (length (AList.delete ?m (used ns1))) = length (used ns1)"
      using ok(1) full(3) by (rule length_alist_delete)
    moreover have above: "sint ?m < sint x" if "x \<in> map_keys (used ns1) - {?m}" for x
    proof -
      have "sint ?m \<le> sint x" "sint ?m \<noteq> sint x"
        using that full(4) signed_word_eqI [of ?m x] by auto
      then show ?thesis by linarith
    qed
    moreover have "sint (earliest ns) < sint ?m" "sint ?m \<le> sint (latest ns)"
      using full(3) bounds by auto
    moreover have "\<forall>kv \<in> set (AList.delete ?m (used ns1)). snd kv"
      using ok(2) by (rule map_values_delete)
    ultimately show ?thesis
      using full(1,2) ok(1) bounds assms by (simp add: nonce_inv_def) (auto simp: ns1_def)
  qed
qed

lemma redeem_spent:
  assumes "nonce_inv ns"
  shows "spent ns \<subseteq> spent (fst (redeem ns c))"
    and "snd (redeem ns c) \<Longrightarrow> c \<in> spent (fst (redeem ns c))"
proof -
  have "spent ns \<subseteq> spent (fst (redeem ns c)) \<and> c \<in> spent (fst (redeem ns c))"
    if acc: "snd (redeem ns c)"
    using assms acc
  proof (cases rule: redeem_cases)
    case room
    then show ?thesis by (auto simp: spent_def)
  next
    case full
    then have "sint (earliest ns) \<le> sint (minUsed (ns\<lparr>used := AList.update c True (used ns)\<rparr>))"
      using assms redeem_accept_iff [OF assms, of c] acc
      by (fastforce simp: nonce_inv_def spent_def)
    with full show ?thesis
      by (auto simp: spent_def)
  qed
  then show "spent ns \<subseteq> spent (fst (redeem ns c))"
    and "snd (redeem ns c) \<Longrightarrow> c \<in> spent (fst (redeem ns c))"
    by (cases "snd (redeem ns c)"; auto simp: redeem_refused)+
qed

section \<open>Runs of the service\<close>

text \<open>
  Each operation touches the state in one critical section, so the interleaved requests
  of the front end are a sequence of these operations.
\<close>

datatype nonce_op = Issue "bytes option" | Check string

fun nonce_step :: "NonceService \<Rightarrow> nonce_op \<Rightarrow> NonceService" where
  "nonce_step ns (Issue rnd) = fst (NewNonce ns rnd)"
| "nonce_step ns (Check n) = fst (Valid ns n)"

text \<open>The counters accepted along a run, in order.\<close>

fun accepted :: "NonceService \<Rightarrow> nonce_op list \<Rightarrow> int64 list" where
  "accepted ns [] = []"
| "accepted ns (Issue rnd # xs) = accepted (nonce_step ns (Issue rnd)) xs"
| "accepted ns (Check n # xs) =
     (case decrypt ns n of
        Inr c \<Rightarrow> (if snd (Valid ns n) then [c] else []) @ accepted (nonce_step ns (Check n)) xs
      | Inl _ \<Rightarrow> accepted (nonce_step ns (Check n)) xs)"

text \<open>No wrap-around of the 64-bit counter: a step may issue unless it is at its maximum.\<close>

fun nonce_guard :: "NonceService \<Rightarrow> nonce_op \<Rightarrow> bool" where
  "nonce_guard ns (Issue rnd) = (sint (latest ns) + 1 < 2 ^ 63)"
| "nonce_guard ns (Check n) = True"

lemma sint_Suc_int64: "sint (c :: int64) + 1 < 2 ^ 63 \<Longrightarrow> sint (c + 1) = sint c + 1"
  using sint_ge [of c] by (simp add: sint_word_ariths signed_take_bit_int_eq_self)

lemma Valid_redeem: "decrypt ns n = Inr c \<Longrightarrow> Valid ns n = redeem ns c"
  by (simp add: Valid_def)

lemma Valid_unchanged: "decrypt ns n = Inl e \<Longrightarrow> Valid ns n = (ns, False)"
  by (simp add: Valid_def)

lemma nonce_step_inv: "nonce_inv ns \<Longrightarrow> nonce_guard ns x \<Longrightarrow> nonce_inv (nonce_step ns x)"
proof (cases x)
  case (Issue rnd)
  assume inv: "nonce_inv ns" and g: "nonce_guard ns x"
  from g Issue have "sint (latest ns + 1) = sint (latest ns) + 1"
    by (simp add: sint_Suc_int64)
  with inv Issue show ?thesis by (auto simp: nonce_inv_def NewNonce_def Let_def)
next
  case (Check n)
  assume "nonce_inv ns"
  with Check show ?thesis
    by (cases "decrypt ns n") (auto simp: Valid_redeem Valid_unchanged redeem_inv)
qed

interpretation nonces: machine nonce_step nonce_guard nonce_inv
  by unfold_locales (rule nonce_step_inv)

lemma nonce_inv_init: "nonce_inv (NewNonceService g)"
  by (simp add: nonce_inv_def NewNonceService_def)

lemma nonce_step_latest:
  "sint (latest ns) + 1 < 2 ^ 63 \<Longrightarrow> sint (latest (nonce_step ns x)) \<le> sint (latest ns) + 1"
proof (cases x)
  case (Check n)
  then show ?thesis
    by (cases "decrypt ns n") (auto simp: Valid_redeem Valid_unchanged)
qed (simp add: NewNonce_def Let_def sint_Suc_int64)

lemma short_run_ok:
  "sint (latest ns) + int (length xs) < 2 ^ 63 \<Longrightarrow> run_ok nonce_guard nonce_step ns xs"
proof (induction xs arbitrary: ns)
  case Nil
  then show ?case by simp
next
  case (Cons x xs)
  then have "sint (latest ns) + 1 < 2 ^ 63" by simp
  with nonce_step_latest [of ns x] Cons.prems
  have "sint (latest (nonce_step ns x)) + int (length xs) < 2 ^ 63" by simp
  with Cons \<open>sint (latest ns) + 1 < 2 ^ 63\<close> show ?case by (cases x) auto
qed

lemma spent_step: "nonce_inv ns \<Longrightarrow> spent ns \<subseteq> spent (nonce_step ns x)"
proof (cases x)
  case (Check n)
  assume "nonce_inv ns"
  with Check show ?thesis
    by (cases "decrypt ns n") (auto simp: Valid_redeem Valid_unchanged dest: redeem_spent(1))
qed (auto simp: spent_def NewNonce_def Let_def)

lemma accepted_distinct_aux:
  "nonce_inv ns \<Longrightarrow> run_ok nonce_guard nonce_step ns xs \<Longrightarrow>
     distinct (accepted ns xs) \<and> set (accepted ns xs) \<inter> spent ns = {}"
proof (induction ns xs rule: accepted.induct)
  case (1 ns)
  then show ?case by simp
next
  case (2 ns rnd xs)
  from "2.prems" have "nonce_guard ns (Issue rnd)" by simp
  with "2.prems" have inv: "nonce_inv (nonce_step ns (Issue rnd))" by (intro nonce_step_inv)
  with 2 spent_step [of ns "Issue rnd"] show ?case by auto
next
  case (3 ns n xs)
  let ?ns' = "nonce_step ns (Check n)"
  from "3.prems" have inv: "nonce_inv ?ns'" by (intro nonce_step_inv) simp_all
  have mono: "spent ns \<subseteq> spent ?ns'" using "3.prems"(1) by (rule spent_step)
  show ?case
  proof (cases "decrypt ns n")
    case (Inl e)
    with 3 inv mono show ?thesis by auto
  next
    case (Inr c)
    with 3 inv have ih: "distinct (accepted ?ns' xs)" "set (accepted ?ns' xs) \<inter> spent ?ns' = {}"
      by auto
    have "snd (Valid ns n) \<Longrightarrow> c \<notin> spent ns \<and> c \<in> spent ?ns'"
      using Inr 3 redeem_accept_iff redeem_spent(2) by (auto simp: Valid_redeem)
    with ih mono Inr show ?thesis by auto
  qed
qed

section \<open>Properties\<close>

text \<open>
  A concrete cipher for the witnesses: the plaintext followed by a tag of 16 zero bytes.
\<close>

definition tag_aead :: AEAD where
  "tag_aead =
     \<lparr>Seal = (\<lambda>n p. p @ zero_bytes 16), Open = (\<lambda>n c. Some (take (length c - 16) c))\<rparr>"

lemma tag_aead_laws: "aead_laws tag_aead"
  by (simp add: aead_laws_def tag_aead_def)

text \<open>
  Replay protection. In every run of fewer than \<open>2 ^ 63\<close> operations from a fresh
  service, no counter is accepted twice: a nonce, or any other string decrypting to the
  same counter, is redeemed at most once, whatever was evicted from the table.
\<close>

theorem nonce_single_use:
  assumes "length ops < 2 ^ 63"
  shows "distinct (accepted (NewNonceService g) ops)"
proof -
  have "run_ok nonce_guard nonce_step (NewNonceService g) ops"
    using assms by (intro short_run_ok) (simp add: NewNonceService_def)
  with nonce_inv_init show ?thesis by (auto dest: accepted_distinct_aux)
qed

theorem nonce_single_use_witness:
  "length [Issue (Some ''abcdefgh''), Check ''x'', Check ''x''] < 2 ^ 63 \<and>
   distinct (accepted (NewNonceService tag_aead) [Issue (Some ''abcdefgh''), Check ''x'', Check ''x''])"
proof -
  have "length [Issue (Some ''abcdefgh''), Check ''x'', Check ''x''] < 2 ^ 63" by simp
  then show ?thesis by (metis nonce_single_use)
qed

text \<open>
  C23: An issued nonce is good. On a service in a state its operations can reach, with an
  authenticated cipher and a working random source, the string returned by \<open>NewNonce\<close>
  is accepted by \<open>Valid\<close> the first time it is presented.
\<close>

theorem nonce_fresh_valid:
  assumes "nonce_inv ns" "aead_laws (gcm ns)" "length r = 8" "sint (latest ns) + 1 < 2 ^ 63"
  shows "\<exists>n. snd (NewNonce ns (Some r)) = Inr n \<and> snd (Valid (fst (NewNonce ns (Some r))) n)"
proof -
  let ?ns = "ns\<lparr>latest := latest ns + 1\<rparr>"
  have s: "sint (latest ns + 1) = sint (latest ns) + 1"
    using assms(4) by (rule sint_Suc_int64)
  have inv: "nonce_inv ?ns"
    using nonce_step_inv [of ns "Issue (Some r)"] assms by (simp add: NewNonce_def Let_def)
  have "\<exists>n. encrypt ?ns (Some r) (latest ?ns) = Inr n \<and> decrypt ?ns n = Inr (latest ?ns)"
    using assms s by (intro decrypt_encrypt_aux) (auto simp: nonce_inv_def)
  then obtain n where n: "encrypt ?ns (Some r) (latest ?ns) = Inr n"
      "decrypt ?ns n = Inr (latest ?ns)" by blast
  have "latest ?ns \<notin> spent ?ns"
    using assms(1) s by (auto simp: spent_def nonce_inv_def)
  then have "snd (redeem ?ns (latest ?ns))"
    by (simp add: redeem_accept_iff [OF inv])
  with n show ?thesis
    by (simp add: NewNonce_def Let_def Valid_redeem)
qed

theorem nonce_fresh_valid_witness:
  "\<exists>n. snd (NewNonce (NewNonceService tag_aead) (Some ''abcdefgh'')) = Inr n \<and>
     snd (Valid (fst (NewNonce (NewNonceService tag_aead) (Some ''abcdefgh''))) n)"
  by (rule nonce_fresh_valid [OF nonce_inv_init]) (simp_all add: NewNonceService_def tag_aead_laws)

text \<open>
  Bounded memory. In every run of fewer than \<open>2 ^ 63\<close> operations the table of used
  counters holds at most \<open>MaxUsed\<close> entries, all of them between \<open>earliest\<close> and \<open>latest\<close>.
\<close>

theorem nonce_table_bounded:
  assumes "length ops < 2 ^ 63"
  shows "let ns = foldl nonce_step (NewNonceService g) ops in
    length (used ns) \<le> maxUsed ns \<and>
    (\<forall>c \<in> map_keys (used ns). sint (earliest ns) < sint c \<and> sint c \<le> sint (latest ns))"
proof -
  have "run_ok nonce_guard nonce_step (NewNonceService g) ops"
    using assms by (intro short_run_ok) (simp add: NewNonceService_def)
  with nonce_inv_init have "nonce_inv (foldl nonce_step (NewNonceService g) ops)"
    by (rule nonces.run_invar)
  then show ?thesis by (simp add: nonce_inv_def Let_def)
qed

theorem nonce_table_bounded_witness:
  "let ns = foldl nonce_step (NewNonceService tag_aead) [Issue (Some ''abcdefgh''), Check ''x''] in
    length (used ns) \<le> maxUsed ns \<and>
    (\<forall>c \<in> map_keys (used ns). sint (earliest ns) < sint c \<and> sint c \<le> sint (latest ns))"
  by (rule nonce_table_bounded) simp

end
