(* ===== verification/Wfe.thy ===== *)
theory Wfe
  imports Nonce Va Csr
begin

text \<open>
  The web front end (\<^verbatim>\<open>wfe/wfe.go\<close>, \<^verbatim>\<open>wfe/jose.go\<close>, \<^verbatim>\<open>wfe/context.go\<close>). A handler maps the front
  end, a request and the response written so far to the front end with its nonce service
  updated, the response and the calls made to the registration authority; \<open>None\<close> is a panic.
  The registration and storage authorities, the JOSE library, JSON and the X.509 parsers are
  parameters. Log events are left out except for the account of the requester, which goes
  into a header; so are metrics and deadlines.
\<close>

section \<open>net/http\<close>

type_synonym headers = "(string \<times> string list) list"

text \<open>Header names are in their canonical form. \<open>rq_Body\<close> is \<open>None\<close> for a nil body.\<close>

record http_request =
  rq_Method :: string
  rq_Path :: string
  rq_Host :: string
  rq_TLS :: bool
  rq_Header :: headers
  rq_Body :: "(string + bytes) option"
  rq_RemoteAddr :: string

definition header_get :: "http_request \<Rightarrow> string \<Rightarrow> string" where
  "header_get request name = (case map_of (rq_Header request) name of Some (v # _) \<Rightarrow> v | _ \<Rightarrow> [])"

text \<open>
  A response writer: the headers set so far, the status and headers that were sent, and the
  body. Headers that are set after the status was sent have no effect on the client.
\<close>

record response_writer =
  rw_Header :: headers
  rw_sent :: "(int \<times> headers) option"
  rw_Body :: bytes

definition new_response :: response_writer where
  "new_response = \<lparr>rw_Header = [], rw_sent = None, rw_Body = []\<rparr>"

definition Header_Set :: "string \<Rightarrow> string \<Rightarrow> response_writer \<Rightarrow> response_writer" where
  "Header_Set k v w = w\<lparr>rw_Header := AList.update k [v] (rw_Header w)\<rparr>"

definition Header_Add :: "string \<Rightarrow> string \<Rightarrow> response_writer \<Rightarrow> response_writer" where
  "Header_Add k v w =
     w\<lparr>rw_Header := AList.update k ((case map_of (rw_Header w) k of None \<Rightarrow> [] | Some vs \<Rightarrow> vs) @ [v]) (rw_Header w)\<rparr>"

definition WriteHeader :: "int \<Rightarrow> response_writer \<Rightarrow> response_writer" where
  "WriteHeader code w = (if rw_sent w = None then w\<lparr>rw_sent := Some (code, rw_Header w)\<rparr> else w)"

definition Write :: "bytes \<Rightarrow> response_writer \<Rightarrow> response_writer" where
  "Write b w = (let w = WriteHeader 200 w in w\<lparr>rw_Body := rw_Body w @ b\<rparr>)"

text \<open>What the client gets: status 200 when none was sent, and no body for \<^verbatim>\<open>HEAD\<close>.\<close>

record http_response =
  hr_Status :: int
  hr_Header :: headers
  hr_Body :: bytes

definition finish_response :: "http_request \<Rightarrow> response_writer \<Rightarrow> http_response" where
  "finish_response request w =
     (case rw_sent (WriteHeader 200 w) of
        Some (code, h) \<Rightarrow> \<lparr>hr_Status = code, hr_Header = h, hr_Body = (if rq_Method request = ''HEAD'' then [] else rw_Body w)\<rparr>
      | None \<Rightarrow> \<lparr>hr_Status = 200, hr_Header = rw_Header w, hr_Body = rw_Body w\<rparr>)"

definition eol :: string where "eol = [CHR 0x0A]"

definition http_NotFound :: "response_writer \<Rightarrow> response_writer" where
  "http_NotFound w =
     Write (''404 page not found'' @ eol)
       (WriteHeader 404 (Header_Set ''X-Content-Type-Options'' ''nosniff''
         (Header_Set ''Content-Type'' ''text/plain; charset=utf-8'' w)))"

text \<open>
  \<^verbatim>\<open>http.ServeMux\<close>: the path is cleaned and a request for another path is redirected; a pattern
  matches its own path, and the paths below it when it ends in a slash; the longest match
  wins; a pattern with the slash also redirects its path without it.
\<close>

fun clean_segments :: "string list \<Rightarrow> string list \<Rightarrow> string list" where
  "clean_segments out [] = rev out"
| "clean_segments out (s # ss) =
     (if s = [] \<or> s = ''.'' then clean_segments out ss
      else if s = ''..'' then clean_segments (tl out) ss
      else clean_segments (s # out) ss)"

definition cleanPath :: "string \<Rightarrow> string" where
  "cleanPath p =
     (if p = [] then ''/''
      else
        (let p = (if hd p \<noteq> CHR ''/'' then CHR ''/'' # p else p);
             np = CHR ''/'' # join_with ''/'' (clean_segments [] (split_on (CHR ''/'') p))
         in if last p = CHR ''/'' \<and> np \<noteq> ''/'' then np @ ''/'' else np))"

definition pattern_matches :: "string \<Rightarrow> string \<Rightarrow> bool" where
  "pattern_matches pattern path =
     (if pattern = [] then False
      else if last pattern \<noteq> CHR ''/'' then pattern = path else has_prefix path pattern)"

fun longest_match :: "string \<Rightarrow> (string \<times> 'h) list \<Rightarrow> (string \<times> 'h) option" where
  "longest_match path [] = None"
| "longest_match path ((pattern, h) # rest) =
     (case longest_match path rest of
        None \<Rightarrow> if pattern_matches pattern path then Some (pattern, h) else None
      | Some (pattern', h') \<Rightarrow>
          if pattern_matches pattern path \<and> length pattern > length pattern' then Some (pattern, h)
          else Some (pattern', h'))"

datatype 'h route = RouteRedirect string | RouteTo string 'h | RouteNotFound

definition mux_route :: "(string \<times> 'h) list \<Rightarrow> string \<Rightarrow> 'h route" where
  "mux_route table path =
     (let p = cleanPath path in
      if p \<noteq> path then RouteRedirect p
      else if map_of table path = None \<and> map_of table (path @ ''/'') \<noteq> None then RouteRedirect (path @ ''/'')
      else (case longest_match path table of Some (pattern, h) \<Rightarrow> RouteTo pattern h | None \<Rightarrow> RouteNotFound))"

section \<open>JOSE\<close>

record jws_signature =
  sig_JsonWebKey :: "JsonWebKey option"
  sig_Nonce :: string
  sig_Algorithm :: string

record JsonWebSignature =
  jws_Signatures :: "jws_signature list"
  jws_Raw :: string

definition curve_name :: "CurveID \<Rightarrow> string" where
  "curve_name c = (case c of P256 \<Rightarrow> ''P-256'' | P384 \<Rightarrow> ''P-384'' | OtherCurve n \<Rightarrow> n)"

definition algorithmForKey :: "JsonWebKey \<Rightarrow> goerror + string" where
  "algorithmForKey key =
     (case jwk_Key key of
        RSAKey _ _ \<Rightarrow> Inr ''RS256''
      | ECDSAKey c _ _ \<Rightarrow>
          if curve_name c = ''P-256'' then Inr ''ES256''
          else if curve_name c = ''P-384'' then Inr ''ES384''
          else if curve_name c = ''P-521'' then Inr ''ES512''
          else Inl (BoulderError SignatureValidation ''no signature algorithms suitable for given key type'')
      | OtherKey _ \<Rightarrow> Inl (BoulderError SignatureValidation ''no signature algorithms suitable for given key type''))"

definition checkAlgorithm :: "JsonWebKey \<Rightarrow> JsonWebSignature \<Rightarrow> goerror option" where
  "checkAlgorithm key parsedJws =
     (case algorithmForKey key of
        Inl err \<Rightarrow> Some err
      | Inr algorithm \<Rightarrow>
          (let jwsAlgorithm = sig_Algorithm (jws_Signatures parsedJws ! 0) in
           if jwsAlgorithm \<noteq> algorithm
           then Some (BoulderError SignatureValidation (''signature type '' @ apos @ jwsAlgorithm @ apos @
                  '' in JWS header is not supported, expected one of RS256, ES256, ES384 or ES512''))
           else if Algorithm key \<noteq> [] \<and> Algorithm key \<noteq> algorithm
           then Some (BoulderError SignatureValidation (''algorithm '' @ apos @ Algorithm key @ apos @
                  '' on JWK is unacceptable''))
           else None))"

section \<open>State and environment\<close>

record WebFrontEndImpl =
  BaseURL :: string
  IssuerCert :: bytes
  SubscriberAgreementURL :: string
  nonceService :: NonceService
  wfe_keyPolicy :: KeyPolicy
  CertCacheDuration :: duration
  CertNoCacheExpirationWindow :: duration
  IndexCacheDuration :: duration
  IssuerCacheDuration :: duration
  AllowOrigins :: "string list"
  RequestTimeout :: duration
  AcceptRevocationReason :: bool
  AllowAuthzDeactivation :: bool

definition NewWebFrontEndImpl :: "string + AEAD \<Rightarrow> KeyPolicy \<Rightarrow> string + WebFrontEndImpl" where
  "NewWebFrontEndImpl newGCM keyPolicy =
     (case newGCM of
        Inl err \<Rightarrow> Inl err
      | Inr aead \<Rightarrow>
          Inr \<lparr>BaseURL = [], IssuerCert = [], SubscriberAgreementURL = [], nonceService = NewNonceService aead,
               wfe_keyPolicy = keyPolicy, CertCacheDuration = 0, CertNoCacheExpirationWindow = 0,
               IndexCacheDuration = 0, IssuerCacheDuration = 0, AllowOrigins = [], RequestTimeout = 0,
               AcceptRevocationReason = False, AllowAuthzDeactivation = False\<rparr>)"

datatype json_object =
    JRegistration Registration
  | JAuthorization Authorization
  | JChallenge Challenge
  | JProblem ProblemDetails
  | JDirectory "(string \<times> string) list"

datatype ra_call =
    RaNewRegistration Registration
  | RaNewAuthorization Authorization int
  | RaNewCertificate CertificateRequest int
  | RaUpdateRegistration Registration Registration
  | RaUpdateAuthorization Authorization int Challenge
  | RaRevokeCertificateWithReg x509Cert int int
  | RaDeactivateRegistration Registration
  | RaDeactivateAuthorization Authorization

text \<open>
  \<open>we_regByKey n\<close> is the n-th lookup of a registration by key in a request. \<open>we_issuerURLs\<close> are the
  issuer URLs of a certificate, and \<open>we_httpsURL\<close> parses a URL and prints it with the scheme
  \<^verbatim>\<open>https\<close>.
\<close>

record wfe_env =
  we_enabled :: "FeatureFlag \<Rightarrow> bool"
  we_now :: time
  we_requestID :: string
  we_nonceRand :: "bytes option"
  we_ParseSigned :: "string \<Rightarrow> JsonWebSignature option"
  we_keyValid :: "JsonWebKey \<Rightarrow> bool"
  we_Verify :: "JsonWebSignature \<Rightarrow> JsonWebKey \<Rightarrow> string + bytes"
  we_ec :: "CurveID \<Rightarrow> CurveParams"
  we_sha256 :: "bytes \<Rightarrow> bytes"
  we_marshalPKIX :: "PublicKey \<Rightarrow> bytes option"
  we_marshal :: "json_object \<Rightarrow> string + bytes"
  we_resource :: "bytes \<Rightarrow> string + string"
  we_jsonReg :: "bytes \<Rightarrow> string + Registration"
  we_jsonAuthz :: "bytes \<Rightarrow> string + Authorization"
  we_jsonChallenge :: "bytes \<Rightarrow> string + Challenge"
  we_jsonRevoke :: "bytes \<Rightarrow> string + (bytes \<times> int option)"
  we_jsonCSR :: "bytes \<Rightarrow> string + bytes"
  we_jsonStatus :: "bytes \<Rightarrow> string + AcmeStatus"
  we_jsonRollover :: "bytes \<Rightarrow> string + (PublicKey option \<times> string)"
  we_parseCertificate :: "bytes \<Rightarrow> string + x509Cert"
  we_parseCSR :: "bytes \<Rightarrow> string + CertificateRequest"
  we_issuerURLs :: "bytes \<Rightarrow> string list"
  we_httpsURL :: "string \<Rightarrow> string + string"
  we_parseIP :: "string \<Rightarrow> IP"
  we_redirectNote :: "string \<Rightarrow> bytes"
  we_buildID :: string
  we_buildTime :: string
  we_regByKey :: "nat \<Rightarrow> JsonWebKey \<Rightarrow> goerror + Registration"
  we_authorization :: "string \<Rightarrow> goerror + Authorization"
  we_certificate :: "string \<Rightarrow> goerror + Certificate"
  we_certificateStatus :: "string \<Rightarrow> goerror + CertificateStatus"
  we_validAuthorizations :: "int \<Rightarrow> string list \<Rightarrow> time \<Rightarrow> goerror + (string \<times> Authorization) list"
  we_newRegistration :: "Registration \<Rightarrow> goerror + Registration"
  we_newAuthorization :: "Authorization \<Rightarrow> int \<Rightarrow> goerror + Authorization"
  we_newCertificate :: "CertificateRequest \<Rightarrow> int \<Rightarrow> goerror + Certificate"
  we_updateRegistration :: "Registration \<Rightarrow> Registration \<Rightarrow> goerror + Registration"
  we_updateAuthorization :: "Authorization \<Rightarrow> int \<Rightarrow> Challenge \<Rightarrow> goerror + Authorization"
  we_revoke :: "x509Cert \<Rightarrow> int \<Rightarrow> int \<Rightarrow> goerror option"
  we_deactivateRegistration :: "Registration \<Rightarrow> goerror option"
  we_deactivateAuthorization :: "Authorization \<Rightarrow> goerror option"

type_synonym handled = "(WebFrontEndImpl \<times> response_writer \<times> ra_call list) option"

type_synonym handler = "wfe_env \<Rightarrow> WebFrontEndImpl \<Rightarrow> http_request \<Rightarrow> response_writer \<Rightarrow> handled"

section \<open>Paths and small helpers\<close>

definition directoryPath :: string where "directoryPath = ''/directory''"
definition newRegPath :: string where "newRegPath = ''/acme/new-reg''"
definition regPath :: string where "regPath = ''/acme/reg/''"
definition newAuthzPath :: string where "newAuthzPath = ''/acme/new-authz''"
definition authzPath :: string where "authzPath = ''/acme/authz/''"
definition challengePath :: string where "challengePath = ''/acme/challenge/''"
definition newCertPath :: string where "newCertPath = ''/acme/new-cert''"
definition certPath :: string where "certPath = ''/acme/cert/''"
definition revokeCertPath :: string where "revokeCertPath = ''/acme/revoke-cert''"
definition termsPath :: string where "termsPath = ''/terms''"
definition issuerPath :: string where "issuerPath = ''/acme/issuer-cert''"
definition buildIDPath :: string where "buildIDPath = ''/build''"
definition rolloverPath :: string where "rolloverPath = ''/acme/key-change''"

definition ResourceNewReg :: string where "ResourceNewReg = ''new-reg''"
definition ResourceNewAuthz :: string where "ResourceNewAuthz = ''new-authz''"
definition ResourceNewCert :: string where "ResourceNewCert = ''new-cert''"
definition ResourceRevokeCert :: string where "ResourceRevokeCert = ''revoke-cert''"
definition ResourceRegistration :: string where "ResourceRegistration = ''reg''"
definition ResourceChallenge :: string where "ResourceChallenge = ''challenge''"
definition ResourceAuthz :: string where "ResourceAuthz = ''authz''"
definition ResourceKeyChange :: string where "ResourceKeyChange = ''key-change''"

definition unknownKey :: string where "unknownKey = ''No registration exists matching provided key''"

definition addNoCacheHeader :: "response_writer \<Rightarrow> response_writer" where
  "addNoCacheHeader w = Header_Add ''Cache-Control'' ''public, max-age=0, no-cache'' w"

definition addRequesterHeader :: "int \<Rightarrow> response_writer \<Rightarrow> response_writer" where
  "addRequesterHeader requester w =
     (if requester > 0 then Header_Set ''Boulder-Requester'' (Itoa requester) w else w)"

definition link_header :: "string \<Rightarrow> string \<Rightarrow> string" where
  "link_header url relation = ''<'' @ url @ ''>;rel='' @ [CHR 0x22] @ relation @ [CHR 0x22]"

definition sendError :: "wfe_env \<Rightarrow> ProblemDetails \<Rightarrow> response_writer \<Rightarrow> response_writer" where
  "sendError E prob w =
     (let problemDoc =
        (case we_marshal E (JProblem prob) of
           Inr doc \<Rightarrow> doc
         | Inl _ \<Rightarrow> ''{'' @ [CHR 0x22] @ ''detail'' @ [CHR 0x22] @ '': '' @ [CHR 0x22] @
             ''Problem marshalling error message.'' @ [CHR 0x22] @ ''}'')
      in Write problemDoc (WriteHeader (ProblemDetailsToStatusCode prob)
           (Header_Set ''Content-Type'' ''application/problem+json'' w)))"

definition writeJsonResponse ::
  "wfe_env \<Rightarrow> int \<Rightarrow> json_object \<Rightarrow> response_writer \<Rightarrow> string + response_writer" where
  "writeJsonResponse E status v w =
     (case we_marshal E v of
        Inl err \<Rightarrow> Inl err
      | Inr jsonReply \<Rightarrow> Inr (Write jsonReply (WriteHeader status (Header_Set ''Content-Type'' ''application/json'' w))))"

definition relativeEndpoint :: "WebFrontEndImpl \<Rightarrow> http_request \<Rightarrow> string \<Rightarrow> string" where
  "relativeEndpoint wfe request endpoint =
     (let proto = (if rq_TLS request then ''https'' else ''http'');
          specifiedProto = header_get request ''X-Forwarded-Proto'';
          proto = (if specifiedProto \<noteq> [] then specifiedProto else proto);
          host = (if rq_Host request = [] then ''localhost'' else rq_Host request)
      in if BaseURL wfe \<noteq> [] then BaseURL wfe @ endpoint else url_String proto host endpoint)"

definition relativeDirectory ::
  "wfe_env \<Rightarrow> WebFrontEndImpl \<Rightarrow> http_request \<Rightarrow> (string \<times> string) list \<Rightarrow> string + bytes" where
  "relativeDirectory E wfe request directory =
     we_marshal E (JDirectory (map (\<lambda>(k, v). (k, relativeEndpoint wfe request v)) directory))"

text \<open>The tail of the handlers: the object as JSON, or an internal error when it does not marshal.\<close>

definition reply_json ::
  "wfe_env \<Rightarrow> int \<Rightarrow> json_object \<Rightarrow> string \<Rightarrow> response_writer \<Rightarrow> response_writer" where
  "reply_json E status v msg w =
     (case writeJsonResponse E status v w of
        Inr w' \<Rightarrow> w' | Inl _ \<Rightarrow> sendError E (probs_ServerInternal msg) w)"

definition terms_link :: "WebFrontEndImpl \<Rightarrow> response_writer \<Rightarrow> response_writer" where
  "terms_link wfe w =
     (if length (SubscriberAgreementURL wfe) > 0
      then Header_Add ''Link'' (link_header (SubscriberAgreementURL wfe) ''terms-of-service'') w else w)"

fun addIssuingCertificateURLs ::
  "wfe_env \<Rightarrow> string list \<Rightarrow> response_writer \<Rightarrow> response_writer \<times> string option" where
  "addIssuingCertificateURLs E [] w = (w, None)"
| "addIssuingCertificateURLs E (rawURL # urls) w =
     (case we_httpsURL E rawURL of
        Inl err \<Rightarrow> (w, Some err)
      | Inr url \<Rightarrow> addIssuingCertificateURLs E urls (Header_Add ''Link'' (link_header url ''up'') w))"

section \<open>Verification of requests\<close>

definition extractJWSKey :: "wfe_env \<Rightarrow> string \<Rightarrow> string + (JsonWebKey \<times> JsonWebSignature)" where
  "extractJWSKey E body =
     (case we_ParseSigned E body of
        None \<Rightarrow> Inl ''Parse error reading JWS''
      | Some parsedJws \<Rightarrow>
          if length (jws_Signatures parsedJws) > 1 then Inl ''Too many signatures in POST body''
          else if length (jws_Signatures parsedJws) = 0 then Inl ''POST JWS not signed''
          else
            (case sig_JsonWebKey (jws_Signatures parsedJws ! 0) of
               None \<Rightarrow> Inl ''No JWK in JWS header''
             | Some key \<Rightarrow>
                 if \<not> we_keyValid E key then Inl ''Invalid JWK in JWS header'' else Inr (key, parsedJws)))"

definition no_registration :: "goerror \<Rightarrow> bool" where
  "no_registration err \<longleftrightarrow> (case err of core_NoSuchRegistrationError _ \<Rightarrow> True | _ \<Rightarrow> False) \<or> berrors_Is err NotFound"

definition empty_registration :: Registration where
  "empty_registration = \<lparr>reg_ID = 0, reg_Key = None, Contact = None, Agreement = [], InitialIP = None,
     CreatedAt = zero_time, reg_Status = []\<rparr>"

text \<open>
  The account to verify a request for, and its key: the stored registration, or with
  \<open>regCheck\<close> false the submitted key when there is none and the key policy accepts it. The key
  of a stored registration is a pointer.
\<close>

definition requester_of ::
  "wfe_env \<Rightarrow> WebFrontEndImpl \<Rightarrow> bool \<Rightarrow> JsonWebKey \<Rightarrow> ProblemDetails + (JsonWebKey option \<times> Registration \<times> int)" where
  "requester_of E wfe regCheck submittedKey =
     (case we_regByKey E 0 submittedKey of
        Inr reg \<Rightarrow> Inr (reg_Key reg, reg, reg_ID reg)
      | Inl err \<Rightarrow>
          if no_registration err \<and> \<not> regCheck then
            (case GoodKey (we_ec E) (wfe_keyPolicy wfe) (jwk_Key submittedKey) of
               Some err \<Rightarrow> Inl (probs_Malformed (Error err))
             | None \<Rightarrow> Inr (Some submittedKey, empty_registration, 0))
          else if no_registration err then Inl (probs_Unauthorized unknownKey)
          else Inl (probs_ServerInternal ''Failed to get registration by key''))"

text \<open>The checks after the signature: the nonce, which is spent, and the resource.\<close>

definition check_nonce :: "WebFrontEndImpl \<Rightarrow> string \<Rightarrow> WebFrontEndImpl \<times> ProblemDetails option" where
  "check_nonce wfe nonce =
     (if length nonce = 0 then (wfe, Some (probs_BadNonce ''JWS has no anti-replay nonce''))
      else
        (case Valid (nonceService wfe) nonce of
           (ns, ok) \<Rightarrow>
             (wfe\<lparr>nonceService := ns\<rparr>,
              if ok then None else Some (probs_BadNonce (''JWS has invalid anti-replay nonce '' @ nonce)))))"

definition check_resource :: "wfe_env \<Rightarrow> bytes \<Rightarrow> string \<Rightarrow> ProblemDetails option" where
  "check_resource E payload resource =
     (case we_resource E payload of
        Inl _ \<Rightarrow> Some (probs_Malformed ''Request payload did not parse as JSON'')
      | Inr r \<Rightarrow>
          if r = [] then Some (probs_Malformed ''Request payload does not specify a resource'')
          else if resource \<noteq> r
          then Some (probs_Malformed (''JWS resource payload does not match the HTTP resource: '' @ r @ '' != '' @ resource))
          else None)"

definition verify_jws ::
  "wfe_env \<Rightarrow> WebFrontEndImpl \<Rightarrow> JsonWebKey \<Rightarrow> JsonWebSignature \<Rightarrow> string \<Rightarrow>
   WebFrontEndImpl \<times> (ProblemDetails + bytes)" where
  "verify_jws E wfe key parsedJws resource =
     (case checkAlgorithm key parsedJws of
        Some err \<Rightarrow> (wfe, Inl (probs_Malformed (Error err)))
      | None \<Rightarrow>
          (case we_Verify E parsedJws key of
             Inl _ \<Rightarrow> (wfe, Inl (probs_Malformed ''JWS verification error''))
           | Inr payload \<Rightarrow>
               (case check_nonce wfe (sig_Nonce (jws_Signatures parsedJws ! 0)) of
                  (wfe, Some prob) \<Rightarrow> (wfe, Inl prob)
                | (wfe, None) \<Rightarrow>
                    (case check_resource E payload resource of
                       Some prob \<Rightarrow> (wfe, Inl prob)
                     | None \<Rightarrow> (wfe, Inr payload)))))"

definition verifyPOST ::
  "wfe_env \<Rightarrow> WebFrontEndImpl \<Rightarrow> http_request \<Rightarrow> bool \<Rightarrow> string \<Rightarrow>
   (WebFrontEndImpl \<times> int \<times> (ProblemDetails + (bytes \<times> JsonWebKey \<times> Registration))) option" where
  "verifyPOST E wfe request regCheck resource =
     (if map_of (rq_Header request) ''Content-Length'' = None
      then Some (wfe, 0, Inl probs_ContentLengthRequired)
      else
        (case rq_Body request of
           None \<Rightarrow> Some (wfe, 0, Inl (probs_Malformed ''No body on POST''))
         | Some (Inl _) \<Rightarrow> Some (wfe, 0, Inl (probs_ServerInternal ''unable to read request body''))
         | Some (Inr body) \<Rightarrow>
             (case extractJWSKey E body of
                Inl err \<Rightarrow> Some (wfe, 0, Inl (probs_Malformed err))
              | Inr (submittedKey, parsedJws) \<Rightarrow>
                  (case requester_of E wfe regCheck submittedKey of
                     Inl prob \<Rightarrow> Some (wfe, 0, Inl prob)
                   | Inr (keyPtr, reg, requester) \<Rightarrow>
                       if regCheck \<and> we_enabled E AllowAccountDeactivation \<and> reg_Status reg \<noteq> StatusValid
                       then Some (wfe, requester, Inl (probs_Unauthorized
                              (''Registration is not valid, has status '' @ apos @ reg_Status reg @ apos)))
                       else
                         (case keyPtr of
                            None \<Rightarrow> None
                          | Some key \<Rightarrow>
                              (case verify_jws E wfe key parsedJws resource of
                                 (wfe, Inl prob) \<Rightarrow> Some (wfe, requester, Inl prob)
                               | (wfe, Inr payload) \<Rightarrow> Some (wfe, requester, Inr (payload, key, reg))))))))"

text \<open>
  Every handler of a POST starts with the verification, adds the header of the requester and
  stops at a problem; \<open>k\<close> is the rest of the handler.
\<close>

definition with_verified ::
  "wfe_env \<Rightarrow> WebFrontEndImpl \<Rightarrow> http_request \<Rightarrow> response_writer \<Rightarrow> bool \<Rightarrow> string \<Rightarrow>
   (WebFrontEndImpl \<Rightarrow> response_writer \<Rightarrow> bytes \<Rightarrow> JsonWebKey \<Rightarrow> Registration \<Rightarrow> handled) \<Rightarrow> handled" where
  "with_verified E wfe request w regCheck resource k =
     (case verifyPOST E wfe request regCheck resource of
        None \<Rightarrow> None
      | Some (wfe, requester, r) \<Rightarrow>
          (let w = addRequesterHeader requester w in
           case r of
             Inl prob \<Rightarrow> Some (wfe, sendError E prob w, [])
           | Inr (body, key, reg) \<Rightarrow> k wfe w body key reg))"

section \<open>Handlers\<close>

definition must_agree :: string where
  "must_agree = ''Must agree to subscriber agreement before any further actions''"

definition index_page :: bytes where
  "index_page =
    ''<html>'' @ eol @ replicate 2 (CHR 0x09) @ ''<body>'' @ eol @ replicate 3 (CHR 0x09) @
    ''This is an <a href='' @ [CHR 0x22] @ ''https://github.com/ietf-wg-acme/acme/'' @ [CHR 0x22] @
    ''>ACME</a>'' @ eol @ replicate 3 (CHR 0x09) @ ''Certificate Authority running <a href='' @ [CHR 0x22] @
    ''https://github.com/letsencrypt/boulder'' @ [CHR 0x22] @ ''>Boulder</a>.'' @ eol @ replicate 3 (CHR 0x09) @
    ''JSON directory is available at <a href='' @ [CHR 0x22] @ directoryPath @ [CHR 0x22] @ ''>'' @
    directoryPath @ ''</a>.'' @ eol @ replicate 2 (CHR 0x09) @ ''</body>'' @ eol @ replicate 1 (CHR 0x09) @
    ''</html>'' @ eol @ replicate 1 (CHR 0x09)"

text \<open>
  The root page. The content type that the handler sets after \<^verbatim>\<open>http.NotFound\<close> comes after the
  header was sent.
\<close>

definition Index :: handler where
  "Index E wfe request w =
     (if rq_Path request \<noteq> ''/''
      then Some (wfe, Header_Set ''Content-Type'' ''application/problem+json'' (http_NotFound w), [])
      else if rq_Method request \<noteq> ''GET''
      then Some (wfe, WriteHeader 405 (Header_Set ''Allow'' ''GET'' w), [])
      else Some (wfe, Write index_page (Header_Set ''Content-Type'' ''text/html'' (addNoCacheHeader w)), []))"

definition Directory :: handler where
  "Directory E wfe request w =
     (let directoryEndpoints = [(''new-reg'', newRegPath), (''new-authz'', newAuthzPath), (''new-cert'', newCertPath),
            (''revoke-cert'', revokeCertPath)];
          directoryEndpoints =
            (if we_enabled E AllowKeyRollover \<and> \<not> has_prefix (header_get request ''User-Agent'') ''LetsEncryptPythonClient''
             then directoryEndpoints @ [(''key-change'', rolloverPath)] else directoryEndpoints);
          w = Header_Set ''Content-Type'' ''application/json'' w
      in case relativeDirectory E wfe request directoryEndpoints of
           Inl _ \<Rightarrow> Some (wfe, sendError E (probs_ServerInternal ''unable to marshal JSON directory'') w, [])
         | Inr relDir \<Rightarrow> Some (wfe, Write relDir w, []))"

text \<open>The address a registration comes from.\<close>

definition initial_ip :: "wfe_env \<Rightarrow> http_request \<Rightarrow> IP option" where
  "initial_ip E request =
     (case we_parseIP E (header_get request ''X-Real-IP'') of
        Some ip \<Rightarrow> Some (Some ip)
      | None \<Rightarrow>
          (case SplitHostPort (rq_RemoteAddr request) of
             None \<Rightarrow> None
           | Some (host, _) \<Rightarrow> Some (we_parseIP E host)))"

definition NewRegistration_wfe :: handler where
  "NewRegistration_wfe E wfe request w =
     with_verified E wfe request w False ResourceNewReg (\<lambda>wfe w body key _.
       case we_regByKey E 1 key of
         Inr existingReg \<Rightarrow>
           Some (wfe, sendError E (probs_Conflict ''Registration key is already in use'')
             (Header_Set ''Location'' (relativeEndpoint wfe request (regPath @ Itoa (reg_ID existingReg))) w), [])
       | Inl _ \<Rightarrow>
           (case we_jsonReg E body of
              Inl _ \<Rightarrow> Some (wfe, sendError E (probs_Malformed ''Error unmarshaling JSON'') w, [])
            | Inr init \<Rightarrow>
                if length (Agreement init) > 0 \<and> Agreement init \<noteq> SubscriberAgreementURL wfe
                then Some (wfe, sendError E (probs_Malformed (''Provided agreement URL ['' @ Agreement init @
                       ''] does not match current agreement URL ['' @ SubscriberAgreementURL wfe @ '']'')) w, [])
                else
                  (case initial_ip E request of
                     None \<Rightarrow> Some (wfe, sendError E (probs_ServerInternal
                       (''couldn'' @ apos @ ''t parse the remote (that is, the client'' @ apos @ ''s) address'')) w, [])
                   | Some ip \<Rightarrow>
                       (let init = init\<lparr>reg_Key := Some key, InitialIP := ip\<rparr> in
                        case we_newRegistration E init of
                          Inl err \<Rightarrow>
                            Some (wfe, sendError E (problemDetailsForError err ''Error creating new registration'') w,
                                  [RaNewRegistration init])
                        | Inr reg \<Rightarrow>
                            Some (wfe,
                              reply_json E 201 (JRegistration reg) ''Error marshaling registration''
                                (terms_link wfe
                                  (Header_Add ''Link'' (link_header (relativeEndpoint wfe request newAuthzPath) ''next'')
                                    (Header_Add ''Location'' (relativeEndpoint wfe request (regPath @ Itoa (reg_ID reg)))
                                      (addRequesterHeader (reg_ID reg) w)))),
                              [RaNewRegistration init])))))"

text \<open>Identifiers are replaced by URLs before an object is shown.\<close>

definition prepChallengeForDisplay ::
  "WebFrontEndImpl \<Rightarrow> http_request \<Rightarrow> Authorization \<Rightarrow> Challenge \<Rightarrow> Challenge" where
  "prepChallengeForDisplay wfe request authz challenge =
     challenge\<lparr>URI := relativeEndpoint wfe request (challengePath @ az_ID authz @ ''/'' @ Itoa (ch_ID challenge)),
               ch_ID := 0\<rparr>"

definition prepAuthorizationForDisplay ::
  "WebFrontEndImpl \<Rightarrow> http_request \<Rightarrow> Authorization \<Rightarrow> Authorization" where
  "prepAuthorizationForDisplay wfe request authz =
     authz\<lparr>Challenges := map (prepChallengeForDisplay wfe request authz) (Challenges authz),
           az_ID := [], RegistrationID := 0\<rparr>"

definition NewAuthorization_wfe :: handler where
  "NewAuthorization_wfe E wfe request w =
     with_verified E wfe request w True ResourceNewAuthz (\<lambda>wfe w body _ currReg.
       if Agreement currReg = [] then Some (wfe, sendError E (probs_Unauthorized must_agree) w, [])
       else
         (case we_jsonAuthz E body of
            Inl _ \<Rightarrow> Some (wfe, sendError E (probs_Malformed ''Error unmarshaling JSON'') w, [])
          | Inr init \<Rightarrow>
              (let call = RaNewAuthorization init (reg_ID currReg) in
               case we_newAuthorization E init (reg_ID currReg) of
                 Inl err \<Rightarrow> Some (wfe, sendError E (problemDetailsForError err ''Error creating new authz'') w, [call])
               | Inr authz \<Rightarrow>
                   Some (wfe,
                     reply_json E 201 (JAuthorization (prepAuthorizationForDisplay wfe request authz)) ''Error marshaling authz''
                       (Header_Add ''Link'' (link_header (relativeEndpoint wfe request newCertPath) ''next'')
                         (Header_Add ''Location'' (relativeEndpoint wfe request (authzPath @ az_ID authz)) w)),
                     [call]))))"

definition regHoldsAuthorizations :: "wfe_env \<Rightarrow> int \<Rightarrow> string list \<Rightarrow> goerror + bool" where
  "regHoldsAuthorizations E regID names =
     (case we_validAuthorizations E regID names (we_now E) of
        Inl err \<Rightarrow> Inl err
      | Inr authz \<Rightarrow>
          if length names \<noteq> length authz then Inr False
          else Inr (list_all (\<lambda>name. map_of authz name \<noteq> None) names))"

text \<open>The last part of a revocation: the reason, and the call.\<close>

definition revoke_reason :: "WebFrontEndImpl \<Rightarrow> int option \<Rightarrow> int option" where
  "revoke_reason wfe requested =
     (case requested of
        Some r \<Rightarrow> if AcceptRevocationReason wfe then (if r \<notin> UserAllowedReasons then None else Some r) else Some 0
      | None \<Rightarrow> Some 0)"

definition finish_revocation ::
  "wfe_env \<Rightarrow> WebFrontEndImpl \<Rightarrow> x509Cert \<Rightarrow> int option \<Rightarrow> int \<Rightarrow> response_writer \<Rightarrow> handled" where
  "finish_revocation E wfe cert requested regID w =
     (case revoke_reason wfe requested of
        None \<Rightarrow> Some (wfe, sendError E (probs_Malformed ''unsupported revocation reason code provided'') w, [])
      | Some reason \<Rightarrow>
          (let call = RaRevokeCertificateWithReg cert reason regID in
           case we_revoke E cert reason regID of
             Some err \<Rightarrow> Some (wfe, sendError E (problemDetailsForError err ''Failed to revoke certificate'') w, [call])
           | None \<Rightarrow> Some (wfe, WriteHeader 200 w, [call])))"

definition revoke_unauthorized :: string where
  "revoke_unauthorized =
     ''Revocation request must be signed by private key of cert to be revoked, by the account key of the '' @
     ''account that issued it, or by the account key of an account that holds valid authorizations for all '' @
     ''names in the certificate.''"

text \<open>The handler after the verification of the request.\<close>

definition revoke_verified ::
  "wfe_env \<Rightarrow> WebFrontEndImpl \<Rightarrow> response_writer \<Rightarrow> bytes \<Rightarrow> JsonWebKey \<Rightarrow> Registration \<Rightarrow> handled" where
  "revoke_verified E wfe w body requestKey registration =
      (let fail = (\<lambda>prob. Some (wfe, sendError E prob w, [])) in
       case we_jsonRevoke E body of
         Inl _ \<Rightarrow> fail (probs_Malformed ''Unable to JSON parse revoke request'')
       | Inr (certDER, reason) \<Rightarrow>
           (case we_parseCertificate E certDER of
              Inl _ \<Rightarrow> fail (probs_Malformed ''Unable to parse certificate DER'')
            | Inr providedCert \<Rightarrow>
                (let ser = SerialToString (x_SerialNumber providedCert) in
                 case we_certificate E ser of
                   Inl _ \<Rightarrow> fail (probs_NotFound ''No such certificate'')
                 | Inr cert \<Rightarrow>
                     if DER cert \<noteq> certDER then fail (probs_NotFound ''No such certificate'')
                     else
                       (case we_parseCertificate E (DER cert) of
                          Inl _ \<Rightarrow> fail (probs_ServerInternal ''invalid parse of stored certificate'')
                        | Inr parsedCertificate \<Rightarrow>
                            (case we_certificateStatus E ser of
                               Inl _ \<Rightarrow> fail (probs_NotFound ''Certificate status not yet available'')
                             | Inr certStatus \<Rightarrow>
                                 if cs_Status certStatus = OCSPStatusRevoked
                                 then fail (probs_Conflict ''Certificate already revoked'')
                                 else if KeyDigestEquals (we_sha256 E) (we_marshalPKIX E) (JWKPtr (Some requestKey))
                                           (RawKey (x_PublicKey parsedCertificate)) \<or>
                                         reg_ID registration = cert_RegID cert
                                 then finish_revocation E wfe parsedCertificate reason (reg_ID registration) w
                                 else
                                   (case regHoldsAuthorizations E (reg_ID registration) (x_DNSNames parsedCertificate) of
                                      Inl _ \<Rightarrow> fail (probs_ServerInternal
                                        ''Failed to retrieve authorizations for names in certificate'')
                                    | Inr valid \<Rightarrow>
                                        if \<not> valid then fail (probs_Unauthorized revoke_unauthorized)
                                        else finish_revocation E wfe parsedCertificate reason (reg_ID registration) w))))))"

definition RevokeCertificate_wfe :: handler where
  "RevokeCertificate_wfe E wfe request w =
     with_verified E wfe request w False ResourceRevokeCert (revoke_verified E)"

definition key_of :: "CertificateRequest \<Rightarrow> PublicKey" where
  "key_of csr = (case csr_PublicKey csr of Some k \<Rightarrow> k | None \<Rightarrow> OtherKey ''%!s(<nil>)'')"

text \<open>The answer to an issuance: the certificate with its URL and that of its issuer.\<close>

definition issuer_links ::
  "wfe_env \<Rightarrow> WebFrontEndImpl \<Rightarrow> http_request \<Rightarrow> bytes \<Rightarrow> response_writer \<Rightarrow> response_writer \<times> string option" where
  "issuer_links E wfe request der w =
     (if we_enabled E UseAIAIssuerURL then addIssuingCertificateURLs E (we_issuerURLs E der) w
      else (Header_Add ''Link'' (link_header (relativeEndpoint wfe request issuerPath) ''up'') w, None))"

definition reply_certificate ::
  "wfe_env \<Rightarrow> WebFrontEndImpl \<Rightarrow> http_request \<Rightarrow> Certificate \<Rightarrow> response_writer \<Rightarrow> response_writer" where
  "reply_certificate E wfe request cert w =
     (case we_parseCertificate E (DER cert) of
        Inl _ \<Rightarrow> sendError E (probs_ServerInternal ''Unable to parse certificate'') w
      | Inr parsedCertificate \<Rightarrow>
          (let w = Header_Add ''Location'' (relativeEndpoint wfe request
                     (certPath @ SerialToString (x_SerialNumber parsedCertificate))) w
           in case issuer_links E wfe request (DER cert) w of
                (w, Some _) \<Rightarrow> sendError E (probs_ServerInternal ''unable to parse IssuingCertificateURL'') w
              | (w, None) \<Rightarrow>
                  Write (DER cert) (WriteHeader 201 (Header_Set ''Content-Type'' ''application/pkix-cert'' w))))"

definition openssl_bug :: "bytes \<Rightarrow> bool" where
  "openssl_bug csr \<longleftrightarrow> length csr \<ge> 10 \<and> csr ! 8 = CHR 0x02 \<and> csr ! 9 = CHR 0x00"

definition NewCertificate_wfe :: handler where
  "NewCertificate_wfe E wfe request w =
     with_verified E wfe request w True ResourceNewCert (\<lambda>wfe w body _ reg.
       let fail = (\<lambda>prob. Some (wfe, sendError E prob w, [])) in
       if Agreement reg = [] then fail (probs_Unauthorized must_agree)
       else
         (case we_jsonCSR E body of
            Inl _ \<Rightarrow> fail (probs_Malformed ''Error unmarshaling certificate request'')
          | Inr rawCSR \<Rightarrow>
              if openssl_bug rawCSR
              then fail (probs_Malformed (''CSR generated using a pre-1.0.2 OpenSSL with a client that doesn'' @ apos @
                     ''t properly specify the CSR version. See '' @
                     ''https://community.letsencrypt.org/t/openssl-bug-information/19591''))
              else
                (case we_parseCSR E rawCSR of
                   Inl err \<Rightarrow> fail (probs_Malformed (''Error parsing certificate request: '' @ err))
                 | Inr csr \<Rightarrow>
                     (case GoodKey (we_ec E) (wfe_keyPolicy wfe) (key_of csr) of
                        Some err \<Rightarrow> fail (probs_Malformed (''Invalid key in certificate request :: '' @ Error err))
                      | None \<Rightarrow>
                          (let call = RaNewCertificate csr (reg_ID reg) in
                           case we_newCertificate E csr (reg_ID reg) of
                             Inl err \<Rightarrow>
                               Some (wfe, sendError E (problemDetailsForError err ''Error creating new cert'') w, [call])
                           | Inr cert \<Rightarrow> Some (wfe, reply_certificate E wfe request cert w, [call]))))))"

definition reply_challenge ::
  "wfe_env \<Rightarrow> WebFrontEndImpl \<Rightarrow> http_request \<Rightarrow> Authorization \<Rightarrow> Challenge \<Rightarrow> response_writer \<Rightarrow> response_writer" where
  "reply_challenge E wfe request authz challenge w =
     (let challenge = prepChallengeForDisplay wfe request authz challenge in
      reply_json E 202 (JChallenge challenge) ''Failed to marshal challenge''
        (Header_Add ''Link'' (link_header (relativeEndpoint wfe request (authzPath @ az_ID authz)) ''up'')
          (Header_Add ''Location'' (URI challenge) w)))"

definition getChallenge ::
  "wfe_env \<Rightarrow> WebFrontEndImpl \<Rightarrow> http_request \<Rightarrow> response_writer \<Rightarrow> Authorization \<Rightarrow> Challenge \<Rightarrow> handled" where
  "getChallenge E wfe request w authz challenge = Some (wfe, reply_challenge E wfe request authz challenge w, [])"

definition postChallenge ::
  "wfe_env \<Rightarrow> WebFrontEndImpl \<Rightarrow> http_request \<Rightarrow> response_writer \<Rightarrow> Authorization \<Rightarrow> int \<Rightarrow> handled" where
  "postChallenge E wfe request w authz challengeIndex =
     with_verified E wfe request w True ResourceChallenge (\<lambda>wfe w body _ currReg.
       let fail = (\<lambda>prob. Some (wfe, sendError E prob w, [])) in
       if Agreement currReg = []
       then fail (probs_Unauthorized (''Registration didn'' @ apos @ ''t agree to subscriber agreement before any further actions''))
       else if reg_ID currReg \<noteq> RegistrationID authz
       then fail (probs_Unauthorized (''User registration ID doesn'' @ apos @ ''t match registration ID in authorization''))
       else
         (case we_jsonChallenge E body of
            Inl _ \<Rightarrow> fail (probs_Malformed ''Error unmarshaling challenge response'')
          | Inr challengeUpdate \<Rightarrow>
              (let call = RaUpdateAuthorization authz challengeIndex challengeUpdate in
               case we_updateAuthorization E authz challengeIndex challengeUpdate of
                 Inl err \<Rightarrow> Some (wfe, sendError E (problemDetailsForError err ''Unable to update challenge'') w, [call])
               | Inr updated \<Rightarrow>
                   if challengeIndex < 0 \<or> challengeIndex \<ge> int (length (Challenges updated)) then None
                   else Some (wfe, reply_challenge E wfe request authz (Challenges updated ! nat challengeIndex) w, [call]))))"

text \<open>
  An authorization without an expiry date makes the handler dereference a null pointer when
  it builds its log message.
\<close>

definition Challenge_wfe :: handler where
  "Challenge_wfe E wfe request w =
     (let notFound = Some (wfe, sendError E (probs_NotFound ''No such challenge'') w, []);
          slug = split_on (CHR ''/'') (rq_Path request)
      in if length slug \<noteq> 2 then notFound
         else
           (case Atoi (slug ! 1) of
              None \<Rightarrow> notFound
            | Some challengeID \<Rightarrow>
                (case we_authorization E (slug ! 0) of
                   Inl _ \<Rightarrow> notFound
                 | Inr authz \<Rightarrow>
                     (case az_Expires authz of
                        None \<Rightarrow> None
                      | Some e \<Rightarrow>
                          if e < we_now E then Some (wfe, sendError E (probs_NotFound ''Expired authorization'') w, [])
                          else
                            (let challengeIndex = FindChallenge authz challengeID in
                             if challengeIndex = -1 then notFound
                             else if rq_Method request = ''GET'' \<or> rq_Method request = ''HEAD''
                             then getChallenge E wfe request w authz (Challenges authz ! nat challengeIndex)
                             else if rq_Method request = ''POST'' then postChallenge E wfe request w authz challengeIndex
                             else Some (wfe, w, []))))))"

definition deactivateRegistration_wfe ::
  "wfe_env \<Rightarrow> WebFrontEndImpl \<Rightarrow> Registration \<Rightarrow> response_writer \<Rightarrow> handled" where
  "deactivateRegistration_wfe E wfe reg w =
     (case we_deactivateRegistration E reg of
        Some err \<Rightarrow>
          Some (wfe, sendError E (problemDetailsForError err ''Error deactivating registration'') w, [RaDeactivateRegistration reg])
      | None \<Rightarrow>
          Some (wfe, reply_json E 200 (JRegistration (reg\<lparr>reg_Status := StatusDeactivated\<rparr>)) ''Failed to marshal registration'' w,
                [RaDeactivateRegistration reg]))"

definition Registration_wfe :: handler where
  "Registration_wfe E wfe request w =
     with_verified E wfe request w True ResourceRegistration (\<lambda>wfe w body _ currReg.
       let fail = (\<lambda>prob. Some (wfe, sendError E prob w, [])) in
       case Atoi (rq_Path request) of
         None \<Rightarrow> fail (probs_Malformed ''Registration ID must be an integer'')
       | Some rid \<Rightarrow>
           if rid \<le> 0 then fail (probs_Malformed (''Registration ID must be a positive non-zero integer, was '' @ Itoa rid))
           else if rid \<noteq> reg_ID currReg
           then fail (probs_Unauthorized ''Request signing key did not match registration key'')
           else
             (case we_jsonReg E body of
                Inl _ \<Rightarrow> fail (probs_Malformed ''Error unmarshaling registration'')
              | Inr upd \<Rightarrow>
                  if we_enabled E AllowAccountDeactivation \<and> reg_Status upd \<noteq> [] \<and> reg_Status upd \<noteq> reg_Status currReg
                  then
                    (if reg_Status upd \<noteq> StatusDeactivated
                     then fail (probs_Malformed ''Invalid value provided for status field'')
                     else deactivateRegistration_wfe E wfe currReg w)
                  else if length (Agreement upd) > 0 \<and> Agreement upd \<noteq> Agreement currReg \<and>
                          Agreement upd \<noteq> SubscriberAgreementURL wfe
                  then fail (probs_Malformed (''Provided agreement URL ['' @ Agreement upd @
                         ''] does not match current agreement URL ['' @ SubscriberAgreementURL wfe @ '']''))
                  else
                    (let upd = upd\<lparr>reg_Key := reg_Key currReg\<rparr>; call = RaUpdateRegistration currReg upd in
                     case we_updateRegistration E currReg upd of
                       Inl err \<Rightarrow> Some (wfe, sendError E (problemDetailsForError err ''Unable to update registration'') w, [call])
                     | Inr updatedReg \<Rightarrow>
                         Some (wfe,
                           reply_json E 202 (JRegistration updatedReg) ''Failed to marshal registration''
                             (terms_link wfe
                               (Header_Add ''Link'' (link_header (relativeEndpoint wfe request newAuthzPath) ''next'') w)),
                           [call]))))"

text \<open>The deactivated authorization, or the response that ends the request.\<close>

definition deactivateAuthorization_wfe ::
  "wfe_env \<Rightarrow> WebFrontEndImpl \<Rightarrow> http_request \<Rightarrow> response_writer \<Rightarrow> Authorization \<Rightarrow>
   (WebFrontEndImpl \<Rightarrow> response_writer \<Rightarrow> Authorization \<Rightarrow> ra_call list \<Rightarrow> handled) \<Rightarrow> handled" where
  "deactivateAuthorization_wfe E wfe request w authz k =
     with_verified E wfe request w True ResourceAuthz (\<lambda>wfe w body _ reg.
       let fail = (\<lambda>prob. Some (wfe, sendError E prob w, [])) in
       if reg_ID reg \<noteq> RegistrationID authz
       then fail (probs_Unauthorized (''Registration ID doesn'' @ apos @ ''t match ID for authorization''))
       else
         (case we_jsonStatus E body of
            Inl _ \<Rightarrow> fail (probs_Malformed ''Error unmarshaling JSON'')
          | Inr status \<Rightarrow>
              if status \<noteq> StatusDeactivated then fail (probs_Malformed ''Invalid status value'')
              else
                (let call = RaDeactivateAuthorization authz in
                 case we_deactivateAuthorization E authz of
                   Some err \<Rightarrow> Some (wfe, sendError E (problemDetailsForError err ''Error deactivating authorization'') w, [call])
                 | None \<Rightarrow> k wfe w (authz\<lparr>az_Status := StatusDeactivated\<rparr>) [call])))"

definition reply_authorization ::
  "wfe_env \<Rightarrow> http_request \<Rightarrow> WebFrontEndImpl \<Rightarrow> response_writer \<Rightarrow> Authorization \<Rightarrow> ra_call list \<Rightarrow> handled" where
  "reply_authorization E request wfe w authz calls =
     Some (wfe,
       reply_json E 200 (JAuthorization (prepAuthorizationForDisplay wfe request authz)) ''Failed to JSON marshal authz''
         (Header_Add ''Link'' (link_header (relativeEndpoint wfe request newCertPath) ''next'') w),
       calls)"

definition Authorization_wfe :: handler where
  "Authorization_wfe E wfe request w =
     (case we_authorization E (rq_Path request) of
        Inl _ \<Rightarrow> Some (wfe, sendError E (probs_NotFound ''Unable to find authorization'') w, [])
      | Inr authz \<Rightarrow>
          (case az_Expires authz of
             None \<Rightarrow> None
           | Some e \<Rightarrow>
               if e < we_now E then Some (wfe, sendError E (probs_NotFound ''Expired authorization'') w, [])
               else if AllowAuthzDeactivation wfe \<and> rq_Method request = ''POST''
               then deactivateAuthorization_wfe E wfe request w authz (reply_authorization E request)
               else reply_authorization E request wfe w authz []))"

definition Certificate_wfe :: handler where
  "Certificate_wfe E wfe request w =
     (let ser = rq_Path request; fail = (\<lambda>prob w. Some (wfe, sendError E prob w, [])) in
      if \<not> ValidSerial ser then fail (probs_NotFound ''Certificate not found'') w
      else
        (case we_certificate E ser of
           Inl err \<Rightarrow>
             if has_prefix (Error err) ''gorp: multiple rows returned''
             then fail (probs_Conflict ''Multiple certificates with same short serial'') w
             else fail (probs_NotFound ''Certificate not found'') w
         | Inr cert \<Rightarrow>
             (let w = Header_Set ''Content-Type'' ''application/pkix-cert'' w in
              if we_enabled E UseAIAIssuerURL \<and> isl (we_parseCertificate E (DER cert))
              then fail (probs_ServerInternal ''Unable to parse certificate'') w
              else
                (case issuer_links E wfe request (DER cert) w of
                   (w, Some _) \<Rightarrow> fail (probs_ServerInternal ''unable to parse IssuingCertificateURL'') w
                 | (w, None) \<Rightarrow> Some (wfe, Write (DER cert) (WriteHeader 200 w), [])))))"

definition Terms :: handler where
  "Terms E wfe request w =
     (let w = WriteHeader 302 (Header_Set ''Location'' (SubscriberAgreementURL wfe) w) in
      Some (wfe, if rq_Method request = ''GET'' then Write (we_redirectNote E (SubscriberAgreementURL wfe)) w else w, []))"

definition Issuer_wfe :: handler where
  "Issuer_wfe E wfe request w =
     Some (wfe, Write (IssuerCert wfe) (WriteHeader 200 (Header_Set ''Content-Type'' ''application/pkix-cert'' w)), [])"

definition BuildID_wfe :: handler where
  "BuildID_wfe E wfe request w =
     Some (wfe,
       Write (''Boulder=('' @ GetBuildID (we_buildID E) @ '' '' @ GetBuildTime (we_buildTime E) @ '')'' @ eol)
         (WriteHeader 200 (Header_Set ''Content-Type'' ''text/plain'' w)), [])"

text \<open>
  A change of the account key. The request is signed by the old key, and its payload is a JWS
  signed by the new key.
\<close>

definition KeyRollover :: handler where
  "KeyRollover E wfe request w =
     with_verified E wfe request w True ResourceKeyChange (\<lambda>wfe w body _ reg.
       let fail = (\<lambda>prob. Some (wfe, sendError E prob w, [])) in
       case extractJWSKey E body of
         Inl err \<Rightarrow> fail (probs_Malformed err)
       | Inr (newKey, parsedJWS) \<Rightarrow>
           (case we_Verify E parsedJWS newKey of
              Inl _ \<Rightarrow> fail (probs_Malformed ''JWS verification error'')
            | Inr payload \<Rightarrow>
                (case we_jsonRollover E payload of
                   Inl _ \<Rightarrow> fail (probs_Malformed ''Request payload did not parse as JSON'')
                 | Inr (newKeyField, account) \<Rightarrow>
                     if relativeEndpoint wfe request (regPath @ Itoa (reg_ID reg)) \<noteq> account
                     then fail (probs_Malformed ''Incorrect account URL provided in payload'')
                     else
                       (case PublicKeysEqual (we_marshalPKIX E) newKeyField (Some (jwk_Key newKey)) of
                          Inl _ \<Rightarrow> fail (probs_Malformed ''Unable to marshal new JWK'')
                        | Inr keysEqual \<Rightarrow>
                            if \<not> keysEqual
                            then fail (probs_Malformed (''New JWK in inner payload doesn'' @ apos @
                                   ''t match key used to sign inner JWS''))
                            else
                              (let upd = empty_registration\<lparr>reg_Key := Some newKey\<rparr>;
                                   call = RaUpdateRegistration reg upd
                               in case we_updateRegistration E reg upd of
                                    Inl err \<Rightarrow>
                                      Some (wfe, sendError E (problemDetailsForError err ''Unable to update registration'') w, [call])
                                  | Inr updatedReg \<Rightarrow>
                                      Some (wfe, reply_json E 200 (JRegistration updatedReg) ''Failed to marshal registration'' w,
                                            [call]))))))"

section \<open>Dispatch\<close>

fun allow_origin :: "string \<Rightarrow> string list \<Rightarrow> response_writer \<Rightarrow> response_writer option" where
  "allow_origin reqOrigin [] w = None"
| "allow_origin reqOrigin (ao # origins) w =
     (if ao = ''*'' then Some (Header_Set ''Access-Control-Allow-Origin'' ''*'' w)
      else if ao = reqOrigin
      then Some (Header_Set ''Access-Control-Allow-Origin'' ao (Header_Set ''Vary'' ''Origin'' w))
      else allow_origin reqOrigin origins w)"

definition setCORSHeaders :: "WebFrontEndImpl \<Rightarrow> http_request \<Rightarrow> string \<Rightarrow> response_writer \<Rightarrow> response_writer" where
  "setCORSHeaders wfe request allowMethods w =
     (let reqOrigin = header_get request ''Origin'' in
      if reqOrigin = [] then w
      else
        (case allow_origin reqOrigin (AllowOrigins wfe) w of
           None \<Rightarrow> w
         | Some w \<Rightarrow>
             (let w = (if allowMethods \<noteq> [] then Header_Set ''Access-Control-Allow-Methods'' allowMethods w else w) in
              Header_Set ''Access-Control-Max-Age'' ''86400''
                (Header_Set ''Access-Control-Expose-Headers'' ''Link, Replay-Nonce'' w))))"

definition Options :: "WebFrontEndImpl \<Rightarrow> http_request \<Rightarrow> string list \<Rightarrow> response_writer \<Rightarrow> response_writer" where
  "Options wfe request methods w =
     (let methodsStr = join_with '', '' methods;
          w = Header_Set ''Allow'' methodsStr w;
          reqMethod = header_get request ''Access-Control-Request-Method'';
          reqMethod = (if reqMethod = [] then ''GET'' else reqMethod)
      in if reqMethod \<in> set methods then setCORSHeaders wfe request methodsStr w else w)"

text \<open>The wrapper that \<^verbatim>\<open>HandleFunc\<close> puts around a handler.\<close>

definition HandleFunc :: "string list \<Rightarrow> handler \<Rightarrow> handler" where
  "HandleFunc methods h E wfe request w =
     (let methods = (if ''GET'' \<in> set methods \<and> ''HEAD'' \<notin> set methods then methods @ [''HEAD''] else methods);
          (ns, nonce) = NewNonce (nonceService wfe) (we_nonceRand E);
          wfe = wfe\<lparr>nonceService := ns\<rparr>;
          w = (case nonce of Inr n \<Rightarrow> Header_Set ''Replay-Nonce'' n w | Inl _ \<Rightarrow> w)
      in if rq_Method request = ''OPTIONS'' then Some (wfe, Options wfe request methods w, [])
         else
           (let w = addNoCacheHeader w in
            if rq_Method request \<notin> set methods
            then Some (wfe, sendError E probs_MethodNotAllowed (Header_Set ''Allow'' (join_with '', '' methods) w), [])
            else h E wfe request (setCORSHeaders wfe request [] w)))"

definition wfe_routes :: "wfe_env \<Rightarrow> (string \<times> handler) list" where
  "wfe_routes E =
     [(directoryPath, HandleFunc [''GET''] Directory),
      (newRegPath, HandleFunc [''POST''] NewRegistration_wfe),
      (newAuthzPath, HandleFunc [''POST''] NewAuthorization_wfe),
      (newCertPath, HandleFunc [''POST''] NewCertificate_wfe),
      (regPath, HandleFunc [''POST''] Registration_wfe),
      (authzPath, HandleFunc [''GET'', ''POST''] Authorization_wfe),
      (challengePath, HandleFunc [''GET'', ''POST''] Challenge_wfe),
      (certPath, HandleFunc [''GET''] Certificate_wfe),
      (revokeCertPath, HandleFunc [''POST''] RevokeCertificate_wfe),
      (termsPath, HandleFunc [''GET''] Terms),
      (issuerPath, HandleFunc [''GET''] Issuer_wfe),
      (buildIDPath, HandleFunc [''GET''] BuildID_wfe)] @
     (if we_enabled E AllowKeyRollover then [(rolloverPath, HandleFunc [''POST''] KeyRollover)] else []) @
     [(''/'', Index)]"

text \<open>
  \<^verbatim>\<open>topHandler.ServeHTTP\<close> names the request; \<^verbatim>\<open>http.StripPrefix\<close> takes the pattern off the path
  for all handlers but the last.
\<close>

definition serve_top :: "handler \<Rightarrow> handler" where
  "serve_top h E wfe request w = h E wfe request (Header_Set ''Boulder-Request-Id'' (we_requestID E) w)"

definition Handler ::
  "wfe_env \<Rightarrow> WebFrontEndImpl \<Rightarrow> http_request \<Rightarrow> (WebFrontEndImpl \<times> http_response \<times> ra_call list) option" where
  "Handler E wfe request =
     (let finish = (\<lambda>(wfe, w, calls). (wfe, finish_response request w, calls)) in
      map_option finish
        (case mux_route (wfe_routes E) (rq_Path request) of
           RouteRedirect p \<Rightarrow>
             (let w = WriteHeader 301 (Header_Set ''Location'' p new_response) in
              Some (wfe, if rq_Method request = ''GET'' then Write (we_redirectNote E p) w else w, []))
         | RouteTo pattern h \<Rightarrow>
             (let path = (if pattern = ''/'' then rq_Path request else drop (length pattern) (rq_Path request)) in
              serve_top h E wfe (request\<lparr>rq_Path := path\<rparr>) new_response)
         | RouteNotFound \<Rightarrow> Some (wfe, http_NotFound new_response, [])))"

text \<open>The clients involved in a request, separated by commas.\<close>

definition getClientAddr :: "http_request \<Rightarrow> string" where
  "getClientAddr r =
     (let xff = header_get r ''X-Forwarded-For'' in
      if xff \<noteq> [] then xff @ '','' @ rq_RemoteAddr r else rq_RemoteAddr r)"

section \<open>cmd/boulder-wfe\<close>

record wfe_config =
  wc_BaseURL :: string
  wc_IssuerCert :: string
  wc_WFE_SubscriberAgreementURL :: string
  wc_SubscriberAgreementURL :: string
  wc_AllowOrigins :: "string list"
  wc_CertCacheDuration :: duration
  wc_CertNoCacheExpirationWindow :: duration
  wc_IndexCacheDuration :: duration
  wc_IssuerCacheDuration :: duration
  wc_AcceptRevocationReason :: bool
  wc_AllowAuthzDeactivation :: bool

text \<open>
  The front end that the program serves with, or its fatal error. \<open>setFeatures\<close> and \<open>setupWFE\<close> are
  the errors, if any, of setting the feature flags and of connecting to the other services.
\<close>

definition boulder_wfe ::
  "string + wfe_config \<Rightarrow> string option \<Rightarrow> string + AEAD \<Rightarrow> string option \<Rightarrow> (string \<Rightarrow> string + bytes) \<Rightarrow>
   string + WebFrontEndImpl" where
  "boulder_wfe readConfig setFeatures newGCM setupWFE loadCert =
     bind_result readConfig (\<lambda>c.
       case setFeatures of
         Some err \<Rightarrow> Inl (''Failed to set feature flags: '' @ err)
       | None \<Rightarrow>
           (case NewWebFrontEndImpl newGCM NewKeyPolicy of
              Inl err \<Rightarrow> Inl (''Unable to create WFE: '' @ err)
            | Inr wfe \<Rightarrow>
                (case setupWFE of
                   Some err \<Rightarrow> Inl err
                 | None \<Rightarrow>
                     (case loadCert (wc_IssuerCert c) of
                        Inl err \<Rightarrow> Inl (''Couldn'' @ apos @ ''t read issuer cert ['' @ wc_IssuerCert c @ '']: '' @ err)
                      | Inr cert \<Rightarrow>
                          Inr (wfe\<lparr>SubscriberAgreementURL :=
                                     (if wc_WFE_SubscriberAgreementURL c \<noteq> [] then wc_WFE_SubscriberAgreementURL c
                                      else wc_SubscriberAgreementURL c),
                                   AllowOrigins := wc_AllowOrigins c,
                                   AcceptRevocationReason := wc_AcceptRevocationReason c,
                                   AllowAuthzDeactivation := wc_AllowAuthzDeactivation c,
                                   CertCacheDuration := wc_CertCacheDuration c,
                                   CertNoCacheExpirationWindow := wc_CertNoCacheExpirationWindow c,
                                   IndexCacheDuration := wc_IndexCacheDuration c,
                                   IssuerCacheDuration := wc_IssuerCacheDuration c,
                                   IssuerCert := cert, BaseURL := wc_BaseURL c\<rparr>)))))"

end
