(* ===== verification/WfeProps.thy ===== *)
theory WfeProps
  imports Wfe "HOL-Library.Sublist"
begin

text \<open>
  What the front end asks of the registration authority, and for whom: every call comes from
  a request that was signed by the key of the account it acts for, with a fresh nonce and
  for the resource it was sent to; a nonce serves at most one of them.
\<close>

section \<open>Authenticated requests\<close>

definition request_nonce :: "wfe_env \<Rightarrow> http_request \<Rightarrow> string" where
  "request_nonce E request =
     (case rq_Body request of
        Some (Inr body) \<Rightarrow>
          (case we_ParseSigned E body of Some jws \<Rightarrow> sig_Nonce (jws_Signatures jws ! 0) | None \<Rightarrow> [])
      | _ \<Rightarrow> [])"

text \<open>
  The evidence: one signature, over the payload, made with the key of the stored account, or
  with the submitted key when no account is needed and none has it; a nonce that the service
  accepts; and the resource that the payload names.
\<close>

definition authenticated ::
  "wfe_env \<Rightarrow> WebFrontEndImpl \<Rightarrow> http_request \<Rightarrow> bool \<Rightarrow> string \<Rightarrow> JsonWebKey \<Rightarrow> Registration \<Rightarrow> bytes \<Rightarrow> bool" where
  "authenticated E wfe request regCheck resource key reg payload \<longleftrightarrow>
     (\<exists>body jws submitted.
        rq_Body request = Some (Inr body) \<and> we_ParseSigned E body = Some jws \<and> length (jws_Signatures jws) = 1 \<and>
        sig_JsonWebKey (jws_Signatures jws ! 0) = Some submitted \<and> we_keyValid E submitted \<and>
        (we_regByKey E 0 submitted = Inr reg \<and> reg_Key reg = Some key \<or>
         \<not> regCheck \<and> (\<exists>err. we_regByKey E 0 submitted = Inl err \<and> no_registration err) \<and>
           reg = empty_registration \<and> key = submitted \<and> GoodKey (we_ec E) (wfe_keyPolicy wfe) (jwk_Key key) = None) \<and>
        (regCheck \<and> we_enabled E AllowAccountDeactivation \<longrightarrow> reg_Status reg = StatusValid) \<and>
        checkAlgorithm key jws = None \<and> we_Verify E jws key = Inr payload \<and>
        request_nonce E request \<noteq> [] \<and> snd (Valid (nonceService wfe) (request_nonce E request)) \<and>
        we_resource E payload = Inr resource)"

lemma extractJWSKey_Inr:
  assumes "extractJWSKey E body = Inr (key, jws)"
  shows "we_ParseSigned E body = Some jws" "length (jws_Signatures jws) = 1"
    "sig_JsonWebKey (jws_Signatures jws ! 0) = Some key" "we_keyValid E key"
proof -
  obtain s where "we_ParseSigned E body = Some jws \<and> length (jws_Signatures jws) \<noteq> 0 \<and> length (jws_Signatures jws) \<le> 1 \<and>
      sig_JsonWebKey (jws_Signatures jws ! 0) = Some key \<and> we_keyValid E key"
    using assms unfolding extractJWSKey_def by (auto split: option.splits if_splits)
  then show "we_ParseSigned E body = Some jws" "length (jws_Signatures jws) = 1"
    "sig_JsonWebKey (jws_Signatures jws ! 0) = Some key" "we_keyValid E key" by linarith+
qed

lemma check_nonce_eq:
  "check_nonce wfe n = (if n = [] then (wfe, Some (probs_BadNonce ''JWS has no anti-replay nonce''))
     else (wfe\<lparr>nonceService := fst (Valid (nonceService wfe) n)\<rparr>,
       if snd (Valid (nonceService wfe) n) then None
       else Some (probs_BadNonce (''JWS has invalid anti-replay nonce '' @ n))))"
  by (auto simp: check_nonce_def split: prod.splits)

text \<open>What the verification does to the front end: nothing, or it spends the nonce.\<close>

lemma verify_jws_cases:
  assumes "verify_jws E wfe key jws resource = (wfe', r)" and "n = sig_Nonce (jws_Signatures jws ! 0)"
  shows "wfe' = wfe \<or> wfe' = wfe\<lparr>nonceService := fst (Valid (nonceService wfe) n)\<rparr>"
    and "r = Inr payload \<Longrightarrow> wfe' = wfe\<lparr>nonceService := fst (Valid (nonceService wfe) n)\<rparr> \<and> n \<noteq> [] \<and>
      snd (Valid (nonceService wfe) n) \<and> checkAlgorithm key jws = None \<and> we_Verify E jws key = Inr payload \<and>
      we_resource E payload = Inr resource"
  using assms
  by (auto simp: verify_jws_def check_nonce_eq check_resource_def split: option.splits sum.splits if_splits)

lemma requester_of_Inr:
  assumes "requester_of E wfe regCheck submitted = Inr (keyPtr, reg, requester)"
  shows "we_regByKey E 0 submitted = Inr reg \<and> keyPtr = reg_Key reg \<or>
    \<not> regCheck \<and> (\<exists>err. we_regByKey E 0 submitted = Inl err \<and> no_registration err) \<and> reg = empty_registration \<and>
      keyPtr = Some submitted \<and> GoodKey (we_ec E) (wfe_keyPolicy wfe) (jwk_Key submitted) = None"
  using assms by (auto simp: requester_of_def split: sum.splits option.splits if_splits)

lemma verifyPOST_cases:
  assumes "verifyPOST E wfe request regCheck resource = Some (wfe', requester, r)"
  shows "wfe' = wfe \<or> wfe' = wfe\<lparr>nonceService := fst (Valid (nonceService wfe) (request_nonce E request))\<rparr>"
    and "r = Inr (payload, key, reg) \<Longrightarrow>
      wfe' = wfe\<lparr>nonceService := fst (Valid (nonceService wfe) (request_nonce E request))\<rparr> \<and>
      authenticated E wfe request regCheck resource key reg payload"
proof -
  have *: "(wfe' = wfe \<or> wfe' = wfe\<lparr>nonceService := fst (Valid (nonceService wfe) (request_nonce E request))\<rparr>) \<and>
    (r = Inr (payload, key, reg) \<longrightarrow>
      wfe' = wfe\<lparr>nonceService := fst (Valid (nonceService wfe) (request_nonce E request))\<rparr> \<and>
      authenticated E wfe request regCheck resource key reg payload)" for payload key reg
  proof (cases "\<exists>body submitted jws keyPtr rg rq k. rq_Body request = Some (Inr body) \<and>
      extractJWSKey E body = Inr (submitted, jws) \<and> requester_of E wfe regCheck submitted = Inr (keyPtr, rg, rq) \<and>
      \<not> (regCheck \<and> we_enabled E AllowAccountDeactivation \<and> reg_Status rg \<noteq> StatusValid) \<and> keyPtr = Some k \<and>
      map_of (rq_Header request) ''Content-Length'' \<noteq> None")
    case False
    with assms show ?thesis
      by (auto simp: verifyPOST_def split: if_splits option.splits sum.splits prod.splits)
  next
    case True
    then obtain body submitted jws rg rq k where b: "rq_Body request = Some (Inr body)"
      "extractJWSKey E body = Inr (submitted, jws)" "requester_of E wfe regCheck submitted = Inr (Some k, rg, rq)"
      "\<not> (regCheck \<and> we_enabled E AllowAccountDeactivation \<and> reg_Status rg \<noteq> StatusValid)"
      "map_of (rq_Header request) ''Content-Length'' \<noteq> None" by blast
    have n: "request_nonce E request = sig_Nonce (jws_Signatures jws ! 0)"
      using b(1) extractJWSKey_Inr(1) [OF b(2)] by (simp add: request_nonce_def)
    obtain w1 r1 where v: "verify_jws E wfe k jws resource = (w1, r1)" by (cases "verify_jws E wfe k jws resource")
    have eq: "verifyPOST E wfe request regCheck resource =
        Some (case r1 of Inl prob \<Rightarrow> (w1, rq, Inl prob) | Inr payload \<Rightarrow> (w1, rq, Inr (payload, k, rg)))"
      using b v by (cases r1) (auto simp: verifyPOST_def)
    show ?thesis
    proof (cases r1)
      case (Inl prob)
      with eq assms verify_jws_cases(1) [OF v n] show ?thesis by auto
    next
      case (Inr pl)
      with eq assms verify_jws_cases(2) [OF v n] extractJWSKey_Inr [OF b(2)] requester_of_Inr [OF b(3)] b(1,4) n
      show ?thesis unfolding authenticated_def by auto
    qed
  qed
  show "wfe' = wfe \<or> wfe' = wfe\<lparr>nonceService := fst (Valid (nonceService wfe) (request_nonce E request))\<rparr>" using * by blast
  show "r = Inr (payload, key, reg) \<Longrightarrow>
      wfe' = wfe\<lparr>nonceService := fst (Valid (nonceService wfe) (request_nonce E request))\<rparr> \<and>
      authenticated E wfe request regCheck resource key reg payload" using * by blast
qed

section \<open>Calls\<close>

text \<open>The resource a call belongs to, and whether it needs an account.\<close>

fun call_resources :: "ra_call \<Rightarrow> string set" where
  "call_resources (RaNewRegistration _) = {ResourceNewReg}"
| "call_resources (RaNewAuthorization _ _) = {ResourceNewAuthz}"
| "call_resources (RaNewCertificate _ _) = {ResourceNewCert}"
| "call_resources (RaUpdateRegistration _ _) = {ResourceRegistration, ResourceKeyChange}"
| "call_resources (RaUpdateAuthorization _ _ _) = {ResourceChallenge}"
| "call_resources (RaRevokeCertificateWithReg _ _ _) = {ResourceRevokeCert}"
| "call_resources (RaDeactivateRegistration _) = {ResourceRegistration}"
| "call_resources (RaDeactivateAuthorization _) = {ResourceAuthz}"

fun needs_account :: "ra_call \<Rightarrow> bool" where
  "needs_account (RaNewRegistration _) = False"
| "needs_account (RaRevokeCertificateWithReg _ _ _) = False"
| "needs_account _ = True"

text \<open>
  Who may revoke: the holder of the certificate's key, the account it was issued to, and an
  account with valid authorizations for all its names.
\<close>

definition may_revoke :: "wfe_env \<Rightarrow> JsonWebKey \<Rightarrow> Registration \<Rightarrow> x509Cert \<Rightarrow> Certificate \<Rightarrow> bool" where
  "may_revoke E key reg cert stored \<longleftrightarrow>
     KeyDigestEquals (we_sha256 E) (we_marshalPKIX E) (JWKPtr (Some key)) (RawKey (x_PublicKey cert)) \<or>
     reg_ID reg = cert_RegID stored \<or>
     (\<exists>authz. we_validAuthorizations E (reg_ID reg) (x_DNSNames cert) (we_now E) = Inr authz \<and>
        length authz = length (x_DNSNames cert) \<and> (\<forall>name \<in> set (x_DNSNames cert). map_of authz name \<noteq> None))"

text \<open>A revocation that the payload asks for, with its reason where reasons are taken.\<close>

definition revocable_as :: "wfe_env \<Rightarrow> WebFrontEndImpl \<Rightarrow> JsonWebKey \<Rightarrow> Registration \<Rightarrow> bytes \<Rightarrow> x509Cert \<Rightarrow> int \<Rightarrow> bool" where
  "revocable_as E wfe key reg payload cert reason \<longleftrightarrow>
     (\<exists>der requested stored status.
        we_jsonRevoke E payload = Inr (der, requested) \<and> we_parseCertificate E der = Inr cert \<and>
        we_certificate E (SerialToString (x_SerialNumber cert)) = Inr stored \<and> DER stored = der \<and>
        we_certificateStatus E (SerialToString (x_SerialNumber cert)) = Inr status \<and>
        cs_Status status \<noteq> OCSPStatusRevoked \<and> 
        reason = (if AcceptRevocationReason wfe then case_option 0 id requested else 0) \<and> reason \<in> UserAllowedReasons \<and>
        may_revoke E key reg cert stored)"

definition rollover_to :: "wfe_env \<Rightarrow> bytes \<Rightarrow> JsonWebKey \<Rightarrow> bool" where
  "rollover_to E payload newKey \<longleftrightarrow>
     (\<exists>jws inner field account.
        extractJWSKey E payload = Inr (newKey, jws) \<and> we_Verify E jws newKey = Inr inner \<and>
        we_jsonRollover E inner = Inr (field, account) \<and>
        PublicKeysEqual (we_marshalPKIX E) field (Some (jwk_Key newKey)) = Inr True)"

text \<open>A call acts for the account and says what the payload says.\<close>

fun acts_for ::
  "wfe_env \<Rightarrow> WebFrontEndImpl \<Rightarrow> Registration \<Rightarrow> JsonWebKey \<Rightarrow> bytes \<Rightarrow> ra_call \<Rightarrow> bool" where
  "acts_for E wfe reg key payload (RaNewRegistration r) \<longleftrightarrow>
     (\<exists>init ip. we_jsonReg E payload = Inr init \<and> r = init\<lparr>reg_Key := Some key, InitialIP := ip\<rparr> \<and>
        Agreement init \<in> {[], SubscriberAgreementURL wfe})"
| "acts_for E wfe reg key payload (RaNewAuthorization a rid) \<longleftrightarrow>
     we_jsonAuthz E payload = Inr a \<and> rid = reg_ID reg \<and> Agreement reg \<noteq> []"
| "acts_for E wfe reg key payload (RaNewCertificate csr rid) \<longleftrightarrow>
     (\<exists>raw. we_jsonCSR E payload = Inr raw \<and> we_parseCSR E raw = Inr csr) \<and>
     GoodKey (we_ec E) (wfe_keyPolicy wfe) (key_of csr) = None \<and> rid = reg_ID reg \<and> Agreement reg \<noteq> []"
| "acts_for E wfe reg key payload (RaUpdateRegistration r u) \<longleftrightarrow>
     r = reg \<and>
     ((\<exists>v. we_jsonReg E payload = Inr v \<and> u = v\<lparr>reg_Key := reg_Key reg\<rparr> \<and>
         Agreement v \<in> {[], Agreement reg, SubscriberAgreementURL wfe}) \<or>
      (\<exists>newKey. rollover_to E payload newKey \<and> u = empty_registration\<lparr>reg_Key := Some newKey\<rparr>))"
| "acts_for E wfe reg key payload (RaUpdateAuthorization a i c) \<longleftrightarrow>
     we_jsonChallenge E payload = Inr c \<and> RegistrationID a = reg_ID reg \<and> Agreement reg \<noteq> []"
| "acts_for E wfe reg key payload (RaRevokeCertificateWithReg x r rid) \<longleftrightarrow>
     revocable_as E wfe key reg payload x r \<and> rid = reg_ID reg"
| "acts_for E wfe reg key payload (RaDeactivateRegistration r) \<longleftrightarrow>
     (\<exists>v. we_jsonReg E payload = Inr v \<and> reg_Status v = StatusDeactivated) \<and> r = reg"
| "acts_for E wfe reg key payload (RaDeactivateAuthorization a) \<longleftrightarrow>
     we_jsonStatus E payload = Inr StatusDeactivated \<and> RegistrationID a = reg_ID reg"

lemma acts_for_nonce [simp]:
  "acts_for E (wfe\<lparr>nonceService := ns\<rparr>) reg key payload call = acts_for E wfe reg key payload call"
  by (cases call) (simp_all add: revocable_as_def)

definition justified :: "wfe_env \<Rightarrow> WebFrontEndImpl \<Rightarrow> http_request \<Rightarrow> ra_call \<Rightarrow> bool" where
  "justified E wfe request call \<longleftrightarrow>
     (\<exists>payload key reg resource. authenticated E wfe request (needs_account call) resource key reg payload \<and>
        resource \<in> call_resources call \<and> acts_for E wfe reg key payload call)"

text \<open>The outcome of a handler: nothing happened, or the nonce was spent and the calls are justified.\<close>

definition outcome :: "wfe_env \<Rightarrow> WebFrontEndImpl \<Rightarrow> http_request \<Rightarrow> WebFrontEndImpl \<Rightarrow> ra_call list \<Rightarrow> bool" where
  "outcome E wfe request wfe' calls \<longleftrightarrow>
     wfe' = wfe \<and> calls = [] \<or>
     wfe' = wfe\<lparr>nonceService := fst (Valid (nonceService wfe) (request_nonce E request))\<rparr> \<and>
       (\<forall>call \<in> set calls. justified E wfe request call)"

lemma outcome_none: "outcome E wfe request wfe []"
  by (simp add: outcome_def)

lemma with_verified_outcome:
  assumes run: "with_verified E wfe request w rc res k = Some (wfe', w', calls)"
    and k: "\<And>wfe1 w1 body key reg. k wfe1 w1 body key reg = Some (wfe', w', calls) \<Longrightarrow>
      wfe' = wfe1 \<and> (\<forall>call \<in> set calls. needs_account call = rc \<and> res \<in> call_resources call \<and> acts_for E wfe1 reg key body call)"
  shows "outcome E wfe request wfe' calls"
proof -
  obtain wfe1 requester r where v: "verifyPOST E wfe request rc res = Some (wfe1, requester, r)"
    using run by (auto simp: with_verified_def split: option.splits)
  show ?thesis
  proof (cases r)
    case (Inl prob)
    with run v verifyPOST_cases(1) [OF v] show ?thesis by (auto simp: with_verified_def outcome_def)
  next
    case (Inr t)
    then obtain payload key reg where r: "r = Inr (payload, key, reg)" by (cases t) auto
    note a = verifyPOST_cases(2) [OF v r]
    have "k wfe1 (addRequesterHeader requester w) payload key reg = Some (wfe', w', calls)"
      using run v r by (simp add: with_verified_def)
    then have "wfe' = wfe1 \<and> (\<forall>call \<in> set calls. needs_account call = rc \<and> res \<in> call_resources call \<and> acts_for E wfe1 reg key payload call)"
      by (rule k)
    with a show ?thesis unfolding outcome_def justified_def 
      by (intro disjI2 conjI ballI exI [of _ payload] exI [of _ key] exI [of _ reg] exI [of _ res]) auto
  qed
qed

section \<open>Handlers\<close>

lemmas handler_splits = if_splits option.splits sum.splits prod.splits

lemma NewRegistration_outcome:
  "NewRegistration_wfe E wfe request w = Some (wfe', w', calls) \<Longrightarrow> outcome E wfe request wfe' calls"
  unfolding NewRegistration_wfe_def
  by (erule with_verified_outcome) (auto simp: Let_def split: handler_splits)

lemma NewAuthorization_outcome:
  "NewAuthorization_wfe E wfe request w = Some (wfe', w', calls) \<Longrightarrow> outcome E wfe request wfe' calls"
  unfolding NewAuthorization_wfe_def
  by (erule with_verified_outcome) (auto simp: Let_def split: handler_splits)

lemma NewCertificate_outcome:
  "NewCertificate_wfe E wfe request w = Some (wfe', w', calls) \<Longrightarrow> outcome E wfe request wfe' calls"
  unfolding NewCertificate_wfe_def
  by (erule with_verified_outcome) (auto simp: Let_def split: handler_splits)

lemma revoke_reason_iff:
  "revoke_reason wfe requested = Some reason \<longleftrightarrow>
     reason = (if AcceptRevocationReason wfe then case_option 0 id requested else 0) \<and> reason \<in> UserAllowedReasons"
  by (auto simp: revoke_reason_def UserAllowedReasons_def split: option.splits)

lemma finish_revocation_calls:
  "finish_revocation E wfe cert requested rid w = Some (wfe', w', calls) \<Longrightarrow>
     wfe' = wfe \<and> calls = (case revoke_reason wfe requested of None \<Rightarrow> [] | Some reason \<Rightarrow>
       [RaRevokeCertificateWithReg cert reason rid])"
  by (auto simp: finish_revocation_def Let_def split: handler_splits)

lemma regHolds_iff:
  "regHoldsAuthorizations E rid names = Inr True \<longleftrightarrow>
     (\<exists>authz. we_validAuthorizations E rid names (we_now E) = Inr authz \<and> length authz = length names \<and>
        (\<forall>name \<in> set names. map_of authz name \<noteq> None))"
  by (auto simp: regHoldsAuthorizations_def list_all_iff split: sum.splits)

lemma may_revoke_iff:
  "may_revoke E key reg cert stored \<longleftrightarrow>
     KeyDigestEquals (we_sha256 E) (we_marshalPKIX E) (JWKPtr (Some key)) (RawKey (x_PublicKey cert)) \<or>
     reg_ID reg = cert_RegID stored \<or> regHoldsAuthorizations E (reg_ID reg) (x_DNSNames cert) = Inr True"
  by (simp add: may_revoke_def regHolds_iff)

text \<open>A verified revocation request leads to a call just when the certificate is revocable by the requester.\<close>

lemma revoke_verified_calls:
  assumes run: "revoke_verified E wfe w body key reg = Some (wfe', w', calls)"
  shows "wfe' = wfe \<and> (call \<in> set calls \<longleftrightarrow>
    (\<exists>cert reason. call = RaRevokeCertificateWithReg cert reason (reg_ID reg) \<and> revocable_as E wfe key reg body cert reason))"
proof (cases "\<exists>der requested cert stored status. we_jsonRevoke E body = Inr (der, requested) \<and>
    we_parseCertificate E der = Inr cert \<and> we_certificate E (SerialToString (x_SerialNumber cert)) = Inr stored \<and> DER stored = der \<and>
    we_certificateStatus E (SerialToString (x_SerialNumber cert)) = Inr status \<and> cs_Status status \<noteq> OCSPStatusRevoked \<and>
    may_revoke E key reg cert stored")
  case False
  then have "\<not> revocable_as E wfe key reg body cert reason" for cert reason unfolding revocable_as_def by blast
  moreover have "wfe' = wfe \<and> calls = []"
    using run False unfolding may_revoke_iff
    by (auto simp: revoke_verified_def Let_def split: handler_splits)
  ultimately show ?thesis by simp
next
  case True
  then obtain der requested cert stored status where r:
    "we_jsonRevoke E body = Inr (der, requested)" "we_parseCertificate E der = Inr cert"
    "we_certificate E (SerialToString (x_SerialNumber cert)) = Inr stored" "DER stored = der"
    "we_certificateStatus E (SerialToString (x_SerialNumber cert)) = Inr status" "cs_Status status \<noteq> OCSPStatusRevoked"
    "may_revoke E key reg cert stored" by blast
  then have rv: "revocable_as E wfe key reg body cert' reason \<longleftrightarrow> cert' = cert \<and> revoke_reason wfe requested = Some reason" for cert' reason
    by (auto simp: revocable_as_def revoke_reason_iff)
  have "finish_revocation E wfe cert requested (reg_ID reg) w = Some (wfe', w', calls)"
    using run r unfolding may_revoke_iff by (auto simp: revoke_verified_def Let_def split: if_splits)
  from finish_revocation_calls [OF this] show ?thesis by (auto simp: rv split: option.splits)
qed

lemma revoke_verified_returns: "revoke_verified E wfe w body key reg \<noteq> None"
proof -
  have f: "finish_revocation E wfe cert requested rid w \<noteq> None" for cert requested rid
    by (auto simp: finish_revocation_def Let_def split: option.splits)
  then show ?thesis by (auto simp: revoke_verified_def Let_def f [simplified] split: sum.splits prod.splits)
qed

lemma RevokeCertificate_outcome:
  "RevokeCertificate_wfe E wfe request w = Some (wfe', w', calls) \<Longrightarrow> outcome E wfe request wfe' calls"
  unfolding RevokeCertificate_wfe_def
  by (erule with_verified_outcome) (frule revoke_verified_calls, auto simp: revoke_verified_calls)

lemma Registration_outcome:
  "Registration_wfe E wfe request w = Some (wfe', w', calls) \<Longrightarrow> outcome E wfe request wfe' calls"
  unfolding Registration_wfe_def
  by (erule with_verified_outcome) (auto simp: Let_def deactivateRegistration_wfe_def split: handler_splits)

lemma KeyRollover_outcome:
  "KeyRollover E wfe request w = Some (wfe', w', calls) \<Longrightarrow> outcome E wfe request wfe' calls"
  unfolding KeyRollover_def
  by (erule with_verified_outcome) (auto simp: Let_def rollover_to_def split: handler_splits)

lemma postChallenge_outcome:
  "postChallenge E wfe request w authz i = Some (wfe', w', calls) \<Longrightarrow> outcome E wfe request wfe' calls"
  unfolding postChallenge_def
  by (erule with_verified_outcome) (auto simp: Let_def split: handler_splits)

lemma Challenge_outcome:
  assumes "Challenge_wfe E wfe request w = Some (wfe', w', calls)"
  shows "outcome E wfe request wfe' calls \<and> (calls \<noteq> [] \<longrightarrow> rq_Method request = ''POST'')"
  using assms
  by (auto simp: Challenge_wfe_def getChallenge_def Let_def outcome_none split: handler_splits
      intro: postChallenge_outcome)

lemma deactivateAuthorization_outcome:
  "deactivateAuthorization_wfe E wfe request w authz (reply_authorization E request) = Some (wfe', w', calls) \<Longrightarrow>
     outcome E wfe request wfe' calls"
  unfolding deactivateAuthorization_wfe_def
  by (erule with_verified_outcome) (auto simp: Let_def reply_authorization_def split: handler_splits)

lemma Authorization_outcome:
  assumes "Authorization_wfe E wfe request w = Some (wfe', w', calls)"
  shows "outcome E wfe request wfe' calls \<and> (calls \<noteq> [] \<longrightarrow> rq_Method request = ''POST'')"
  using assms
  by (auto simp: Authorization_wfe_def reply_authorization_def outcome_none split: handler_splits
      intro: deactivateAuthorization_outcome)

lemma passive_handlers:
  "Directory E wfe request w = Some (wfe', w', calls) \<Longrightarrow> wfe' = wfe \<and> calls = []"
  "Certificate_wfe E wfe request w = Some (wfe', w', calls) \<Longrightarrow> wfe' = wfe \<and> calls = []"
  "Terms E wfe request w = Some (wfe', w', calls) \<Longrightarrow> wfe' = wfe \<and> calls = []"
  "Issuer_wfe E wfe request w = Some (wfe', w', calls) \<Longrightarrow> wfe' = wfe \<and> calls = []"
  "BuildID_wfe E wfe request w = Some (wfe', w', calls) \<Longrightarrow> wfe' = wfe \<and> calls = []"
  "Index E wfe request w = Some (wfe', w', calls) \<Longrightarrow> wfe' = wfe \<and> calls = []"
  by (auto simp: Directory_def Certificate_wfe_def Terms_def Issuer_wfe_def BuildID_wfe_def Index_def Let_def
      split: handler_splits)

text \<open>A handler that is safe behind the wrapper with the methods it is registered for.\<close>

definition allowed_methods :: "string list \<Rightarrow> string list" where
  "allowed_methods methods = (if ''GET'' \<in> set methods \<and> ''HEAD'' \<notin> set methods then methods @ [''HEAD''] else methods)"

definition safe_handler :: "string list \<Rightarrow> handler \<Rightarrow> bool" where
  "safe_handler methods h \<longleftrightarrow>
     (\<forall>E wfe request w wfe' w' calls. h E wfe request w = Some (wfe', w', calls) \<longrightarrow>
        outcome E wfe request wfe' calls \<and>
        (calls \<noteq> [] \<longrightarrow> rq_Method request \<in> set (allowed_methods methods) \<longrightarrow> rq_Method request = ''POST''))"

lemma safe_post:
  assumes "\<And>E wfe request w wfe' w' calls. h E wfe request w = Some (wfe', w', calls) \<Longrightarrow> outcome E wfe request wfe' calls"
  shows "safe_handler [''POST''] h"
  using assms by (auto simp: safe_handler_def allowed_methods_def)

lemma safe_passive:
  assumes "\<And>E wfe request w wfe' w' calls. h E wfe request w = Some (wfe', w', calls) \<Longrightarrow> wfe' = wfe \<and> calls = []"
  shows "safe_handler methods h"
  using assms by (auto simp: safe_handler_def outcome_def)

lemma safe_handlers:
  "safe_handler [''GET''] Directory" "safe_handler [''POST''] NewRegistration_wfe"
  "safe_handler [''POST''] NewAuthorization_wfe" "safe_handler [''POST''] NewCertificate_wfe"
  "safe_handler [''POST''] Registration_wfe" "safe_handler [''GET'', ''POST''] Authorization_wfe"
  "safe_handler [''GET'', ''POST''] Challenge_wfe" "safe_handler [''GET''] Certificate_wfe"
  "safe_handler [''POST''] RevokeCertificate_wfe" "safe_handler [''GET''] Terms"
  "safe_handler [''GET''] Issuer_wfe" "safe_handler [''GET''] BuildID_wfe" "safe_handler [''POST''] KeyRollover"
proof -
  show "safe_handler [''GET''] Directory" "safe_handler [''GET''] Certificate_wfe" "safe_handler [''GET''] Terms"
    "safe_handler [''GET''] Issuer_wfe" "safe_handler [''GET''] BuildID_wfe"
    by (rule safe_passive, erule passive_handlers)+
  show "safe_handler [''POST''] NewRegistration_wfe" by (rule safe_post) (rule NewRegistration_outcome)
  show "safe_handler [''POST''] NewAuthorization_wfe" by (rule safe_post) (rule NewAuthorization_outcome)
  show "safe_handler [''POST''] NewCertificate_wfe" by (rule safe_post) (rule NewCertificate_outcome)
  show "safe_handler [''POST''] Registration_wfe" by (rule safe_post) (rule Registration_outcome)
  show "safe_handler [''POST''] RevokeCertificate_wfe" by (rule safe_post) (rule RevokeCertificate_outcome)
  show "safe_handler [''POST''] KeyRollover" by (rule safe_post) (rule KeyRollover_outcome)
  show "safe_handler [''GET'', ''POST''] Authorization_wfe"
    unfolding safe_handler_def using Authorization_outcome by blast
  show "safe_handler [''GET'', ''POST''] Challenge_wfe" unfolding safe_handler_def using Challenge_outcome by blast
qed

section \<open>Dispatch\<close>

text \<open>The front end after the fresh nonce of a response was drawn.\<close>

definition nonce_issued :: "wfe_env \<Rightarrow> WebFrontEndImpl \<Rightarrow> WebFrontEndImpl" where
  "nonce_issued E wfe = wfe\<lparr>nonceService := fst (NewNonce (nonceService wfe) (we_nonceRand E))\<rparr>"

lemma HandleFunc_outcome:
  assumes "HandleFunc methods h E wfe request w = Some (wfe', w', calls)" "safe_handler methods h"
  shows "outcome E (nonce_issued E wfe) request wfe' calls \<and> (calls \<noteq> [] \<longrightarrow> rq_Method request = ''POST'')"
proof (cases "rq_Method request = ''OPTIONS'' \<or> rq_Method request \<notin> set (allowed_methods methods)")
  case True
  with assms(1) have "wfe' = nonce_issued E wfe \<and> calls = []"
    by (auto simp: HandleFunc_def Let_def allowed_methods_def nonce_issued_def split: prod.splits if_splits)
  then show ?thesis by (simp add: outcome_none)
next
  case False
  with assms(1) obtain w1 where "h E (nonce_issued E wfe) request w1 = Some (wfe', w', calls)"
    by (auto simp: HandleFunc_def Let_def allowed_methods_def nonce_issued_def split: prod.splits if_splits)
  with assms(2) False show ?thesis unfolding safe_handler_def by blast
qed

lemma longest_match_mem: "longest_match path table = Some (pattern, h) \<Longrightarrow> (pattern, h) \<in> set table"
  by (induction path table rule: longest_match.induct) (auto split: option.splits if_splits prod.splits)

lemma routes_safe:
  assumes "(pattern, h) \<in> set (wfe_routes E)"
  shows "(\<exists>methods h'. h = HandleFunc methods h' \<and> safe_handler methods h') \<or> h = Index"
  using assms safe_handlers unfolding wfe_routes_def by (auto split: if_splits)

lemma outcome_path: "outcome E wfe (request\<lparr>rq_Path := p\<rparr>) wfe' calls \<longleftrightarrow> outcome E wfe request wfe' calls"
  by (simp add: outcome_def justified_def authenticated_def request_nonce_def)

text \<open>A request leaves the front end alone, or a nonce was drawn and the outcome is that of a handler.\<close>

lemma Handler_outcome:
  assumes "Handler E wfe request = Some (wfe', resp, calls)"
  shows "wfe' = wfe \<and> calls = [] \<or>
    outcome E (nonce_issued E wfe) request wfe' calls \<and> (calls \<noteq> [] \<longrightarrow> rq_Method request = ''POST'')"
proof (cases "mux_route (wfe_routes E) (rq_Path request)")
  case (RouteTo pattern h)
  then have mem: "(pattern, h) \<in> set (wfe_routes E)"
    by (auto simp: mux_route_def Let_def split: if_splits option.splits dest: longest_match_mem)
  from assms RouteTo obtain p w1 w' where h: "h E wfe (request\<lparr>rq_Path := p\<rparr>) w1 = Some (wfe', w', calls)"
    by (auto simp: Handler_def serve_top_def Let_def)
  from routes_safe [OF mem] show ?thesis
  proof (elim disjE exE conjE)
    fix methods h'
    assume "h = HandleFunc methods h'" "safe_handler methods h'"
    with HandleFunc_outcome [of methods h' E wfe "request\<lparr>rq_Path := p\<rparr>" w1 wfe' w' calls] h
    show ?thesis by (simp add: outcome_path)
  next
    assume "h = Index"
    with h passive_handlers(6) show ?thesis by blast
  qed
qed (use assms in \<open>auto simp: Handler_def Let_def split: if_splits\<close>)

section \<open>Replay\<close>

text \<open>A run of requests, each with what it asked of the registration authority; none panics.\<close>

fun serve_all ::
  "WebFrontEndImpl \<Rightarrow> (wfe_env \<times> http_request) list \<Rightarrow> (wfe_env \<times> http_request \<times> ra_call list) list option" where
  "serve_all wfe [] = Some []"
| "serve_all wfe ((E, request) # rs) =
     (case Handler E wfe request of
        None \<Rightarrow> None
      | Some (wfe', resp, calls) \<Rightarrow> map_option ((#) (E, request, calls)) (serve_all wfe' rs))"

lemma accepted_append: "accepted ns (xs @ ys) = accepted ns xs @ accepted (foldl nonce_step ns xs) ys"
proof (induction xs arbitrary: ns)
  case (Cons x xs)
  then show ?case by (cases x) (auto split: sum.splits)
qed simp

lemma decrypt_gcm: "gcm ns = gcm ns' \<Longrightarrow> decrypt ns = decrypt ns'"
  unfolding decrypt_def by (rule ext) (simp only:)

lemma nonce_step_gcm [simp]: "gcm (nonce_step ns x) = gcm ns"
proof (cases x)
  case (Check n)
  then show ?thesis by (cases "decrypt ns n") (simp_all add: Valid_redeem Valid_unchanged)
qed (simp add: NewNonce_def Let_def)

lemma nonce_steps_gcm [simp]: "gcm (foldl nonce_step ns xs) = gcm ns"
  by (induction xs arbitrary: ns) simp_all

text \<open>What a request does to the nonce service, and that its calls spend its nonce.\<close>

lemma Handler_nonce_ops:
  assumes "Handler E wfe request = Some (wfe', resp, calls)"
  obtains ops where "length ops \<le> 2" "nonceService wfe' = foldl nonce_step (nonceService wfe) ops"
    "calls \<noteq> [] \<Longrightarrow> \<exists>c. decrypt (nonceService wfe) (request_nonce E request) = Inr c \<and> accepted (nonceService wfe) ops = [c]"
proof -
  let ?ns = "nonceService wfe" and ?n = "request_nonce E request"
  let ?ns1 = "nonce_step ?ns (nonce_op.Issue (we_nonceRand E))"
  have issued: "nonceService (nonce_issued E wfe) = ?ns1" by (simp add: nonce_issued_def)
  from Handler_outcome [OF assms]
  consider (same) "wfe' = wfe" "calls = []" | (issue) "wfe' = nonce_issued E wfe" "calls = []"
    | (check) "nonceService wfe' = fst (Valid ?ns1 ?n)" "\<forall>call \<in> set calls. justified E (nonce_issued E wfe) request call"
    unfolding outcome_def using issued by auto
  then show thesis
  proof cases
    case same
    then show ?thesis by (intro that [of "[]"]) simp_all
  next
    case issue
    then show ?thesis using issued by (intro that [of "[nonce_op.Issue (we_nonceRand E)]"]) simp_all
  next
    case check
    show ?thesis
    proof (rule that [of "[nonce_op.Issue (we_nonceRand E), Check ?n]"])
      show "nonceService wfe' = foldl nonce_step ?ns [nonce_op.Issue (we_nonceRand E), Check ?n]" using check by simp
      assume "calls \<noteq> []"
      then have v: "snd (Valid ?ns1 ?n)"
        using check(2) issued by (cases calls) (auto simp: justified_def authenticated_def)
      then obtain c where c: "decrypt ?ns1 ?n = Inr c" by (cases "decrypt ?ns1 ?n") (simp_all add: Valid_unchanged)
      moreover have "decrypt ?ns = decrypt ?ns1" by (rule decrypt_gcm) (simp only: nonce_step_gcm)
      ultimately show "\<exists>c. decrypt ?ns ?n = Inr c \<and> accepted ?ns [nonce_op.Issue (we_nonceRand E), Check ?n] = [c]"
        using v by (auto simp del: nonce_step.simps)
    qed simp
  qed
qed

lemma distinct_subseq: "subseq xs ys \<Longrightarrow> distinct ys \<Longrightarrow> distinct xs"
  by (induction rule: list_emb.induct) (auto dest: list_emb_set)

lemma serve_all_accepted:
  "serve_all wfe rs = Some outs \<Longrightarrow>
     \<exists>ops. length ops \<le> 2 * length rs \<and>
       subseq (map (\<lambda>(E, request, calls). decrypt (nonceService wfe) (request_nonce E request))
                (filter (\<lambda>(E, request, calls). calls \<noteq> []) outs))
         (map Inr (accepted (nonceService wfe) ops))"
proof (induction rs arbitrary: wfe outs)
  case Nil
  then show ?case by (intro exI [of _ "[]"]) simp
next
  case (Cons er rs)
  obtain E request where er: "er = (E, request)" by (cases er)
  with Cons(2) obtain wfe' resp calls outs' where h: "Handler E wfe request = Some (wfe', resp, calls)"
    "serve_all wfe' rs = Some outs'" "outs = (E, request, calls) # outs'" by (auto split: option.splits)
  obtain ops1 where o1: "length ops1 \<le> 2" "nonceService wfe' = foldl nonce_step (nonceService wfe) ops1"
    "calls \<noteq> [] \<Longrightarrow> \<exists>c. decrypt (nonceService wfe) (request_nonce E request) = Inr c \<and> accepted (nonceService wfe) ops1 = [c]"
    using Handler_nonce_ops [OF h(1)] by blast
  have g: "decrypt (nonceService wfe') = decrypt (nonceService wfe)" using o1(2) by (intro decrypt_gcm) simp
  obtain ops2 where o2: "length ops2 \<le> 2 * length rs"
    "subseq (map (\<lambda>(E, request, calls). decrypt (nonceService wfe) (request_nonce E request))
        (filter (\<lambda>(E, request, calls). calls \<noteq> []) outs'))
      (map Inr (accepted (nonceService wfe') ops2))"
    using Cons(1) [OF h(2)] unfolding g by blast
  show ?case
  proof (intro exI [of _ "ops1 @ ops2"] conjI)
    show "length (ops1 @ ops2) \<le> 2 * length (er # rs)" using o1(1) o2(1) by simp
    show "subseq (map (\<lambda>(E, request, calls). decrypt (nonceService wfe) (request_nonce E request))
        (filter (\<lambda>(E, request, calls). calls \<noteq> []) outs)) (map Inr (accepted (nonceService wfe) (ops1 @ ops2)))"
    proof (cases "calls = []")
      case True
      with o2(2) show ?thesis by (simp add: h(3) accepted_append o1(2) list_emb_append2)
    next
      case False
      with o1(3) o2(2) show ?thesis by (auto simp: h(3) accepted_append o1(2))
    qed
  qed
qed

section \<open>A sample front end\<close>

definition sample_nonce :: string where
  "sample_nonce = (case encrypt (NewNonceService tag_aead) (Some ''abcdefgh'') 1 of Inr n \<Rightarrow> n | Inl _ \<Rightarrow> [])"

definition sample_wfe :: WebFrontEndImpl where
  "sample_wfe = \<lparr>BaseURL = ''https://acme'', IssuerCert = ''issuer'', SubscriberAgreementURL = ''https://acme/terms'',
     nonceService = fst (NewNonce (NewNonceService tag_aead) (Some ''abcdefgh'')), wfe_keyPolicy = NewKeyPolicy,
     CertCacheDuration = 0, CertNoCacheExpirationWindow = 0, IndexCacheDuration = 0, IssuerCacheDuration = 0,
     AllowOrigins = [], RequestTimeout = 0, AcceptRevocationReason = True, AllowAuthzDeactivation = True\<rparr>"

definition sample_account_key :: JsonWebKey where
  "sample_account_key = \<lparr>jwk_Key = RSAKey 15 3, KeyID = [], Algorithm = []\<rparr>"

definition sample_account :: Registration where
  "sample_account = empty_registration\<lparr>reg_ID := 7, reg_Key := Some sample_account_key, Agreement := ''https://acme/terms'',
     reg_Status := StatusValid\<rparr>"

definition sample_leaf :: x509Cert where
  "sample_leaf = \<lparr>x_SerialNumber = 5, x_NotBefore = 1000, x_NotAfter = 9000, x_PublicKey = ECDSAKey P256 1 2,
     x_CommonName = [], x_otherSubject = [], x_DNSNames = [''a.com''], x_IPAddresses = [], x_EmailAddresses = [],
     x_BasicConstraintsValid = True, x_IsCA = False, x_ExtKeyUsage = []\<rparr>"

definition sample_new_authz :: Authorization where
  "sample_new_authz = \<lparr>az_ID = ''abc'', Identifier = \<lparr>id_Type = IdentifierDNS, Value = ''a.com''\<rparr>, RegistrationID = 7,
     az_Status = StatusPending, az_Expires = Some 5000, Challenges = [], Combinations = []\<rparr>"

definition sample_we :: "string \<Rightarrow> wfe_env" where
  "sample_we resource = \<lparr>we_enabled = \<lambda>_. True, we_now = 1000, we_requestID = ''id'', we_nonceRand = Some ''ijklmnop'',
     we_ParseSigned = \<lambda>body. Some \<lparr>jws_Signatures = [\<lparr>sig_JsonWebKey = Some sample_account_key, sig_Nonce = sample_nonce,
       sig_Algorithm = ''RS256''\<rparr>], jws_Raw = body\<rparr>,
     we_keyValid = \<lambda>_. True, we_Verify = \<lambda>jws k. Inr (jws_Raw jws),
     we_ec = \<lambda>_. \<lparr>curve_P = 7, curve_N = 5, curve_Name = ''P-256'', IsOnCurve = \<lambda>_ _. True, ScalarMult = \<lambda>_ _ _. (0, 0)\<rparr>,
     we_sha256 = \<lambda>b. b, we_marshalPKIX = \<lambda>_. Some [], we_marshal = \<lambda>_. Inr ''{}'', we_resource = \<lambda>_. Inr resource,
     we_jsonReg = \<lambda>_. Inr empty_registration, we_jsonAuthz = \<lambda>_. Inr sample_new_authz, we_jsonChallenge = \<lambda>_. Inl [],
     we_jsonRevoke = \<lambda>_. Inr (''der'', Some 1), we_jsonCSR = \<lambda>_. Inl [], we_jsonStatus = \<lambda>_. Inl [],
     we_jsonRollover = \<lambda>_. Inl [], we_parseCertificate = \<lambda>_. Inr sample_leaf, we_parseCSR = \<lambda>_. Inl [],
     we_issuerURLs = \<lambda>_. [], we_httpsURL = \<lambda>_. Inl [], we_parseIP = \<lambda>_. None, we_redirectNote = \<lambda>_. [],
     we_buildID = [], we_buildTime = [], we_regByKey = \<lambda>_ _. Inr sample_account,
     we_authorization = \<lambda>_. Inr sample_new_authz,
     we_certificate = \<lambda>_. Inr \<lparr>cert_RegID = 7, cert_Serial = SerialToString 5, Digest = [], DER = ''der'', Issued = 1000,
       cert_Expires = 9000\<rparr>,
     we_certificateStatus = \<lambda>_. Inr \<lparr>cs_Serial = SerialToString 5, SubscriberApproved = False, cs_Status = OCSPStatusGood,
       OCSPLastUpdated = 0, RevokedDate = 0, RevokedReason = 0, LastExpirationNagSent = 0, cs_OCSPResponse = [],
       NotAfter = 9000, IsExpired = False, LockCol = 0\<rparr>,
     we_validAuthorizations = \<lambda>_ _ _. Inr [], we_newRegistration = \<lambda>_. Inl (OtherError []),
     we_newAuthorization = \<lambda>_ _. Inr sample_new_authz, we_newCertificate = \<lambda>_ _. Inl (OtherError []),
     we_updateRegistration = \<lambda>_ _. Inl (OtherError []), we_updateAuthorization = \<lambda>_ _ _. Inl (OtherError []),
     we_revoke = \<lambda>_ _ _. None, we_deactivateRegistration = \<lambda>_. None, we_deactivateAuthorization = \<lambda>_. None\<rparr>"

definition sample_post :: "string \<Rightarrow> http_request" where
  "sample_post path = \<lparr>rq_Method = ''POST'', rq_Path = path, rq_Host = ''acme'', rq_TLS = True,
     rq_Header = [(''Content-Length'', [''2''])], rq_Body = Some (Inr ''{}''), rq_RemoteAddr = ''192.0.2.1:80''\<rparr>"

lemma sample_nonce_counter: "gcm ns = tag_aead \<Longrightarrow> decrypt ns sample_nonce = Inr 1"
proof -
  assume g: "gcm ns = tag_aead"
  obtain s where "encrypt (NewNonceService tag_aead) (Some ''abcdefgh'') 1 = Inr s"
    "decrypt (NewNonceService tag_aead) s = Inr 1"
    using decrypt_encrypt_aux [of "NewNonceService tag_aead" "''abcdefgh''" 1] tag_aead_laws
    by (auto simp: NewNonceService_def)
  moreover have "decrypt ns = decrypt (NewNonceService tag_aead)"
    by (rule decrypt_gcm) (simp add: g NewNonceService_def)
  ultimately show "decrypt ns sample_nonce = Inr 1" by (simp add: sample_nonce_def)
qed

lemma sample_nonce_not_Nil: "sample_nonce \<noteq> []"
proof
  assume "sample_nonce = []"
  then show False
    using sample_nonce_counter [of "NewNonceService tag_aead"]
    by (simp add: NewNonceService_def decrypt_def raw_url_decode_def b64_decode_raw_def strip_newlines_def nonceLen_def)
qed

lemma sample_nonce_valid: "snd (Valid (nonceService (nonce_issued (sample_we res) sample_wfe)) sample_nonce)"
proof -
  let ?ns = "nonceService (nonce_issued (sample_we res) sample_wfe)"
  have "gcm ?ns = tag_aead"
    by (simp add: nonce_issued_def sample_wfe_def NewNonce_def Let_def NewNonceService_def)
  then have "Valid ?ns sample_nonce = redeem ?ns 1" by (simp add: sample_nonce_counter Valid_redeem)
  then show ?thesis
    by (simp add: nonce_issued_def sample_wfe_def NewNonce_def Let_def NewNonceService_def redeem_def is_used_def)
qed

lemma sample_we_fields [simp]:
  "we_ParseSigned (sample_we res) = (\<lambda>body. Some \<lparr>jws_Signatures = [\<lparr>sig_JsonWebKey = Some sample_account_key,
     sig_Nonce = sample_nonce, sig_Algorithm = ''RS256''\<rparr>], jws_Raw = body\<rparr>)"
  "we_keyValid (sample_we res) = (\<lambda>_. True)" "we_Verify (sample_we res) = (\<lambda>jws k. Inr (jws_Raw jws))"
  "we_resource (sample_we res) = (\<lambda>_. Inr res)" "we_regByKey (sample_we res) = (\<lambda>_ _. Inr sample_account)"
  "we_jsonAuthz (sample_we res) = (\<lambda>_. Inr sample_new_authz)" "we_jsonRevoke (sample_we res) = (\<lambda>_. Inr (''der'', Some 1))"
  "we_parseCertificate (sample_we res) = (\<lambda>_. Inr sample_leaf)"
  by (simp_all add: sample_we_def)

lemma sample_account_fields [simp]:
  "reg_ID sample_account = 7" "reg_Key sample_account = Some sample_account_key"
  "reg_Status sample_account = StatusValid" "Agreement sample_account \<noteq> []"
  by (simp_all add: sample_account_def)

lemma sample_checkAlgorithm:
  "checkAlgorithm sample_account_key \<lparr>jws_Signatures = [\<lparr>sig_JsonWebKey = Some k, sig_Nonce = n,
     sig_Algorithm = ''RS256''\<rparr>], jws_Raw = b\<rparr> = None"
  by (simp add: checkAlgorithm_def algorithmForKey_def sample_account_key_def)

lemma sample_verified:
  assumes "res \<noteq> []"
  shows "\<exists>wfe'. nonceService wfe' = fst (Valid (nonceService (nonce_issued (sample_we res) sample_wfe)) sample_nonce) \<and>
    AcceptRevocationReason wfe' \<and>
    verifyPOST (sample_we res) (nonce_issued (sample_we res) sample_wfe) (sample_post p) rc res =
    Some (wfe', 7, Inr (''{}'', sample_account_key, sample_account))"
proof -
  let ?wfe = "nonce_issued (sample_we res) sample_wfe"
  have "verify_jws (sample_we res) ?wfe sample_account_key
      \<lparr>jws_Signatures = [\<lparr>sig_JsonWebKey = Some sample_account_key, sig_Nonce = sample_nonce,
         sig_Algorithm = ''RS256''\<rparr>], jws_Raw = ''{}''\<rparr> res =
      (?wfe\<lparr>nonceService := fst (Valid (nonceService ?wfe) sample_nonce)\<rparr>, Inr ''{}'')"
    using sample_nonce_valid [of res] sample_nonce_not_Nil assms
    by (simp add: verify_jws_def sample_checkAlgorithm check_nonce_eq check_resource_def)
  then have "verifyPOST (sample_we res) ?wfe (sample_post p) rc res =
      Some (?wfe\<lparr>nonceService := fst (Valid (nonceService ?wfe) sample_nonce)\<rparr>, 7, Inr (''{}'', sample_account_key, sample_account))"
    by (simp add: verifyPOST_def sample_post_def extractJWSKey_def requester_of_def)
  then show ?thesis by (simp add: nonce_issued_def sample_wfe_def)
qed

text \<open>The sample front end takes a new authorization, and revokes a certificate for the account it was issued to.\<close>

lemmas route_simps = mux_route_def cleanPath_def wfe_routes_def pattern_matches_def has_prefix_def

lemma sample_routes:
  "mux_route (wfe_routes (sample_we res)) newAuthzPath = RouteTo newAuthzPath (HandleFunc [''POST''] NewAuthorization_wfe)"
  "mux_route (wfe_routes (sample_we res)) revokeCertPath = RouteTo revokeCertPath (HandleFunc [''POST''] RevokeCertificate_wfe)"
  "mux_route (wfe_routes (sample_we res)) buildIDPath = RouteTo buildIDPath (HandleFunc [''GET''] BuildID_wfe)"
  by (simp_all add: route_simps directoryPath_def newRegPath_def regPath_def newAuthzPath_def authzPath_def
      challengePath_def newCertPath_def certPath_def revokeCertPath_def termsPath_def issuerPath_def buildIDPath_def
      rolloverPath_def)

lemma sample_post_path [simp]: "sample_post p\<lparr>rq_Path := q\<rparr> = sample_post q"
  by (simp add: sample_post_def)

lemma sample_wfe_fresh: "nonce_issued (sample_we res) (sample_wfe\<lparr>nonceService := NewNonceService tag_aead\<rparr>) = sample_wfe"
  by (simp add: nonce_issued_def sample_we_def sample_wfe_def NewNonce_def Let_def)

lemma sample_HandleFunc:
  "\<exists>w. HandleFunc [''POST''] h (sample_we res) sample_wfe (sample_post p) w0 =
     h (sample_we res) (nonce_issued (sample_we res) sample_wfe) (sample_post p) w"
  by (auto simp: HandleFunc_def Let_def nonce_issued_def sample_post_def split: prod.splits)

lemma sample_authz_run:
  "\<exists>wfe' resp. Handler (sample_we ResourceNewAuthz) sample_wfe (sample_post newAuthzPath) =
     Some (wfe', resp, [RaNewAuthorization sample_new_authz 7])"
proof -
  let ?E = "sample_we ResourceNewAuthz"
  obtain wfe1 where v: "verifyPOST ?E (nonce_issued ?E sample_wfe) (sample_post []) True ResourceNewAuthz =
      Some (wfe1, 7, Inr (''{}'', sample_account_key, sample_account))"
    using sample_verified [of ResourceNewAuthz "[]" True] by (auto simp: ResourceNewAuthz_def)
  obtain w where "HandleFunc [''POST''] NewAuthorization_wfe ?E sample_wfe (sample_post [])
      (Header_Set ''Boulder-Request-Id'' (we_requestID ?E) new_response) =
      NewAuthorization_wfe ?E (nonce_issued ?E sample_wfe) (sample_post []) w"
    using sample_HandleFunc by blast
  moreover obtain w' where "NewAuthorization_wfe ?E (nonce_issued ?E sample_wfe) (sample_post []) w =
      Some (wfe1, w', [RaNewAuthorization sample_new_authz 7])"
    using v by (auto simp: NewAuthorization_wfe_def with_verified_def Let_def must_agree_def split: handler_splits)
       (auto simp: sample_we_def)
  moreover have "rq_Path (sample_post newAuthzPath) = newAuthzPath" "newAuthzPath \<noteq> ''/''"
    by (simp_all add: sample_post_def newAuthzPath_def)
  ultimately show ?thesis by (simp add: Handler_def serve_top_def sample_routes)
qed

definition sample_get :: http_request where
  "sample_get = \<lparr>rq_Method = ''GET'', rq_Path = buildIDPath, rq_Host = ''acme'', rq_TLS = True, rq_Header = [],
     rq_Body = None, rq_RemoteAddr = ''192.0.2.1:80''\<rparr>"

lemma sample_get_run:
  "\<exists>resp. Handler (sample_we res) (sample_wfe\<lparr>nonceService := NewNonceService tag_aead\<rparr>) sample_get = Some (sample_wfe, resp, [])"
proof -
  obtain ns n where "NewNonce (NewNonceService tag_aead) (we_nonceRand (sample_we res)) = (ns, n)" by fastforce
  moreover from this sample_wfe_fresh [of res] have "sample_wfe\<lparr>nonceService := ns\<rparr> = sample_wfe"
    by (simp add: nonce_issued_def)
  moreover have "rq_Path sample_get = buildIDPath" "buildIDPath \<noteq> ''/''" "rq_Method sample_get = ''GET''"
    by (simp_all add: sample_get_def buildIDPath_def)
  ultimately show ?thesis
    by (simp add: Handler_def serve_top_def sample_routes HandleFunc_def BuildID_wfe_def Let_def)
qed

section \<open>Properties of the front end\<close>

text \<open>
  C4: whatever the front end asks of the registration authority, over all paths and handlers, it asks for a POST
  request that is authenticated: signed with the key of the account in whose name the call
  is made (or, to register or revoke, with a key that has no account and passes the key policy), with an
  unspent nonce, for the resource the call belongs to and, with account deactivation in force, by
  an account that is valid; and the call says what the signed payload says.
\<close>

theorem ra_calls_authenticated:
  assumes "Handler E wfe request = Some (wfe', resp, calls)" and "call \<in> set calls"
  shows "rq_Method request = ''POST'' \<and>
    (\<exists>payload key reg resource.
       authenticated E (nonce_issued E wfe) request (needs_account call) resource key reg payload \<and>
       resource \<in> call_resources call \<and> acts_for E wfe reg key payload call)"
proof -
  have "justified E (nonce_issued E wfe) request call" "rq_Method request = ''POST''"
    using Handler_outcome [OF assms(1)] assms(2) by (auto simp: outcome_def)
  then show ?thesis by (auto simp: justified_def nonce_issued_def)
qed

theorem ra_calls_authenticated_witness:
  "\<exists>payload key reg. reg_ID reg = 7 \<and>
     authenticated (sample_we ResourceNewAuthz) (nonce_issued (sample_we ResourceNewAuthz) sample_wfe)
       (sample_post newAuthzPath) True ResourceNewAuthz key reg payload"
proof -
  obtain wfe' resp where "Handler (sample_we ResourceNewAuthz) sample_wfe (sample_post newAuthzPath) =
     Some (wfe', resp, [RaNewAuthorization sample_new_authz 7])" using sample_authz_run by blast
  from ra_calls_authenticated [OF this] show ?thesis by auto
qed

text \<open>
  C5: no request is taken twice. Among the requests that a newly started front end serves, fewer than \<open>2 ^ 62\<close> and
  none of them panicking, those that lead to a call of the registration authority carry nonces
  with different counters, hence different nonces.
\<close>

theorem no_replay:
  assumes "serve_all wfe rs = Some outs" and "nonceService wfe = NewNonceService g" and "length rs < 2 ^ 62"
  shows "distinct (map (\<lambda>(E, request, calls). decrypt (NewNonceService g) (request_nonce E request))
    (filter (\<lambda>(E, request, calls). calls \<noteq> []) outs))"
proof -
  obtain ops where ops: "length ops \<le> 2 * length rs"
    "subseq (map (\<lambda>(E, request, calls). decrypt (NewNonceService g) (request_nonce E request))
        (filter (\<lambda>(E, request, calls). calls \<noteq> []) outs)) (map Inr (accepted (NewNonceService g) ops))"
    using serve_all_accepted [OF assms(1)] assms(2) by auto
  have "length ops < 2 ^ 63" using ops(1) assms(3) by simp
  then have "run_ok nonce_guard nonce_step (NewNonceService g) ops"
    by (intro short_run_ok) (simp add: NewNonceService_def)
  with nonce_inv_init have "distinct (accepted (NewNonceService g) ops)" by (blast dest: accepted_distinct_aux)
  then have "distinct (map Inr (accepted (NewNonceService g) ops) :: (string + 64 word) list)" by (simp add: distinct_map)
  with ops(2) show ?thesis by (rule distinct_subseq)
qed

theorem no_replay_witness:
  "\<exists>outs. serve_all (sample_wfe\<lparr>nonceService := NewNonceService tag_aead\<rparr>)
       [(sample_we [], sample_get), (sample_we ResourceNewAuthz, sample_post newAuthzPath)] = Some outs \<and>
     filter (\<lambda>(E, request, calls). calls \<noteq> []) outs \<noteq> [] \<and>
     distinct (map (\<lambda>(E, request, calls). decrypt (NewNonceService tag_aead) (request_nonce E request))
       (filter (\<lambda>(E, request, calls). calls \<noteq> []) outs))"
proof -
  obtain r1 r2 wfe' where "Handler (sample_we []) (sample_wfe\<lparr>nonceService := NewNonceService tag_aead\<rparr>) sample_get =
      Some (sample_wfe, r1, [])"
    "Handler (sample_we ResourceNewAuthz) sample_wfe (sample_post newAuthzPath) =
      Some (wfe', r2, [RaNewAuthorization sample_new_authz 7])"
    using sample_get_run sample_authz_run by blast
  then have "serve_all (sample_wfe\<lparr>nonceService := NewNonceService tag_aead\<rparr>)
       [(sample_we [], sample_get), (sample_we ResourceNewAuthz, sample_post newAuthzPath)] =
      Some [(sample_we [], sample_get, []),
        (sample_we ResourceNewAuthz, sample_post newAuthzPath, [RaNewAuthorization sample_new_authz 7])]" by simp
  from this no_replay [OF this, of tag_aead] show ?thesis by auto
qed

text \<open>
  C17: who may revoke what. A verified revocation request leads to a call just when the
  payload holds a certificate that is stored byte for byte and not revoked, with an allowed reason,
  and the requester holds the certificate's key, or is the account it was issued to,
  or is an account with a valid authorization for every name of the certificate.
\<close>

theorem revocation_iff:
  assumes "verifyPOST E wfe request False ResourceRevokeCert = Some (wfe1, requester, Inr (payload, key, reg))"
    and "RevokeCertificate_wfe E wfe request w = Some (wfe', w', calls)"
  shows "call \<in> set calls \<longleftrightarrow>
    (\<exists>cert reason. call = RaRevokeCertificateWithReg cert reason (reg_ID reg) \<and>
       revocable_as E wfe key reg payload cert reason)"
proof -
  have "revoke_verified E wfe1 (addRequesterHeader requester w) payload key reg = Some (wfe', w', calls)"
    using assms by (simp add: RevokeCertificate_wfe_def with_verified_def)
  moreover have "revocable_as E wfe1 = revocable_as E wfe"
    using verifyPOST_cases(1) [OF assms(1)] by (auto simp: revocable_as_def fun_eq_iff)
  ultimately show ?thesis using revoke_verified_calls by metis
qed

theorem revocation_iff_witness:
  "\<exists>wfe' w' calls.
     RevokeCertificate_wfe (sample_we ResourceRevokeCert) (nonce_issued (sample_we ResourceRevokeCert) sample_wfe)
       (sample_post revokeCertPath) new_response = Some (wfe', w', calls) \<and>
     RaRevokeCertificateWithReg sample_leaf 1 7 \<in> set calls"
proof -
  let ?E = "sample_we ResourceRevokeCert" and ?r = "sample_post revokeCertPath"
  let ?wfe = "nonce_issued ?E sample_wfe"
  obtain wfe1 where v: "AcceptRevocationReason wfe1" "verifyPOST ?E ?wfe ?r False ResourceRevokeCert =
      Some (wfe1, 7, Inr (''{}'', sample_account_key, sample_account))"
    using sample_verified [of ResourceRevokeCert revokeCertPath False] by (auto simp: ResourceRevokeCert_def)
  have rv: "revocable_as ?E ?wfe sample_account_key sample_account ''{}'' sample_leaf 1"
    by (simp add: revocable_as_def may_revoke_def UserAllowedReasons_def)
       (simp add: sample_we_def nonce_issued_def sample_wfe_def OCSPStatusGood_def OCSPStatusRevoked_def)
  obtain wfe' w' calls where "RevokeCertificate_wfe ?E ?wfe ?r new_response = Some (wfe', w', calls)"
    using v revoke_verified_returns [of ?E wfe1] by (fastforce simp: RevokeCertificate_wfe_def with_verified_def)
  with rv revocation_iff [OF v(2) this, of "RaRevokeCertificateWithReg sample_leaf 1 7"] show ?thesis by auto
qed

text \<open>
  C38: a change of the account key ignores the key policy: it asks for the same update and gives the same answer
  whatever the policy, so that an account can be moved to a key that no registration would be
  accepted for.
\<close>

theorem key_rollover_ignores_key_policy:
  "map_option snd (KeyRollover E (wfe\<lparr>wfe_keyPolicy := policy\<rparr>) request w) = map_option snd (KeyRollover E wfe request w)"
proof -
  have "verifyPOST E (wfe\<lparr>wfe_keyPolicy := policy\<rparr>) request True res =
      map_option (apfst (wfe_keyPolicy_update (\<lambda>_. policy))) (verifyPOST E wfe request True res)" for res
    by (auto simp: verifyPOST_def requester_of_def verify_jws_def check_nonce_eq split: handler_splits)
  then show ?thesis
    by (auto simp: KeyRollover_def with_verified_def Let_def relativeEndpoint_def split: handler_splits)
qed

end
