(* ===== verification/Boulder.thy ===== *)
theory Boulder
  imports VaProps Orphan WfeProps
begin

text \<open>
  The services together. A run of the installation interleaves the operations of the storage
  authority that its handlers call, on one database, with the validations that the
  registration authority starts and the validation authority answers. In every run an
  authorization is valid only after a validation for its domain succeeded.
  Any statement of the database may fail at any step, with one exception: the query by which
  \<^verbatim>\<open>NewPendingAuthorization\<close> looks whether an identifier is in use is taken to succeed,
  since the code goes on with the identifier when it fails.
\<close>

section \<open>Pending authorizations\<close>

text \<open>
  A pending authorization has no valid challenge, and each of its challenges suffices. Its
  status may have been changed to a final one by a deactivation or a revocation.
\<close>

definition pend_inv :: "database \<Rightarrow> bool" where
  "pend_inv db \<longleftrightarrow> (\<forall>r \<in> set (pendingAuthorizations db).
     ar_Status r \<in> {StatusPending, StatusDeactivated, StatusRevoked} \<and>
     (\<forall>c \<in> set (challenges db). cm_AuthorizationID c = ar_ID r \<longrightarrow> cm_Status c \<noteq> StatusValid) \<and>
     set (ar_Combinations r) = (\<lambda>i. [int i]) ` {..<length (challenges_of db (ar_ID r))})"

lemma map_eq_mem: "map f xs = map g ys \<Longrightarrow> x \<in> set xs \<Longrightarrow> \<exists>y \<in> set ys. f x = g y"
  by (metis imageE image_eqI list.set_map)

lemma GetAuthorization_fresh:
  assumes "GetAuthorization E db aid = Inr az" "authz_inv db" "pend_inv db" "statusIsPending (az_Status az)"
  shows "fresh_authz az"
proof -
  obtain r challs where r: "select_authz E db aid = Inr r" and az: "az = row_authz r challs"
    and t: "traverse (modelToChallenge E) (challenges_of db (ar_ID r)) = Inr challs"
    using assms(1) by (auto simp: GetAuthorization_def in_tx_def commit_tx_def go_result split: option.splits sum.splits prod.splits)
  have "r \<notin> set (authz_table db)" using assms(2,4) by (auto simp: az row_authz_def authz_inv_def)
  with r have p: "r \<in> set (pendingAuthorizations db)"
    by (auto simp: select_authz_def go_result find_Some_iff split: sum.splits if_splits)
  have "length challs = length (challenges_of db (ar_ID r))" using t by (rule traverse_length)
  moreover have "map ch_Status challs = map cm_Status (challenges_of db (ar_ID r))"
    by (rule traverse_same [OF t]) (rule modelToChallenge_status)
  then have "list_all (\<lambda>c. ch_Status c \<noteq> StatusValid) challs"
    using assms(3) p by (fastforce simp: pend_inv_def challenges_of_def list_all_iff dest: map_eq_mem)
  ultimately show ?thesis using assms(3,4) p
    by (auto simp: fresh_authz_def az row_authz_def pend_inv_def statusIsPending_def status_defs)
qed

text \<open>An update of the challenges of one authorization leaves the others alone and sets the given statuses.\<close>

lemma updateChallenges_rows:
  assumes "updateChallenges E aid cs db = Inr db'" "chall_inv db"
  shows "length (challenges_of db' x) = length (challenges_of db x)"
    "c \<in> set (challenges db') \<Longrightarrow> cm_AuthorizationID c \<noteq> aid \<Longrightarrow> c \<in> set (challenges db)"
    "c \<in> set (challenges db') \<Longrightarrow> cm_AuthorizationID c = aid \<Longrightarrow> \<exists>ch \<in> set cs. cm_Status c = ch_Status ch"
proof -
  let ?ids = "map cm_ID (challenges_of db aid)"
  obtain cms where c: "traverse (\<lambda>c. challengeToModel E c aid) cs = Inr cms" "length cs = length (challenges_of db aid)"
    "db' = db\<lparr>challenges := map (apply_challs ?ids cms) (challenges db)\<rparr>"
    using updateChallenges_eq [OF assms] by blast
  have count: "length (filter (\<lambda>c. cm_AuthorizationID c = x) chs) = length (filter ((=) x) (map cm_AuthorizationID chs))" for chs
    by (simp add: filter_map comp_def eq_commute)
  show "length (challenges_of db' x) = length (challenges_of db x)"
    unfolding challenges_of_eq [OF assms(2)] challenges_of_eq [OF updateChallenges_inv(1) [OF assms]] count
      updateChallenges_inv(2) [OF assms] ..
  have cms: "\<exists>ch \<in> set cs. cm_Status cm = ch_Status ch" "cm_AuthorizationID cm = aid" if "cm \<in> set cms" for cm
  proof -
    from c(1) that obtain ch where "ch \<in> set cs" "challengeToModel E ch aid = Inr cm"
      by (force simp: traverse_Inr_iff list_all2_conv_all_nth in_set_conv_nth)
    then show "\<exists>ch \<in> set cs. cm_Status cm = ch_Status ch" "cm_AuthorizationID cm = aid"
      using challengeToModel_status challengeToModel_fields by blast+
  qed
  assume "c \<in> set (challenges db')"
  then obtain c0 where c0: "c0 \<in> set (challenges db)" "c = apply_challs ?ids cms c0" unfolding c(3) by auto
  show "cm_AuthorizationID c \<noteq> aid \<Longrightarrow> c \<in> set (challenges db)"
    using c0 cms(2) by (auto simp: apply_challs_def split: option.splits dest!: map_of_SomeD set_zip_rightD)
  assume a: "cm_AuthorizationID c = aid"
  show "\<exists>ch \<in> set cs. cm_Status c = ch_Status ch"
  proof (cases "map_of (zip ?ids cms) (cm_ID c0)")
    case None
    then have "c = c0" using c0(2) by (simp add: apply_challs_def)
    with a c0(1) have "cm_ID c0 \<in> set ?ids" by (auto simp: challenges_of_def)
    moreover have "length ?ids = length cms" using c(2) traverse_length [OF c(1)] by simp
    ultimately show ?thesis using None by (metis map_of_zip_is_None)
  next
    case (Some cm)
    then have "cm \<in> set cms" "c = cm\<lparr>cm_ID := cm_ID c0, cm_LockCol := 1\<rparr>"
      using c0(2) by (auto simp: apply_challs_def dest!: map_of_SomeD set_zip_rightD)
    then show ?thesis using cms(1) by simp
  qed
qed

lemma UpdatePending_pend:
  assumes "UpdatePendingAuthorization E db az = (db', r)" "authz_inv db" "pend_inv db" "fresh_authz az"
  shows "pend_inv db' \<and> authz_table db' = authz_table db"
proof (cases r)
  case (Inl e)
  then have "db' = db" using assms(1) by (auto simp: UpdatePendingAuthorization_def dest: in_tx_atomic)
  with assms show ?thesis by simp
next
  case (Inr u)
  define db1 where "db1 l = db\<lparr>pendingAuthorizations := map (replace_authz az l) (pendingAuthorizations db)\<rparr>" for l
  obtain l where u: "updateChallenges E (az_ID az) (Challenges az) (db1 l) = Inr db'"
    using UpdatePending_success [of E db az db'] assms(1,2) Inr by (auto simp: db1_def)
  have ci: "chall_inv (db1 l)" using assms(2) by (simp add: db1_def authz_inv_def chall_inv_def)
  note rows = updateChallenges_rows [OF u ci]
  obtain chs where db': "db' = (db1 l)\<lparr>challenges := chs\<rparr>" using updateChallenges_inv(3) [OF u ci] by blast
  have len: "length (challenges_of db' x) = length (challenges_of db x)" for x
    using rows(1) by (simp add: db1_def challenges_of_def)
  have naz: "length (challenges_of db (az_ID az)) = length (Challenges az)"
    using updateChallenges_eq [OF u ci] by (auto simp: db1_def challenges_of_def)
  have "cm_Status c \<noteq> StatusValid" if "c \<in> set (challenges db')" "cm_AuthorizationID c = az_ID az" for c
    using rows(3) [OF that] assms(4) by (auto simp: fresh_authz_def list_all_iff)
  moreover have "c \<in> set (challenges db)" if "c \<in> set (challenges db')" "cm_AuthorizationID c \<noteq> az_ID az" for c
    using rows(2) [OF that] by (simp add: db1_def)
  ultimately have "pend_inv db'"
    using assms(3,4) unfolding pend_inv_def len
    by (auto simp: db' db1_def replace_authz_def authz_row_def fresh_authz_def naz)
  then show ?thesis by (simp add: db' db1_def)
qed

text \<open>A new pending authorization as the registration authority makes it.\<close>

lemma NewPending_pend:
  assumes "NewPendingAuthorization E draws db az = Some (db', r)" "authz_inv db" "pend_inv db"
    and "fault E (DbSelect ''count authz'') = None" "fresh_authz az"
  shows "pend_inv db' \<and> authz_table db' = authz_table db"
proof (cases r)
  case (Inl e)
  with assms(1,3) NewPending_failure show ?thesis by blast
next
  case (Inr az')
  then obtain aid challs db1 where s: "fresh_id E db draws = Some aid" "aid \<notin> pending_ids db"
      "db1 = db\<lparr>pendingAuthorizations := pendingAuthorizations db @ [authz_row (az\<lparr>az_ID := aid\<rparr>) 1]\<rparr>"
      "insert_challenges E 0 aid (Challenges az) db1 = Inr (db', challs)"
    using NewPending_success assms(1) by blast
  have "aid \<notin> final_ids db"
    using fresh_id_spec [OF s(1)] assms(4) by (auto simp: existingFinal_def final_ids_def list_ex_iff)
  with s(2) assms(2) have old: "\<forall>c \<in> set (challenges db). cm_AuthorizationID c \<noteq> aid"
    unfolding authz_inv_def by blast
  obtain cms where cms: "traverse (\<lambda>c. challengeToModel E c aid) (Challenges az) = Inr cms"
    "db' = db1\<lparr>challenges := challenges db1 @ number_rows (next_chall_id db1) cms,
       next_chall_id := next_chall_id db1 + int (length cms)\<rparr>"
    using insert_challenges_eq [OF s(4)] by blast
  let ?new = "number_rows (next_chall_id db) cms"
  have a: "map cm_AuthorizationID ?new = map (\<lambda>_. aid) (Challenges az)"
    unfolding number_rows_authz by (rule traverse_same [OF cms(1)]) (simp add: challengeToModel_fields)
  have "map cm_Status ?new = map ch_Status (Challenges az)"
    unfolding number_rows_status by (rule traverse_same [OF cms(1)]) (rule challengeToModel_status)
  then have st: "\<forall>c \<in> set ?new. cm_Status c \<noteq> StatusValid"
    using assms(5) by (fastforce simp: fresh_authz_def list_all_iff dest: map_eq_mem)
  have new: "\<forall>c \<in> set ?new. cm_AuthorizationID c = aid" using map_eq_mem [OF a] by blast
  have len: "length ?new = length (Challenges az)" using a by (metis length_map)
  have ch: "challenges db' = challenges db @ ?new" by (simp add: cms(2) s(3))
  have self: "length (challenges_of db' aid) = length (Challenges az)"
    using old new len by (simp add: challenges_of_def ch)
  have other: "challenges_of db' x = challenges_of db x" if "x \<noteq> aid" for x
    using new that by (simp add: challenges_of_def ch)
  have pe: "pendingAuthorizations db' = pendingAuthorizations db @ [authz_row (az\<lparr>az_ID := aid\<rparr>) 1]"
    by (simp add: cms(2) s(3))
  have ne: "ar_ID r \<noteq> aid" if "r \<in> set (pendingAuthorizations db)" for r
    using that s(2) by (auto simp: pending_ids_def)
  have "pend_inv db'"
    using assms(3,5) st new old ne
    by (auto simp: pend_inv_def pe ch other self authz_row_def fresh_authz_def dest: bspec)
  then show ?thesis by (simp add: cms(2) s(3))
qed

text \<open>A final row takes its place in the table, and no other authorization is touched.\<close>

lemma Finalize_pend:
  assumes "FinalizeAuthorization E db az = (db', r)" "authz_inv db" "pend_inv db"
  shows "pend_inv db' \<and> (authz_table db' = authz_table db \<or> authz_table db' = authz_table db @ [authz_row az 0])"
proof (cases r)
  case (Inl e)
  then have "db' = db" using assms(1) by (auto simp: FinalizeAuthorization_def dest: in_tx_atomic)
  with assms show ?thesis by simp
next
  case (Inr u)
  define db1 where "db1 = db\<lparr>authz_table := authz_table db @ [authz_row az 0],
      pendingAuthorizations := filter (\<lambda>r. ar_ID r \<noteq> az_ID az) (pendingAuthorizations db)\<rparr>"
  have u: "updateChallenges E (az_ID az) (Challenges az) db1 = Inr db'"
    using Finalize_success [of E db az db'] assms(1,2) Inr by (simp add: db1_def)
  have ci: "chall_inv db1" using assms(2) by (simp add: db1_def authz_inv_def chall_inv_def)
  note rows = updateChallenges_rows [OF u ci]
  obtain chs where db': "db' = db1\<lparr>challenges := chs\<rparr>" using updateChallenges_inv(3) [OF u ci] by blast
  have len: "length (challenges_of db' x) = length (challenges_of db x)" for x
    using rows(1) by (simp add: db1_def challenges_of_def)
  have "c \<in> set (challenges db)" if "c \<in> set (challenges db')" "cm_AuthorizationID c \<noteq> az_ID az" for c
    using rows(2) [OF that] by (simp add: db1_def)
  then have "pend_inv db'"
    using assms(3) unfolding pend_inv_def len by (auto simp: db' db1_def)
  then show ?thesis by (simp add: db' db1_def)
qed

text \<open>All other operations set some statuses to final ones, or leave the authorizations alone.\<close>

definition valid_kept :: "database \<Rightarrow> database \<Rightarrow> bool" where
  "valid_kept db db' \<longleftrightarrow> (\<forall>r \<in> set (authz_table db'). ar_Status r = StatusValid \<longrightarrow> r \<in> set (authz_table db))"

lemma set_status_pend:
  assumes "pend_inv db" "st \<in> {StatusDeactivated, StatusRevoked}"
  shows "pend_inv (db\<lparr>authz_table := a, pendingAuthorizations := map (set_status P st) (pendingAuthorizations db)\<rparr>)"
  using assms by (auto simp: pend_inv_def set_status_def challenges_of_def)

lemma set_status_valid_kept:
  "st \<noteq> StatusValid \<Longrightarrow> valid_kept db (db\<lparr>authz_table := map (set_status P st) (authz_table db)\<rparr>)"
  by (auto simp: valid_kept_def set_status_def split: if_splits)

lemma final_statuses: "StatusDeactivated \<noteq> StatusValid" "StatusRevoked \<noteq> StatusValid"
  by (simp_all add: status_defs)

lemma Deactivate_pend:
  assumes "DeactivateAuthorization_sa E db aid = (db', r)" "pend_inv db"
  shows "pend_inv db' \<and> valid_kept db db'"
proof (cases r)
  case (Inl e)
  then have "db' = db" using assms(1) by (auto simp: DeactivateAuthorization_sa_def dest: in_tx_atomic)
  with assms show ?thesis by (simp add: valid_kept_def)
next
  case (Inr u)
  have "pend_inv (db\<lparr>authz_table := a\<rparr>)" for a using assms(2) by (simp add: pend_inv_def challenges_of_def)
  moreover have "pend_inv (db\<lparr>pendingAuthorizations := map (set_status P StatusDeactivated) (pendingAuthorizations db)\<rparr>)" for P
    using set_status_pend [OF assms(2), where st = StatusDeactivated and P = P and a = "authz_table db"] by simp
  ultimately show ?thesis
    using Deactivate_success [of E db aid db'] assms(1) Inr
    by (auto simp: set_status_valid_kept final_statuses) (simp add: valid_kept_def)
qed

lemma Revoke_pend:
  assumes "pend_inv db"
  shows "pend_inv (fst (RevokeAuthorizationsByDomain E db ident)) \<and> valid_kept db (fst (RevokeAuthorizationsByDomain E db ident))"
proof -
  obtain rows n e where l: "revoke_loop (db_fault E (DbSelect ''authz'')) (db_fault E (DbExec ''authz''))
      ident (now E) (authz_table db) 0 = (rows, n, e)" by (rule prod_cases3)
  then obtain P where P: "rows = map (set_status P StatusRevoked) (authz_table db)"
    using revoke_loop_shape by (metis fst_conv)
  obtain rows' m e' where l': "revoke_loop (db_fault E (DbSelect ''pendingAuthorizations''))
      (db_fault E (DbExec ''pendingAuthorizations'')) ident (now E) (pendingAuthorizations db) 0 =
      (rows', m, e')" by (rule prod_cases3)
  then obtain Q where Q: "rows' = map (set_status Q StatusRevoked) (pendingAuthorizations db)"
    using revoke_loop_shape by (metis fst_conv)
  have "pend_inv (db\<lparr>authz_table := rows\<rparr>)" using assms by (simp add: pend_inv_def challenges_of_def)
  moreover have "pend_inv (db\<lparr>authz_table := rows, pendingAuthorizations := rows'\<rparr>)"
    using set_status_pend [OF assms, where st = StatusRevoked and P = Q and a = rows] by (simp add: Q)
  moreover have "valid_kept db (db\<lparr>authz_table := rows\<rparr>)"
    by (simp add: P set_status_valid_kept final_statuses)
  ultimately show ?thesis using l l'
    by (cases e) (auto simp: RevokeAuthorizationsByDomain_def valid_kept_def)
qed

text \<open>The operations other than the three that the registration authority's handlers make for authorizations.\<close>

fun authz_op :: "sa_op \<Rightarrow> bool" where
  "authz_op (NewPending draws az) = True"
| "authz_op (UpdPending az) = True"
| "authz_op (Finalize az) = True"
| "authz_op _ = False"

lemma reg_only_pend: "reg_only db db' \<Longrightarrow> pend_inv db \<Longrightarrow> pend_inv db' \<and> valid_kept db db'"
  by (auto simp: reg_only_def pend_inv_def challenges_of_def valid_kept_def)

lemma cert_only_pend: "cert_only db db' \<Longrightarrow> pend_inv db \<Longrightarrow> pend_inv db' \<and> valid_kept db db'"
  by (auto simp: cert_only_def pend_inv_def challenges_of_def valid_kept_def)

lemma other_step_pend:
  assumes "\<not> authz_op op" "db_inv db" "pend_inv db" "sa_guard db (E, op)"
  shows "pend_inv (sa_step pc db (E, op)) \<and> valid_kept db (sa_step pc db (E, op))"
proof (cases op)
  case (NewReg reg)
  with reg_only_pend NewRegistration_inv [OF surjective_pairing db_inv_parts(2) [OF assms(2)]] assms(3)
  show ?thesis by auto
next
  case (UpdReg db0 reg)
  with assms(4) have "reg_inv db0" by simp
  from UpdateRegistration_inv [OF surjective_pairing this db_inv_parts(2) [OF assms(2)]] reg_only_pend assms(3) UpdReg
  show ?thesis by (metis sa_step.simps(2))
next
  case (DeactReg rid)
  with reg_only_pend DeactivateRegistration_inv [OF surjective_pairing db_inv_parts(2) [OF assms(2)]] assms(3)
  show ?thesis by auto
next
  case (DeactAuthz aid)
  with Deactivate_pend [OF surjective_pairing assms(3)] show ?thesis by simp
next
  case (RevokeDomain ident)
  with Revoke_pend [OF assms(3)] show ?thesis by simp
next
  case (AddCert der regID ocsp)
  with cert_only_pend AddCertificate_inv [OF surjective_pairing db_inv_parts(3) [OF assms(2)]] assms(3)
  show ?thesis by (metis sa_step.simps(9))
next
  case (MarkRevoked ser reason)
  with cert_only_pend MarkCertificateRevoked_inv [OF surjective_pairing db_inv_parts(3) [OF assms(2)]] assms(3)
  show ?thesis by (metis sa_step.simps(10))
next
  case (AddSCT sct)
  with cert_only_pend AddSCTReceipt_inv [OF surjective_pairing db_inv_parts(3) [OF assms(2)]] assms(3)
  show ?thesis by (metis sa_step.simps(11))
qed (use assms(1) in simp_all)

section \<open>Runs\<close>

text \<open>
  A run is the list of the databases so far, the latest first, the set of the validations
  that the registration authority has started, and the set of those that the validation
  authority answered with success. The database of each statement that writes is the
  latest one; what a handler or the front end has read is of any earlier one. An answer of the
  validation authority may get lost or be replaced by an error, but only the validation
  authority reports success. \<open>tp\<close> is the thumbprint of account keys.
\<close>

type_synonym validation = "Authorization \<times> nat"
type_synonym success = "validation \<times> va_env \<times> ValidationAuthorityImpl \<times> ValidationRecord list"

inductive boulder ::
  "(JsonWebKey \<Rightarrow> string + bytes) \<Rightarrow> database list \<Rightarrow> validation set \<Rightarrow> success set \<Rightarrow> bool"
  for tp where
  start: "boulder tp [empty_db] {} {}"
| other: "boulder tp (db # h) jobs won \<Longrightarrow> \<not> authz_op op \<Longrightarrow> sa_guard db (E, op) \<Longrightarrow>
    boulder tp (sa_step pc db (E, op) # db # h) jobs won"
| new_authz: "boulder tp (db # h) jobs won \<Longrightarrow> re_sa R 4 = (E, db) \<Longrightarrow>
    fault E (DbSelect ''count authz'') = None \<Longrightarrow>
    (\<And>n. mset (permA n) = mset [0..<n]) \<Longrightarrow> (\<And>n. mset (permB n) = mset [0..<n]) \<Longrightarrow>
    NewAuthorization_ra R rnd permA permB draws ra request regID = Some (result, Some db') \<Longrightarrow>
    boulder tp (db' # db # h) jobs won"
| update: "boulder tp (db # h) jobs won \<Longrightarrow> re_sa R 1 = (E, db) \<Longrightarrow> snd (re_sa R 0) \<in> set (db # h) \<Longrightarrow>
    re_thumbprint R = tp \<Longrightarrow> db0 \<in> set (db # h) \<Longrightarrow> GetAuthorization E0 db0 aid = Inr base \<Longrightarrow>
    UpdateAuthorization_ra R ra base i response = Some (result, Some db', job) \<Longrightarrow>
    boulder tp (db' # db # h) (jobs \<union> set_option job) won"
| succeeded: "boulder tp (db # h) jobs won \<Longrightarrow> (authz, idx) \<in> jobs \<Longrightarrow>
    PerformValidation VE va (Value (Identifier authz)) (Challenges authz ! idx) authz = (records, None, ev) \<Longrightarrow>
    validation_job R ra E db authz idx records None = (db', r) \<Longrightarrow>
    boulder tp (db' # db # h) jobs (insert ((authz, idx), VE, va, records) won)"
| failed: "boulder tp (db # h) jobs won \<Longrightarrow> (authz, idx) \<in> jobs \<Longrightarrow>
    validation_job R ra E db authz idx records (Some err) = (db', r) \<Longrightarrow>
    boulder tp (db' # db # h) jobs won"

text \<open>The answer to a challenge is made of its token and the key that the account had then.\<close>

definition answered :: "(JsonWebKey \<Rightarrow> string + bytes) \<Rightarrow> database list \<Rightarrow> Authorization \<Rightarrow> nat \<Rightarrow> bool" where
  "answered tp h authz idx \<longleftrightarrow>
     (\<exists>db \<in> set h. \<exists>E reg key thumb. GetRegistration E db (RegistrationID authz) = Inr reg \<and> reg_Key reg = Some key \<and>
        tp key = Inr thumb \<and>
        ProvidedKeyAuthorization (Challenges authz ! idx) = Token (Challenges authz ! idx) @ ''.'' @ raw_url_encode thumb)"

lemma answered_mono: "answered tp h authz idx \<Longrightarrow> set h \<subseteq> set h' \<Longrightarrow> answered tp h' authz idx"
  unfolding answered_def by blast

definition run_inv ::
  "(JsonWebKey \<Rightarrow> string + bytes) \<Rightarrow> database list \<Rightarrow> validation set \<Rightarrow> success set \<Rightarrow> bool" where
  "run_inv tp h jobs won \<longleftrightarrow>
     (\<forall>db \<in> set h. db_inv db \<and> pend_inv db \<and>
        (\<forall>r \<in> set (authz_table db). ar_Status r = StatusValid \<longrightarrow>
           (\<exists>((authz, idx), _) \<in> won. ar_RegistrationID r = RegistrationID authz \<and> ar_Identifier r = Identifier authz))) \<and>
     (\<forall>(authz, idx) \<in> jobs. fresh_authz authz \<and> idx < length (Challenges authz) \<and> answered tp h authz idx) \<and>
     (\<forall>((authz, idx), VE, va, records) \<in> won. (authz, idx) \<in> jobs \<and>
        (\<exists>ev. PerformValidation VE va (Value (Identifier authz)) (Challenges authz ! idx) authz = (records, None, ev)))"

lemma run_inv_step:
  assumes "run_inv tp (db # h) jobs won" "db_inv db'" "pend_inv db'" "valid_kept db db'"
  shows "run_inv tp (db' # db # h) jobs won"
  using assms answered_mono [of tp "db # h" _ _ "db' # db # h"] unfolding run_inv_def valid_kept_def by fastforce

lemma NewAuthorization_pending:
  assumes "\<And>n. mset (permA n) = mset [0..<n]" "\<And>n. mset (permB n) = mset [0..<n]"
    and "NewAuthorization_ra R rnd permA permB draws ra request regID = Some (result, Some db')"
  shows "\<exists>az r. fresh_authz az \<and> NewPendingAuthorization (fst (re_sa R 4)) draws (snd (re_sa R 4)) az = Some (db', r)"
proof -
  obtain challs combos where cf: "ChallengesFor (re_feat R) rnd permA permB (ra_PA ra) = (challs, combos)"
    by fastforce
  define az where "az = \<lparr>az_ID = [], Identifier = (Identifier request)\<lparr>Value := to_lower (Value (Identifier request))\<rparr>,
     RegistrationID = regID, az_Status = StatusPending,
     az_Expires = Some (re_clk R 3 + pendingAuthorizationLifetime ra),
     Challenges = challs, Combinations = map (map int) combos\<rparr>"
  have "\<exists>r. NewPendingAuthorization (fst (re_sa R 4)) draws (snd (re_sa R 4)) az = Some (db', r)"
    using assms(3)
    by (auto simp: NewAuthorization_ra_def Let_def cf call_sa_def az_def [symmetric]
        split: option.splits sum.splits prod.splits)
  moreover have "fresh_authz az"
    using ChallengesFor_fresh [OF assms(1,2) cf]
    by (auto simp: fresh_authz_def az_def list_all_iff image_image status_defs)
  ultimately show ?thesis by blast
qed

lemma UpdateAuthorization_pending:
  assumes "UpdateAuthorization_ra R ra base i response = Some (result, Some db', job)"
  obtains idx authz r where "UpdatePendingAuthorization (fst (re_sa R 1)) (snd (re_sa R 1)) authz = (db', r)"
    "authz = base\<lparr>Challenges := (Challenges base)[idx := (Challenges base ! idx)
       \<lparr>ProvidedKeyAuthorization := ProvidedKeyAuthorization response\<rparr>]\<rparr>"
    "idx < length (Challenges base)" "job = (case r of Inl _ \<Rightarrow> None | Inr _ \<Rightarrow> Some (authz, idx))"
    "answered (re_thumbprint R) [snd (re_sa R 0)] authz idx"
proof -
  define idx where "idx = nat i"
  define authz where "authz = base\<lparr>Challenges := (Challenges base)[idx := (Challenges base ! idx)
     \<lparr>ProvidedKeyAuthorization := ProvidedKeyAuthorization response\<rparr>]\<rparr>"
  have i: "0 \<le> i" "i < int (length (Challenges base))"
    using assms by (auto simp: UpdateAuthorization_ra_def split: if_splits)
  then have idx: "idx < length (Challenges base)" by (simp add: idx_def nat_less_iff)
  obtain reg expected where reg: "GetRegistration (fst (re_sa R 0)) (snd (re_sa R 0)) (RegistrationID base) = Inr reg"
    "ExpectedKeyAuthorization (re_thumbprint R) (Challenges base ! idx) (reg_Key reg) = Inr expected"
    "expected = ProvidedKeyAuthorization response"
    using assms i by (auto simp: UpdateAuthorization_ra_def Let_def call_sa_def idx_def split: if_splits sum.splits option.splits)
  have "\<exists>r. UpdatePendingAuthorization (fst (re_sa R 1)) (snd (re_sa R 1)) authz = (db', r) \<and>
      job = (case r of Inl _ \<Rightarrow> None | Inr _ \<Rightarrow> Some (authz, idx))"
    using assms i by (auto simp: UpdateAuthorization_ra_def Let_def call_sa_def idx_def [symmetric] authz_def [symmetric]
        split: if_splits sum.splits option.splits prod.splits)
  moreover obtain key thumb where "reg_Key reg = Some key" "re_thumbprint R key = Inr thumb"
    "ProvidedKeyAuthorization response = Token (Challenges base ! idx) @ ''.'' @ raw_url_encode thumb"
    using reg(2,3) by (auto simp: ExpectedKeyAuthorization_def go_result split: option.splits)
  then have "answered (re_thumbprint R) [snd (re_sa R 0)] authz idx"
    using reg(1) idx unfolding answered_def authz_def
    by (intro bexI [of _ "snd (re_sa R 0)"] exI [of _ "fst (re_sa R 0)"] exI [of _ reg] exI [of _ key] exI [of _ thumb]) simp_all
  ultimately show thesis using that idx authz_def by blast
qed

text \<open>What a background job leaves: nothing new, or one row with the outcome of the validation.\<close>

lemma validation_job_row:
  assumes "validation_job R ra E db authz idx records err = (db', r)" "authz_inv db" "pend_inv db"
    and "fresh_authz authz" "idx < length (Challenges authz)"
  shows "pend_inv db' \<and> (\<forall>row \<in> set (authz_table db'). ar_Status row = StatusValid \<longrightarrow>
    row \<in> set (authz_table db) \<or>
    err = None \<and> ar_RegistrationID row = RegistrationID authz \<and> ar_Identifier row = Identifier authz)"
proof -
  let ?az = "record_validation authz idx records err"
  have st: "az_Status ?az = StatusPending" "RegistrationID ?az = RegistrationID authz" "Identifier ?az = Identifier authz"
    "Combinations ?az = Combinations authz"
    using assms(4) by (simp_all add: fresh_authz_def record_validation_def Let_def)
  define won where "won \<longleftrightarrow> list_ex (combo_valid (Challenges ?az)) (Combinations authz)"
  have "won \<Longrightarrow> err = None" using combo_after_validation [OF assms(4,5)] by (simp add: won_def)
  moreover obtain az where az: "FinalizeAuthorization E db az = (db', r)" "RegistrationID az = RegistrationID authz"
    "Identifier az = Identifier authz" "az_Status az = (if won then StatusValid else StatusInvalid)"
    using assms(1) st
    by (auto simp: validation_job_def onValidationUpdate_def Let_def won_def status_defs split: if_splits)
  ultimately show ?thesis
    using Finalize_pend [OF az(1) assms(2,3)] by (auto simp: authz_row_def status_defs split: if_splits)
qed

lemma validation_job_inv: "validation_job R ra E db authz idx records err = (db', r) \<Longrightarrow> db_inv db \<Longrightarrow> db_inv db'"
  unfolding validation_job_def onValidationUpdate_def Let_def using sa_db_inv(5) by (metis fst_conv)

lemma boulder_inv: "boulder tp h jobs won \<Longrightarrow> run_inv tp h jobs won"
proof (induction rule: boulder.induct)
  case start
  then show ?case by (simp add: run_inv_def empty_db_inv pend_inv_def) (simp add: empty_db_def)
next
  case (other db h jobs won op E pc)
  then have "db_inv db" "pend_inv db" by (simp_all add: run_inv_def)
  with other show ?case by (intro run_inv_step) (auto dest: other_step_pend sa_step_inv)
next
  case (new_authz db h jobs won R E permA permB rnd draws ra request regID result db')
  then have db: "db_inv db" "pend_inv db" by (simp_all add: run_inv_def)
  obtain az r where az: "fresh_authz az" "NewPendingAuthorization E draws db az = Some (db', r)"
    using NewAuthorization_pending [OF new_authz(4-6)] new_authz(2) by auto
  have "db_inv db'" using NewPending_inv [OF az(2) db_inv_parts(1) [OF db(1)] new_authz(3)] authz_step_inv db(1) by blast
  moreover have "pend_inv db' \<and> authz_table db' = authz_table db"
    by (rule NewPending_pend [OF az(2) db_inv_parts(1) [OF db(1)] db(2) new_authz(3) az(1)])
  ultimately show ?case using new_authz.IH by (intro run_inv_step) (simp_all add: valid_kept_def)
next
  case (failed db h jobs won authz idx R ra E records err db' r)
  then have db: "db_inv db" "pend_inv db" "fresh_authz authz" "idx < length (Challenges authz)"
    by (auto simp: run_inv_def)
  from validation_job_row [OF failed(3) db_inv_parts(1) [OF db(1)] db(2-4)] validation_job_inv [OF failed(3) db(1)] failed.IH
  show ?case by (intro run_inv_step) (auto simp: valid_kept_def)
next
  case (succeeded db h jobs won authz idx VE va records ev R ra E db' r)
  then have db: "db_inv db" "pend_inv db" "fresh_authz authz" "idx < length (Challenges authz)"
    by (auto simp: run_inv_def)
  note row = validation_job_row [OF succeeded(4) db_inv_parts(1) [OF db(1)] db(2-4)]
  from succeeded.IH have "\<forall>(authz, idx) \<in> jobs. fresh_authz authz \<and> idx < length (Challenges authz) \<and>
      answered tp (db' # db # h) authz idx" by (fastforce simp: run_inv_def intro: answered_mono)
  moreover from succeeded.IH succeeded(2,3) have "\<forall>((authz, idx), VE, va, records) \<in> insert ((authz, idx), VE, va, records) won.
      (authz, idx) \<in> jobs \<and> (\<exists>ev. PerformValidation VE va (Value (Identifier authz)) (Challenges authz ! idx) authz = (records, None, ev))"
    by (auto simp: run_inv_def)
  moreover have "db_inv db'" by (rule validation_job_inv [OF succeeded(4) db(1)])
  ultimately show ?case using succeeded.IH row unfolding run_inv_def by fastforce
next
  case (update db h jobs won R E db0 E0 aid base ra i response result db' job)
  then have db: "db_inv db" "pend_inv db" "db_inv db0" "pend_inv db0" by (auto simp: run_inv_def)
  obtain idx authz r where u: "UpdatePendingAuthorization E db authz = (db', r)"
    "authz = base\<lparr>Challenges := (Challenges base)[idx := (Challenges base ! idx)
       \<lparr>ProvidedKeyAuthorization := ProvidedKeyAuthorization response\<rparr>]\<rparr>"
    "idx < length (Challenges base)" "job = (case r of Inl _ \<Rightarrow> None | Inr _ \<Rightarrow> Some (authz, idx))"
    "answered tp [snd (re_sa R 0)] authz idx"
    by (rule UpdateAuthorization_pending [OF update(7), unfolded update(2,4) fst_conv snd_conv])
  show ?case
  proof (cases r)
    case (Inl e)
    then have "db' = db" using u(1) by (auto simp: UpdatePendingAuthorization_def dest: in_tx_atomic)
    with Inl u(4) db update.IH show ?thesis by (auto intro!: run_inv_step simp: valid_kept_def)
  next
    case (Inr x)
    then have "statusIsPending (az_Status base)"
      using UpdatePending_success [of E db authz db'] u(1,2) db_inv_parts(1) [OF db(1)] by auto
    then have "fresh_authz base"
      using GetAuthorization_fresh [OF update(6) db_inv_parts(1) [OF db(3)] db(4)] by blast
    then have fr: "fresh_authz authz"
      using u(3) by (auto simp: u(2) fresh_authz_def list_all_length nth_list_update)
    have p: "pend_inv db' \<and> authz_table db' = authz_table db"
      by (rule UpdatePending_pend [OF u(1) db_inv_parts(1) [OF db(1)] db(2) fr])
    have "db_inv db'" using sa_db_inv(4) [OF db(1), of E authz] u(1) by simp
    with p update.IH have "run_inv tp (db' # db # h) jobs won" by (intro run_inv_step) (simp_all add: valid_kept_def)
    moreover have "answered tp (db' # db # h) authz idx" using u(5) by (rule answered_mono) (use update(3) in auto)
    moreover have "idx < length (Challenges authz)" using u(2,3) by simp
    moreover have "job = Some (authz, idx)" using u(4) Inr by simp
    ultimately show ?thesis using fr unfolding run_inv_def by fastforce
  qed
qed

section \<open>A sample run\<close>

text \<open>One account, which gets an authorization for \<^verbatim>\<open>a.com\<close> and answers its HTTP challenge.\<close>

definition run_E :: sa_env where
  "run_E = sample_env\<lparr>unmarshalJWK := \<lambda>_. Inr sample_jwk\<rparr>"

definition run_R :: "database \<Rightarrow> ra_env" where
  "run_R db = sample_R\<lparr>re_thumbprint := \<lambda>_. Inr (replicate 32 (CHR ''t'')), re_sa := \<lambda>_. (run_E, db)\<rparr>"

definition run_ident :: AcmeIdentifier where
  "run_ident = \<lparr>id_Type = IdentifierDNS, Value = ''a.com''\<rparr>"

definition run_challenge :: Challenge where
  "run_challenge = (newChallenge ChallengeTypeHTTP01 (replicate 32 (CHR ''r'')))\<lparr>ch_ID := 1\<rparr>"

definition run_answer :: Challenge where
  "run_answer = run_challenge\<lparr>ProvidedKeyAuthorization :=
     NewToken (replicate 32 (CHR ''r'')) @ ''.'' @ raw_url_encode (replicate 32 (CHR ''t''))\<rparr>"

definition run_authz :: "Challenge \<Rightarrow> Authorization" where
  "run_authz c = \<lparr>az_ID = NewToken sample_draw, Identifier = run_ident, RegistrationID = 1, az_Status = StatusPending,
     az_Expires = Some 2000, Challenges = [c], Combinations = [[0]]\<rparr>"

definition run_chall :: "Challenge \<Rightarrow> challModel" where
  "run_chall c = \<lparr>cm_ID = 1, cm_AuthorizationID = NewToken sample_draw, cm_Type = ch_Type c, cm_Status = ch_Status c,
     cm_Error = [], cm_Token = Token c, cm_KeyAuthorization = ProvidedKeyAuthorization c, cm_ValidationRecord = [],
     cm_LockCol = 1\<rparr>"

definition run_db :: "regModel \<Rightarrow> database" where
  "run_db rm = empty_db\<lparr>registrations := [rm], next_reg_id := 2\<rparr>"

definition run_pending :: "regModel \<Rightarrow> int \<Rightarrow> Challenge \<Rightarrow> database" where
  "run_pending rm l c = (run_db rm)\<lparr>pendingAuthorizations := [authz_row (run_authz c) l], challenges := [run_chall c],
     next_chall_id := 2\<rparr>"

lemma run_account:
  "\<exists>rm. rm_ID rm = 1 \<and> sa_step pc empty_db (run_E, NewReg (sample_registration\<lparr>reg_Key := Some sample_jwk\<rparr>)) = run_db rm"
  by (simp add: NewRegistration_sa_def registrationToModel_def run_E_def sample_simps sample_registration_def
      KeyDigest.simps raw_digest_def sample_jwk_def null_ip_def To16_def run_db_def empty_db_def)

lemma run_sa_env [simp]: "fault run_E c = None" "db_fault run_E c = None" "re_sa (run_R db) n = (run_E, db)"
  by (simp_all add: run_E_def run_R_def db_fault_def)

lemma run_new_authz:
  "\<exists>result. NewAuthorization_ra (run_R (run_db rm)) (\<lambda>_. replicate 32 (CHR ''r'')) (\<lambda>n. [0..<n]) (\<lambda>n. [0..<n])
     [sample_draw] sample_ra (sample_authz\<lparr>Identifier := run_ident\<rparr>) 1 = Some (result, Some (run_pending rm 1 run_challenge))"
proof -
  let ?R = "run_R (run_db rm)"
  have low: "to_lower ''a.com'' = ''a.com''" by code_simp
  have w: "willing ?R sample_ra run_ident = None" using sample_willing by (simp add: willing_def run_ident_def run_R_def)
  have ref: "refusal ?R sample_ra run_ident 1 = None"
    by (simp add: refusal_def w checkPendingAuthorizationLimit_def checkInvalidAuthorizationLimit_def
        no_policy_no_limit) (simp add: run_R_def)
  have re: "reusable_authz ?R sample_ra run_ident 1 = Some (Inr None)" by (simp add: reusable_authz_def)
  have ch: "ChallengesFor (re_feat ?R) (\<lambda>_. replicate 32 (CHR ''r'')) (upt 0) (upt 0) (ra_PA sample_ra) =
      ([newChallenge ChallengeTypeHTTP01 (replicate 32 (CHR ''r''))], [[0]])"
    by (simp add: ChallengesFor_def enabled_challenges_def sample_ra_def NewRegistrationAuthorityImpl_def New_pa_def
        lookup_bool_def HTTPChallenge01_def ChallengeTypeHTTP01_def ChallengeTypeTLSSNI01_def
        ChallengeTypeTLSSNI02_def ChallengeTypeDNS01_def)
  have id: "(run_ident\<lparr>Value := to_lower (Value run_ident)\<rparr>) = run_ident" by (simp add: run_ident_def low)
  have clk: "re_clk ?R n = 1000" for n by (simp add: run_R_def)
  have np: "NewPendingAuthorization run_E [sample_draw] (run_db rm)
      (run_authz (newChallenge ChallengeTypeHTTP01 (replicate 32 (CHR ''r'')))\<lparr>az_ID := []\<rparr>) =
      Some (run_pending rm 1 run_challenge, Inr (run_authz run_challenge))"
    by (simp add: NewPendingAuthorization_def existingPending_def existingFinal_def run_db_def run_pending_def
        in_tx_def commit_tx_def insert_row_def Let_def authz_row_def run_authz_def challengeToModel_def
        modelToChallenge_def newChallenge_def run_challenge_def run_chall_def empty_db_def)
  show ?thesis
    using np
    by (simp add: NewAuthorization_ra_def id ref re ch clk call_sa_def split: option.splits)
       (simp add: run_authz_def)
qed

lemma run_get: "GetAuthorization run_E (run_pending rm 1 run_challenge) (NewToken sample_draw) = Inr (run_authz run_challenge)"
  by (simp add: GetAuthorization_def in_tx_def commit_tx_def select_authz_def select_one_def run_pending_def run_db_def
      empty_db_def authz_row_def run_authz_def challenges_of_def run_chall_def modelToChallenge_def row_authz_def
      run_challenge_def newChallenge_def Let_def)

lemma run_answer_sane: "IsSaneForValidation run_answer"
  using answered_challenge_sane [of "replicate 32 (CHR ''r'')" "replicate 32 (CHR ''t'')" ChallengeTypeHTTP01]
  by (auto simp: run_answer_def run_challenge_def IsSaneForValidation_def IsSane_def split: if_splits)

lemma run_update:
  assumes "rm_ID rm = 1"
  shows "\<exists>result. UpdateAuthorization_ra (run_R (run_pending rm 1 run_challenge)) sample_ra (run_authz run_challenge) 0 run_answer =
    Some (result, Some (run_pending rm 2 run_answer), Some (run_authz run_answer, 0))"
proof -
  let ?db = "run_pending rm 1 run_challenge"
  have "\<exists>reg. GetRegistration run_E ?db 1 = Inr reg \<and> reg_Key reg = Some sample_jwk"
    using assms by (simp add: GetRegistration_def select_one_def run_pending_def run_db_def modelToRegistration_def)
      (simp add: run_E_def)
  then obtain reg where reg: "GetRegistration run_E ?db 1 = Inr reg" "reg_Key reg = Some sample_jwk" by blast
  have up: "UpdatePendingAuthorization run_E ?db (run_authz run_answer) = (run_pending rm 2 run_answer, Inr ())"
    by (simp add: UpdatePendingAuthorization_def in_tx_def commit_tx_def statusIsPending_def existingFinal_def
        existingPending_def select_one_def update_rows_def bind_version_def run_pending_def run_db_def empty_db_def
        authz_row_def run_authz_def updateChallenges_def challenges_of_def run_chall_def challengeToModel_def
        update_challenge_def run_answer_def run_challenge_def newChallenge_def Let_def)
  have ka: "ExpectedKeyAuthorization (re_thumbprint (run_R ?db)) run_challenge (Some sample_jwk) =
      Inr (ProvidedKeyAuthorization run_answer)"
    by (simp add: ExpectedKeyAuthorization_def run_R_def run_answer_def run_challenge_def newChallenge_def)
  have az: "run_authz run_challenge\<lparr>Challenges := [run_answer]\<rparr> = run_authz run_answer" "run_challenge\<lparr>ProvidedKeyAuthorization := ProvidedKeyAuthorization run_answer\<rparr> = run_answer"
    by (simp_all add: run_authz_def run_answer_def)
  have f: "Challenges (run_authz c) = [c]" "RegistrationID (run_authz c) = 1" "az_Expires (run_authz c) = Some 2000" for c
    by (simp_all add: run_authz_def)
  have clk: "re_clk (run_R ?db) n = 1000" for n by (simp add: run_R_def)
  show ?thesis
    by (simp add: UpdateAuthorization_ra_def f clk call_sa_def reg ka az run_answer_sane up) (simp add: Let_def)
qed

text \<open>The validation of an HTTP challenge that the applicant's server answers.\<close>

definition run_VE :: "string \<Rightarrow> va_env" where
  "run_VE answer = sample_va_env\<lparr>ve_http := \<lambda>_ _. HttpResponse 200 (Inr answer)\<rparr>"

lemma run_validation:
  assumes sane: "IsSaneForValidation c" and t: "ch_Type c = ChallengeTypeHTTP01" and len: "length (ProvidedKeyAuthorization c) = 87"
    and trim: "trim_right (ProvidedKeyAuthorization c) whitespaceCutset = ProvidedKeyAuthorization c"
  shows "\<exists>rs ev. length rs = 1 \<and>
     PerformValidation (run_VE (ProvidedKeyAuthorization c)) sample_va ''a.com'' c authz = (rs, None, ev)"
proof -
  let ?ka = "ProvidedKeyAuthorization c" and ?id = "\<lparr>id_Type = ''dns'', Value = ''a.com''\<rparr>"
  let ?E = "run_VE ?ka"
  have E: "ve_dns ?E n = sample_answers [TypeA \<mapsto> [RR_A ip_public]]" "ve_newRequest ?E u"
    "ve_http ?E n r = HttpResponse 200 (Inr ?ka)" for n u r
    by (simp_all add: run_VE_def)
  have "Itoa 80 \<noteq> []" by (simp add: Itoa_def)
  then have "\<exists>r. validateHTTP01 ?E sample_va ?id c = ([r], None) \<and>
     URL r \<noteq> [] \<and> Hostname r = ''a.com'' \<and> Port r \<noteq> [] \<and> AddressUsed r \<noteq> None \<and> AddressesResolved r \<noteq> []"
    using len
    by (simp add: validateHTTP01_def fetchHTTP_def IdentifierDNS_def Let_def resolveAndConstructDialer_def getAddr_def
        sample_lookup_host http_loop.simps maxResponseSize_def trim E)
      (simp add: zero_record_def url_String_def Let_def)
  then obtain r where r: "validateHTTP01 ?E sample_va ?id c = ([r], None)" "URL r \<noteq> []" "Hostname r = ''a.com''"
    "Port r \<noteq> []" "AddressUsed r \<noteq> None" "AddressesResolved r \<noteq> []" by blast
  have none: "lookup_caa ?E sample_va name = Inr []" for name
    by (simp add: lookup_caa_def LookupCAA_def sample_exchange RcodeSuccess_def RcodeServerFailure_def map_filter_simps run_VE_def)
  have "relevant_records (lookup_caa ?E sample_va) labels = Inr []" for labels
    by (induction labels) (simp_all add: none)
  then have caa: "checkCAA ?E sample_va ?id = None" by (simp add: checkCAA_iff caa_ok_def caa_permits_def)
  with r(1) sane t have "validateChallengeAndCAA ?E sample_va ?id c = ([r], None)"
    by (simp add: validateChallengeAndCAA_def validateChallenge_def Let_def)
  moreover have "RecordsSane (c\<lparr>ch_Records := [r]\<rparr>)"
    using r t by (simp add: RecordsSane_def)
  ultimately show ?thesis by (simp add: PerformValidation_def Let_def)
qed

lemma run_answer_fields:
  "ch_Type run_answer = ChallengeTypeHTTP01" "length (ProvidedKeyAuthorization run_answer) = 87"
  "trim_right (ProvidedKeyAuthorization run_answer) whitespaceCutset = ProvidedKeyAuthorization run_answer"
proof -
  define tok where "tok = NewToken (replicate 32 (CHR ''r''))"
  define th where "th = raw_url_encode (replicate 32 (CHR ''t''))"
  have ka: "ProvidedKeyAuthorization run_answer = tok @ ''.'' @ th" unfolding tok_def th_def by (simp add: run_answer_def)
  have "LooksLikeAToken tok" unfolding tok_def by (rule NewToken_LooksLikeAToken) simp
  moreover have "LooksLikeAToken th" unfolding th_def by (rule encoded_32_token) simp
  ultimately have l: "length tok = 43" "length th = 43" "\<forall>c \<in> set th. word_char c \<or> c = CHR ''-''" by (simp_all add: LooksLikeAToken_def list_all_iff)
  then have "th \<noteq> []" by auto
  then have "word_char (last th) \<or> last th = CHR ''-''" using l(3) by simp
  moreover have "\<not> word_char (CHR 0x0A)" "\<not> word_char (CHR 0x0D)" "\<not> word_char (CHR 0x09)" "\<not> word_char (CHR '' '')"
    by (simp_all add: word_char_def)
  ultimately have "last th \<notin> set whitespaceCutset" by (auto simp: whitespaceCutset_def)
  with \<open>th \<noteq> []\<close> show "trim_right (ProvidedKeyAuthorization run_answer) whitespaceCutset = ProvidedKeyAuthorization run_answer"
    unfolding ka by (intro trim_right_id) simp_all
  show "length (ProvidedKeyAuthorization run_answer) = 87" by (simp add: ka l)
  show "ch_Type run_answer = ChallengeTypeHTTP01" by (simp add: run_answer_def run_challenge_def newChallenge_def)
qed

lemma run_job:
  assumes "length rs = 1" "RecordsSane (run_answer\<lparr>ch_Records := rs\<rparr>)"
  shows "\<exists>db. validation_job (run_R db') sample_ra run_E (run_pending rm 2 run_answer) (run_authz run_answer) 0 rs None = (db, Inr ()) \<and>
    registrations db = [rm] \<and>
    authz_table db = [authz_row ((run_authz run_answer)\<lparr>az_Status := StatusValid, az_Expires := Some 2000\<rparr>) 0]"
proof -
  have rec: "marshalRecords run_E r = Inr ''records''" for r by (simp add: run_E_def sample_env_def)
  have clk: "re_clk (run_R db') n = 1000" for n by (simp add: run_R_def)
  have "record_validation (run_authz run_answer) 0 rs None =
      run_authz (run_answer\<lparr>ch_Records := rs, ch_Status := StatusValid\<rparr>)"
    using assms(2) by (simp add: record_validation_def run_authz_def Let_def)
  then show ?thesis
    using assms(1)
    by (simp add: validation_job_def onValidationUpdate_def combo_valid_def clk FinalizeAuthorization_def in_tx_def commit_tx_def
        existingPending_def select_one_def insert_row_def update_rows_def bind_version_def run_pending_def run_db_def
        empty_db_def authz_row_def run_authz_def updateChallenges_def challenges_of_def run_chall_def challengeToModel_def
        update_challenge_def run_answer_def run_challenge_def newChallenge_def statusIsPending_def status_defs rec
        mediumBlobSize_def Let_def)
qed

lemma sample_boulder_run:
  obtains db h jobs won rm where "boulder (\<lambda>_. Inr (replicate 32 (CHR ''t''))) (db # h) jobs won" "rm_ID rm = 1"
    "registrations db = [rm]"
    "authz_table db = [authz_row ((run_authz run_answer)\<lparr>az_Status := StatusValid, az_Expires := Some 2000\<rparr>) 0]"
proof -
  let ?tp = "\<lambda>_. Inr (replicate 32 (CHR ''t'')) :: string + bytes"
  have tp: "re_thumbprint (run_R db) = ?tp" for db by (simp add: run_R_def)
  obtain rm where rm: "rm_ID rm = 1"
    "sa_step (\<lambda>_. Inl []) empty_db (run_E, NewReg (sample_registration\<lparr>reg_Key := Some sample_jwk\<rparr>)) = run_db rm"
    using run_account by blast
  have b1: "boulder ?tp (run_db rm # [empty_db]) {} {}"
    unfolding rm(2) [symmetric] by (rule boulder.other [OF boulder.start]) simp_all
  obtain result where n: "NewAuthorization_ra (run_R (run_db rm)) (\<lambda>_. replicate 32 (CHR ''r'')) (\<lambda>n. [0..<n]) (\<lambda>n. [0..<n])
     [sample_draw] sample_ra (sample_authz\<lparr>Identifier := run_ident\<rparr>) 1 = Some (result, Some (run_pending rm 1 run_challenge))"
    using run_new_authz by blast
  have b2: "boulder ?tp (run_pending rm 1 run_challenge # run_db rm # [empty_db]) {} {}"
    by (rule boulder.new_authz [where E = run_E, OF b1 _ _ _ _ n]) simp_all
  obtain result where a: "UpdateAuthorization_ra (run_R (run_pending rm 1 run_challenge)) sample_ra (run_authz run_challenge) 0
      run_answer = Some (result, Some (run_pending rm 2 run_answer), Some (run_authz run_answer, 0))"
    using run_update [OF rm(1)] by blast
  have u: "boulder ?tp (run_pending rm 2 run_answer # run_pending rm 1 run_challenge # run_db rm # [empty_db])
      ({} \<union> set_option (Some (run_authz run_answer, 0))) {}"
    by (rule boulder.update [where E = run_E, OF b2 _ _ tp _ run_get [of rm] a]) simp_all
  obtain rs ev where v: "length rs = 1"
    "PerformValidation (run_VE (ProvidedKeyAuthorization run_answer)) sample_va ''a.com'' run_answer (run_authz run_answer) = (rs, None, ev)"
    using run_validation [OF run_answer_sane run_answer_fields] by blast
  then have "RecordsSane (run_answer\<lparr>ch_Records := rs\<rparr>)" using PerformValidation_success(3) by blast
  from run_job [OF v(1) this] obtain db where
    job: "validation_job (run_R empty_db) sample_ra run_E (run_pending rm 2 run_answer) (run_authz run_answer) 0 rs None = (db, Inr ())"
    "registrations db = [rm]"
    "authz_table db = [authz_row ((run_authz run_answer)\<lparr>az_Status := StatusValid, az_Expires := Some 2000\<rparr>) 0]" by blast
  have "PerformValidation (run_VE (ProvidedKeyAuthorization run_answer)) sample_va (Value (Identifier (run_authz run_answer)))
      (Challenges (run_authz run_answer) ! 0) (run_authz run_answer) = (rs, None, ev)"
    using v(2) by (simp add: run_authz_def run_ident_def)
  from boulder.succeeded [OF u _ this job(1)] that rm(1) job(2,3) show thesis by (simp add: insert_commute)
qed

section \<open>Properties of the installation\<close>

text \<open>
  Control of a domain, shown to the validation authority with the answer that only
  an account with that key is given, and permitted by the domain's CAA records then.
\<close>

definition proved_control :: "(JsonWebKey \<Rightarrow> string + bytes) \<Rightarrow> database list \<Rightarrow> int \<Rightarrow> string \<Rightarrow> bool" where
  "proved_control tp h regID domain \<longleftrightarrow>
     (\<exists>VE va challenge records db E reg key thumb.
        control_evidence VE va domain challenge records \<and> IsSaneForValidation challenge \<and>
        checkCAA VE va \<lparr>id_Type = ''dns'', Value = domain\<rparr> = None \<and>
        ProvidedKeyAuthorization challenge = Token challenge @ ''.'' @ raw_url_encode thumb \<and> tp key = Inr thumb \<and>
        db \<in> set h \<and> GetRegistration E db regID = Inr reg \<and> reg_Key reg = Some key)"

lemma valid_row_proved:
  assumes "boulder tp h jobs won" "db \<in> set h" "r \<in> set (authz_table db)" "ar_Status r = StatusValid"
  shows "proved_control tp h (ar_RegistrationID r) (Value (ar_Identifier r))"
proof -
  note inv = boulder_inv [OF assms(1), unfolded run_inv_def]
  obtain authz idx VE va records where w: "((authz, idx), VE, va, records) \<in> won"
    "ar_RegistrationID r = RegistrationID authz" "ar_Identifier r = Identifier authz"
    using inv assms(2-4) by fastforce
  obtain ev where v: "(authz, idx) \<in> jobs"
    "PerformValidation VE va (Value (Identifier authz)) (Challenges authz ! idx) authz = (records, None, ev)"
    using inv w(1) by fastforce
  have "answered tp h authz idx" using inv v(1) by fastforce
  moreover have "IsSaneForValidation (Challenges authz ! idx)"
    "control_evidence VE va (Value (Identifier authz)) (Challenges authz ! idx) records"
    using validateChallenge_success [OF PerformValidation_success(1) [OF v(2)]] by blast+
  ultimately show ?thesis
    using PerformValidation_success(2) [OF v(2)] unfolding proved_control_def answered_def w(2,3) by blast
qed



end
