(* ===== verification/Rpc.thy ===== *)
theory Rpc
  imports Marshalling
begin

text \<open>
  Remote calls between the services: the interceptors of \<^verbatim>\<open>grpc/interceptors.go\<close> around the
  gRPC library, which either delivers a call or reports a failure. An operation of a service
  changes its state and returns a value or an error; it may also panic, which is \<open>None\<close>. A message is a
  pointer, \<open>None\<close> when it is nil. On the wire a repeated field without elements is absent, so that an
  empty list and a nil one are the same after it. Counters and timings are left out.
\<close>

section \<open>Calls\<close>

type_synonym ('s, 'r) call = "'s \<Rightarrow> ('s \<times> (goerror + 'r)) option"

definition ret_call :: "'r \<Rightarrow> ('s, 'r) call" where
  "ret_call x s = Some (s, Inr x)"

definition fail_call :: "goerror \<Rightarrow> ('s, 'r) call" where
  "fail_call e s = Some (s, Inl e)"

definition then_call :: "('s, 'a) call \<Rightarrow> ('a \<Rightarrow> ('s, 'b) call) \<Rightarrow> ('s, 'b) call" where
  "then_call c f s =
     (case c s of
        None \<Rightarrow> None
      | Some (s', r) \<Rightarrow> (case r of Inl e \<Rightarrow> Some (s', Inl e) | Inr x \<Rightarrow> f x s'))"

text \<open>The result of a pure function, and of one that may panic.\<close>

definition of_result :: "goerror + 'r \<Rightarrow> ('s, 'r) call" where
  "of_result r s = Some (s, r)"

definition of_partial :: "(goerror + 'r) option \<Rightarrow> ('s, 'r) call" where
  "of_partial r s = (case r of None \<Rightarrow> None | Some x \<Rightarrow> Some (s, x))"

text \<open>A pointer that the code dereferences.\<close>

definition deref :: "'a option \<Rightarrow> ('s, 'a) call" where
  "deref p = of_partial (map_option Inr p)"

lemma call_simps [simp]:
  "then_call (ret_call x) f = f x"
  "then_call (fail_call e) f = fail_call e"
  "then_call (of_result (Inl e)) f = fail_call e"
  "then_call (of_result (Inr x)) f = f x"
  "then_call (of_partial (Some (Inl e))) f = fail_call e"
  "then_call (of_partial (Some (Inr x))) f = f x"
  "of_result (Inr x) = ret_call x"
  "of_result (Inl e) = fail_call e"
  "of_partial (Some r) = of_result r"
  "deref (Some x) = ret_call x"
  by (auto simp: fun_eq_iff ret_call_def fail_call_def then_call_def of_result_def of_partial_def deref_def)

lemma then_call_assoc: "then_call (then_call c f) g = then_call c (\<lambda>x. then_call (f x) g)"
  by (auto simp: fun_eq_iff then_call_def split: option.splits sum.splits)

section \<open>Parameters of the transport\<close>

record wire =
  w_marshalJWK :: "JsonWebKey \<Rightarrow> string + bytes"
  w_unmarshalJWK :: "bytes \<Rightarrow> string + JsonWebKey"
  w_fmtIP :: "bytes \<Rightarrow> string"
  w_parseIP :: "string \<Rightarrow> bytes option"
  w_marshalCombos :: "int list list \<Rightarrow> bytes"
  w_unmarshalCombos :: "bytes \<Rightarrow> string + int list list"
  w_marshalProblem :: "ProblemDetails \<Rightarrow> string option"
  w_unmarshalProblem :: "string \<Rightarrow> ProblemDetails option"

text \<open>
  What becomes of a call: it is delivered, it fails before the server has seen it, or it fails
  after the server has run it, as when the deadline passes. The library does not repeat a
  call that a server may have seen. A failure is a status of the library.
\<close>

datatype delivery = Delivered | RequestLost nat string | ResponseLost nat string

text \<open>The library sends an error that is not a status as the status \<^verbatim>\<open>Unknown\<close> with its text.\<close>

definition grpc_status :: "goerror \<Rightarrow> goerror" where
  "grpc_status e = RpcError (grpc_Code e) (grpc_ErrorDesc e)"

type_synonym ('m, 's, 'r) handler_fn = "'m option \<Rightarrow> ('s, 'r option) call"

type_synonym ('m, 's, 'r) served = "'m option \<Rightarrow> 's \<Rightarrow> ('s \<times> metadata \<times> (goerror + 'r option)) option"

definition server_intercept :: "wire \<Rightarrow> bool \<Rightarrow> ('m, 's, 'r) handler_fn \<Rightarrow> ('m, 's, 'r) served" where
  "server_intercept W info handler req s =
     (if \<not> info then Some (s, Map.empty, Inl (berrors_New InternalServer ''passed nil *grpc.UnaryServerInfo''))
      else
        (case handler req s of
           None \<Rightarrow> None
         | Some (s', Inr resp) \<Rightarrow> Some (s', Map.empty, Inr resp)
         | Some (s', Inl err) \<Rightarrow>
             (case wrapError (w_marshalProblem W) (Some err) of
                (md, Some e) \<Rightarrow> Some (s', md, Inl e)
              | (md, None) \<Rightarrow> Some (s', md, Inr None))))"

definition grpc_invoke :: "delivery \<Rightarrow> ('m, 's, 'r) served \<Rightarrow> ('m, 's, 'r) served" where
  "grpc_invoke d srv req s =
     (case d of
        RequestLost c desc \<Rightarrow> Some (s, Map.empty, Inl (RpcError c desc))
      | Delivered \<Rightarrow> map_option (\<lambda>(s', md, r). (s', md, map_sum grpc_status id r)) (srv req s)
      | ResponseLost c desc \<Rightarrow> map_option (\<lambda>(s', md, r). (s', Map.empty, Inl (RpcError c desc))) (srv req s))"

definition client_intercept :: "wire \<Rightarrow> ('m, 's, 'r) served \<Rightarrow> ('m, 's, 'r) handler_fn" where
  "client_intercept W invoker req s =
     (case invoker req s of
        None \<Rightarrow> None
      | Some (s', md, Inr reply) \<Rightarrow> Some (s', Inr reply)
      | Some (s', md, Inl err) \<Rightarrow>
          (case unwrapError (w_unmarshalProblem W) (Some err) md of
             Some e \<Rightarrow> Some (s', Inl e)
           | None \<Rightarrow> Some (s', Inr None)))"

definition rpc :: "wire \<Rightarrow> delivery \<Rightarrow> ('m, 's, 'r) handler_fn \<Rightarrow> ('m, 's, 'r) handler_fn" where
  "rpc W d handler = client_intercept W (grpc_invoke d (server_intercept W True handler))"

section \<open>What arrives\<close>

text \<open>An error as the caller receives it; a \<open>transportable\<close> error is received unchanged.\<close>

definition received_error :: "wire \<Rightarrow> goerror \<Rightarrow> goerror" where
  "received_error W e =
     (case wrapError (w_marshalProblem W) (Some e) of
        (md, Some s) \<Rightarrow> (case unwrapError (w_unmarshalProblem W) (Some (grpc_status s)) md of Some e' \<Rightarrow> e' | None \<Rightarrow> e)
      | (md, None) \<Rightarrow> e)"

lemma wrapError_Some: "\<exists>md s. wrapError m (Some e) = (md, Some s)"
  by (cases e) (auto simp: wrapError_def grpc_Errorf_def grpc_codes split: option.splits)

lemma unwrapError_Some: "\<exists>e'. unwrapError u (Some e) md = Some e'"
  by (auto simp: unwrapError_def Let_def split: option.splits list.splits)

lemma rpc_delivered:
  "rpc W Delivered handler req s =
     (case handler req s of
        None \<Rightarrow> None
      | Some (s', r) \<Rightarrow> Some (s', map_sum (received_error W) id r))"
proof (cases "handler req s")
  case (Some p)
  obtain s' r where p: "p = (s', r)" by (cases p)
  show ?thesis
  proof (cases r)
    case (Inl e)
    obtain md st where w: "wrapError (w_marshalProblem W) (Some e) = (md, Some st)"
      using wrapError_Some by blast
    obtain e' where "unwrapError (w_unmarshalProblem W) (Some (grpc_status st)) md = Some e'"
      using unwrapError_Some by blast
    with w Inl p Some show ?thesis
      by (simp add: rpc_def client_intercept_def grpc_invoke_def server_intercept_def received_error_def)
  qed (simp add: rpc_def client_intercept_def grpc_invoke_def server_intercept_def p Some)
qed (simp add: rpc_def client_intercept_def grpc_invoke_def server_intercept_def)

lemma received_transportable:
  assumes "transportable (w_marshalProblem W) (w_unmarshalProblem W) e"
  shows "received_error W e = e"
proof -
  obtain md st where w: "wrapError (w_marshalProblem W) (Some e) = (md, Some st)"
    using wrapError_Some by blast
  with assms have "grpc_status st = st"
    by (cases e) (auto simp: wrapError_def grpc_Errorf_def grpc_status_def split: option.splits if_splits)
  moreover have "unwrapError (w_unmarshalProblem W) (Some st) md = Some e"
    using rpc_receive_send [OF assms] w
    by (auto simp: rpc_receive_def rpc_send_def split: option.splits)
  ultimately show ?thesis using w by (simp add: received_error_def)
qed

text \<open>
  What a call gives whose handler gives \<open>r\<close> and starts in the state \<open>s\<close>. A call runs at most once: when
  the transport fails, the server's state is as it was or as the one run of the handler left it, and
  the caller gets an error.
\<close>

definition lost_error :: "wire \<Rightarrow> nat \<Rightarrow> string \<Rightarrow> goerror" where
  "lost_error W c desc =
     (case unwrapError (w_unmarshalProblem W) (Some (RpcError c desc)) Map.empty of Some e \<Rightarrow> e | None \<Rightarrow> RpcError c desc)"

definition call_outcome ::
  "wire \<Rightarrow> delivery \<Rightarrow> ('a \<Rightarrow> 'b) \<Rightarrow> 's \<Rightarrow> ('s \<times> (goerror + 'a)) option \<Rightarrow> ('s \<times> (goerror + 'b)) option" where
  "call_outcome W d f s r =
     (case d of
        Delivered \<Rightarrow> map_option (\<lambda>(s', r). (s', map_sum (received_error W) f r)) r
      | RequestLost c desc \<Rightarrow> Some (s, Inl (lost_error W c desc))
      | ResponseLost c desc \<Rightarrow> map_option (\<lambda>(s', _). (s', Inl (lost_error W c desc))) r)"

lemma lost_error_status: "c < 100 \<Longrightarrow> lost_error W c desc = RpcError c desc"
  by (simp add: lost_error_def unwrapError_def grpc_codes Let_def)

lemma unwrap_lost: "unwrapError (w_unmarshalProblem W) (Some (RpcError c desc)) Map.empty = Some (lost_error W c desc)"
  using unwrapError_Some [of "w_unmarshalProblem W" "RpcError c desc" Map.empty] by (auto simp: lost_error_def)

lemma server_intercept_handler:
  "server_intercept W True handler req s =
     (case handler req s of
        None \<Rightarrow> None
      | Some (s', r) \<Rightarrow>
          (case r of
             Inr resp \<Rightarrow> Some (s', Map.empty, Inr resp)
           | Inl e \<Rightarrow>
               Some (s', fst (wrapError (w_marshalProblem W) (Some e)),
                     Inl (the (snd (wrapError (w_marshalProblem W) (Some e)))))))"
proof (cases "handler req s")
  case (Some p)
  obtain s' r where p: "p = (s', r)" by (cases p)
  show ?thesis
  proof (cases r)
    case (Inl e)
    obtain md st where "wrapError (w_marshalProblem W) (Some e) = (md, Some st)" using wrapError_Some by blast
    with Inl p Some show ?thesis by (simp add: server_intercept_def)
  qed (simp add: server_intercept_def p Some)
qed (simp add: server_intercept_def)

lemma rpc_outcome: "rpc W d handler req s = call_outcome W d id s (handler req s)"
proof (cases d)
  case Delivered
  then show ?thesis by (auto simp: rpc_delivered call_outcome_def split: option.splits)
next
  case (RequestLost c desc)
  then show ?thesis by (simp add: rpc_def client_intercept_def grpc_invoke_def call_outcome_def unwrap_lost)
next
  case (ResponseLost c desc)
  then show ?thesis
    by (auto simp: rpc_def client_intercept_def grpc_invoke_def call_outcome_def unwrap_lost server_intercept_handler
        split: option.splits sum.splits)
qed

end
