(* ===== verification/SaRpc.thy ===== *)
theory SaRpc
  imports Rpc SaReads
begin

text \<open>
  The storage authority behind gRPC (\<^verbatim>\<open>grpc/sa-wrappers.go\<close>): the interface the other services use
  (\<^verbatim>\<open>core/interfaces.go\<close>), the messages and methods of \<^verbatim>\<open>sa/proto/sa.proto\<close>, the server wrapper,
  which turns the interface into the methods, and the client wrapper, which turns the
  methods into the interface again. A Go map is an association list, in the order in which it is
  ranged over. Byte strings of the program's own types are not nil.
\<close>

section \<open>Messages and methods of sa.proto\<close>

record RegistrationIDPB =
  rid_Id :: "int option"

record JsonWebKeyPB =
  jwkpb_Jwk :: "bytes option"

record AuthorizationIDPB =
  aid_Id :: "string option"

record GetValidAuthorizationsRequestPB =
  gva_RegistrationID :: "int option"
  gva_Domains :: "string list"
  gva_Now :: "int option"

record ValidAuthorizationsElementPB =
  vae_Domain :: "string option"
  vae_Authz :: "AuthorizationPB option"

record ValidAuthorizationsPB =
  va_Valid :: "ValidAuthorizationsElementPB option list"

record CertificateStatusPB =
  cst_Serial :: "string option"
  cst_SubscriberApproved :: "bool option"
  cst_Status :: "string option"
  cst_OcspLastUpdated :: "int option"
  cst_RevokedDate :: "int option"
  cst_RevokedReason :: "int option"
  cst_LastExpirationNagSent :: "int option"
  cst_OcspResponse :: "bytes option"
  cst_NotAfter :: "int option"
  cst_IsExpired :: "bool option"

record SerialPB =
  ser_Serial :: "string option"

record RangePB =
  rng_Earliest :: "int option"
  rng_Latest :: "int option"

record CountPB =
  cnt_Count :: "int option"

record CountCertificatesByNamesRequestPB =
  ccn_Range :: "RangePB option"
  ccn_Names :: "string list"

record CountByNamesElementPB =
  cbe_Name :: "string option"
  cbe_Count :: "int option"

record CountByNamesPB =
  cbn_CountByNames :: "CountByNamesElementPB option list"

record CountRegistrationsByIPRequestPB =
  cri_Ip :: "bytes option"
  cri_Range :: "RangePB option"

record CountInvalidAuthorizationsRequestPB =
  cia_RegistrationID :: "int option"
  cia_Hostname :: "string option"
  cia_Range :: "RangePB option"

record GetSCTReceiptRequestPB =
  gsr_Serial :: "string option"
  gsr_LogID :: "string option"

record CountFQDNSetsRequestPB =
  cfs_Window :: "int option"
  cfs_Domains :: "string list"

record FQDNSetExistsRequestPB =
  fse_Domains :: "string list"

record ExistsPB =
  ex_Exists :: "bool option"

record MarkCertificateRevokedRequestPB =
  mcr_Serial :: "string option"
  mcr_Code :: "int option"

record AddCertificateRequestPB =
  acr_Der :: "bytes option"
  acr_RegID :: "int option"
  acr_Ocsp :: "bytes option"

record AddCertificateResponsePB =
  acs_Digest :: "string option"

record RevokeAuthorizationsByDomainRequestPB =
  rad_Domain :: "string option"

record RevokeAuthorizationsByDomainResponsePB =
  ras_Finalized :: "int option"
  ras_Pending :: "int option"

record 's sapb =
  pb_GetRegistration :: "(RegistrationIDPB, 's, RegistrationPB) handler_fn"
  pb_GetRegistrationByKey :: "(JsonWebKeyPB, 's, RegistrationPB) handler_fn"
  pb_GetAuthorization :: "(AuthorizationIDPB, 's, AuthorizationPB) handler_fn"
  pb_GetValidAuthorizations :: "(GetValidAuthorizationsRequestPB, 's, ValidAuthorizationsPB) handler_fn"
  pb_GetCertificate :: "(SerialPB, 's, CertificatePB) handler_fn"
  pb_GetCertificateStatus :: "(SerialPB, 's, CertificateStatusPB) handler_fn"
  pb_CountCertificatesRange :: "(RangePB, 's, CountPB) handler_fn"
  pb_CountCertificatesByNames :: "(CountCertificatesByNamesRequestPB, 's, CountByNamesPB) handler_fn"
  pb_CountRegistrationsByIP :: "(CountRegistrationsByIPRequestPB, 's, CountPB) handler_fn"
  pb_CountPendingAuthorizations :: "(RegistrationIDPB, 's, CountPB) handler_fn"
  pb_CountInvalidAuthorizations :: "(CountInvalidAuthorizationsRequestPB, 's, CountPB) handler_fn"
  pb_GetSCTReceipt :: "(GetSCTReceiptRequestPB, 's, SctPB) handler_fn"
  pb_CountFQDNSets :: "(CountFQDNSetsRequestPB, 's, CountPB) handler_fn"
  pb_FQDNSetExists :: "(FQDNSetExistsRequestPB, 's, ExistsPB) handler_fn"
  pb_NewRegistration :: "(RegistrationPB, 's, RegistrationPB) handler_fn"
  pb_UpdateRegistration :: "(RegistrationPB, 's, unit) handler_fn"
  pb_NewPendingAuthorization :: "(AuthorizationPB, 's, AuthorizationPB) handler_fn"
  pb_UpdatePendingAuthorization :: "(AuthorizationPB, 's, unit) handler_fn"
  pb_FinalizeAuthorization :: "(AuthorizationPB, 's, unit) handler_fn"
  pb_MarkCertificateRevoked :: "(MarkCertificateRevokedRequestPB, 's, unit) handler_fn"
  pb_AddCertificate :: "(AddCertificateRequestPB, 's, AddCertificateResponsePB) handler_fn"
  pb_AddSCTReceipt :: "(SctPB, 's, unit) handler_fn"
  pb_RevokeAuthorizationsByDomain ::
    "(RevokeAuthorizationsByDomainRequestPB, 's, RevokeAuthorizationsByDomainResponsePB) handler_fn"
  pb_DeactivateRegistration :: "(RegistrationIDPB, 's, unit) handler_fn"
  pb_DeactivateAuthorization :: "(AuthorizationIDPB, 's, unit) handler_fn"

section \<open>The interface\<close>

text \<open>
  The methods of \<^verbatim>\<open>core.StorageAuthority\<close>. \<^verbatim>\<open>CountInvalidAuthorizations\<close>, which both wrappers have too, takes
  and returns the messages themselves.
\<close>

record 's StorageAuthority =
  sai_GetRegistration :: "int \<Rightarrow> ('s, Registration) call"
  sai_GetRegistrationByKey :: "JsonWebKey option \<Rightarrow> ('s, Registration) call"
  sai_GetAuthorization :: "string \<Rightarrow> ('s, Authorization) call"
  sai_GetValidAuthorizations ::
    "int \<Rightarrow> string list \<Rightarrow> time \<Rightarrow> ('s, (string \<times> Authorization) list) call"
  sai_GetCertificate :: "string \<Rightarrow> ('s, Certificate) call"
  sai_GetCertificateStatus :: "string \<Rightarrow> ('s, CertificateStatus) call"
  sai_CountCertificatesRange :: "time \<Rightarrow> time \<Rightarrow> ('s, int) call"
  sai_CountCertificatesByNames :: "string list \<Rightarrow> time \<Rightarrow> time \<Rightarrow> ('s, (string \<times> int) list) call"
  sai_CountRegistrationsByIP :: "IP \<Rightarrow> time \<Rightarrow> time \<Rightarrow> ('s, int) call"
  sai_CountPendingAuthorizations :: "int \<Rightarrow> ('s, int) call"
  sai_CountInvalidAuthorizations :: "(CountInvalidAuthorizationsRequestPB, 's, CountPB) handler_fn"
  sai_GetSCTReceipt :: "string \<Rightarrow> string \<Rightarrow> ('s, SignedCertificateTimestamp) call"
  sai_CountFQDNSets :: "duration \<Rightarrow> string list \<Rightarrow> ('s, int) call"
  sai_FQDNSetExists :: "string list \<Rightarrow> ('s, bool) call"
  sai_NewRegistration :: "Registration \<Rightarrow> ('s, Registration) call"
  sai_UpdateRegistration :: "Registration \<Rightarrow> ('s, unit) call"
  sai_NewPendingAuthorization :: "Authorization \<Rightarrow> ('s, Authorization) call"
  sai_UpdatePendingAuthorization :: "Authorization \<Rightarrow> ('s, unit) call"
  sai_FinalizeAuthorization :: "Authorization \<Rightarrow> ('s, unit) call"
  sai_MarkCertificateRevoked :: "string \<Rightarrow> int \<Rightarrow> ('s, unit) call"
  sai_AddCertificate :: "bytes \<Rightarrow> int \<Rightarrow> bytes \<Rightarrow> ('s, string) call"
  sai_AddSCTReceipt :: "SignedCertificateTimestamp \<Rightarrow> ('s, unit) call"
  sai_RevokeAuthorizationsByDomain :: "AcmeIdentifier \<Rightarrow> ('s, int \<times> int) call"
  sai_DeactivateRegistration :: "int \<Rightarrow> ('s, unit) call"
  sai_DeactivateAuthorization :: "string \<Rightarrow> ('s, unit) call"

section \<open>Conversions of the wrappers\<close>

definition errIncompleteRequest :: goerror where
  "errIncompleteRequest = OtherError ''Incomplete gRPC request message''"

definition errIncompleteResponse :: goerror where
  "errIncompleteResponse = OtherError ''Incomplete gRPC response message''"

text \<open>
  The conversions that the wrappers share: a nil or incomplete message is the error the caller
  names, and a message is sent as a pointer.
\<close>

definition registration_of :: "wire \<Rightarrow> goerror \<Rightarrow> RegistrationPB option \<Rightarrow> ('s, Registration) call" where
  "registration_of W incomplete msg =
     (case msg of
        None \<Rightarrow> fail_call incomplete
      | Some pb \<Rightarrow>
          if \<not> registrationValid pb then fail_call incomplete
          else of_partial (pbToRegistration (w_unmarshalJWK W) (w_parseIP W) pb))"

definition registration_msg :: "wire \<Rightarrow> Registration \<Rightarrow> ('s, RegistrationPB option) call" where
  "registration_msg W reg =
     then_call (of_partial (registrationToPB (w_marshalJWK W) (w_fmtIP W) reg)) (\<lambda>pb. ret_call (Some pb))"

definition authz_of :: "wire \<Rightarrow> goerror \<Rightarrow> AuthorizationPB option \<Rightarrow> ('s, Authorization) call" where
  "authz_of W incomplete msg =
     (case msg of
        None \<Rightarrow> fail_call incomplete
      | Some pb \<Rightarrow>
          if \<not> authorizationValid pb then fail_call incomplete
          else of_partial (pbToAuthz (w_unmarshalCombos W) (w_parseIP W) pb))"

definition authz_msg :: "wire \<Rightarrow> Authorization \<Rightarrow> ('s, AuthorizationPB option) call" where
  "authz_msg W authz =
     then_call (of_result (authzToPB (w_marshalCombos W) (w_fmtIP W) authz)) (\<lambda>pb. ret_call (Some pb))"

definition cert_of :: "goerror \<Rightarrow> CertificatePB option \<Rightarrow> ('s, Certificate) call" where
  "cert_of incomplete msg =
     (case msg of
        None \<Rightarrow> fail_call incomplete
      | Some pb \<Rightarrow> if \<not> certificateValid pb then fail_call incomplete else deref (pbToCert pb))"

definition sct_of :: "goerror \<Rightarrow> SctPB option \<Rightarrow> ('s, SignedCertificateTimestamp) call" where
  "sct_of incomplete msg =
     (case msg of
        None \<Rightarrow> fail_call incomplete
      | Some pb \<Rightarrow> if \<not> sctValid pb then fail_call incomplete else deref (pbToSCT pb))"

text \<open>A field of a message, or the error the caller names when the message or the field is absent.\<close>

definition field_of :: "goerror \<Rightarrow> ('m \<Rightarrow> 'a option) \<Rightarrow> 'm option \<Rightarrow> ('s, 'a) call" where
  "field_of incomplete f msg =
     (case Option.bind msg f of None \<Rightarrow> fail_call incomplete | Some x \<Rightarrow> ret_call x)"

definition range_of :: "RangePB option \<Rightarrow> (time \<times> time) option" where
  "range_of msg =
     (case msg of
        Some r \<Rightarrow> (case (rng_Earliest r, rng_Latest r) of (Some e, Some l) \<Rightarrow> Some (e, l) | _ \<Rightarrow> None)
      | None \<Rightarrow> None)"

definition range_msg :: "time \<Rightarrow> time \<Rightarrow> RangePB" where
  "range_msg earliest latest_t = \<lparr>rng_Earliest = Some (UnixNano earliest), rng_Latest = Some (UnixNano latest_t)\<rparr>"

section \<open>The client\<close>

definition sac_GetRegistration :: "wire \<Rightarrow> 's sapb \<Rightarrow> int \<Rightarrow> ('s, Registration) call" where
  "sac_GetRegistration W inner regID =
     then_call (pb_GetRegistration inner (Some \<lparr>rid_Id = Some regID\<rparr>)) (registration_of W errIncompleteResponse)"

definition sac_GetRegistrationByKey :: "wire \<Rightarrow> 's sapb \<Rightarrow> JsonWebKey option \<Rightarrow> ('s, Registration) call" where
  "sac_GetRegistrationByKey W inner key =
     then_call (deref key) (\<lambda>key.
       case w_marshalJWK W key of
         Inl err \<Rightarrow> fail_call (OtherError err)
       | Inr keyBytes \<Rightarrow>
           then_call (pb_GetRegistrationByKey inner (Some \<lparr>jwkpb_Jwk = Some keyBytes\<rparr>))
             (registration_of W errIncompleteResponse))"

definition sac_GetAuthorization :: "wire \<Rightarrow> 's sapb \<Rightarrow> string \<Rightarrow> ('s, Authorization) call" where
  "sac_GetAuthorization W inner authID =
     then_call (pb_GetAuthorization inner (Some \<lparr>aid_Id = Some authID\<rparr>)) (authz_of W errIncompleteResponse)"

text \<open>
  The loop over the elements of the answer. \<^verbatim>\<open>authorizationValid\<close> is called on the authorization of the
  element, which it dereferences.
\<close>

fun valid_authz_loop ::
  "wire \<Rightarrow> (string \<times> Authorization) list \<Rightarrow> ValidAuthorizationsElementPB option list \<Rightarrow>
   ('s, (string \<times> Authorization) list) call" where
  "valid_authz_loop W auths [] = ret_call auths"
| "valid_authz_loop W auths (el # els) =
     (case el of
        None \<Rightarrow> fail_call errIncompleteResponse
      | Some e \<Rightarrow>
          (case vae_Domain e of
             None \<Rightarrow> fail_call errIncompleteResponse
           | Some domain \<Rightarrow>
               then_call (deref (vae_Authz e)) (\<lambda>pb.
                 then_call (authz_of W errIncompleteResponse (Some pb)) (\<lambda>authz.
                   valid_authz_loop W (AList.update domain authz auths) els))))"

definition sac_GetValidAuthorizations ::
  "wire \<Rightarrow> 's sapb \<Rightarrow> int \<Rightarrow> string list \<Rightarrow> time \<Rightarrow> ('s, (string \<times> Authorization) list) call" where
  "sac_GetValidAuthorizations W inner regID domains nw =
     then_call (pb_GetValidAuthorizations inner
         (Some \<lparr>gva_RegistrationID = Some regID, gva_Domains = domains, gva_Now = Some (UnixNano nw)\<rparr>))
       (\<lambda>response.
         case response of
           None \<Rightarrow> fail_call errIncompleteResponse
         | Some resp \<Rightarrow> valid_authz_loop W [] (va_Valid resp))"

definition sac_GetCertificate :: "'s sapb \<Rightarrow> string \<Rightarrow> ('s, Certificate) call" where
  "sac_GetCertificate inner ser =
     then_call (pb_GetCertificate inner (Some \<lparr>ser_Serial = Some ser\<rparr>)) (cert_of errIncompleteResponse)"

definition status_of :: "CertificateStatusPB \<Rightarrow> CertificateStatus option" where
  "status_of r =
     (case (cst_Serial r, cst_SubscriberApproved r, cst_Status r, cst_OcspLastUpdated r, cst_RevokedDate r,
            cst_RevokedReason r, cst_LastExpirationNagSent r, cst_OcspResponse r, cst_NotAfter r, cst_IsExpired r) of
        (Some ser, Some approved, Some st, Some updated, Some revoked, Some reason, Some nag, Some response,
         Some notAfter, Some expired) \<Rightarrow>
          Some \<lparr>cs_Serial = ser, SubscriberApproved = approved, cs_Status = st, OCSPLastUpdated = updated,
                RevokedDate = revoked, RevokedReason = reason, LastExpirationNagSent = nag,
                cs_OCSPResponse = response, NotAfter = notAfter, IsExpired = expired, LockCol = 0\<rparr>
      | _ \<Rightarrow> None)"

definition sac_GetCertificateStatus :: "'s sapb \<Rightarrow> string \<Rightarrow> ('s, CertificateStatus) call" where
  "sac_GetCertificateStatus inner ser =
     then_call (pb_GetCertificateStatus inner (Some \<lparr>ser_Serial = Some ser\<rparr>))
       (field_of errIncompleteResponse status_of)"

definition sac_CountCertificatesRange :: "'s sapb \<Rightarrow> time \<Rightarrow> time \<Rightarrow> ('s, int) call" where
  "sac_CountCertificatesRange inner earliest latest_t =
     then_call (pb_CountCertificatesRange inner (Some (range_msg earliest latest_t)))
       (field_of errIncompleteResponse cnt_Count)"

fun count_names_loop ::
  "(string \<times> int) list \<Rightarrow> CountByNamesElementPB option list \<Rightarrow> ('s, (string \<times> int) list) call" where
  "count_names_loop names [] = ret_call names"
| "count_names_loop names (el # els) =
     (case el of
        None \<Rightarrow> fail_call errIncompleteResponse
      | Some e \<Rightarrow>
          (case (cbe_Name e, cbe_Count e) of
             (Some name, Some n) \<Rightarrow> count_names_loop (AList.update name n names) els
           | _ \<Rightarrow> fail_call errIncompleteResponse))"

definition sac_CountCertificatesByNames ::
  "'s sapb \<Rightarrow> string list \<Rightarrow> time \<Rightarrow> time \<Rightarrow> ('s, (string \<times> int) list) call" where
  "sac_CountCertificatesByNames inner domains earliest latest_t =
     then_call (pb_CountCertificatesByNames inner
         (Some \<lparr>ccn_Range = Some (range_msg earliest latest_t), ccn_Names = domains\<rparr>))
       (\<lambda>response.
         case response of
           None \<Rightarrow> fail_call errIncompleteResponse
         | Some resp \<Rightarrow>
             if cbn_CountByNames resp = [] then fail_call errIncompleteResponse
             else count_names_loop [] (cbn_CountByNames resp))"

definition sac_CountRegistrationsByIP :: "'s sapb \<Rightarrow> IP \<Rightarrow> time \<Rightarrow> time \<Rightarrow> ('s, int) call" where
  "sac_CountRegistrationsByIP inner ip earliest latest_t =
     then_call (pb_CountRegistrationsByIP inner
         (Some \<lparr>cri_Ip = ip, cri_Range = Some (range_msg earliest latest_t)\<rparr>))
       (field_of errIncompleteResponse cnt_Count)"

definition sac_CountPendingAuthorizations :: "'s sapb \<Rightarrow> int \<Rightarrow> ('s, int) call" where
  "sac_CountPendingAuthorizations inner regID =
     then_call (pb_CountPendingAuthorizations inner (Some \<lparr>rid_Id = Some regID\<rparr>))
       (field_of errIncompleteResponse cnt_Count)"

definition sac_CountInvalidAuthorizations ::
  "'s sapb \<Rightarrow> (CountInvalidAuthorizationsRequestPB, 's, CountPB) handler_fn" where
  "sac_CountInvalidAuthorizations inner request = pb_CountInvalidAuthorizations inner request"

definition sac_GetSCTReceipt :: "'s sapb \<Rightarrow> string \<Rightarrow> string \<Rightarrow> ('s, SignedCertificateTimestamp) call" where
  "sac_GetSCTReceipt inner ser logID =
     then_call (pb_GetSCTReceipt inner (Some \<lparr>gsr_Serial = Some ser, gsr_LogID = Some logID\<rparr>))
       (sct_of errIncompleteResponse)"

definition sac_CountFQDNSets :: "'s sapb \<Rightarrow> duration \<Rightarrow> string list \<Rightarrow> ('s, int) call" where
  "sac_CountFQDNSets inner window domains =
     then_call (pb_CountFQDNSets inner (Some \<lparr>cfs_Window = Some window, cfs_Domains = domains\<rparr>))
       (field_of errIncompleteResponse cnt_Count)"

definition sac_FQDNSetExists :: "'s sapb \<Rightarrow> string list \<Rightarrow> ('s, bool) call" where
  "sac_FQDNSetExists inner domains =
     then_call (pb_FQDNSetExists inner (Some \<lparr>fse_Domains = domains\<rparr>)) (field_of errIncompleteResponse ex_Exists)"

definition sac_NewRegistration :: "wire \<Rightarrow> 's sapb \<Rightarrow> Registration \<Rightarrow> ('s, Registration) call" where
  "sac_NewRegistration W inner reg =
     then_call (registration_msg W reg) (\<lambda>regPB.
       then_call (pb_NewRegistration inner regPB) (registration_of W errIncompleteResponse))"

text \<open>The answer of a method without a result is not looked at.\<close>

definition done_call :: "('s, 'r option) call \<Rightarrow> ('s, unit) call" where
  "done_call c = then_call c (\<lambda>_. ret_call ())"

definition sac_UpdateRegistration :: "wire \<Rightarrow> 's sapb \<Rightarrow> Registration \<Rightarrow> ('s, unit) call" where
  "sac_UpdateRegistration W inner reg =
     then_call (registration_msg W reg) (\<lambda>regPB. done_call (pb_UpdateRegistration inner regPB))"

definition sac_NewPendingAuthorization :: "wire \<Rightarrow> 's sapb \<Rightarrow> Authorization \<Rightarrow> ('s, Authorization) call" where
  "sac_NewPendingAuthorization W inner authz =
     then_call (authz_msg W authz) (\<lambda>authPB.
       then_call (pb_NewPendingAuthorization inner authPB) (authz_of W errIncompleteResponse))"

definition sac_UpdatePendingAuthorization :: "wire \<Rightarrow> 's sapb \<Rightarrow> Authorization \<Rightarrow> ('s, unit) call" where
  "sac_UpdatePendingAuthorization W inner authz =
     then_call (authz_msg W authz) (\<lambda>authPB. done_call (pb_UpdatePendingAuthorization inner authPB))"

definition sac_FinalizeAuthorization :: "wire \<Rightarrow> 's sapb \<Rightarrow> Authorization \<Rightarrow> ('s, unit) call" where
  "sac_FinalizeAuthorization W inner authz =
     then_call (authz_msg W authz) (\<lambda>authPB. done_call (pb_FinalizeAuthorization inner authPB))"

definition sac_MarkCertificateRevoked :: "'s sapb \<Rightarrow> string \<Rightarrow> int \<Rightarrow> ('s, unit) call" where
  "sac_MarkCertificateRevoked inner ser reasonCode =
     done_call (pb_MarkCertificateRevoked inner (Some \<lparr>mcr_Serial = Some ser, mcr_Code = Some reasonCode\<rparr>))"

definition sac_AddCertificate :: "'s sapb \<Rightarrow> bytes \<Rightarrow> int \<Rightarrow> bytes \<Rightarrow> ('s, string) call" where
  "sac_AddCertificate inner der regID ocspResponse =
     then_call (pb_AddCertificate inner
         (Some \<lparr>acr_Der = Some der, acr_RegID = Some regID, acr_Ocsp = Some ocspResponse\<rparr>))
       (field_of errIncompleteResponse acs_Digest)"

definition sac_AddSCTReceipt :: "'s sapb \<Rightarrow> SignedCertificateTimestamp \<Rightarrow> ('s, unit) call" where
  "sac_AddSCTReceipt inner sct = done_call (pb_AddSCTReceipt inner (Some (sctToPB sct)))"

definition sac_RevokeAuthorizationsByDomain :: "'s sapb \<Rightarrow> AcmeIdentifier \<Rightarrow> ('s, int \<times> int) call" where
  "sac_RevokeAuthorizationsByDomain inner domain =
     then_call (pb_RevokeAuthorizationsByDomain inner (Some \<lparr>rad_Domain = Some (Value domain)\<rparr>))
       (\<lambda>response.
         then_call (field_of errIncompleteResponse ras_Finalized response) (\<lambda>finalized.
           then_call (field_of errIncompleteResponse ras_Pending response) (\<lambda>pending.
             ret_call (finalized, pending))))"

definition sac_DeactivateRegistration :: "'s sapb \<Rightarrow> int \<Rightarrow> ('s, unit) call" where
  "sac_DeactivateRegistration inner rid = done_call (pb_DeactivateRegistration inner (Some \<lparr>rid_Id = Some rid\<rparr>))"

definition sac_DeactivateAuthorization :: "'s sapb \<Rightarrow> string \<Rightarrow> ('s, unit) call" where
  "sac_DeactivateAuthorization inner aid = done_call (pb_DeactivateAuthorization inner (Some \<lparr>aid_Id = Some aid\<rparr>))"

definition StorageAuthorityClientWrapper :: "wire \<Rightarrow> 's sapb \<Rightarrow> 's StorageAuthority" where
  "StorageAuthorityClientWrapper W inner =
     \<lparr>sai_GetRegistration = sac_GetRegistration W inner,
      sai_GetRegistrationByKey = sac_GetRegistrationByKey W inner,
      sai_GetAuthorization = sac_GetAuthorization W inner,
      sai_GetValidAuthorizations = sac_GetValidAuthorizations W inner,
      sai_GetCertificate = sac_GetCertificate inner,
      sai_GetCertificateStatus = sac_GetCertificateStatus inner,
      sai_CountCertificatesRange = sac_CountCertificatesRange inner,
      sai_CountCertificatesByNames = sac_CountCertificatesByNames inner,
      sai_CountRegistrationsByIP = sac_CountRegistrationsByIP inner,
      sai_CountPendingAuthorizations = sac_CountPendingAuthorizations inner,
      sai_CountInvalidAuthorizations = sac_CountInvalidAuthorizations inner,
      sai_GetSCTReceipt = sac_GetSCTReceipt inner,
      sai_CountFQDNSets = sac_CountFQDNSets inner,
      sai_FQDNSetExists = sac_FQDNSetExists inner,
      sai_NewRegistration = sac_NewRegistration W inner,
      sai_UpdateRegistration = sac_UpdateRegistration W inner,
      sai_NewPendingAuthorization = sac_NewPendingAuthorization W inner,
      sai_UpdatePendingAuthorization = sac_UpdatePendingAuthorization W inner,
      sai_FinalizeAuthorization = sac_FinalizeAuthorization W inner,
      sai_MarkCertificateRevoked = sac_MarkCertificateRevoked inner,
      sai_AddCertificate = sac_AddCertificate inner,
      sai_AddSCTReceipt = sac_AddSCTReceipt inner,
      sai_RevokeAuthorizationsByDomain = sac_RevokeAuthorizationsByDomain inner,
      sai_DeactivateRegistration = sac_DeactivateRegistration inner,
      sai_DeactivateAuthorization = sac_DeactivateAuthorization inner\<rparr>"

section \<open>The server\<close>

definition sas_GetRegistration :: "wire \<Rightarrow> 's StorageAuthority \<Rightarrow> (RegistrationIDPB, 's, RegistrationPB) handler_fn" where
  "sas_GetRegistration W inner request =
     then_call (field_of errIncompleteRequest rid_Id request) (\<lambda>i.
       then_call (sai_GetRegistration inner i) (registration_msg W))"

definition sas_GetRegistrationByKey ::
  "wire \<Rightarrow> 's StorageAuthority \<Rightarrow> (JsonWebKeyPB, 's, RegistrationPB) handler_fn" where
  "sas_GetRegistrationByKey W inner request =
     then_call (field_of errIncompleteRequest jwkpb_Jwk request) (\<lambda>b.
       case w_unmarshalJWK W b of
         Inl err \<Rightarrow> fail_call (OtherError err)
       | Inr jwk \<Rightarrow> then_call (sai_GetRegistrationByKey inner (Some jwk)) (registration_msg W))"

definition sas_GetAuthorization ::
  "wire \<Rightarrow> 's StorageAuthority \<Rightarrow> (AuthorizationIDPB, 's, AuthorizationPB) handler_fn" where
  "sas_GetAuthorization W inner request =
     then_call (field_of errIncompleteRequest aid_Id request) (\<lambda>i.
       then_call (sai_GetAuthorization inner i) (authz_msg W))"

fun valid_authz_msgs ::
  "wire \<Rightarrow> (string \<times> Authorization) list \<Rightarrow> goerror + ValidAuthorizationsElementPB option list" where
  "valid_authz_msgs W [] = Inr []"
| "valid_authz_msgs W ((k, v) # valid) =
     bind_result (authzToPB (w_marshalCombos W) (w_fmtIP W) v) (\<lambda>authzPB.
       bind_result (valid_authz_msgs W valid) (\<lambda>rest.
         Inr (Some \<lparr>vae_Domain = Some k, vae_Authz = Some authzPB\<rparr> # rest)))"

definition sas_GetValidAuthorizations ::
  "wire \<Rightarrow> 's StorageAuthority \<Rightarrow> (GetValidAuthorizationsRequestPB, 's, ValidAuthorizationsPB) handler_fn" where
  "sas_GetValidAuthorizations W inner request =
     then_call (field_of errIncompleteRequest (\<lambda>r.
         case (gva_RegistrationID r, gva_Domains r, gva_Now r) of
           (Some i, d # ds, Some t) \<Rightarrow> Some (i, d # ds, t)
         | _ \<Rightarrow> None) request) (\<lambda>(i, domains, t).
       then_call (sai_GetValidAuthorizations inner i domains t) (\<lambda>valid.
         then_call (of_result (valid_authz_msgs W valid)) (\<lambda>msgs. ret_call (Some \<lparr>va_Valid = msgs\<rparr>))))"

definition sas_GetCertificate :: "'s StorageAuthority \<Rightarrow> (SerialPB, 's, CertificatePB) handler_fn" where
  "sas_GetCertificate inner request =
     then_call (field_of errIncompleteRequest ser_Serial request) (\<lambda>ser.
       then_call (sai_GetCertificate inner ser) (\<lambda>cert. ret_call (Some (certToPB cert))))"

definition status_msg :: "CertificateStatus \<Rightarrow> CertificateStatusPB" where
  "status_msg cs =
     \<lparr>cst_Serial = Some (cs_Serial cs), cst_SubscriberApproved = Some (SubscriberApproved cs),
      cst_Status = Some (cs_Status cs), cst_OcspLastUpdated = Some (UnixNano (OCSPLastUpdated cs)),
      cst_RevokedDate = Some (UnixNano (RevokedDate cs)), cst_RevokedReason = Some (RevokedReason cs),
      cst_LastExpirationNagSent = Some (UnixNano (LastExpirationNagSent cs)),
      cst_OcspResponse = Some (cs_OCSPResponse cs), cst_NotAfter = Some (UnixNano (NotAfter cs)),
      cst_IsExpired = Some (IsExpired cs)\<rparr>"

definition sas_GetCertificateStatus :: "'s StorageAuthority \<Rightarrow> (SerialPB, 's, CertificateStatusPB) handler_fn" where
  "sas_GetCertificateStatus inner request =
     then_call (field_of errIncompleteRequest ser_Serial request) (\<lambda>ser.
       then_call (sai_GetCertificateStatus inner ser) (\<lambda>certStatus. ret_call (Some (status_msg certStatus))))"

definition count_msg :: "int \<Rightarrow> ('s, CountPB option) call" where
  "count_msg n = ret_call (Some \<lparr>cnt_Count = Some n\<rparr>)"

definition sas_CountCertificatesRange :: "'s StorageAuthority \<Rightarrow> (RangePB, 's, CountPB) handler_fn" where
  "sas_CountCertificatesRange inner request =
     then_call (field_of errIncompleteRequest (\<lambda>r. range_of (Some r)) request) (\<lambda>(earliest, latest_t).
       then_call (sai_CountCertificatesRange inner earliest latest_t) count_msg)"

definition sas_CountCertificatesByNames ::
  "'s StorageAuthority \<Rightarrow> (CountCertificatesByNamesRequestPB, 's, CountByNamesPB) handler_fn" where
  "sas_CountCertificatesByNames inner request =
     then_call (field_of errIncompleteRequest (\<lambda>r.
         case (range_of (ccn_Range r), ccn_Names r) of
           (Some (e, l), n # ns) \<Rightarrow> Some (n # ns, e, l)
         | _ \<Rightarrow> None) request) (\<lambda>(names, earliest, latest_t).
       then_call (sai_CountCertificatesByNames inner names earliest latest_t) (\<lambda>byNames.
         ret_call (Some \<lparr>cbn_CountByNames =
           map (\<lambda>(k, v). Some \<lparr>cbe_Name = Some k, cbe_Count = Some v\<rparr>) byNames\<rparr>)))"

definition sas_CountRegistrationsByIP ::
  "'s StorageAuthority \<Rightarrow> (CountRegistrationsByIPRequestPB, 's, CountPB) handler_fn" where
  "sas_CountRegistrationsByIP inner request =
     then_call (field_of errIncompleteRequest (\<lambda>r.
         case (cri_Ip r, range_of (cri_Range r)) of
           (Some ip, Some (e, l)) \<Rightarrow> Some (ip, e, l)
         | _ \<Rightarrow> None) request) (\<lambda>(ip, earliest, latest_t).
       then_call (sai_CountRegistrationsByIP inner (Some ip) earliest latest_t) count_msg)"

definition sas_CountPendingAuthorizations :: "'s StorageAuthority \<Rightarrow> (RegistrationIDPB, 's, CountPB) handler_fn" where
  "sas_CountPendingAuthorizations inner request =
     then_call (field_of errIncompleteRequest rid_Id request) (\<lambda>i.
       then_call (sai_CountPendingAuthorizations inner i) count_msg)"

definition sas_CountInvalidAuthorizations ::
  "'s StorageAuthority \<Rightarrow> (CountInvalidAuthorizationsRequestPB, 's, CountPB) handler_fn" where
  "sas_CountInvalidAuthorizations inner request = sai_CountInvalidAuthorizations inner request"

definition sas_GetSCTReceipt :: "'s StorageAuthority \<Rightarrow> (GetSCTReceiptRequestPB, 's, SctPB) handler_fn" where
  "sas_GetSCTReceipt inner request =
     then_call (field_of errIncompleteRequest (\<lambda>r.
         case (gsr_Serial r, gsr_LogID r) of (Some s, Some l) \<Rightarrow> Some (s, l) | _ \<Rightarrow> None) request) (\<lambda>(ser, logID).
       then_call (sai_GetSCTReceipt inner ser logID) (\<lambda>sct. ret_call (Some (sctToPB sct))))"

definition sas_CountFQDNSets :: "'s StorageAuthority \<Rightarrow> (CountFQDNSetsRequestPB, 's, CountPB) handler_fn" where
  "sas_CountFQDNSets inner request =
     then_call (field_of errIncompleteRequest (\<lambda>r.
         case (cfs_Window r, cfs_Domains r) of (Some w, d # ds) \<Rightarrow> Some (w, d # ds) | _ \<Rightarrow> None) request)
       (\<lambda>(window, domains). then_call (sai_CountFQDNSets inner window domains) count_msg)"

definition sas_FQDNSetExists :: "'s StorageAuthority \<Rightarrow> (FQDNSetExistsRequestPB, 's, ExistsPB) handler_fn" where
  "sas_FQDNSetExists inner request =
     then_call (field_of errIncompleteRequest (\<lambda>r.
         case fse_Domains r of d # ds \<Rightarrow> Some (d # ds) | [] \<Rightarrow> None) request) (\<lambda>domains.
       then_call (sai_FQDNSetExists inner domains) (\<lambda>b. ret_call (Some \<lparr>ex_Exists = Some b\<rparr>)))"

definition sas_NewRegistration :: "wire \<Rightarrow> 's StorageAuthority \<Rightarrow> (RegistrationPB, 's, RegistrationPB) handler_fn" where
  "sas_NewRegistration W inner request =
     then_call (registration_of W errIncompleteRequest request) (\<lambda>reg.
       then_call (sai_NewRegistration inner reg) (registration_msg W))"

definition empty_msg :: "unit \<Rightarrow> ('s, unit option) call" where
  "empty_msg u = ret_call (Some ())"

definition sas_UpdateRegistration :: "wire \<Rightarrow> 's StorageAuthority \<Rightarrow> (RegistrationPB, 's, unit) handler_fn" where
  "sas_UpdateRegistration W inner request =
     then_call (registration_of W errIncompleteRequest request) (\<lambda>reg.
       then_call (sai_UpdateRegistration inner reg) empty_msg)"

definition sas_NewPendingAuthorization ::
  "wire \<Rightarrow> 's StorageAuthority \<Rightarrow> (AuthorizationPB, 's, AuthorizationPB) handler_fn" where
  "sas_NewPendingAuthorization W inner request =
     then_call (authz_of W errIncompleteRequest request) (\<lambda>authz.
       then_call (sai_NewPendingAuthorization inner authz) (authz_msg W))"

definition sas_UpdatePendingAuthorization ::
  "wire \<Rightarrow> 's StorageAuthority \<Rightarrow> (AuthorizationPB, 's, unit) handler_fn" where
  "sas_UpdatePendingAuthorization W inner request =
     then_call (authz_of W errIncompleteRequest request) (\<lambda>authz.
       then_call (sai_UpdatePendingAuthorization inner authz) empty_msg)"

definition sas_FinalizeAuthorization :: "wire \<Rightarrow> 's StorageAuthority \<Rightarrow> (AuthorizationPB, 's, unit) handler_fn" where
  "sas_FinalizeAuthorization W inner request =
     then_call (authz_of W errIncompleteRequest request) (\<lambda>authz.
       then_call (sai_FinalizeAuthorization inner authz) empty_msg)"

definition sas_MarkCertificateRevoked ::
  "'s StorageAuthority \<Rightarrow> (MarkCertificateRevokedRequestPB, 's, unit) handler_fn" where
  "sas_MarkCertificateRevoked inner request =
     then_call (field_of errIncompleteRequest (\<lambda>r.
         case (mcr_Serial r, mcr_Code r) of (Some s, Some c) \<Rightarrow> Some (s, c) | _ \<Rightarrow> None) request) (\<lambda>(ser, code).
       then_call (sai_MarkCertificateRevoked inner ser code) empty_msg)"

definition sas_AddCertificate ::
  "'s StorageAuthority \<Rightarrow> (AddCertificateRequestPB, 's, AddCertificateResponsePB) handler_fn" where
  "sas_AddCertificate inner request =
     then_call (field_of errIncompleteRequest (\<lambda>r.
         case (acr_Der r, acr_RegID r) of (Some d, Some i) \<Rightarrow> Some (d, i, pb_bytes (acr_Ocsp r)) | _ \<Rightarrow> None) request)
       (\<lambda>(der, regID, ocsp).
         then_call (sai_AddCertificate inner der regID ocsp) (\<lambda>digest. ret_call (Some \<lparr>acs_Digest = Some digest\<rparr>)))"

definition sas_AddSCTReceipt :: "'s StorageAuthority \<Rightarrow> (SctPB, 's, unit) handler_fn" where
  "sas_AddSCTReceipt inner request =
     then_call (sct_of errIncompleteRequest request) (\<lambda>sct.
       then_call (sai_AddSCTReceipt inner sct) empty_msg)"

definition sas_RevokeAuthorizationsByDomain ::
  "'s StorageAuthority \<Rightarrow>
   (RevokeAuthorizationsByDomainRequestPB, 's, RevokeAuthorizationsByDomainResponsePB) handler_fn" where
  "sas_RevokeAuthorizationsByDomain inner request =
     then_call (field_of errIncompleteRequest rad_Domain request) (\<lambda>domain.
       then_call (sai_RevokeAuthorizationsByDomain inner \<lparr>id_Type = IdentifierDNS, Value = domain\<rparr>)
         (\<lambda>(finalized, pending). ret_call (Some \<lparr>ras_Finalized = Some finalized, ras_Pending = Some pending\<rparr>)))"

definition sas_DeactivateRegistration :: "'s StorageAuthority \<Rightarrow> (RegistrationIDPB, 's, unit) handler_fn" where
  "sas_DeactivateRegistration inner request =
     then_call (field_of errIncompleteRequest rid_Id request) (\<lambda>i.
       then_call (sai_DeactivateRegistration inner i) empty_msg)"

definition sas_DeactivateAuthorization :: "'s StorageAuthority \<Rightarrow> (AuthorizationIDPB, 's, unit) handler_fn" where
  "sas_DeactivateAuthorization inner request =
     then_call (field_of errIncompleteRequest aid_Id request) (\<lambda>i.
       then_call (sai_DeactivateAuthorization inner i) empty_msg)"

definition StorageAuthorityServerWrapper :: "wire \<Rightarrow> 's StorageAuthority \<Rightarrow> 's sapb" where
  "StorageAuthorityServerWrapper W inner =
     \<lparr>pb_GetRegistration = sas_GetRegistration W inner,
      pb_GetRegistrationByKey = sas_GetRegistrationByKey W inner,
      pb_GetAuthorization = sas_GetAuthorization W inner,
      pb_GetValidAuthorizations = sas_GetValidAuthorizations W inner,
      pb_GetCertificate = sas_GetCertificate inner,
      pb_GetCertificateStatus = sas_GetCertificateStatus inner,
      pb_CountCertificatesRange = sas_CountCertificatesRange inner,
      pb_CountCertificatesByNames = sas_CountCertificatesByNames inner,
      pb_CountRegistrationsByIP = sas_CountRegistrationsByIP inner,
      pb_CountPendingAuthorizations = sas_CountPendingAuthorizations inner,
      pb_CountInvalidAuthorizations = sas_CountInvalidAuthorizations inner,
      pb_GetSCTReceipt = sas_GetSCTReceipt inner,
      pb_CountFQDNSets = sas_CountFQDNSets inner,
      pb_FQDNSetExists = sas_FQDNSetExists inner,
      pb_NewRegistration = sas_NewRegistration W inner,
      pb_UpdateRegistration = sas_UpdateRegistration W inner,
      pb_NewPendingAuthorization = sas_NewPendingAuthorization W inner,
      pb_UpdatePendingAuthorization = sas_UpdatePendingAuthorization W inner,
      pb_FinalizeAuthorization = sas_FinalizeAuthorization W inner,
      pb_MarkCertificateRevoked = sas_MarkCertificateRevoked inner,
      pb_AddCertificate = sas_AddCertificate inner,
      pb_AddSCTReceipt = sas_AddSCTReceipt inner,
      pb_RevokeAuthorizationsByDomain = sas_RevokeAuthorizationsByDomain inner,
      pb_DeactivateRegistration = sas_DeactivateRegistration inner,
      pb_DeactivateAuthorization = sas_DeactivateAuthorization inner\<rparr>"

text \<open>The methods as a client reaches them over a connection.\<close>

definition sa_connection :: "wire \<Rightarrow> delivery \<Rightarrow> 's sapb \<Rightarrow> 's sapb" where
  "sa_connection W d srv =
     \<lparr>pb_GetRegistration = rpc W d (pb_GetRegistration srv),
      pb_GetRegistrationByKey = rpc W d (pb_GetRegistrationByKey srv),
      pb_GetAuthorization = rpc W d (pb_GetAuthorization srv),
      pb_GetValidAuthorizations = rpc W d (pb_GetValidAuthorizations srv),
      pb_GetCertificate = rpc W d (pb_GetCertificate srv),
      pb_GetCertificateStatus = rpc W d (pb_GetCertificateStatus srv),
      pb_CountCertificatesRange = rpc W d (pb_CountCertificatesRange srv),
      pb_CountCertificatesByNames = rpc W d (pb_CountCertificatesByNames srv),
      pb_CountRegistrationsByIP = rpc W d (pb_CountRegistrationsByIP srv),
      pb_CountPendingAuthorizations = rpc W d (pb_CountPendingAuthorizations srv),
      pb_CountInvalidAuthorizations = rpc W d (pb_CountInvalidAuthorizations srv),
      pb_GetSCTReceipt = rpc W d (pb_GetSCTReceipt srv),
      pb_CountFQDNSets = rpc W d (pb_CountFQDNSets srv),
      pb_FQDNSetExists = rpc W d (pb_FQDNSetExists srv),
      pb_NewRegistration = rpc W d (pb_NewRegistration srv),
      pb_UpdateRegistration = rpc W d (pb_UpdateRegistration srv),
      pb_NewPendingAuthorization = rpc W d (pb_NewPendingAuthorization srv),
      pb_UpdatePendingAuthorization = rpc W d (pb_UpdatePendingAuthorization srv),
      pb_FinalizeAuthorization = rpc W d (pb_FinalizeAuthorization srv),
      pb_MarkCertificateRevoked = rpc W d (pb_MarkCertificateRevoked srv),
      pb_AddCertificate = rpc W d (pb_AddCertificate srv),
      pb_AddSCTReceipt = rpc W d (pb_AddSCTReceipt srv),
      pb_RevokeAuthorizationsByDomain = rpc W d (pb_RevokeAuthorizationsByDomain srv),
      pb_DeactivateRegistration = rpc W d (pb_DeactivateRegistration srv),
      pb_DeactivateAuthorization = rpc W d (pb_DeactivateAuthorization srv)\<rparr>"

definition remote_sa :: "wire \<Rightarrow> delivery \<Rightarrow> 's StorageAuthority \<Rightarrow> 's StorageAuthority" where
  "remote_sa W d SA = StorageAuthorityClientWrapper W (sa_connection W d (StorageAuthorityServerWrapper W SA))"

text \<open>
  The storage authority of this development as the interface. A read leaves the database as it was.
  \<^verbatim>\<open>CountInvalidAuthorizations\<close> dereferences the fields of its message.
\<close>

definition sql_read :: "(database \<Rightarrow> goerror + 'r) \<Rightarrow> (database, 'r) call" where
  "sql_read f db = Some (db, f db)"

definition sql_count :: "(database \<Rightarrow> goerror + nat) \<Rightarrow> (database, int) call" where
  "sql_count f = sql_read (\<lambda>db. map_sum id int (f db))"

definition sql_storage ::
  "sa_env \<Rightarrow> bytes list \<Rightarrow> (bytes \<Rightarrow> string + x509Cert) \<Rightarrow> database StorageAuthority" where
  "sql_storage E draws parseCertificate =
     \<lparr>sai_GetRegistration = \<lambda>i. sql_read (\<lambda>db. GetRegistration E db i),
      sai_GetRegistrationByKey = \<lambda>k. sql_read (\<lambda>db. GetRegistrationByKey E db k),
      sai_GetAuthorization = \<lambda>i. sql_read (\<lambda>db. GetAuthorization E db i),
      sai_GetValidAuthorizations = \<lambda>i ds t. sql_read (\<lambda>db. GetValidAuthorizations E db i ds t),
      sai_GetCertificate = \<lambda>ser. sql_read (\<lambda>db. GetCertificate E db ser),
      sai_GetCertificateStatus = \<lambda>ser. sql_read (\<lambda>db. GetCertificateStatus E db ser),
      sai_CountCertificatesRange = \<lambda>e l. sql_count (\<lambda>db. CountCertificatesRange E db e l),
      sai_CountCertificatesByNames = \<lambda>ds e l.
        sql_read (\<lambda>db. map_sum id (map (\<lambda>(k, n). (k, int n))) (CountCertificatesByNames E db ds e l)),
      sai_CountRegistrationsByIP = \<lambda>ip e l. sql_count (\<lambda>db. CountRegistrationsByIP E db (ip_bytes ip) e l),
      sai_CountPendingAuthorizations = \<lambda>i. sql_count (\<lambda>db. CountPendingAuthorizations E db i),
      sai_CountInvalidAuthorizations = \<lambda>m.
        then_call (deref m) (\<lambda>r. then_call (deref (cia_Hostname r)) (\<lambda>h.
          then_call (deref (cia_RegistrationID r)) (\<lambda>i. then_call (deref (range_of (cia_Range r))) (\<lambda>(e, l).
            then_call (sql_count (\<lambda>db. CountInvalidAuthorizations E db i h e l)) count_msg)))),
      sai_GetSCTReceipt = \<lambda>ser l. sql_read (\<lambda>db. GetSCTReceipt E db ser l),
      sai_CountFQDNSets = \<lambda>w ds. sql_count (\<lambda>db. CountFQDNSets E db w ds),
      sai_FQDNSetExists = \<lambda>ds. sql_read (\<lambda>db. FQDNSetExists E db ds),
      sai_NewRegistration = \<lambda>reg db. Some (NewRegistration_sa E db reg),
      sai_UpdateRegistration = \<lambda>reg db. Some (UpdateRegistration_sa E db db reg),
      sai_NewPendingAuthorization = \<lambda>az db. NewPendingAuthorization E draws db az,
      sai_UpdatePendingAuthorization = \<lambda>az db. Some (UpdatePendingAuthorization E db az),
      sai_FinalizeAuthorization = \<lambda>az db. Some (FinalizeAuthorization E db az),
      sai_MarkCertificateRevoked = \<lambda>ser c db. Some (MarkCertificateRevoked E db ser c),
      sai_AddCertificate = \<lambda>der i ocsp db. Some (AddCertificate E parseCertificate db der i ocsp),
      sai_AddSCTReceipt = \<lambda>sct db. Some (AddSCTReceipt E db sct),
      sai_RevokeAuthorizationsByDomain = \<lambda>d db.
        (case RevokeAuthorizationsByDomain E db d of
           (db', finalized, pending, err) \<Rightarrow>
             Some (db', case err of Some e \<Rightarrow> Inl e | None \<Rightarrow> Inr (int finalized, int pending))),
      sai_DeactivateRegistration = \<lambda>i db. Some (DeactivateRegistration_sa E db i),
      sai_DeactivateAuthorization = \<lambda>i db. Some (DeactivateAuthorization_sa E db i)\<rparr>"

section \<open>What a client sees of the service\<close>

text \<open>The calls of the interface as data.\<close>

datatype sa_request =
    QGetRegistration int
  | QGetRegistrationByKey "JsonWebKey option"
  | QGetAuthorization string
  | QGetValidAuthorizations int "string list" time
  | QGetCertificate string
  | QGetCertificateStatus string
  | QCountCertificatesRange time time
  | QCountCertificatesByNames "string list" time time
  | QCountRegistrationsByIP IP time time
  | QCountPendingAuthorizations int
  | QCountInvalidAuthorizations "CountInvalidAuthorizationsRequestPB option"
  | QGetSCTReceipt string string
  | QCountFQDNSets duration "string list"
  | QFQDNSetExists "string list"
  | QNewRegistration Registration
  | QUpdateRegistration Registration
  | QNewPendingAuthorization Authorization
  | QUpdatePendingAuthorization Authorization
  | QFinalizeAuthorization Authorization
  | QMarkCertificateRevoked string int
  | QAddCertificate bytes int bytes
  | QAddSCTReceipt SignedCertificateTimestamp
  | QRevokeAuthorizationsByDomain AcmeIdentifier
  | QDeactivateRegistration int
  | QDeactivateAuthorization string

datatype sa_answer =
    ARegistration Registration
  | AAuthorization Authorization
  | AAuthorizations "(string \<times> Authorization) list"
  | ACertificate Certificate
  | AStatus CertificateStatus
  | ACount int
  | ACounts "(string \<times> int) list"
  | AMessage "CountPB option"
  | ASct SignedCertificateTimestamp
  | ABool bool
  | AUnit unit
  | AString string
  | ACountPair "int \<times> int"

definition answer :: "('a \<Rightarrow> sa_answer) \<Rightarrow> ('s, 'a) call \<Rightarrow> ('s, sa_answer) call" where
  "answer f c = then_call c (\<lambda>x. ret_call (f x))"

fun sa_call :: "'s StorageAuthority \<Rightarrow> sa_request \<Rightarrow> ('s, sa_answer) call" where
  "sa_call SA (QGetRegistration i) = answer ARegistration (sai_GetRegistration SA i)"
| "sa_call SA (QGetRegistrationByKey k) = answer ARegistration (sai_GetRegistrationByKey SA k)"
| "sa_call SA (QGetAuthorization i) = answer AAuthorization (sai_GetAuthorization SA i)"
| "sa_call SA (QGetValidAuthorizations i ds t) = answer AAuthorizations (sai_GetValidAuthorizations SA i ds t)"
| "sa_call SA (QGetCertificate ser) = answer ACertificate (sai_GetCertificate SA ser)"
| "sa_call SA (QGetCertificateStatus ser) = answer AStatus (sai_GetCertificateStatus SA ser)"
| "sa_call SA (QCountCertificatesRange e l) = answer ACount (sai_CountCertificatesRange SA e l)"
| "sa_call SA (QCountCertificatesByNames ds e l) = answer ACounts (sai_CountCertificatesByNames SA ds e l)"
| "sa_call SA (QCountRegistrationsByIP ip e l) = answer ACount (sai_CountRegistrationsByIP SA ip e l)"
| "sa_call SA (QCountPendingAuthorizations i) = answer ACount (sai_CountPendingAuthorizations SA i)"
| "sa_call SA (QCountInvalidAuthorizations m) = answer AMessage (sai_CountInvalidAuthorizations SA m)"
| "sa_call SA (QGetSCTReceipt ser l) = answer ASct (sai_GetSCTReceipt SA ser l)"
| "sa_call SA (QCountFQDNSets w ds) = answer ACount (sai_CountFQDNSets SA w ds)"
| "sa_call SA (QFQDNSetExists ds) = answer ABool (sai_FQDNSetExists SA ds)"
| "sa_call SA (QNewRegistration reg) = answer ARegistration (sai_NewRegistration SA reg)"
| "sa_call SA (QUpdateRegistration reg) = answer AUnit (sai_UpdateRegistration SA reg)"
| "sa_call SA (QNewPendingAuthorization az) = answer AAuthorization (sai_NewPendingAuthorization SA az)"
| "sa_call SA (QUpdatePendingAuthorization az) = answer AUnit (sai_UpdatePendingAuthorization SA az)"
| "sa_call SA (QFinalizeAuthorization az) = answer AUnit (sai_FinalizeAuthorization SA az)"
| "sa_call SA (QMarkCertificateRevoked ser c) = answer AUnit (sai_MarkCertificateRevoked SA ser c)"
| "sa_call SA (QAddCertificate der i ocsp) = answer AString (sai_AddCertificate SA der i ocsp)"
| "sa_call SA (QAddSCTReceipt sct) = answer AUnit (sai_AddSCTReceipt SA sct)"
| "sa_call SA (QRevokeAuthorizationsByDomain d) = answer ACountPair (sai_RevokeAuthorizationsByDomain SA d)"
| "sa_call SA (QDeactivateRegistration i) = answer AUnit (sai_DeactivateRegistration SA i)"
| "sa_call SA (QDeactivateAuthorization i) = answer AUnit (sai_DeactivateAuthorization SA i)"

text \<open>
  The arguments and results that the messages carry without loss. A time is carried as a 64-bit count of
  nanoseconds; lists of names must not be empty, nor the map of counts.
\<close>

definition registration_sendable :: "wire \<Rightarrow> Registration \<Rightarrow> bool" where
  "registration_sendable W reg =
     (registration_pb reg \<and>
      (case reg_Key reg of
         None \<Rightarrow> False
       | Some key \<Rightarrow>
           (case w_marshalJWK W key of Inl _ \<Rightarrow> False | Inr kb \<Rightarrow> w_unmarshalJWK W kb = Inr key)))"

definition authz_sendable :: "wire \<Rightarrow> Authorization \<Rightarrow> bool" where
  "authz_sendable W az =
     (authz_pb az \<and> w_unmarshalCombos W (w_marshalCombos W (Combinations az)) = Inr (Combinations az))"

fun sendable_request :: "wire \<Rightarrow> sa_request \<Rightarrow> bool" where
  "sendable_request W (QGetRegistrationByKey k) =
     (case k of
        None \<Rightarrow> False
      | Some key \<Rightarrow> (case w_marshalJWK W key of Inl _ \<Rightarrow> False | Inr kb \<Rightarrow> w_unmarshalJWK W kb = Inr key))"
| "sendable_request W (QGetValidAuthorizations i ds t) = (ds \<noteq> [] \<and> nanos t)"
| "sendable_request W (QCountCertificatesRange e l) = (nanos e \<and> nanos l)"
| "sendable_request W (QCountCertificatesByNames ds e l) = (ds \<noteq> [] \<and> nanos e \<and> nanos l)"
| "sendable_request W (QCountRegistrationsByIP ip e l) = (ip \<noteq> None \<and> nanos e \<and> nanos l)"
| "sendable_request W (QCountFQDNSets w ds) = (ds \<noteq> [])"
| "sendable_request W (QFQDNSetExists ds) = (ds \<noteq> [])"
| "sendable_request W (QNewRegistration reg) = registration_sendable W reg"
| "sendable_request W (QUpdateRegistration reg) = registration_sendable W reg"
| "sendable_request W (QNewPendingAuthorization az) = authz_sendable W az"
| "sendable_request W (QUpdatePendingAuthorization az) = authz_sendable W az"
| "sendable_request W (QFinalizeAuthorization az) = authz_sendable W az"
| "sendable_request W (QRevokeAuthorizationsByDomain d) = (id_Type d = IdentifierDNS)"
| "sendable_request W q = True"

fun sendable_answer :: "wire \<Rightarrow> sa_answer \<Rightarrow> bool" where
  "sendable_answer W (ARegistration reg) = registration_sendable W reg"
| "sendable_answer W (AAuthorization az) = authz_sendable W az"
| "sendable_answer W (AAuthorizations m) =
     (distinct (map fst m) \<and> list_all (\<lambda>(k, az). authz_sendable W az) m)"
| "sendable_answer W (ACertificate c) = (nanos (Issued c) \<and> nanos (cert_Expires c))"
| "sendable_answer W (ACounts m) = (m \<noteq> [] \<and> distinct (map fst m))"
| "sendable_answer W a = True"

text \<open>
  The status of a certificate arrives with its times as 64-bit counts, which the zero time does not fit
  into, and without the version of the row.
\<close>

definition received_status :: "CertificateStatus \<Rightarrow> CertificateStatus" where
  "received_status cs =
     cs\<lparr>OCSPLastUpdated := UnixNano (OCSPLastUpdated cs), RevokedDate := UnixNano (RevokedDate cs),
        LastExpirationNagSent := UnixNano (LastExpirationNagSent cs), NotAfter := UnixNano (NotAfter cs),
        LockCol := 0\<rparr>"

fun received_answer :: "sa_answer \<Rightarrow> sa_answer" where
  "received_answer (AStatus cs) = AStatus (received_status cs)"
| "received_answer a = a"

end
