(* ===== verification/SaRpcProps.thy ===== *)
theory SaRpcProps
  imports SaRpc SaProps
begin

text \<open>
  The client of the storage authority, the connection and the server together are the storage
  authority again, and a failing connection never runs a call more than once.
\<close>

section \<open>One call\<close>

lemma rpc_roundtrip:
  assumes "h req = then_call m enc"
    and "\<And>s' x. m s = Some (s', Inr x) \<Longrightarrow> \<exists>msg. enc x = ret_call msg \<and> dec msg = ret_call (f x)"
  shows "then_call (rpc W d h req) dec s = call_outcome W d f s (m s)"
proof (cases "m s")
  case (Some p)
  obtain s' r where p: "p = (s', r)" by (cases p)
  show ?thesis
  proof (cases r)
    case (Inl e)
    then show ?thesis by (simp add: then_call_def rpc_outcome assms(1) Some p call_outcome_def split: delivery.split)
  next
    case (Inr x)
    with assms(2) Some p obtain msg where "enc x = ret_call msg" "dec msg = ret_call (f x)" by blast
    with Inr show ?thesis
      by (simp add: then_call_def rpc_outcome assms(1) Some p call_outcome_def ret_call_def split: delivery.split)
  qed
qed (simp add: then_call_def rpc_outcome assms(1) call_outcome_def split: delivery.split)

lemma outcome_answer:
  assumes "c s = call_outcome W d g s (c' s)" and "\<And>x. A (g x) = received_answer (A x)"
  shows "answer A c s = call_outcome W d received_answer s (answer A c' s)"
  using assms
  by (auto simp: answer_def then_call_def call_outcome_def ret_call_def split: option.splits sum.splits delivery.splits)

section \<open>Messages\<close>

lemma registration_msg_of:
  assumes "ip_text_laws (w_fmtIP W) (w_parseIP W)" "registration_sendable W reg"
  shows "\<exists>msg. registration_msg W reg = ret_call msg \<and> registration_of W err msg = ret_call reg"
proof -
  obtain key kb where k: "reg_Key reg = Some key" "w_marshalJWK W key = Inr kb" "w_unmarshalJWK W kb = Inr key"
    using assms(2) by (auto simp: registration_sendable_def split: option.splits sum.splits)
  obtain p where "registrationToPB (w_marshalJWK W) (w_fmtIP W) reg = Some (Inr p)" "registrationValid p"
    "pbToRegistration (w_unmarshalJWK W) (w_parseIP W) p = Some (Inr reg)"
    using registration_roundtrip [OF assms(1) _ k(1), of "w_marshalJWK W"] k assms(2)
    by (auto simp: registration_sendable_def)
  then show ?thesis by (intro exI [of _ "Some p"]) (simp add: registration_msg_def registration_of_def)
qed

lemma authz_msg_of:
  assumes "ip_text_laws (w_fmtIP W) (w_parseIP W)" "authz_sendable W az"
  shows "\<exists>pb. authzToPB (w_marshalCombos W) (w_fmtIP W) az = Inr pb \<and> authz_of W err (Some pb) = ret_call az"
proof -
  obtain p where "authzToPB (w_marshalCombos W) (w_fmtIP W) az = Inr p" "authorizationValid p"
    "pbToAuthz (w_unmarshalCombos W) (w_parseIP W) p = Some (Inr az)"
    using authz_roundtrip [OF assms(1), of az] assms(2) by (auto simp: authz_sendable_def)
  then show ?thesis by (simp add: authz_of_def)
qed

lemma authz_msg_ret:
  assumes "ip_text_laws (w_fmtIP W) (w_parseIP W)" "authz_sendable W az"
  shows "\<exists>msg. authz_msg W az = (ret_call msg :: ('a, AuthorizationPB option) call) \<and>
     authz_of W err msg = (ret_call az :: ('b, Authorization) call)"
proof -
  obtain pb where "authzToPB (w_marshalCombos W) (w_fmtIP W) az = Inr pb" "authz_of W err (Some pb) = (ret_call az :: ('b, Authorization) call)"
    using authz_msg_of [OF assms] by blast
  then show ?thesis by (intro exI [of _ "Some pb"]) (simp add: authz_msg_def)
qed

lemma cert_msg_of:
  "nanos (Issued c) \<Longrightarrow> nanos (cert_Expires c) \<Longrightarrow> cert_of err (Some (certToPB c)) = ret_call c"
  using cert_pb.dec_enc [of c]
  by (auto simp: cert_of_def certificateValid_def certToPB_def deref_def split: option.splits)

lemma sct_msg_of: "sct_of err (Some (sctToPB sct)) = ret_call sct"
  using sct_pb.dec_enc [of sct]
  by (auto simp: sct_of_def sctValid_def sctToPB_def deref_def split: option.splits)

lemma status_msg_of: "field_of err status_of (Some (status_msg cs)) = ret_call (received_status cs)"
  by (cases cs) (simp add: field_of_def status_of_def status_msg_def received_status_def)

lemma range_msg_of: "nanos e \<Longrightarrow> nanos l \<Longrightarrow> range_of (Some (range_msg e l)) = Some (e, l)"
  by (simp add: range_of_def range_msg_def)

lemma update_fresh: "k \<notin> fst ` set m \<Longrightarrow> AList.update k v m = m @ [(k, v)]"
  by (induction m) auto

lemma valid_authz_msgs_of:
  assumes "ip_text_laws (w_fmtIP W) (w_parseIP W)" "list_all (\<lambda>(k, az). authz_sendable W az) m"
    and "distinct (map fst (acc @ m))"
  shows "\<exists>msgs. valid_authz_msgs W m = Inr msgs \<and> 
     valid_authz_loop W acc msgs = (ret_call (acc @ m) :: ('s, (string \<times> Authorization) list) call)"
  using assms(2,3)
proof (induction m arbitrary: acc)
  case (Cons p m)
  obtain k az where p: "p = (k, az)" by (cases p)
  obtain pb where "authzToPB (w_marshalCombos W) (w_fmtIP W) az = Inr pb"
    "authz_of W errIncompleteResponse (Some pb) = (ret_call az :: ('s, Authorization) call)"
    using authz_msg_of [OF assms(1), of az errIncompleteResponse] Cons.prems p by auto
  moreover obtain msgs where "valid_authz_msgs W m = Inr msgs"
    "valid_authz_loop W (acc @ [(k, az)]) msgs =
      (ret_call ((acc @ [(k, az)]) @ m) :: ('s, (string \<times> Authorization) list) call)"
    using Cons.IH [of "acc @ [(k, az)]"] Cons.prems p by auto
  moreover have "AList.update k az acc = acc @ [(k, az)]"
    using Cons.prems p by (intro update_fresh) auto
  ultimately show ?case using p by simp
qed simp

lemma count_names_msgs_of:
  assumes "distinct (map fst (acc @ m))"
  shows "count_names_loop acc (map (\<lambda>(k, v). Some \<lparr>cbe_Name = Some k, cbe_Count = Some v\<rparr>) m) = ret_call (acc @ m)"
  using assms
proof (induction m arbitrary: acc)
  case (Cons p m)
  obtain k n where p: "p = (k, n)" by (cases p)
  have "AList.update k n acc = acc @ [(k, n)]" using Cons.prems p by (intro update_fresh) auto
  with Cons.IH [of "acc @ [(k, n)]"] Cons.prems p show ?case by simp
qed simp

section \<open>Every call\<close>

lemma connection_fields:
  "pb_GetRegistration (sa_connection W d srv) = rpc W d (pb_GetRegistration srv)"
  "pb_GetRegistrationByKey (sa_connection W d srv) = rpc W d (pb_GetRegistrationByKey srv)"
  "pb_GetAuthorization (sa_connection W d srv) = rpc W d (pb_GetAuthorization srv)"
  "pb_GetValidAuthorizations (sa_connection W d srv) = rpc W d (pb_GetValidAuthorizations srv)"
  "pb_GetCertificate (sa_connection W d srv) = rpc W d (pb_GetCertificate srv)"
  "pb_GetCertificateStatus (sa_connection W d srv) = rpc W d (pb_GetCertificateStatus srv)"
  "pb_CountCertificatesRange (sa_connection W d srv) = rpc W d (pb_CountCertificatesRange srv)"
  "pb_CountCertificatesByNames (sa_connection W d srv) = rpc W d (pb_CountCertificatesByNames srv)"
  "pb_CountRegistrationsByIP (sa_connection W d srv) = rpc W d (pb_CountRegistrationsByIP srv)"
  "pb_CountPendingAuthorizations (sa_connection W d srv) = rpc W d (pb_CountPendingAuthorizations srv)"
  "pb_CountInvalidAuthorizations (sa_connection W d srv) = rpc W d (pb_CountInvalidAuthorizations srv)"
  "pb_GetSCTReceipt (sa_connection W d srv) = rpc W d (pb_GetSCTReceipt srv)"
  "pb_CountFQDNSets (sa_connection W d srv) = rpc W d (pb_CountFQDNSets srv)"
  "pb_FQDNSetExists (sa_connection W d srv) = rpc W d (pb_FQDNSetExists srv)"
  "pb_NewRegistration (sa_connection W d srv) = rpc W d (pb_NewRegistration srv)"
  "pb_UpdateRegistration (sa_connection W d srv) = rpc W d (pb_UpdateRegistration srv)"
  "pb_NewPendingAuthorization (sa_connection W d srv) = rpc W d (pb_NewPendingAuthorization srv)"
  "pb_UpdatePendingAuthorization (sa_connection W d srv) = rpc W d (pb_UpdatePendingAuthorization srv)"
  "pb_FinalizeAuthorization (sa_connection W d srv) = rpc W d (pb_FinalizeAuthorization srv)"
  "pb_MarkCertificateRevoked (sa_connection W d srv) = rpc W d (pb_MarkCertificateRevoked srv)"
  "pb_AddCertificate (sa_connection W d srv) = rpc W d (pb_AddCertificate srv)"
  "pb_AddSCTReceipt (sa_connection W d srv) = rpc W d (pb_AddSCTReceipt srv)"
  "pb_RevokeAuthorizationsByDomain (sa_connection W d srv) = rpc W d (pb_RevokeAuthorizationsByDomain srv)"
  "pb_DeactivateRegistration (sa_connection W d srv) = rpc W d (pb_DeactivateRegistration srv)"
  "pb_DeactivateAuthorization (sa_connection W d srv) = rpc W d (pb_DeactivateAuthorization srv)"
  by (simp_all add: sa_connection_def)

lemmas client_defs = sac_GetRegistration_def sac_GetRegistrationByKey_def sac_GetAuthorization_def
  sac_GetValidAuthorizations_def sac_GetCertificate_def sac_GetCertificateStatus_def sac_CountCertificatesRange_def
  sac_CountCertificatesByNames_def sac_CountRegistrationsByIP_def sac_CountPendingAuthorizations_def
  sac_CountInvalidAuthorizations_def sac_GetSCTReceipt_def sac_CountFQDNSets_def sac_FQDNSetExists_def
  sac_NewRegistration_def sac_UpdateRegistration_def sac_NewPendingAuthorization_def
  sac_UpdatePendingAuthorization_def sac_FinalizeAuthorization_def sac_MarkCertificateRevoked_def
  sac_AddCertificate_def sac_AddSCTReceipt_def sac_RevokeAuthorizationsByDomain_def
  sac_DeactivateRegistration_def sac_DeactivateAuthorization_def

lemmas server_defs = sas_GetRegistration_def sas_GetRegistrationByKey_def sas_GetAuthorization_def
  sas_GetValidAuthorizations_def sas_GetCertificate_def sas_GetCertificateStatus_def sas_CountCertificatesRange_def
  sas_CountCertificatesByNames_def sas_CountRegistrationsByIP_def sas_CountPendingAuthorizations_def
  sas_CountInvalidAuthorizations_def sas_GetSCTReceipt_def sas_CountFQDNSets_def sas_FQDNSetExists_def
  sas_NewRegistration_def sas_UpdateRegistration_def sas_NewPendingAuthorization_def
  sas_UpdatePendingAuthorization_def sas_FinalizeAuthorization_def sas_MarkCertificateRevoked_def
  sas_AddCertificate_def sas_AddSCTReceipt_def sas_RevokeAuthorizationsByDomain_def
  sas_DeactivateRegistration_def sas_DeactivateAuthorization_def

lemma server_fields:
  "pb_GetRegistration (StorageAuthorityServerWrapper W SA) = sas_GetRegistration W SA"
  "pb_GetRegistrationByKey (StorageAuthorityServerWrapper W SA) = sas_GetRegistrationByKey W SA"
  "pb_GetAuthorization (StorageAuthorityServerWrapper W SA) = sas_GetAuthorization W SA"
  "pb_GetValidAuthorizations (StorageAuthorityServerWrapper W SA) = sas_GetValidAuthorizations W SA"
  "pb_GetCertificate (StorageAuthorityServerWrapper W SA) = sas_GetCertificate SA"
  "pb_GetCertificateStatus (StorageAuthorityServerWrapper W SA) = sas_GetCertificateStatus SA"
  "pb_CountCertificatesRange (StorageAuthorityServerWrapper W SA) = sas_CountCertificatesRange SA"
  "pb_CountCertificatesByNames (StorageAuthorityServerWrapper W SA) = sas_CountCertificatesByNames SA"
  "pb_CountRegistrationsByIP (StorageAuthorityServerWrapper W SA) = sas_CountRegistrationsByIP SA"
  "pb_CountPendingAuthorizations (StorageAuthorityServerWrapper W SA) = sas_CountPendingAuthorizations SA"
  "pb_CountInvalidAuthorizations (StorageAuthorityServerWrapper W SA) = sas_CountInvalidAuthorizations SA"
  "pb_GetSCTReceipt (StorageAuthorityServerWrapper W SA) = sas_GetSCTReceipt SA"
  "pb_CountFQDNSets (StorageAuthorityServerWrapper W SA) = sas_CountFQDNSets SA"
  "pb_FQDNSetExists (StorageAuthorityServerWrapper W SA) = sas_FQDNSetExists SA"
  "pb_NewRegistration (StorageAuthorityServerWrapper W SA) = sas_NewRegistration W SA"
  "pb_UpdateRegistration (StorageAuthorityServerWrapper W SA) = sas_UpdateRegistration W SA"
  "pb_NewPendingAuthorization (StorageAuthorityServerWrapper W SA) = sas_NewPendingAuthorization W SA"
  "pb_UpdatePendingAuthorization (StorageAuthorityServerWrapper W SA) = sas_UpdatePendingAuthorization W SA"
  "pb_FinalizeAuthorization (StorageAuthorityServerWrapper W SA) = sas_FinalizeAuthorization W SA"
  "pb_MarkCertificateRevoked (StorageAuthorityServerWrapper W SA) = sas_MarkCertificateRevoked SA"
  "pb_AddCertificate (StorageAuthorityServerWrapper W SA) = sas_AddCertificate SA"
  "pb_AddSCTReceipt (StorageAuthorityServerWrapper W SA) = sas_AddSCTReceipt SA"
  "pb_RevokeAuthorizationsByDomain (StorageAuthorityServerWrapper W SA) = sas_RevokeAuthorizationsByDomain SA"
  "pb_DeactivateRegistration (StorageAuthorityServerWrapper W SA) = sas_DeactivateRegistration SA"
  "pb_DeactivateAuthorization (StorageAuthorityServerWrapper W SA) = sas_DeactivateAuthorization SA"
  by (simp_all add: StorageAuthorityServerWrapper_def)

lemmas remote_simps = connection_fields server_fields client_defs done_call_def

lemma rpc_roundtrip_id:
  assumes "h req = then_call m enc"
    and "\<And>s' x. m s = Some (s', Inr x) \<Longrightarrow> P x"
    and "\<And>x. P x \<Longrightarrow> \<exists>msg. enc x = ret_call msg \<and> dec msg = ret_call x"
  shows "then_call (rpc W d h req) dec s = call_outcome W d id s (m s)"
  using assms(2,3) by (intro rpc_roundtrip [where h = h and req = req and m = m, OF assms(1)]) auto

lemma rpc_roundtrip_msg:
  assumes "h req = then_call m (\<lambda>x. ret_call (msg x))"
    and "\<And>s' x. m s = Some (s', Inr x) \<Longrightarrow> dec (msg x) = ret_call (f x)"
  shows "then_call (rpc W d h req) dec s = call_outcome W d f s (m s)"
  using assms(2) by (intro rpc_roundtrip [where h = h and req = req and m = m, OF assms(1)]) blast

text \<open>The client's calls over the connection to the server, for each method.\<close>

definition served_sa :: "wire \<Rightarrow> delivery \<Rightarrow> 's StorageAuthority \<Rightarrow> 's sapb" where
  "served_sa W d SA = sa_connection W d (StorageAuthorityServerWrapper W SA)"

lemma fixed_msgs:
  "count_msg = (\<lambda>n. ret_call (Some \<lparr>cnt_Count = Some n\<rparr>))" "empty_msg = (\<lambda>_. ret_call (Some ()))"
  by (simp_all add: fun_eq_iff count_msg_def empty_msg_def)

lemmas served = server_defs field_of_def fixed_msgs range_msg_of case_prod_unfold

lemma remote_GetCertificateStatus:
  "sac_GetCertificateStatus (served_sa W d SA) ser s =
     call_outcome W d received_status s (sai_GetCertificateStatus SA ser s)"
  using status_msg_of [of errIncompleteResponse]
  by (simp add: served_sa_def remote_simps)
     (rule rpc_roundtrip_msg [where m = "sai_GetCertificateStatus SA ser" and msg = "\<lambda>x. Some (status_msg x)"], simp_all add: server_defs field_of_def)

lemma remote_GetSCTReceipt:
  "sac_GetSCTReceipt (served_sa W d SA) ser l s =
     call_outcome W d id s (sai_GetSCTReceipt SA ser l s)"
  by (simp add: served_sa_def remote_simps)
     (rule rpc_roundtrip_msg [where m = "sai_GetSCTReceipt SA ser l" and msg = "\<lambda>x. Some (sctToPB x)"],
      simp_all add: served sct_msg_of)

lemma remote_MarkCertificateRevoked:
  "sac_MarkCertificateRevoked (served_sa W d SA) ser c s =
     call_outcome W d id s (sai_MarkCertificateRevoked SA ser c s)"
  by (simp add: served_sa_def remote_simps)
     (rule rpc_roundtrip_msg [where m = "sai_MarkCertificateRevoked SA ser c" and msg = "\<lambda>x. Some ()"],
      simp_all add: served )

lemma remote_AddCertificate:
  "sac_AddCertificate (served_sa W d SA) der i ocsp s =
     call_outcome W d id s (sai_AddCertificate SA der i ocsp s)"
  by (simp add: served_sa_def remote_simps)
     (rule rpc_roundtrip_msg [where m = "sai_AddCertificate SA der i ocsp" and msg = "\<lambda>x. Some \<lparr>acs_Digest = Some x\<rparr>"],
      simp_all add: served pb_bytes_def)

lemma remote_AddSCTReceipt:
  "sac_AddSCTReceipt (served_sa W d SA) sct s =
     call_outcome W d id s (sai_AddSCTReceipt SA sct s)"
  by (simp add: served_sa_def remote_simps)
     (rule rpc_roundtrip_msg [where m = "sai_AddSCTReceipt SA sct" and msg = "\<lambda>x. Some ()"],
      simp_all add: served sct_msg_of)

lemma remote_DeactivateRegistration:
  "sac_DeactivateRegistration (served_sa W d SA) i s =
     call_outcome W d id s (sai_DeactivateRegistration SA i s)"
  by (simp add: served_sa_def remote_simps)
     (rule rpc_roundtrip_msg [where m = "sai_DeactivateRegistration SA i" and msg = "\<lambda>x. Some ()"],
      simp_all add: served )

lemma remote_DeactivateAuthorization:
  "sac_DeactivateAuthorization (served_sa W d SA) a s =
     call_outcome W d id s (sai_DeactivateAuthorization SA a s)"
  by (simp add: served_sa_def remote_simps)
     (rule rpc_roundtrip_msg [where m = "sai_DeactivateAuthorization SA a" and msg = "\<lambda>x. Some ()"],
      simp_all add: served )

lemma remote_CountPendingAuthorizations:
  "sac_CountPendingAuthorizations (served_sa W d SA) i s =
     call_outcome W d id s (sai_CountPendingAuthorizations SA i s)"
  by (simp add: served_sa_def remote_simps)
     (rule rpc_roundtrip_msg [where m = "sai_CountPendingAuthorizations SA i" and msg = "\<lambda>x. Some \<lparr>cnt_Count = Some x\<rparr>"],
      simp_all add: served )

lemma remote_CountCertificatesRange:
  "nanos e \<Longrightarrow> nanos l \<Longrightarrow> sac_CountCertificatesRange (served_sa W d SA) e l s =
     call_outcome W d id s (sai_CountCertificatesRange SA e l s)"
  by (simp add: served_sa_def remote_simps)
     (rule rpc_roundtrip_msg [where m = "sai_CountCertificatesRange SA e l" and msg = "\<lambda>x. Some \<lparr>cnt_Count = Some x\<rparr>"],
      simp_all add: served )

lemma remote_CountRegistrationsByIP:
  "nanos e \<Longrightarrow> nanos l \<Longrightarrow> sac_CountRegistrationsByIP (served_sa W d SA) (Some ip) e l s =
     call_outcome W d id s (sai_CountRegistrationsByIP SA (Some ip) e l s)"
  by (simp add: served_sa_def remote_simps)
     (rule rpc_roundtrip_msg [where m = "sai_CountRegistrationsByIP SA (Some ip) e l" and msg = "\<lambda>x. Some \<lparr>cnt_Count = Some x\<rparr>"],
      simp_all add: served )

lemma remote_CountFQDNSets:
  "sac_CountFQDNSets (served_sa W d SA) w (n # ns) s =
     call_outcome W d id s (sai_CountFQDNSets SA w (n # ns) s)"
  by (simp add: served_sa_def remote_simps)
     (rule rpc_roundtrip_msg [where m = "sai_CountFQDNSets SA w (n # ns)" and msg = "\<lambda>x. Some \<lparr>cnt_Count = Some x\<rparr>"],
      simp_all add: served )

lemma remote_FQDNSetExists:
  "sac_FQDNSetExists (served_sa W d SA) (n # ns) s =
     call_outcome W d id s (sai_FQDNSetExists SA (n # ns) s)"
  by (simp add: served_sa_def remote_simps)
     (rule rpc_roundtrip_msg [where m = "sai_FQDNSetExists SA (n # ns)" and msg = "\<lambda>x. Some \<lparr>ex_Exists = Some x\<rparr>"],
      simp_all add: served )

lemma remote_RevokeAuthorizationsByDomain:
  "sac_RevokeAuthorizationsByDomain (served_sa W d SA) \<lparr>id_Type = IdentifierDNS, Value = v\<rparr> s =
     call_outcome W d id s (sai_RevokeAuthorizationsByDomain SA \<lparr>id_Type = IdentifierDNS, Value = v\<rparr> s)"
  by (simp add: served_sa_def remote_simps)
     (rule rpc_roundtrip_msg [where m = "sai_RevokeAuthorizationsByDomain SA \<lparr>id_Type = IdentifierDNS, Value = v\<rparr>" and msg = "\<lambda>x. Some \<lparr>ras_Finalized = Some (fst x), ras_Pending = Some (snd x)\<rparr>"],
      simp_all add: served )

lemma remote_GetRegistration:
  assumes "ip_text_laws (w_fmtIP W) (w_parseIP W)"
    and "\<And>s' reg. sai_GetRegistration SA i s = Some (s', Inr reg) \<Longrightarrow> registration_sendable W reg"
  shows "sac_GetRegistration W (served_sa W d SA) i s = call_outcome W d id s (sai_GetRegistration SA i s)"
  by (simp add: served_sa_def remote_simps)
     (rule rpc_roundtrip_id [where m = "sai_GetRegistration SA i" and enc = "registration_msg W", OF _ assms(2) registration_msg_of [OF assms(1)]], simp_all add: served)

lemma remote_GetRegistrationByKey:
  assumes "ip_text_laws (w_fmtIP W) (w_parseIP W)" "w_marshalJWK W k = Inr kb" "w_unmarshalJWK W kb = Inr k"
    and "\<And>s' reg. sai_GetRegistrationByKey SA (Some k) s = Some (s', Inr reg) \<Longrightarrow> registration_sendable W reg"
  shows "sac_GetRegistrationByKey W (served_sa W d SA) (Some k) s =
     call_outcome W d id s (sai_GetRegistrationByKey SA (Some k) s)"
  using assms(2,3)
  by (simp add: served_sa_def remote_simps)
     (rule rpc_roundtrip_id [where m = "sai_GetRegistrationByKey SA (Some k)" and enc = "registration_msg W", OF _ assms(4) registration_msg_of [OF assms(1)]], simp_all add: served)

lemma remote_NewRegistration:
  assumes "ip_text_laws (w_fmtIP W) (w_parseIP W)" "registration_sendable W reg"
    and "\<And>s' reg'. sai_NewRegistration SA reg s = Some (s', Inr reg') \<Longrightarrow> registration_sendable W reg'"
  shows "sac_NewRegistration W (served_sa W d SA) reg s = call_outcome W d id s (sai_NewRegistration SA reg s)"
proof -
  obtain msg where m: "registration_msg W reg = (ret_call msg :: ('a, RegistrationPB option) call)"
    "registration_of W errIncompleteRequest msg = (ret_call reg :: ('a, Registration) call)"
    using registration_msg_of [OF assms(1,2)] by blast
  then show ?thesis
    by (simp add: served_sa_def remote_simps)
       (rule rpc_roundtrip_id [where m = "sai_NewRegistration SA reg" and enc = "registration_msg W", OF _ assms(3) registration_msg_of [OF assms(1)]], simp_all add: served)
qed

lemma remote_UpdateRegistration:
  assumes "ip_text_laws (w_fmtIP W) (w_parseIP W)" "registration_sendable W reg"
  shows "sac_UpdateRegistration W (served_sa W d SA) reg s = call_outcome W d id s (sai_UpdateRegistration SA reg s)"
proof -
  obtain msg where m: "registration_msg W reg = (ret_call msg :: ('a, RegistrationPB option) call)"
    "registration_of W errIncompleteRequest msg = (ret_call reg :: ('a, Registration) call)"
    using registration_msg_of [OF assms] by blast
  then show ?thesis
    by (simp add: served_sa_def remote_simps)
       (rule rpc_roundtrip_msg [where m = "sai_UpdateRegistration SA reg" and msg = "\<lambda>x. Some ()"], simp_all add: served)
qed

lemma remote_GetAuthorization:
  assumes "ip_text_laws (w_fmtIP W) (w_parseIP W)"
    and "\<And>s' az. sai_GetAuthorization SA i s = Some (s', Inr az) \<Longrightarrow> authz_sendable W az"
  shows "sac_GetAuthorization W (served_sa W d SA) i s = call_outcome W d id s (sai_GetAuthorization SA i s)"
  by (simp add: served_sa_def remote_simps)
     (rule rpc_roundtrip_id [where m = "sai_GetAuthorization SA i" and enc = "authz_msg W", OF _ assms(2) authz_msg_ret [OF assms(1)]], simp_all add: served)

lemma remote_NewPendingAuthorization:
  assumes "ip_text_laws (w_fmtIP W) (w_parseIP W)" "authz_sendable W az"
    and "\<And>s' az'. sai_NewPendingAuthorization SA az s = Some (s', Inr az') \<Longrightarrow> authz_sendable W az'"
  shows "sac_NewPendingAuthorization W (served_sa W d SA) az s = call_outcome W d id s (sai_NewPendingAuthorization SA az s)"
proof -
  obtain msg where m: "authz_msg W az = (ret_call msg :: ('a, AuthorizationPB option) call)"
    "authz_of W errIncompleteRequest msg = (ret_call az :: ('a, Authorization) call)"
    using authz_msg_ret [OF assms(1,2)] by blast
  then show ?thesis
    by (simp add: served_sa_def remote_simps)
       (rule rpc_roundtrip_id [where m = "sai_NewPendingAuthorization SA az" and enc = "authz_msg W", OF _ assms(3) authz_msg_ret [OF assms(1)]], simp_all add: served)
qed

lemma remote_write_authz:
  assumes "ip_text_laws (w_fmtIP W) (w_parseIP W)" "authz_sendable W az"
  shows "sac_UpdatePendingAuthorization W (served_sa W d SA) az s =
      call_outcome W d id s (sai_UpdatePendingAuthorization SA az s)"
    and "sac_FinalizeAuthorization W (served_sa W d SA) az s = call_outcome W d id s (sai_FinalizeAuthorization SA az s)"
proof -
  obtain msg where m: "authz_msg W az = (ret_call msg :: ('a, AuthorizationPB option) call)"
    "authz_of W errIncompleteRequest msg = (ret_call az :: ('a, Authorization) call)"
    using authz_msg_ret [OF assms] by blast
  show "sac_UpdatePendingAuthorization W (served_sa W d SA) az s =
      call_outcome W d id s (sai_UpdatePendingAuthorization SA az s)"
    using m
    by (simp add: served_sa_def remote_simps)
       (rule rpc_roundtrip_msg [where m = "sai_UpdatePendingAuthorization SA az" and msg = "\<lambda>x. Some ()"],
        simp_all add: served)
  show "sac_FinalizeAuthorization W (served_sa W d SA) az s = call_outcome W d id s (sai_FinalizeAuthorization SA az s)"
    using m
    by (simp add: served_sa_def remote_simps)
       (rule rpc_roundtrip_msg [where m = "sai_FinalizeAuthorization SA az" and msg = "\<lambda>x. Some ()"],
        simp_all add: served)
qed

lemma remote_GetCertificate:
  assumes "\<And>s' c. sai_GetCertificate SA ser s = Some (s', Inr c) \<Longrightarrow> nanos (Issued c) \<and> nanos (cert_Expires c)"
  shows "sac_GetCertificate (served_sa W d SA) ser s = call_outcome W d id s (sai_GetCertificate SA ser s)"
  using assms
  by (simp add: served_sa_def remote_simps)
     (rule rpc_roundtrip_msg [where m = "sai_GetCertificate SA ser" and msg = "\<lambda>x. Some (certToPB x)"],
      auto simp: served cert_msg_of)

lemma remote_GetValidAuthorizations:
  assumes "ip_text_laws (w_fmtIP W) (w_parseIP W)" "nanos t"
    and "\<And>s' m. sai_GetValidAuthorizations SA i (n # ns) t s = Some (s', Inr m) \<Longrightarrow>
      distinct (map fst m) \<and> list_all (\<lambda>(k, az). authz_sendable W az) m"
  shows "sac_GetValidAuthorizations W (served_sa W d SA) i (n # ns) t s =
    call_outcome W d id s (sai_GetValidAuthorizations SA i (n # ns) t s)"
proof -
  let ?enc = "\<lambda>valid. then_call (of_result (valid_authz_msgs W valid)) (\<lambda>msgs. ret_call (Some \<lparr>va_Valid = msgs\<rparr>))"
  let ?dec = "\<lambda>response. case response of None \<Rightarrow> fail_call errIncompleteResponse
      | Some resp \<Rightarrow> valid_authz_loop W [] (va_Valid resp)"
  have "\<exists>msg. ?enc m = (ret_call msg :: ('a, _) call) \<and> ?dec msg = (ret_call (id m) :: ('a, _) call)"
    if get: "sai_GetValidAuthorizations SA i (n # ns) t s = Some (s', Inr m)" for s' m
  proof -
    obtain msgs where "valid_authz_msgs W m = Inr msgs" "valid_authz_loop W [] msgs = (ret_call m :: ('a, _) call)"
      using valid_authz_msgs_of [OF assms(1), of m "[]"] assms(3) [OF get] by auto
    then show ?thesis by (intro exI [of _ "Some \<lparr>va_Valid = msgs\<rparr>"]) simp
  qed
  then show ?thesis
    using assms(2)
    by (simp add: served_sa_def remote_simps)
       (rule rpc_roundtrip [where m = "sai_GetValidAuthorizations SA i (n # ns) t" and enc = ?enc], simp_all add: served)
qed

lemma remote_CountCertificatesByNames:
  assumes "nanos e" "nanos l"
    and "\<And>s' m. sai_CountCertificatesByNames SA (n # ns) e l s = Some (s', Inr m) \<Longrightarrow> m \<noteq> [] \<and> distinct (map fst m)"
  shows "sac_CountCertificatesByNames (served_sa W d SA) (n # ns) e l s =
    call_outcome W d id s (sai_CountCertificatesByNames SA (n # ns) e l s)"
  using assms
  by (simp add: served_sa_def remote_simps)
     (rule rpc_roundtrip_msg [where m = "sai_CountCertificatesByNames SA (n # ns) e l" and
        msg = "\<lambda>m. Some \<lparr>cbn_CountByNames = map (\<lambda>(k, v). Some \<lparr>cbe_Name = Some k, cbe_Count = Some v\<rparr>) m\<rparr>"],
      auto simp: served count_names_msgs_of [where acc = "[]", simplified, unfolded case_prod_unfold])

lemma remote_CountInvalidAuthorizations:
  "sac_CountInvalidAuthorizations (served_sa W d SA) m s = call_outcome W d id s (sai_CountInvalidAuthorizations SA m s)"
  by (simp add: served_sa_def remote_simps served rpc_outcome)

lemma answered: "answer A c s = Some (s', Inr a) \<longleftrightarrow> (\<exists>x. c s = Some (s', Inr x) \<and> a = A x)"
  by (auto simp: answer_def then_call_def ret_call_def split: option.splits sum.splits)

lemma sendable_result:
  assumes "\<forall>s' a. sa_call SA q s = Some (s', Inr a) \<longrightarrow> sendable_answer W a"
    and "sa_call SA q = answer A c" "c s = Some (s', Inr x)"
  shows "sendable_answer W (A x)"
  using assms by (simp add: answered)

lemma remote_sa_call:
  assumes laws: "ip_text_laws (w_fmtIP W) (w_parseIP W)" and "sendable_request W q"
    and ok: "\<And>s' a. sa_call SA q s = Some (s', Inr a) \<Longrightarrow> sendable_answer W a"
  shows "sa_call (remote_sa W d SA) q s = call_outcome W d received_answer s (sa_call SA q s)"
proof -
  note fields = remote_sa_def StorageAuthorityClientWrapper_def served_sa_def [symmetric]
  have ok': "\<forall>s' a. sa_call SA q s = Some (s', Inr a) \<longrightarrow> sendable_answer W a" using ok by blast
  show ?thesis
  proof (cases q)
    case (QGetRegistration i)
    have res: "registration_sendable W x" if "sai_GetRegistration SA i s = Some (s', Inr x)" for s' x
      using sendable_result [where A = ARegistration and c = "sai_GetRegistration SA i", OF ok' _ that] QGetRegistration by simp
    have "sac_GetRegistration W (served_sa W d SA) i s = call_outcome W d id s (sai_GetRegistration SA i s)"
      by (rule remote_GetRegistration [OF laws]) (erule res)
    from outcome_answer [where g = id and A = ARegistration and c = "sac_GetRegistration W (served_sa W d SA) i" and c' = "sai_GetRegistration SA i", OF this] QGetRegistration show ?thesis
      by (simp add: fields)
  next
    case (QGetRegistrationByKey k)
    with assms(2) obtain key kb where k: "k = Some key" "w_marshalJWK W key = Inr kb" "w_unmarshalJWK W kb = Inr key"
      by (auto split: option.splits sum.splits)
    have res: "registration_sendable W x" if "sai_GetRegistrationByKey SA (Some key) s = Some (s', Inr x)" for s' x
      using sendable_result [where A = ARegistration and c = "sai_GetRegistrationByKey SA (Some key)", OF ok' _ that] QGetRegistrationByKey k(1) by simp
    have "sac_GetRegistrationByKey W (served_sa W d SA) (Some key) s = call_outcome W d id s (sai_GetRegistrationByKey SA (Some key) s)"
      by (rule remote_GetRegistrationByKey [OF laws k(2,3)]) (erule res)
    from outcome_answer [where g = id and A = ARegistration and c = "sac_GetRegistrationByKey W (served_sa W d SA) (Some key)" and c' = "sai_GetRegistrationByKey SA (Some key)", OF this] QGetRegistrationByKey k(1) show ?thesis
      by (simp add: fields)
  next
    case (QGetAuthorization i)
    have res: "authz_sendable W x" if "sai_GetAuthorization SA i s = Some (s', Inr x)" for s' x
      using sendable_result [where A = AAuthorization and c = "sai_GetAuthorization SA i", OF ok' _ that] QGetAuthorization by simp
    have "sac_GetAuthorization W (served_sa W d SA) i s = call_outcome W d id s (sai_GetAuthorization SA i s)"
      by (rule remote_GetAuthorization [OF laws]) (erule res)
    from outcome_answer [where g = id and A = AAuthorization and c = "sac_GetAuthorization W (served_sa W d SA) i" and c' = "sai_GetAuthorization SA i", OF this] QGetAuthorization show ?thesis
      by (simp add: fields)
  next
    case (QGetValidAuthorizations i ns t)
    then obtain n ms where n: "ns = n # ms" "nanos t" using assms(2) by (cases ns) auto
    have res: "distinct (map fst x) \<and> list_all (\<lambda>(k, az). authz_sendable W az) x" if "sai_GetValidAuthorizations SA i (n # ms) t s = Some (s', Inr x)" for s' x
      using sendable_result [where A = AAuthorizations and c = "sai_GetValidAuthorizations SA i (n # ms) t", OF ok' _ that] QGetValidAuthorizations n(1) by simp
    have "sac_GetValidAuthorizations W (served_sa W d SA) i (n # ms) t s = call_outcome W d id s (sai_GetValidAuthorizations SA i (n # ms) t s)"
      by (rule remote_GetValidAuthorizations [OF laws n(2)]) (erule res)
    from outcome_answer [where g = id and A = AAuthorizations and c = "sac_GetValidAuthorizations W (served_sa W d SA) i (n # ms) t" and c' = "sai_GetValidAuthorizations SA i (n # ms) t", OF this] QGetValidAuthorizations n(1) show ?thesis
      by (simp add: fields)
  next
    case (QGetCertificate ser)
    have res: "nanos (Issued x) \<and> nanos (cert_Expires x)" if "sai_GetCertificate SA ser s = Some (s', Inr x)" for s' x
      using sendable_result [where A = ACertificate and c = "sai_GetCertificate SA ser", OF ok' _ that] QGetCertificate by simp
    have "sac_GetCertificate (served_sa W d SA) ser s = call_outcome W d id s (sai_GetCertificate SA ser s)"
      by (rule remote_GetCertificate) (erule res)
    from outcome_answer [where g = id and A = ACertificate and c = "sac_GetCertificate (served_sa W d SA) ser" and c' = "sai_GetCertificate SA ser", OF this] QGetCertificate show ?thesis
      by (simp add: fields)
  next
    case (QGetCertificateStatus ser)
    then show ?thesis
      by (simp add: fields) (rule outcome_answer, rule remote_GetCertificateStatus, simp_all)
  next
    case (QCountCertificatesRange e l)
    then show ?thesis using assms(2)
      by (simp add: fields) (rule outcome_answer, rule remote_CountCertificatesRange, simp_all)
  next
    case (QCountCertificatesByNames ns e l)
    then obtain n ms where n: "ns = n # ms" "nanos e" "nanos l" using assms(2) by (cases ns) auto
    have res: "x \<noteq> [] \<and> distinct (map fst x)" if "sai_CountCertificatesByNames SA (n # ms) e l s = Some (s', Inr x)" for s' x
      using sendable_result [where A = ACounts and c = "sai_CountCertificatesByNames SA (n # ms) e l", OF ok' _ that] QCountCertificatesByNames n(1) by simp
    have "sac_CountCertificatesByNames (served_sa W d SA) (n # ms) e l s = call_outcome W d id s (sai_CountCertificatesByNames SA (n # ms) e l s)"
      by (rule remote_CountCertificatesByNames [OF n(2,3)]) (erule res)
    from outcome_answer [where g = id and A = ACounts and c = "sac_CountCertificatesByNames (served_sa W d SA) (n # ms) e l" and c' = "sai_CountCertificatesByNames SA (n # ms) e l", OF this] QCountCertificatesByNames n(1) show ?thesis
      by (simp add: fields)
  next
    case (QCountRegistrationsByIP ip e l)
    then obtain b where "ip = Some b" "nanos e" "nanos l" using assms(2) by auto
    with QCountRegistrationsByIP show ?thesis
      by (simp add: fields) (rule outcome_answer, rule remote_CountRegistrationsByIP, simp_all)
  next
    case (QCountPendingAuthorizations i)
    then show ?thesis by (simp add: fields) (rule outcome_answer, rule remote_CountPendingAuthorizations, simp_all)
  next
    case (QCountInvalidAuthorizations m)
    then show ?thesis by (simp add: fields) (rule outcome_answer, rule remote_CountInvalidAuthorizations, simp_all)
  next
    case (QGetSCTReceipt ser l)
    then show ?thesis by (simp add: fields) (rule outcome_answer, rule remote_GetSCTReceipt, simp_all)
  next
    case (QCountFQDNSets w ns)
    then obtain n ms where "ns = n # ms" using assms(2) by (cases ns) auto
    with QCountFQDNSets show ?thesis by (simp add: fields) (rule outcome_answer, rule remote_CountFQDNSets, simp_all)
  next
    case (QFQDNSetExists ns)
    then obtain n ms where "ns = n # ms" using assms(2) by (cases ns) auto
    with QFQDNSetExists show ?thesis by (simp add: fields) (rule outcome_answer, rule remote_FQDNSetExists, simp_all)
  next
    case (QNewRegistration reg)
    with assms(2) have arg: "registration_sendable W reg" by simp
    have res: "registration_sendable W x" if "sai_NewRegistration SA reg s = Some (s', Inr x)" for s' x
      using sendable_result [where A = ARegistration and c = "sai_NewRegistration SA reg", OF ok' _ that] QNewRegistration by simp
    have "sac_NewRegistration W (served_sa W d SA) reg s = call_outcome W d id s (sai_NewRegistration SA reg s)"
      by (rule remote_NewRegistration [OF laws arg]) (erule res)
    from outcome_answer [where g = id and A = ARegistration and c = "sac_NewRegistration W (served_sa W d SA) reg" and c' = "sai_NewRegistration SA reg", OF this] QNewRegistration show ?thesis
      by (simp add: fields)
  next
    case (QUpdateRegistration reg)
    then show ?thesis using assms(2)
      by (simp add: fields) (rule outcome_answer, rule remote_UpdateRegistration [OF laws], simp_all)
  next
    case (QNewPendingAuthorization az)
    with assms(2) have arg: "authz_sendable W az" by simp
    have res: "authz_sendable W x" if "sai_NewPendingAuthorization SA az s = Some (s', Inr x)" for s' x
      using sendable_result [where A = AAuthorization and c = "sai_NewPendingAuthorization SA az", OF ok' _ that] QNewPendingAuthorization by simp
    have "sac_NewPendingAuthorization W (served_sa W d SA) az s = call_outcome W d id s (sai_NewPendingAuthorization SA az s)"
      by (rule remote_NewPendingAuthorization [OF laws arg]) (erule res)
    from outcome_answer [where g = id and A = AAuthorization and c = "sac_NewPendingAuthorization W (served_sa W d SA) az" and c' = "sai_NewPendingAuthorization SA az", OF this] QNewPendingAuthorization show ?thesis
      by (simp add: fields)
  next
    case (QUpdatePendingAuthorization az)
    then show ?thesis using assms(2)
      by (simp add: fields) (rule outcome_answer, rule remote_write_authz(1) [OF laws], simp_all)
  next
    case (QFinalizeAuthorization az)
    then show ?thesis using assms(2)
      by (simp add: fields) (rule outcome_answer, rule remote_write_authz(2) [OF laws], simp_all)
  next
    case (QMarkCertificateRevoked ser c)
    then show ?thesis by (simp add: fields) (rule outcome_answer, rule remote_MarkCertificateRevoked, simp_all)
  next
    case (QAddCertificate der i ocsp)
    then show ?thesis by (simp add: fields) (rule outcome_answer, rule remote_AddCertificate, simp_all)
  next
    case (QAddSCTReceipt sct)
    then show ?thesis by (simp add: fields) (rule outcome_answer, rule remote_AddSCTReceipt, simp_all)
  next
    case (QRevokeAuthorizationsByDomain ident)
    then obtain v where "ident = \<lparr>id_Type = IdentifierDNS, Value = v\<rparr>"
      using assms(2) by (cases ident) auto
    with QRevokeAuthorizationsByDomain show ?thesis
      by (simp add: fields) (rule outcome_answer, rule remote_RevokeAuthorizationsByDomain, simp_all)
  next
    case (QDeactivateRegistration i)
    then show ?thesis by (simp add: fields) (rule outcome_answer, rule remote_DeactivateRegistration, simp_all)
  next
    case (QDeactivateAuthorization i)
    then show ?thesis by (simp add: fields) (rule outcome_answer, rule remote_DeactivateAuthorization, simp_all)
  qed
qed

section \<open>Properties\<close>

definition sample_wire :: wire where
  "sample_wire =
     \<lparr>w_marshalJWK = \<lambda>_. Inr ''jwk'', w_unmarshalJWK = \<lambda>_. Inl ''jwk'', w_fmtIP = \<lambda>b. CHR ''x'' # b,
      w_parseIP = \<lambda>t. To16 (tl t), w_marshalCombos = \<lambda>_. ''[]'', w_unmarshalCombos = \<lambda>_. Inr [],
      w_marshalProblem = \<lambda>p. Some (Detail p), w_unmarshalProblem = \<lambda>_. None\<rparr>"

lemma sample_new_pending:
  "\<exists>db. NewPendingAuthorization sample_env [sample_draw] empty_db sample_authz =
     Some (db, Inr (sample_authz\<lparr>az_ID := NewToken sample_draw\<rparr>))"
  by (simp add: NewPendingAuthorization_def existingPending_def existingFinal_def empty_db_def sample_authz_def
      authz_row_def sample_simps status_defs row_authz_def)



end
