(* ===== verification/ServiceRpc.thy ===== *)
theory ServiceRpc
  imports SaRpcProps RaProps VaProps
begin

text \<open>
  The other services behind gRPC: the registration authority (\<^verbatim>\<open>grpc/ra-wrappers.go\<close>), the certificate
  authority (\<^verbatim>\<open>grpc/ca-wrappers.go\<close>), the validation authority (\<^verbatim>\<open>grpc/va-wrappers.go\<close>) and the
  publisher (\<^verbatim>\<open>grpc/publisher-wrappers.go\<close>), in the same form as the storage authority in
  \<open>SaRpc\<close>. A certificate or a signing request is sent as its bytes and parsed again by the server;
  the parsers are parameters.
\<close>

section \<open>Interfaces\<close>

text \<open>An \<^verbatim>\<open>x509.Certificate\<close> has the bytes it was parsed from next to its fields.\<close>

type_synonym x509_Certificate = "bytes \<times> x509Cert"

record core_CertificateRequest =
  CSR :: CertificateRequest
  Bytes :: bytes

record parsers =
  p_CSR :: "bytes \<Rightarrow> string + CertificateRequest"
  p_Cert :: "bytes \<Rightarrow> string + x509Cert"

record 's RegistrationAuthority =
  rai_NewRegistration :: "Registration \<Rightarrow> ('s, Registration) call"
  rai_NewAuthorization :: "Authorization \<Rightarrow> int \<Rightarrow> ('s, Authorization) call"
  rai_NewCertificate :: "core_CertificateRequest \<Rightarrow> int \<Rightarrow> ('s, Certificate) call"
  rai_UpdateRegistration :: "Registration \<Rightarrow> Registration \<Rightarrow> ('s, Registration) call"
  rai_UpdateAuthorization :: "Authorization \<Rightarrow> int \<Rightarrow> Challenge \<Rightarrow> ('s, Authorization) call"
  rai_RevokeCertificateWithReg :: "x509_Certificate \<Rightarrow> int \<Rightarrow> int \<Rightarrow> ('s, unit) call"
  rai_DeactivateRegistration :: "Registration \<Rightarrow> ('s, unit) call"
  rai_DeactivateAuthorization :: "Authorization \<Rightarrow> ('s, unit) call"
  rai_AdministrativelyRevokeCertificate :: "x509_Certificate \<Rightarrow> int \<Rightarrow> string \<Rightarrow> ('s, unit) call"

record 's CertificateAuthority =
  cai_IssueCertificate :: "CertificateRequest \<Rightarrow> int \<Rightarrow> ('s, Certificate) call"
  cai_GenerateOCSP :: "OCSPSigningRequest \<Rightarrow> ('s, bytes) call"

record 's Publisher =
  pui_SubmitToCT :: "bytes \<Rightarrow> ('s, unit) call"
  pui_SubmitToSingleCT :: "string \<Rightarrow> string \<Rightarrow> bytes \<Rightarrow> ('s, unit) call"

text \<open>
  \<^verbatim>\<open>PerformValidation\<close> returns records together with an error. An error is a Go interface: besides nil
  and an error it can hold a nil pointer to a problem document, which is not the nil error.
\<close>

datatype error_value = NilError | NilProblem | AnError goerror

type_synonym ('s, 'r) va_method = "'s \<Rightarrow> ('s \<times> 'r \<times> error_value) option"

record 's ValidationAuthority =
  vai_PerformValidation ::
    "string \<Rightarrow> Challenge \<Rightarrow> Authorization \<Rightarrow> ('s, ValidationRecord list) va_method"

section \<open>Messages and methods\<close>

record NewAuthorizationRequestPB =
  nar_Authz :: "AuthorizationPB option"
  nar_RegID :: "int option"

record NewCertificateRequestPB =
  ncr_Csr :: "bytes option"
  ncr_RegID :: "int option"

record UpdateRegistrationRequestPB =
  urr_Base :: "RegistrationPB option"
  urr_Update :: "RegistrationPB option"

record UpdateAuthorizationRequestPB =
  uar_Authz :: "AuthorizationPB option"
  uar_ChallengeIndex :: "int option"
  uar_Response :: "ChallengePB option"

record RevokeCertificateWithRegRequestPB =
  rcr_Cert :: "bytes option"
  rcr_Code :: "int option"
  rcr_RegID :: "int option"

record AdministrativelyRevokeCertificateRequestPB =
  arc_Cert :: "bytes option"
  arc_Code :: "int option"
  arc_AdminName :: "string option"

record IssueCertificateRequestPB =
  icr_Csr :: "bytes option"
  icr_RegistrationID :: "int option"

record GenerateOCSPRequestPB =
  gor_CertDER :: "bytes option"
  gor_Status :: "string option"
  gor_Reason :: "int option"
  gor_RevokedAt :: "int option"

record OCSPResponsePB =
  orp_Response :: "bytes option"

record PublisherRequestPB =
  pur_Der :: "bytes option"
  pur_LogURL :: "string option"
  pur_LogPublicKey :: "string option"

record 's rapb =
  rpc_NewRegistration :: "(RegistrationPB, 's, RegistrationPB) handler_fn"
  rpc_NewAuthorization :: "(NewAuthorizationRequestPB, 's, AuthorizationPB) handler_fn"
  rpc_NewCertificate :: "(NewCertificateRequestPB, 's, CertificatePB) handler_fn"
  rpc_UpdateRegistration :: "(UpdateRegistrationRequestPB, 's, RegistrationPB) handler_fn"
  rpc_UpdateAuthorization :: "(UpdateAuthorizationRequestPB, 's, AuthorizationPB) handler_fn"
  rpc_RevokeCertificateWithReg :: "(RevokeCertificateWithRegRequestPB, 's, unit) handler_fn"
  rpc_DeactivateRegistration :: "(RegistrationPB, 's, unit) handler_fn"
  rpc_DeactivateAuthorization :: "(AuthorizationPB, 's, unit) handler_fn"
  rpc_AdministrativelyRevokeCertificate :: "(AdministrativelyRevokeCertificateRequestPB, 's, unit) handler_fn"

type_synonym 's caPB = "(IssueCertificateRequestPB, 's, CertificatePB) handler_fn"

type_synonym 's ocspPB = "(GenerateOCSPRequestPB, 's, OCSPResponsePB) handler_fn"

type_synonym 's vaPB = "(PerformValidationRequestPB, 's, ValidationResultPB) handler_fn"

record 's pubPB =
  rpc_SubmitToCT :: "(PublisherRequestPB, 's, unit) handler_fn"
  rpc_SubmitToSingleCT :: "(PublisherRequestPB, 's, unit) handler_fn"

section \<open>The registration authority\<close>

definition rac_NewRegistration :: "wire \<Rightarrow> 's rapb \<Rightarrow> Registration \<Rightarrow> ('s, Registration) call" where
  "rac_NewRegistration W inner reg =
     then_call (registration_msg W reg) (\<lambda>req.
       then_call (rpc_NewRegistration inner req) (registration_of W errIncompleteResponse))"

definition rac_NewAuthorization :: "wire \<Rightarrow> 's rapb \<Rightarrow> Authorization \<Rightarrow> int \<Rightarrow> ('s, Authorization) call" where
  "rac_NewAuthorization W inner authz regID =
     then_call (authz_msg W authz) (\<lambda>req.
       then_call (rpc_NewAuthorization inner (Some \<lparr>nar_Authz = req, nar_RegID = Some regID\<rparr>))
         (authz_of W errIncompleteResponse))"

definition rac_NewCertificate :: "'s rapb \<Rightarrow> core_CertificateRequest \<Rightarrow> int \<Rightarrow> ('s, Certificate) call" where
  "rac_NewCertificate inner csr regID =
     then_call (rpc_NewCertificate inner (Some \<lparr>ncr_Csr = Some (Bytes csr), ncr_RegID = Some regID\<rparr>))
       (cert_of errIncompleteResponse)"

definition rac_UpdateRegistration ::
  "wire \<Rightarrow> 's rapb \<Rightarrow> Registration \<Rightarrow> Registration \<Rightarrow> ('s, Registration) call" where
  "rac_UpdateRegistration W inner base updates =
     then_call (registration_msg W base) (\<lambda>basePB.
       then_call (registration_msg W updates) (\<lambda>updatePB.
         then_call (rpc_UpdateRegistration inner (Some \<lparr>urr_Base = basePB, urr_Update = updatePB\<rparr>))
           (registration_of W errIncompleteResponse)))"

definition rac_UpdateAuthorization ::
  "wire \<Rightarrow> 's rapb \<Rightarrow> Authorization \<Rightarrow> int \<Rightarrow> Challenge \<Rightarrow> ('s, Authorization) call" where
  "rac_UpdateAuthorization W inner authz challengeIndex chall =
     then_call (authz_msg W authz) (\<lambda>authzPB.
       then_call (of_result (challengeToPB (w_fmtIP W) chall)) (\<lambda>challPB.
         then_call (rpc_UpdateAuthorization inner
             (Some \<lparr>uar_Authz = authzPB, uar_ChallengeIndex = Some challengeIndex, uar_Response = challPB\<rparr>))
           (authz_of W errIncompleteResponse)))"

definition rac_RevokeCertificateWithReg ::
  "'s rapb \<Rightarrow> x509_Certificate \<Rightarrow> int \<Rightarrow> int \<Rightarrow> ('s, unit) call" where
  "rac_RevokeCertificateWithReg inner cert code regID =
     done_call (rpc_RevokeCertificateWithReg inner
       (Some \<lparr>rcr_Cert = Some (fst cert), rcr_Code = Some code, rcr_RegID = Some regID\<rparr>))"

definition rac_DeactivateRegistration :: "wire \<Rightarrow> 's rapb \<Rightarrow> Registration \<Rightarrow> ('s, unit) call" where
  "rac_DeactivateRegistration W inner reg =
     then_call (registration_msg W reg) (\<lambda>regPB. done_call (rpc_DeactivateRegistration inner regPB))"

definition rac_DeactivateAuthorization :: "wire \<Rightarrow> 's rapb \<Rightarrow> Authorization \<Rightarrow> ('s, unit) call" where
  "rac_DeactivateAuthorization W inner auth =
     then_call (authz_msg W auth) (\<lambda>authzPB. done_call (rpc_DeactivateAuthorization inner authzPB))"

definition rac_AdministrativelyRevokeCertificate ::
  "'s rapb \<Rightarrow> x509_Certificate \<Rightarrow> int \<Rightarrow> string \<Rightarrow> ('s, unit) call" where
  "rac_AdministrativelyRevokeCertificate inner cert code adminName =
     done_call (rpc_AdministrativelyRevokeCertificate inner
       (Some \<lparr>arc_Cert = Some (fst cert), arc_Code = Some code, arc_AdminName = Some adminName\<rparr>))"

definition RegistrationAuthorityClientWrapper :: "wire \<Rightarrow> 's rapb \<Rightarrow> 's RegistrationAuthority" where
  "RegistrationAuthorityClientWrapper W inner =
     \<lparr>rai_NewRegistration = rac_NewRegistration W inner,
      rai_NewAuthorization = rac_NewAuthorization W inner,
      rai_NewCertificate = rac_NewCertificate inner,
      rai_UpdateRegistration = rac_UpdateRegistration W inner,
      rai_UpdateAuthorization = rac_UpdateAuthorization W inner,
      rai_RevokeCertificateWithReg = rac_RevokeCertificateWithReg inner,
      rai_DeactivateRegistration = rac_DeactivateRegistration W inner,
      rai_DeactivateAuthorization = rac_DeactivateAuthorization W inner,
      rai_AdministrativelyRevokeCertificate = rac_AdministrativelyRevokeCertificate inner\<rparr>"

text \<open>
  The server. The messages inside a message are checked by functions that dereference them, so their
  absence is a panic and not the error for an incomplete request.
\<close>

definition ras_NewRegistration :: "wire \<Rightarrow> 's RegistrationAuthority \<Rightarrow> (RegistrationPB, 's, RegistrationPB) handler_fn" where
  "ras_NewRegistration W inner request =
     then_call (registration_of W errIncompleteRequest request) (\<lambda>reg.
       then_call (rai_NewRegistration inner reg) (registration_msg W))"

definition ras_NewAuthorization ::
  "wire \<Rightarrow> 's RegistrationAuthority \<Rightarrow> (NewAuthorizationRequestPB, 's, AuthorizationPB) handler_fn" where
  "ras_NewAuthorization W inner request =
     (case request of
        None \<Rightarrow> fail_call errIncompleteRequest
      | Some r \<Rightarrow>
          then_call (deref (nar_Authz r)) (\<lambda>pb.
            if \<not> authorizationValid pb then fail_call errIncompleteRequest
            else
              (case nar_RegID r of
                 None \<Rightarrow> fail_call errIncompleteRequest
               | Some regID \<Rightarrow>
                   then_call (authz_of W errIncompleteRequest (Some pb)) (\<lambda>authz.
                     then_call (rai_NewAuthorization inner authz regID) (authz_msg W)))))"

definition ras_NewCertificate ::
  "parsers \<Rightarrow> 's RegistrationAuthority \<Rightarrow> (NewCertificateRequestPB, 's, CertificatePB) handler_fn" where
  "ras_NewCertificate P inner request =
     then_call (field_of errIncompleteRequest (\<lambda>r.
         case (ncr_Csr r, ncr_RegID r) of (Some c, Some i) \<Rightarrow> Some (c, i) | _ \<Rightarrow> None) request) (\<lambda>(b, regID).
       case p_CSR P b of
         Inl err \<Rightarrow> fail_call (OtherError err)
       | Inr csr \<Rightarrow>
           then_call (rai_NewCertificate inner \<lparr>CSR = csr, Bytes = b\<rparr> regID) (\<lambda>cert. ret_call (Some (certToPB cert))))"

definition ras_UpdateRegistration ::
  "wire \<Rightarrow> 's RegistrationAuthority \<Rightarrow> (UpdateRegistrationRequestPB, 's, RegistrationPB) handler_fn" where
  "ras_UpdateRegistration W inner request =
     (case request of
        None \<Rightarrow> fail_call errIncompleteRequest
      | Some r \<Rightarrow>
          then_call (deref (urr_Base r)) (\<lambda>basePB.
            if \<not> registrationValid basePB then fail_call errIncompleteRequest
            else
              then_call (deref (urr_Update r)) (\<lambda>updatePB.
                if \<not> registrationValid updatePB then fail_call errIncompleteRequest
                else
                  then_call (registration_of W errIncompleteRequest (Some basePB)) (\<lambda>base.
                    then_call (registration_of W errIncompleteRequest (Some updatePB)) (\<lambda>update.
                      then_call (rai_UpdateRegistration inner base update) (registration_msg W))))))"

definition ras_UpdateAuthorization ::
  "wire \<Rightarrow> 's RegistrationAuthority \<Rightarrow> (UpdateAuthorizationRequestPB, 's, AuthorizationPB) handler_fn" where
  "ras_UpdateAuthorization W inner request =
     (case request of
        None \<Rightarrow> fail_call errIncompleteRequest
      | Some r \<Rightarrow>
          then_call (deref (uar_Authz r)) (\<lambda>pb.
            if \<not> authorizationValid pb then fail_call errIncompleteRequest
            else
              (case (uar_ChallengeIndex r, uar_Response r) of
                 (Some index, Some response) \<Rightarrow>
                   then_call (authz_of W errIncompleteRequest (Some pb)) (\<lambda>authz.
                     then_call (of_result (pbToChallenge (w_parseIP W) (Some response))) (\<lambda>chall.
                       then_call (rai_UpdateAuthorization inner authz index chall) (authz_msg W)))
               | _ \<Rightarrow> fail_call errIncompleteRequest)))"

definition ras_RevokeCertificateWithReg ::
  "parsers \<Rightarrow> 's RegistrationAuthority \<Rightarrow> (RevokeCertificateWithRegRequestPB, 's, unit) handler_fn" where
  "ras_RevokeCertificateWithReg P inner request =
     then_call (field_of errIncompleteRequest (\<lambda>r.
         case (rcr_Cert r, rcr_Code r, rcr_RegID r) of (Some c, Some code, Some i) \<Rightarrow> Some (c, code, i) | _ \<Rightarrow> None)
       request) (\<lambda>(b, code, regID).
       case p_Cert P b of
         Inl err \<Rightarrow> fail_call (OtherError err)
       | Inr cert \<Rightarrow> then_call (rai_RevokeCertificateWithReg inner (b, cert) code regID) empty_msg)"

definition ras_DeactivateRegistration :: "wire \<Rightarrow> 's RegistrationAuthority \<Rightarrow> (RegistrationPB, 's, unit) handler_fn" where
  "ras_DeactivateRegistration W inner request =
     then_call (registration_of W errIncompleteRequest request) (\<lambda>reg.
       then_call (rai_DeactivateRegistration inner reg) empty_msg)"

definition ras_DeactivateAuthorization :: "wire \<Rightarrow> 's RegistrationAuthority \<Rightarrow> (AuthorizationPB, 's, unit) handler_fn" where
  "ras_DeactivateAuthorization W inner request =
     then_call (authz_of W errIncompleteRequest request) (\<lambda>authz.
       then_call (rai_DeactivateAuthorization inner authz) empty_msg)"

definition ras_AdministrativelyRevokeCertificate ::
  "parsers \<Rightarrow> 's RegistrationAuthority \<Rightarrow> (AdministrativelyRevokeCertificateRequestPB, 's, unit) handler_fn" where
  "ras_AdministrativelyRevokeCertificate P inner request =
     then_call (field_of errIncompleteRequest (\<lambda>r.
         case (arc_Cert r, arc_Code r, arc_AdminName r) of (Some c, Some code, Some n) \<Rightarrow> Some (c, code, n) | _ \<Rightarrow> None)
       request) (\<lambda>(b, code, adminName).
       case p_Cert P b of
         Inl err \<Rightarrow> fail_call (OtherError err)
       | Inr cert \<Rightarrow> then_call (rai_AdministrativelyRevokeCertificate inner (b, cert) code adminName) empty_msg)"

definition RegistrationAuthorityServerWrapper :: "wire \<Rightarrow> parsers \<Rightarrow> 's RegistrationAuthority \<Rightarrow> 's rapb" where
  "RegistrationAuthorityServerWrapper W P inner =
     \<lparr>rpc_NewRegistration = ras_NewRegistration W inner,
      rpc_NewAuthorization = ras_NewAuthorization W inner,
      rpc_NewCertificate = ras_NewCertificate P inner,
      rpc_UpdateRegistration = ras_UpdateRegistration W inner,
      rpc_UpdateAuthorization = ras_UpdateAuthorization W inner,
      rpc_RevokeCertificateWithReg = ras_RevokeCertificateWithReg P inner,
      rpc_DeactivateRegistration = ras_DeactivateRegistration W inner,
      rpc_DeactivateAuthorization = ras_DeactivateAuthorization W inner,
      rpc_AdministrativelyRevokeCertificate = ras_AdministrativelyRevokeCertificate P inner\<rparr>"

definition ra_connection :: "wire \<Rightarrow> delivery \<Rightarrow> 's rapb \<Rightarrow> 's rapb" where
  "ra_connection W d srv =
     \<lparr>rpc_NewRegistration = rpc W d (rpc_NewRegistration srv),
      rpc_NewAuthorization = rpc W d (rpc_NewAuthorization srv),
      rpc_NewCertificate = rpc W d (rpc_NewCertificate srv),
      rpc_UpdateRegistration = rpc W d (rpc_UpdateRegistration srv),
      rpc_UpdateAuthorization = rpc W d (rpc_UpdateAuthorization srv),
      rpc_RevokeCertificateWithReg = rpc W d (rpc_RevokeCertificateWithReg srv),
      rpc_DeactivateRegistration = rpc W d (rpc_DeactivateRegistration srv),
      rpc_DeactivateAuthorization = rpc W d (rpc_DeactivateAuthorization srv),
      rpc_AdministrativelyRevokeCertificate = rpc W d (rpc_AdministrativelyRevokeCertificate srv)\<rparr>"

definition remote_ra :: "wire \<Rightarrow> parsers \<Rightarrow> delivery \<Rightarrow> 's RegistrationAuthority \<Rightarrow> 's RegistrationAuthority" where
  "remote_ra W P d RA =
     RegistrationAuthorityClientWrapper W (ra_connection W d (RegistrationAuthorityServerWrapper W P RA))"

text \<open>
  The registration authority of this development as the interface, in an environment \<open>R\<close> whose storage
  authority is \<open>E\<close> on the current database. \<^verbatim>\<open>UpdateAuthorization\<close> returns the error next to an
  authorization that the server does not send.
\<close>

definition left_db :: "database \<Rightarrow> database option \<Rightarrow> database" where
  "left_db db written = (case written of None \<Rightarrow> db | Some db' \<Rightarrow> db')"

definition of_error :: "goerror option \<Rightarrow> 'a \<Rightarrow> goerror + 'a" where
  "of_error err x = (case err of None \<Rightarrow> Inr x | Some e \<Rightarrow> Inl e)"

definition ra_service ::
  "ra_env \<Rightarrow> sa_env \<Rightarrow> (string \<Rightarrow> bytes) \<Rightarrow> (nat \<Rightarrow> nat list) \<Rightarrow> (nat \<Rightarrow> nat list) \<Rightarrow> bytes list \<Rightarrow>
   (CertificateRequest \<Rightarrow> int \<Rightarrow> goerror + Certificate) \<Rightarrow> RegistrationAuthorityImpl \<Rightarrow>
   database RegistrationAuthority" where
  "ra_service R0 E rnd permA permB draws issue ra =
     (let R = (\<lambda>db. R0\<lparr>re_sa := \<lambda>_. (E, db)\<rparr>) in
      \<lparr>rai_NewRegistration = \<lambda>reg db.
         map_option (\<lambda>(r, w). (left_db db w, r)) (NewRegistration_ra (R db) ra reg),
       rai_NewAuthorization = \<lambda>az i db.
         map_option (\<lambda>(r, w). (left_db db w, r)) (NewAuthorization_ra (R db) rnd permA permB draws ra az i),
       rai_NewCertificate = \<lambda>csr i db. Some (db, snd (NewCertificate (R db) issue ra (CSR csr) i)),
       rai_UpdateRegistration = \<lambda>base upd db.
         (case UpdateRegistration_ra (R db) ra base upd of (r, w) \<Rightarrow> Some (left_db db w, r)),
       rai_UpdateAuthorization = \<lambda>az i ch db.
         map_option (\<lambda>((az', err), w, job). (left_db db w, of_error err az')) (UpdateAuthorization_ra (R db) ra az i ch),
       rai_RevokeCertificateWithReg = \<lambda>c code i db.
         (case RevokeCertificateWithReg E db (snd c) code i of (db', err, _) \<Rightarrow> Some (db', of_error err ())),
       rai_DeactivateRegistration = \<lambda>reg db.
         (case DeactivateRegistration_ra (R db) reg of (err, w) \<Rightarrow> Some (left_db db w, of_error err ())),
       rai_DeactivateAuthorization = \<lambda>az db.
         (case DeactivateAuthorization_ra (R db) az of (err, w) \<Rightarrow> Some (left_db db w, of_error err ())),
       rai_AdministrativelyRevokeCertificate = \<lambda>c code n db.
         (case AdministrativelyRevokeCertificate E db (snd c) code n of (db', err, _) \<Rightarrow> Some (db', of_error err ()))\<rparr>)"

section \<open>The certificate authority\<close>

text \<open>The client has a connection for each of the two services, either of which may be absent.\<close>

definition cac_IssueCertificate :: "'s caPB option \<Rightarrow> CertificateRequest \<Rightarrow> int \<Rightarrow> ('s, Certificate) call" where
  "cac_IssueCertificate inner csr regID =
     (case inner of
        None \<Rightarrow> fail_call (OtherError ''this CA client does not support issuing certificates'')
      | Some issue \<Rightarrow>
          then_call (issue (Some \<lparr>icr_Csr = Some (csr_Raw csr), icr_RegistrationID = Some regID\<rparr>)) (\<lambda>res.
            then_call (deref res) (\<lambda>pb. deref (pbToCert pb))))"

definition cac_GenerateOCSP :: "'s ocspPB option \<Rightarrow> OCSPSigningRequest \<Rightarrow> ('s, bytes) call" where
  "cac_GenerateOCSP innerOCSP ocspReq =
     (case innerOCSP of
        None \<Rightarrow> fail_call (OtherError ''this CA client does not support generating OCSP'')
      | Some generate \<Rightarrow>
          then_call (generate (Some \<lparr>gor_CertDER = Some (CertDER ocspReq), gor_Status = Some (ocsp_Status ocspReq),
              gor_Reason = Some (int32 (Reason ocspReq)), gor_RevokedAt = Some (UnixNano (RevokedAt ocspReq))\<rparr>)) (\<lambda>res.
            then_call (deref res) (\<lambda>pb. ret_call (pb_bytes (orp_Response pb)))))"

definition CertificateAuthorityClientWrapper :: "'s caPB option \<Rightarrow> 's ocspPB option \<Rightarrow> 's CertificateAuthority" where
  "CertificateAuthorityClientWrapper inner innerOCSP =
     \<lparr>cai_IssueCertificate = cac_IssueCertificate inner, cai_GenerateOCSP = cac_GenerateOCSP innerOCSP\<rparr>"

definition cas_IssueCertificate ::
  "parsers \<Rightarrow> 's CertificateAuthority \<Rightarrow> (IssueCertificateRequestPB, 's, CertificatePB) handler_fn" where
  "cas_IssueCertificate P inner request =
     then_call (deref request) (\<lambda>r.
       case p_CSR P (pb_bytes (icr_Csr r)) of
         Inl err \<Rightarrow> fail_call (OtherError err)
       | Inr csr \<Rightarrow>
           then_call (deref (icr_RegistrationID r)) (\<lambda>regID.
             then_call (cai_IssueCertificate inner csr regID) (\<lambda>cert. ret_call (Some (certToPB cert)))))"

definition cas_GenerateOCSP ::
  "'s CertificateAuthority \<Rightarrow> (GenerateOCSPRequestPB, 's, OCSPResponsePB) handler_fn" where
  "cas_GenerateOCSP inner request =
     then_call (deref request) (\<lambda>r.
       then_call (deref (gor_Status r)) (\<lambda>st.
         then_call (deref (gor_Reason r)) (\<lambda>reason.
           then_call (deref (gor_RevokedAt r)) (\<lambda>revokedAt.
             then_call (cai_GenerateOCSP inner
                 \<lparr>CertDER = pb_bytes (gor_CertDER r), ocsp_Status = st, Reason = reason, RevokedAt = revokedAt\<rparr>)
               (\<lambda>res. ret_call (Some \<lparr>orp_Response = Some res\<rparr>))))))"

definition remote_ca :: "wire \<Rightarrow> parsers \<Rightarrow> delivery \<Rightarrow> 's CertificateAuthority \<Rightarrow> 's CertificateAuthority" where
  "remote_ca W P d CA =
     CertificateAuthorityClientWrapper (Some (rpc W d (cas_IssueCertificate P CA))) (Some (rpc W d (cas_GenerateOCSP CA)))"

section \<open>The validation authority\<close>

definition vas_PerformValidation ::
  "wire \<Rightarrow> 's ValidationAuthority \<Rightarrow> (PerformValidationRequestPB, 's, ValidationResultPB) handler_fn" where
  "vas_PerformValidation W impl req s =
     (case performValidationReqToArgs (w_parseIP W) req of
        Inl err \<Rightarrow> Some (s, Inl err)
      | Inr (domain, challenge, authz) \<Rightarrow>
          (case vai_PerformValidation impl domain challenge authz s of
             None \<Rightarrow> None
           | Some (s', records, err) \<Rightarrow>
               Some (s', case err of
                    AnError (ProblemErr prob) \<Rightarrow> validationResultToPB (w_fmtIP W) (records, Some prob)
                  | AnError e \<Rightarrow> Inl e
                  | _ \<Rightarrow> validationResultToPB (w_fmtIP W) (records, None))))"

definition vac_PerformValidation ::
  "wire \<Rightarrow> 's vaPB \<Rightarrow> string \<Rightarrow> Challenge \<Rightarrow> Authorization \<Rightarrow> ('s, ValidationRecord list) va_method" where
  "vac_PerformValidation W gc domain challenge authz s =
     (case argsToPerformValidationRequest (w_fmtIP W) (domain, challenge, authz) of
        Inl err \<Rightarrow> Some (s, [], AnError err)
      | Inr req \<Rightarrow>
          (case gc req s of
             None \<Rightarrow> None
           | Some (s', Inl err) \<Rightarrow> Some (s', [], AnError err)
           | Some (s', Inr gRecords) \<Rightarrow>
               (case pbToValidationResult (w_parseIP W) gRecords of
                  Inl err \<Rightarrow> Some (s', [], AnError err)
                | Inr (records, prob) \<Rightarrow>
                    Some (s', records, case prob of None \<Rightarrow> NilProblem | Some p \<Rightarrow> AnError (ProblemErr p)))))"

definition remote_va :: "wire \<Rightarrow> delivery \<Rightarrow> 's ValidationAuthority \<Rightarrow> 's ValidationAuthority" where
  "remote_va W d VA = \<lparr>vai_PerformValidation = vac_PerformValidation W (rpc W d (vas_PerformValidation W VA))\<rparr>"

text \<open>
  The error that the registration authority sees in the interface value it is given: its type assertion
  comes before its comparison with nil, so a nil problem counts as no error.
\<close>

definition ra_error :: "error_value \<Rightarrow> goerror option" where
  "ra_error err = (case err of AnError e \<Rightarrow> Some e | NilProblem \<Rightarrow> None | NilError \<Rightarrow> None)"

text \<open>The validation authority of this development, whose state is the log of its events.\<close>

definition va_service :: "va_env \<Rightarrow> ValidationAuthorityImpl \<Rightarrow> verificationRequestEvent list ValidationAuthority" where
  "va_service E va =
     \<lparr>vai_PerformValidation = \<lambda>domain challenge authz log.
        (case PerformValidation E va domain challenge authz of
           (records, err, event) \<Rightarrow>
             Some (event # log, records, case err of None \<Rightarrow> NilError | Some e \<Rightarrow> AnError e))\<rparr>"

section \<open>The publisher\<close>

definition puc_SubmitToCT :: "'s pubPB \<Rightarrow> bytes \<Rightarrow> ('s, unit) call" where
  "puc_SubmitToCT inner der =
     done_call (rpc_SubmitToCT inner (Some \<lparr>pur_Der = Some der, pur_LogURL = None, pur_LogPublicKey = None\<rparr>))"

definition puc_SubmitToSingleCT :: "'s pubPB \<Rightarrow> string \<Rightarrow> string \<Rightarrow> bytes \<Rightarrow> ('s, unit) call" where
  "puc_SubmitToSingleCT inner logURL logPublicKey der =
     done_call (rpc_SubmitToSingleCT inner
       (Some \<lparr>pur_Der = Some der, pur_LogURL = Some logURL, pur_LogPublicKey = Some logPublicKey\<rparr>))"

definition PublisherClientWrapper :: "'s pubPB \<Rightarrow> 's Publisher" where
  "PublisherClientWrapper inner =
     \<lparr>pui_SubmitToCT = puc_SubmitToCT inner, pui_SubmitToSingleCT = puc_SubmitToSingleCT inner\<rparr>"

definition pus_SubmitToCT :: "'s Publisher \<Rightarrow> (PublisherRequestPB, 's, unit) handler_fn" where
  "pus_SubmitToCT inner request =
     then_call (field_of (OtherError ''incomplete SubmitToCT gRPC message'') pur_Der request) (\<lambda>der.
       then_call (pui_SubmitToCT inner der) empty_msg)"

definition pus_SubmitToSingleCT :: "'s Publisher \<Rightarrow> (PublisherRequestPB, 's, unit) handler_fn" where
  "pus_SubmitToSingleCT inner request =
     then_call (field_of (OtherError ''incomplete SubmitToSingleCT gRPC message'') (\<lambda>r.
         case (pur_Der r, pur_LogURL r, pur_LogPublicKey r) of (Some d, Some u, Some k) \<Rightarrow> Some (d, u, k) | _ \<Rightarrow> None)
       request) (\<lambda>(der, logURL, logPublicKey).
       then_call (pui_SubmitToSingleCT inner logURL logPublicKey der) empty_msg)"

definition PublisherServerWrapper :: "'s Publisher \<Rightarrow> 's pubPB" where
  "PublisherServerWrapper inner =
     \<lparr>rpc_SubmitToCT = pus_SubmitToCT inner, rpc_SubmitToSingleCT = pus_SubmitToSingleCT inner\<rparr>"

definition pub_connection :: "wire \<Rightarrow> delivery \<Rightarrow> 's pubPB \<Rightarrow> 's pubPB" where
  "pub_connection W d srv =
     \<lparr>rpc_SubmitToCT = rpc W d (rpc_SubmitToCT srv), rpc_SubmitToSingleCT = rpc W d (rpc_SubmitToSingleCT srv)\<rparr>"

definition remote_publisher :: "wire \<Rightarrow> delivery \<Rightarrow> 's Publisher \<Rightarrow> 's Publisher" where
  "remote_publisher W d pub = PublisherClientWrapper (pub_connection W d (PublisherServerWrapper pub))"

section \<open>What the clients see\<close>

text \<open>The validation authority: the registration authority reads the same records and the same problem.\<close>

lemma pb_challenge_args:
  assumes "ip_text_laws (w_fmtIP W) (w_parseIP W)" "challenge_pb challenge"
  shows "\<exists>req. argsToPerformValidationRequest (w_fmtIP W) (domain, challenge, authz) = Inr req \<and>
     performValidationReqToArgs (w_parseIP W) req =
       Inr (domain, challenge, zero_authz\<lparr>az_ID := az_ID authz, RegistrationID := RegistrationID authz\<rparr>)"
proof -
  obtain p where "challengeToPB (w_fmtIP W) challenge = Inr p" "pbToChallenge (w_parseIP W) p = Inr challenge"
    using challenge_roundtrip [OF assms] by blast
  then show ?thesis
    by (simp add: argsToPerformValidationRequest_def performValidationReqToArgs_def authzMetaToPB_def pbToAuthzMeta_def)
qed

lemma pb_validation_result:
  assumes "ip_text_laws (w_fmtIP W) (w_parseIP W)" "list_all record_pb records" "prob_pb prob"
  shows "\<exists>msg. validationResultToPB (w_fmtIP W) (records, prob) = Inr msg \<and>
     pbToValidationResult (w_parseIP W) msg = Inr (records, prob)"
proof -
  obtain ps where "traverse (validationRecordToPB (w_fmtIP W)) records = Inr ps"
    "traverse (pbToValidationRecord (w_parseIP W)) ps = Inr records"
    using records_roundtrip [OF assms(1,2)] by blast
  with problem_roundtrip [OF assms(3)] show ?thesis by (simp add: validationResultToPB_def pbToValidationResult_def)
qed

definition challenge_sendable_result :: "ValidationRecord list \<Rightarrow> goerror option \<Rightarrow> bool" where
  "challenge_sendable_result records err =
     (list_all record_pb records \<and>
      (case err of None \<Rightarrow> True | Some (ProblemErr p) \<Rightarrow> prob_pb (Some p) | Some e \<Rightarrow> False))"

lemma remote_validation:
  assumes laws: "ip_text_laws (w_fmtIP W) (w_parseIP W)" "challenge_pb challenge"
    and pv: "PerformValidation E va domain challenge authz = (records, err, event)"
    and res: "challenge_sendable_result records err"
  shows "vai_PerformValidation (remote_va W Delivered (va_service E va)) domain challenge authz log =
     Some (event\<lparr>ev_Hostname := []\<rparr> # log, records, case err of None \<Rightarrow> NilProblem | Some e \<Rightarrow> AnError e)"
proof -
  let ?meta = "zero_authz\<lparr>az_ID := az_ID authz, RegistrationID := RegistrationID authz\<rparr>"
  obtain req where req: "argsToPerformValidationRequest (w_fmtIP W) (domain, challenge, authz) = Inr req"
    "performValidationReqToArgs (w_parseIP W) req = Inr (domain, challenge, ?meta)"
    using pb_challenge_args [OF laws] by blast
  have meta: "PerformValidation E va domain challenge ?meta = (records, err, event\<lparr>ev_Hostname := []\<rparr>)"
    using pv by (auto simp: PerformValidation_def Let_def zero_authz_def split: prod.splits)
  define prob where "prob = (case err of Some (ProblemErr p) \<Rightarrow> Some p | _ \<Rightarrow> None)"
  with res have prob: "err = map_option ProblemErr prob" "prob_pb prob" "list_all record_pb records"
    by (auto simp: challenge_sendable_result_def prob_pb_def split: option.splits goerror.splits)
  obtain msg where msg: "validationResultToPB (w_fmtIP W) (records, prob) = Inr msg"
    "pbToValidationResult (w_parseIP W) msg = Inr (records, prob)"
    using pb_validation_result [OF laws(1) prob(3,2)] by blast
  have "vas_PerformValidation W (va_service E va) req log = Some (event\<lparr>ev_Hostname := []\<rparr> # log, Inr msg)"
    using msg(1) prob(1) by (cases prob) (simp_all add: vas_PerformValidation_def req va_service_def meta)
  then have "rpc W Delivered (vas_PerformValidation W (va_service E va)) req log =
      Some (event\<lparr>ev_Hostname := []\<rparr> # log, Inr msg)"
    by (simp add: rpc_outcome call_outcome_def)
  then show ?thesis
    using prob(1) by (cases prob) (simp_all add: remote_va_def vac_PerformValidation_def req msg)
qed

text \<open>The registration authority, certificate authority and publisher.\<close>

datatype ra_request =
    MNewRegistration Registration
  | MNewAuthorization Authorization int
  | MNewCertificate core_CertificateRequest int
  | MUpdateRegistration Registration Registration
  | MUpdateAuthorization Authorization int Challenge
  | MRevokeCertificateWithReg x509_Certificate int int
  | MDeactivateRegistration Registration
  | MDeactivateAuthorization Authorization
  | MAdministrativelyRevokeCertificate x509_Certificate int string

fun ra_invoke :: "'s RegistrationAuthority \<Rightarrow> ra_request \<Rightarrow> ('s, sa_answer) call" where
  "ra_invoke RA (MNewRegistration reg) = answer ARegistration (rai_NewRegistration RA reg)"
| "ra_invoke RA (MNewAuthorization az i) = answer AAuthorization (rai_NewAuthorization RA az i)"
| "ra_invoke RA (MNewCertificate csr i) = answer ACertificate (rai_NewCertificate RA csr i)"
| "ra_invoke RA (MUpdateRegistration base upd) = answer ARegistration (rai_UpdateRegistration RA base upd)"
| "ra_invoke RA (MUpdateAuthorization az i ch) = answer AAuthorization (rai_UpdateAuthorization RA az i ch)"
| "ra_invoke RA (MRevokeCertificateWithReg c code i) = answer AUnit (rai_RevokeCertificateWithReg RA c code i)"
| "ra_invoke RA (MDeactivateRegistration reg) = answer AUnit (rai_DeactivateRegistration RA reg)"
| "ra_invoke RA (MDeactivateAuthorization az) = answer AUnit (rai_DeactivateAuthorization RA az)"
| "ra_invoke RA (MAdministrativelyRevokeCertificate c code n) =
     answer AUnit (rai_AdministrativelyRevokeCertificate RA c code n)"

fun ra_sendable :: "wire \<Rightarrow> parsers \<Rightarrow> ra_request \<Rightarrow> bool" where
  "ra_sendable W P (MNewRegistration reg) = registration_sendable W reg"
| "ra_sendable W P (MNewAuthorization az i) = authz_sendable W az"
| "ra_sendable W P (MNewCertificate csr i) = (p_CSR P (Bytes csr) = Inr (CSR csr))"
| "ra_sendable W P (MUpdateRegistration base upd) = (registration_sendable W base \<and> registration_sendable W upd)"
| "ra_sendable W P (MUpdateAuthorization az i ch) = (authz_sendable W az \<and> challenge_pb ch)"
| "ra_sendable W P (MRevokeCertificateWithReg c code i) = (p_Cert P (fst c) = Inr (snd c))"
| "ra_sendable W P (MDeactivateRegistration reg) = registration_sendable W reg"
| "ra_sendable W P (MDeactivateAuthorization az) = authz_sendable W az"
| "ra_sendable W P (MAdministrativelyRevokeCertificate c code n) = (p_Cert P (fst c) = Inr (snd c))"

lemma registration_msg_valid:
  assumes "ip_text_laws (w_fmtIP W) (w_parseIP W)" "registration_sendable W reg"
  shows "\<exists>pb. registration_msg W reg = (ret_call (Some pb) :: ('a, RegistrationPB option) call) \<and> registrationValid pb \<and>
     registration_of W err (Some pb) = (ret_call reg :: ('b, Registration) call)"
proof -
  obtain key kb where k: "reg_Key reg = Some key" "w_marshalJWK W key = Inr kb" "w_unmarshalJWK W kb = Inr key"
    using assms(2) by (auto simp: registration_sendable_def split: option.splits sum.splits)
  obtain p where "registrationToPB (w_marshalJWK W) (w_fmtIP W) reg = Some (Inr p)" "registrationValid p"
    "pbToRegistration (w_unmarshalJWK W) (w_parseIP W) p = Some (Inr reg)"
    using registration_roundtrip [OF assms(1) _ k(1), of "w_marshalJWK W"] k assms(2)
    by (auto simp: registration_sendable_def)
  then show ?thesis by (intro exI [of _ p]) (simp add: registration_msg_def registration_of_def)
qed

lemma authz_msg_valid:
  assumes "ip_text_laws (w_fmtIP W) (w_parseIP W)" "authz_sendable W az"
  shows "\<exists>pb. authz_msg W az = (ret_call (Some pb) :: ('a, AuthorizationPB option) call) \<and> authorizationValid pb \<and>
     authz_of W err (Some pb) = (ret_call az :: ('b, Authorization) call)"
proof -
  obtain p where "authzToPB (w_marshalCombos W) (w_fmtIP W) az = Inr p" "authorizationValid p"
    "pbToAuthz (w_unmarshalCombos W) (w_parseIP W) p = Some (Inr az)"
    using authz_roundtrip [OF assms(1), of az] assms(2) by (auto simp: authz_sendable_def)
  then show ?thesis by (intro exI [of _ p]) (simp add: authz_msg_def authz_of_def)
qed

lemma ra_connection_fields:
  "rpc_NewRegistration (ra_connection W d srv) = rpc W d (rpc_NewRegistration srv)"
  "rpc_NewAuthorization (ra_connection W d srv) = rpc W d (rpc_NewAuthorization srv)"
  "rpc_NewCertificate (ra_connection W d srv) = rpc W d (rpc_NewCertificate srv)"
  "rpc_UpdateRegistration (ra_connection W d srv) = rpc W d (rpc_UpdateRegistration srv)"
  "rpc_UpdateAuthorization (ra_connection W d srv) = rpc W d (rpc_UpdateAuthorization srv)"
  "rpc_RevokeCertificateWithReg (ra_connection W d srv) = rpc W d (rpc_RevokeCertificateWithReg srv)"
  "rpc_DeactivateRegistration (ra_connection W d srv) = rpc W d (rpc_DeactivateRegistration srv)"
  "rpc_DeactivateAuthorization (ra_connection W d srv) = rpc W d (rpc_DeactivateAuthorization srv)"
  "rpc_AdministrativelyRevokeCertificate (ra_connection W d srv) = rpc W d (rpc_AdministrativelyRevokeCertificate srv)"
  by (simp_all add: ra_connection_def)

lemma ra_server_fields:
  "rpc_NewRegistration (RegistrationAuthorityServerWrapper W P RA) = ras_NewRegistration W RA"
  "rpc_NewAuthorization (RegistrationAuthorityServerWrapper W P RA) = ras_NewAuthorization W RA"
  "rpc_NewCertificate (RegistrationAuthorityServerWrapper W P RA) = ras_NewCertificate P RA"
  "rpc_UpdateRegistration (RegistrationAuthorityServerWrapper W P RA) = ras_UpdateRegistration W RA"
  "rpc_UpdateAuthorization (RegistrationAuthorityServerWrapper W P RA) = ras_UpdateAuthorization W RA"
  "rpc_RevokeCertificateWithReg (RegistrationAuthorityServerWrapper W P RA) = ras_RevokeCertificateWithReg P RA"
  "rpc_DeactivateRegistration (RegistrationAuthorityServerWrapper W P RA) = ras_DeactivateRegistration W RA"
  "rpc_DeactivateAuthorization (RegistrationAuthorityServerWrapper W P RA) = ras_DeactivateAuthorization W RA"
  "rpc_AdministrativelyRevokeCertificate (RegistrationAuthorityServerWrapper W P RA) =
     ras_AdministrativelyRevokeCertificate P RA"
  by (simp_all add: RegistrationAuthorityServerWrapper_def)

lemmas rac_defs = rac_NewRegistration_def rac_NewAuthorization_def rac_NewCertificate_def rac_UpdateRegistration_def
  rac_UpdateAuthorization_def rac_RevokeCertificateWithReg_def rac_DeactivateRegistration_def
  rac_DeactivateAuthorization_def rac_AdministrativelyRevokeCertificate_def done_call_def
  ra_connection_fields ra_server_fields

lemmas ras_served = ras_NewRegistration_def ras_NewAuthorization_def ras_NewCertificate_def ras_UpdateRegistration_def
  ras_UpdateAuthorization_def ras_RevokeCertificateWithReg_def ras_DeactivateRegistration_def
  ras_DeactivateAuthorization_def ras_AdministrativelyRevokeCertificate_def field_of_def fixed_msgs case_prod_unfold

definition served_ra :: "wire \<Rightarrow> parsers \<Rightarrow> delivery \<Rightarrow> 's RegistrationAuthority \<Rightarrow> 's rapb" where
  "served_ra W P d RA = ra_connection W d (RegistrationAuthorityServerWrapper W P RA)"

lemma remote_ra_registrations:
  assumes laws: "ip_text_laws (w_fmtIP W) (w_parseIP W)" and reg: "registration_sendable W reg"
  shows "(\<And>s' r. rai_NewRegistration RA reg s = Some (s', Inr r) \<Longrightarrow> registration_sendable W r) \<Longrightarrow>
      rac_NewRegistration W (served_ra W P d RA) reg s = call_outcome W d id s (rai_NewRegistration RA reg s)"
    and "registration_sendable W upd \<Longrightarrow>
      (\<And>s' r. rai_UpdateRegistration RA reg upd s = Some (s', Inr r) \<Longrightarrow> registration_sendable W r) \<Longrightarrow>
      rac_UpdateRegistration W (served_ra W P d RA) reg upd s = call_outcome W d id s (rai_UpdateRegistration RA reg upd s)"
    and "rac_DeactivateRegistration W (served_ra W P d RA) reg s = call_outcome W d id s (rai_DeactivateRegistration RA reg s)"
proof -
  obtain pb where m: "registration_msg W reg = (ret_call (Some pb) :: ('a, RegistrationPB option) call)" "registrationValid pb"
    "registration_of W errIncompleteRequest (Some pb) = (ret_call reg :: ('a, Registration) call)"
    using registration_msg_valid [OF laws reg] by blast
  show "rac_NewRegistration W (served_ra W P d RA) reg s = call_outcome W d id s (rai_NewRegistration RA reg s)"
    if ok: "\<And>s' r. rai_NewRegistration RA reg s = Some (s', Inr r) \<Longrightarrow> registration_sendable W r"
    using m
    by (simp add: served_ra_def rac_defs)
       (rule rpc_roundtrip_id [where m = "rai_NewRegistration RA reg" and enc = "registration_msg W",
          OF _ ok registration_msg_of [OF laws]], simp_all add: ras_served)
  show "rac_UpdateRegistration W (served_ra W P d RA) reg upd s = call_outcome W d id s (rai_UpdateRegistration RA reg upd s)"
    if upd: "registration_sendable W upd"
      and ok: "\<And>s' r. rai_UpdateRegistration RA reg upd s = Some (s', Inr r) \<Longrightarrow> registration_sendable W r"
  proof -
    obtain pb' where "registration_msg W upd = (ret_call (Some pb') :: ('a, RegistrationPB option) call)" "registrationValid pb'"
      "registration_of W errIncompleteRequest (Some pb') = (ret_call upd :: ('a, Registration) call)"
      using registration_msg_valid [OF laws upd] by blast
    with m show ?thesis
      by (simp add: served_ra_def rac_defs)
         (rule rpc_roundtrip_id [where m = "rai_UpdateRegistration RA reg upd" and enc = "registration_msg W",
            OF _ ok registration_msg_of [OF laws]], simp_all add: ras_served)
  qed
  show "rac_DeactivateRegistration W (served_ra W P d RA) reg s = call_outcome W d id s (rai_DeactivateRegistration RA reg s)"
    using m
    by (simp add: served_ra_def rac_defs)
       (rule rpc_roundtrip_msg [where m = "rai_DeactivateRegistration RA reg" and msg = "\<lambda>x. Some ()"],
        simp_all add: ras_served)
qed

lemma remote_ra_authorizations:
  assumes laws: "ip_text_laws (w_fmtIP W) (w_parseIP W)" and az: "authz_sendable W az"
  shows "(\<And>s' r. rai_NewAuthorization RA az i s = Some (s', Inr r) \<Longrightarrow> authz_sendable W r) \<Longrightarrow>
      rac_NewAuthorization W (served_ra W P d RA) az i s = call_outcome W d id s (rai_NewAuthorization RA az i s)"
    and "challenge_pb ch \<Longrightarrow>
      (\<And>s' r. rai_UpdateAuthorization RA az i ch s = Some (s', Inr r) \<Longrightarrow> authz_sendable W r) \<Longrightarrow>
      rac_UpdateAuthorization W (served_ra W P d RA) az i ch s = call_outcome W d id s (rai_UpdateAuthorization RA az i ch s)"
    and "rac_DeactivateAuthorization W (served_ra W P d RA) az s = call_outcome W d id s (rai_DeactivateAuthorization RA az s)"
proof -
  obtain pb where m: "authz_msg W az = (ret_call (Some pb) :: ('a, AuthorizationPB option) call)" "authorizationValid pb"
    "authz_of W errIncompleteRequest (Some pb) = (ret_call az :: ('a, Authorization) call)"
    using authz_msg_valid [OF laws az] by blast
  show "rac_NewAuthorization W (served_ra W P d RA) az i s = call_outcome W d id s (rai_NewAuthorization RA az i s)"
    if ok: "\<And>s' r. rai_NewAuthorization RA az i s = Some (s', Inr r) \<Longrightarrow> authz_sendable W r"
    using m
    by (simp add: served_ra_def rac_defs)
       (rule rpc_roundtrip_id [where m = "rai_NewAuthorization RA az i" and enc = "authz_msg W",
          OF _ ok authz_msg_ret [OF laws]], simp_all add: ras_served)
  show "rac_UpdateAuthorization W (served_ra W P d RA) az i ch s = call_outcome W d id s (rai_UpdateAuthorization RA az i ch s)"
    if ch: "challenge_pb ch" and ok: "\<And>s' r. rai_UpdateAuthorization RA az i ch s = Some (s', Inr r) \<Longrightarrow> authz_sendable W r"
  proof -
    obtain p where p: "challengeToPB (w_fmtIP W) ch = Inr p" "pbToChallenge (w_parseIP W) p = Inr ch"
      using challenge_roundtrip [OF laws ch] by blast
    then obtain c where "p = Some c" by (cases p) (simp_all add: pbToChallenge_def)
    with p m show ?thesis
      by (simp add: served_ra_def rac_defs)
         (rule rpc_roundtrip_id [where m = "rai_UpdateAuthorization RA az i ch" and enc = "authz_msg W",
            OF _ ok authz_msg_ret [OF laws]], simp_all add: ras_served)
  qed
  show "rac_DeactivateAuthorization W (served_ra W P d RA) az s = call_outcome W d id s (rai_DeactivateAuthorization RA az s)"
    using m
    by (simp add: served_ra_def rac_defs)
       (rule rpc_roundtrip_msg [where m = "rai_DeactivateAuthorization RA az" and msg = "\<lambda>x. Some ()"],
        simp_all add: ras_served)
qed

lemma remote_ra_certificates:
  shows "p_CSR P (Bytes csr) = Inr (CSR csr) \<Longrightarrow>
      (\<And>s' c. rai_NewCertificate RA csr i s = Some (s', Inr c) \<Longrightarrow> nanos (Issued c) \<and> nanos (cert_Expires c)) \<Longrightarrow>
      rac_NewCertificate (served_ra W P d RA) csr i s = call_outcome W d id s (rai_NewCertificate RA csr i s)"
    and "p_Cert P (fst c) = Inr (snd c) \<Longrightarrow>
      rac_RevokeCertificateWithReg (served_ra W P d RA) c code i s =
        call_outcome W d id s (rai_RevokeCertificateWithReg RA c code i s)"
    and "p_Cert P (fst c) = Inr (snd c) \<Longrightarrow>
      rac_AdministrativelyRevokeCertificate (served_ra W P d RA) c code n s =
        call_outcome W d id s (rai_AdministrativelyRevokeCertificate RA c code n s)"
proof -
  have csr: "\<lparr>CSR = CSR csr, Bytes = Bytes csr\<rparr> = csr" by simp
  assume "p_CSR P (Bytes csr) = Inr (CSR csr)"
    and ok: "\<And>s' c. rai_NewCertificate RA csr i s = Some (s', Inr c) \<Longrightarrow> nanos (Issued c) \<and> nanos (cert_Expires c)"
  then show "rac_NewCertificate (served_ra W P d RA) csr i s = call_outcome W d id s (rai_NewCertificate RA csr i s)"
    by (simp add: served_ra_def rac_defs)
       (rule rpc_roundtrip_msg [where m = "rai_NewCertificate RA csr i" and msg = "\<lambda>x. Some (certToPB x)"],
        auto simp: ras_served csr cert_msg_of)
next
  assume "p_Cert P (fst c) = Inr (snd c)"
  then show "rac_RevokeCertificateWithReg (served_ra W P d RA) c code i s =
        call_outcome W d id s (rai_RevokeCertificateWithReg RA c code i s)"
    by (simp add: served_ra_def rac_defs)
       (rule rpc_roundtrip_msg [where m = "rai_RevokeCertificateWithReg RA c code i" and msg = "\<lambda>x. Some ()"],
        simp_all add: ras_served)
next
  assume "p_Cert P (fst c) = Inr (snd c)"
  then show "rac_AdministrativelyRevokeCertificate (served_ra W P d RA) c code n s =
        call_outcome W d id s (rai_AdministrativelyRevokeCertificate RA c code n s)"
    by (simp add: served_ra_def rac_defs)
       (rule rpc_roundtrip_msg [where m = "rai_AdministrativelyRevokeCertificate RA c code n" and msg = "\<lambda>x. Some ()"],
        simp_all add: ras_served)
qed

lemma ra_sendable_result:
  assumes "\<forall>s' a. ra_invoke RA q s = Some (s', Inr a) \<longrightarrow> sendable_answer W a"
    and "ra_invoke RA q = answer A c" "c s = Some (s', Inr x)"
  shows "sendable_answer W (A x)"
  using assms by (simp add: answered)

lemma remote_ra_call:
  assumes laws: "ip_text_laws (w_fmtIP W) (w_parseIP W)" and send: "ra_sendable W P q"
    and ok: "\<forall>s' a. ra_invoke RA q s = Some (s', Inr a) \<longrightarrow> sendable_answer W a"
  shows "ra_invoke (remote_ra W P d RA) q s = call_outcome W d received_answer s (ra_invoke RA q s)"
proof -
  note fields = remote_ra_def RegistrationAuthorityClientWrapper_def served_ra_def [symmetric]
  show ?thesis
  proof (cases q)
    case (MNewRegistration reg)
    have "registration_sendable W x" if "rai_NewRegistration RA reg s = Some (s', Inr x)" for s' x
      using ra_sendable_result [where A = ARegistration and c = "rai_NewRegistration RA reg", OF ok _ that] MNewRegistration by simp
    then show ?thesis using send MNewRegistration
      by (simp add: fields) (rule outcome_answer, rule remote_ra_registrations(1) [OF laws], simp_all)
  next
    case (MNewAuthorization az i)
    have "authz_sendable W x" if "rai_NewAuthorization RA az i s = Some (s', Inr x)" for s' x
      using ra_sendable_result [where A = AAuthorization and c = "rai_NewAuthorization RA az i", OF ok _ that] MNewAuthorization by simp
    then show ?thesis using send MNewAuthorization
      by (simp add: fields) (rule outcome_answer, rule remote_ra_authorizations(1) [OF laws], simp_all)
  next
    case (MNewCertificate csr i)
    have "nanos (Issued x) \<and> nanos (cert_Expires x)" if "rai_NewCertificate RA csr i s = Some (s', Inr x)" for s' x
      using ra_sendable_result [where A = ACertificate and c = "rai_NewCertificate RA csr i", OF ok _ that] MNewCertificate by simp
    then show ?thesis using send MNewCertificate
      by (simp add: fields) (rule outcome_answer, rule remote_ra_certificates(1), simp_all)
  next
    case (MUpdateRegistration base upd)
    have "registration_sendable W x" if "rai_UpdateRegistration RA base upd s = Some (s', Inr x)" for s' x
      using ra_sendable_result [where A = ARegistration and c = "rai_UpdateRegistration RA base upd", OF ok _ that]
        MUpdateRegistration by simp
    then show ?thesis using send MUpdateRegistration
      by (simp add: fields) (rule outcome_answer, rule remote_ra_registrations(2) [OF laws], simp_all)
  next
    case (MUpdateAuthorization az i ch)
    have "authz_sendable W x" if "rai_UpdateAuthorization RA az i ch s = Some (s', Inr x)" for s' x
      using ra_sendable_result [where A = AAuthorization and c = "rai_UpdateAuthorization RA az i ch", OF ok _ that]
        MUpdateAuthorization by simp
    then show ?thesis using send MUpdateAuthorization
      by (simp add: fields) (rule outcome_answer, rule remote_ra_authorizations(2) [OF laws], simp_all)
  next
    case (MRevokeCertificateWithReg c code i)
    then show ?thesis using send
      by (simp add: fields) (rule outcome_answer, rule remote_ra_certificates(2), simp_all)
  next
    case (MDeactivateRegistration reg)
    then show ?thesis using send
      by (simp add: fields) (rule outcome_answer, rule remote_ra_registrations(3) [OF laws], simp_all)
  next
    case (MDeactivateAuthorization az)
    then show ?thesis using send
      by (simp add: fields) (rule outcome_answer, rule remote_ra_authorizations(3) [OF laws], simp_all)
  next
    case (MAdministrativelyRevokeCertificate c code n)
    then show ?thesis using send
      by (simp add: fields) (rule outcome_answer, rule remote_ra_certificates(3), simp_all)
  qed
qed

text \<open>
  The certificate authority issues for the request as its bytes say, not as the registration authority
  has normalised it.
\<close>

lemma remote_ca_issue:
  assumes "p_CSR P (csr_Raw csr) = Inr csr'"
    and "\<And>s' c. cai_IssueCertificate CA csr' i s = Some (s', Inr c) \<Longrightarrow> nanos (Issued c) \<and> nanos (cert_Expires c)"
  shows "cai_IssueCertificate (remote_ca W P d CA) csr i s = call_outcome W d id s (cai_IssueCertificate CA csr' i s)"
proof -
  have pb: "deref (pbToCert (certToPB c)) = ret_call c" if "nanos (Issued c) \<and> nanos (cert_Expires c)" for c
    using cert_pb.dec_enc [OF that] by (auto split: option.splits)
  show ?thesis
    using assms
    by (simp add: remote_ca_def CertificateAuthorityClientWrapper_def cac_IssueCertificate_def)
       (rule rpc_roundtrip_msg [where m = "cai_IssueCertificate CA csr' i" and msg = "\<lambda>x. Some (certToPB x)"],
        auto simp: cas_IssueCertificate_def pb_bytes_def pb)
qed

lemma remote_ca_ocsp:
  "cai_GenerateOCSP (remote_ca W P d CA) req s =
     call_outcome W d id s (cai_GenerateOCSP CA (req\<lparr>Reason := int32 (Reason req), RevokedAt := UnixNano (RevokedAt req)\<rparr>) s)"
proof -
  let ?req = "req\<lparr>Reason := int32 (Reason req), RevokedAt := UnixNano (RevokedAt req)\<rparr>"
  have req: "\<lparr>CertDER = CertDER req, ocsp_Status = ocsp_Status req, Reason = int32 (Reason req),
      RevokedAt = UnixNano (RevokedAt req)\<rparr> = ?req"
    by (cases req) simp
  show ?thesis
    by (simp add: remote_ca_def CertificateAuthorityClientWrapper_def cac_GenerateOCSP_def)
       (rule rpc_roundtrip_msg [where m = "cai_GenerateOCSP CA ?req" and msg = "\<lambda>x. Some \<lparr>orp_Response = Some x\<rparr>"],
        simp_all add: cas_GenerateOCSP_def pb_bytes_def req)
qed

lemma remote_publisher_submit:
  "pui_SubmitToCT (remote_publisher W d pub) der s = call_outcome W d id s (pui_SubmitToCT pub der s)"
  "pui_SubmitToSingleCT (remote_publisher W d pub) u k der s = call_outcome W d id s (pui_SubmitToSingleCT pub u k der s)"
proof -
  note defs = remote_publisher_def PublisherClientWrapper_def pub_connection_def PublisherServerWrapper_def
    puc_SubmitToCT_def puc_SubmitToSingleCT_def done_call_def
  show "pui_SubmitToCT (remote_publisher W d pub) der s = call_outcome W d id s (pui_SubmitToCT pub der s)"
    by (simp add: defs)
       (rule rpc_roundtrip_msg [where m = "pui_SubmitToCT pub der" and msg = "\<lambda>x. Some ()"],
        simp_all add: pus_SubmitToCT_def field_of_def fixed_msgs)
  show "pui_SubmitToSingleCT (remote_publisher W d pub) u k der s = call_outcome W d id s (pui_SubmitToSingleCT pub u k der s)"
    by (simp add: defs)
       (rule rpc_roundtrip_msg [where m = "pui_SubmitToSingleCT pub u k der" and msg = "\<lambda>x. Some ()"],
        simp_all add: pus_SubmitToSingleCT_def field_of_def fixed_msgs)
qed

text \<open>
  A request without the message inside it stops the server of the registration authority, and one without a
  field that of the certificate authority, where the other servers answer with an error.
\<close>

lemma incomplete_request_panics:
  "ras_NewAuthorization W RA (Some \<lparr>nar_Authz = None, nar_RegID = i\<rparr>) s = None"
  "ras_UpdateAuthorization W RA (Some \<lparr>uar_Authz = None, uar_ChallengeIndex = n, uar_Response = c\<rparr>) s = None"
  "ras_UpdateRegistration W RA (Some \<lparr>urr_Base = None, urr_Update = u\<rparr>) s = None"
  "p_CSR P b = Inr csr \<Longrightarrow> cas_IssueCertificate P CA (Some \<lparr>icr_Csr = Some b, icr_RegistrationID = None\<rparr>) s = None"
  "cas_GenerateOCSP CA (Some \<lparr>gor_CertDER = der, gor_Status = None, gor_Reason = r, gor_RevokedAt = t\<rparr>) s = None"
  by (simp_all add: ras_NewAuthorization_def ras_UpdateAuthorization_def ras_UpdateRegistration_def
      cas_IssueCertificate_def cas_GenerateOCSP_def pb_bytes_def then_call_def deref_def of_partial_def ret_call_def)

section \<open>Properties\<close>


definition sample_account_wire :: wire where
  "sample_account_wire = sample_wire\<lparr>w_unmarshalJWK := \<lambda>_. Inr \<lparr>jwk_Key = RSAKey 15 3, KeyID = [], Algorithm = []\<rparr>\<rparr>"

definition sample_valid_account :: Registration where
  "sample_valid_account =
     \<lparr>reg_ID = 1, reg_Key = Some \<lparr>jwk_Key = RSAKey 15 3, KeyID = [], Algorithm = []\<rparr>, Contact = Some [],
      Agreement = [], InitialIP = Some (replicate 16 (CHR ''1'')), CreatedAt = 5, reg_Status = StatusValid\<rparr>"

definition sample_ra_service :: "database RegistrationAuthority" where
  "sample_ra_service = ra_service sample_R sample_env (\<lambda>_. sample_draw) (\<lambda>n. [0..<n]) (\<lambda>n. [0..<n]) []
     (\<lambda>_ _. Inl (OtherError ''no CA'')) sample_ra"

lemma sample_deactivation:
  "\<exists>db. ra_invoke sample_ra_service (MDeactivateRegistration sample_valid_account) (sample_regs 1) = Some (db, Inr (AUnit ())) \<and>
     map rm_Status (registrations db) = [StatusDeactivated]"
  by (simp add: sample_ra_service_def ra_service_def answer_def then_call_def DeactivateRegistration_ra_def
      sample_valid_account_def call_sa_def DeactivateRegistration_sa_def left_db_def of_error_def ret_call_def
      db_fault_def sample_regs_def sample_reg_def)


text \<open>
  C20: a validation over gRPC decides as a local one. The registration authority reads from the client the
  records and the error that the validation authority returned, for challenges and results that the
  messages carry. Two things differ: the client reports a success with an error value that is not nil,
  holding a nil problem, which only the order of the tests in the registration authority makes
  harmless; and the event in the log of the validation authority has no host name,
  because the request carries only the identifiers of the authorization and the account.
\<close>

theorem remote_validation_same:
  assumes "ip_text_laws (w_fmtIP W) (w_parseIP W)" and "challenge_pb challenge"
    and "PerformValidation E va domain challenge authz = (records, err, event)"
    and "challenge_sendable_result records err"
  shows "\<exists>e. vai_PerformValidation (remote_va W Delivered (va_service E va)) domain challenge authz log =
      Some (event\<lparr>ev_Hostname := []\<rparr> # log, records, e) \<and> ra_error e = err \<and> e \<noteq> NilError"
  using remote_validation [OF assms] by (auto simp: ra_error_def split: option.splits)

definition sample_spent_challenge :: Challenge where
  "sample_spent_challenge =
     \<lparr>ch_ID = 1, ch_Type = ChallengeTypeHTTP01, ch_Status = StatusInvalid, ch_Error = None, URI = [], Token = [],
      ProvidedKeyAuthorization = [], ch_Records = []\<rparr>"

lemma sample_spent_validation:
  "\<exists>event. PerformValidation sample_va_env sample_va ''a.com'' sample_spent_challenge authz =
     ([], Some (ProblemErr (probs_Malformed ''Challenge failed sanity check.'')), event)"
proof -
  have "\<not> IsSaneForValidation sample_spent_challenge"
    by (simp add: IsSaneForValidation_def IsSane_def sample_spent_challenge_def status_defs)
  then show ?thesis by (simp add: PerformValidation_def validateChallengeAndCAA_def validateChallenge_def Let_def)
qed

theorem remote_validation_same_witness:
  "\<exists>e event. vai_PerformValidation (remote_va sample_wire Delivered (va_service sample_va_env sample_va)) ''a.com''
      sample_spent_challenge sample_authz [] = Some ([event], [], e) \<and>
    ra_error e = Some (ProblemErr (probs_Malformed ''Challenge failed sanity check.''))"
proof -
  have laws: "ip_text_laws (w_fmtIP sample_wire) (w_parseIP sample_wire)"
    by (simp add: ip_text_laws_def sample_wire_def)
  have ch: "challenge_pb sample_spent_challenge"
    by (simp add: challenge_pb_def sample_spent_challenge_def prob_pb_def)
  obtain event where ev: "PerformValidation sample_va_env sample_va ''a.com'' sample_spent_challenge sample_authz =
      ([], Some (ProblemErr (probs_Malformed ''Challenge failed sanity check.'')), event)"
    using sample_spent_validation by blast
  have "challenge_sendable_result [] (Some (ProblemErr (probs_Malformed ''Challenge failed sanity check.'')))"
    by (simp add: challenge_sendable_result_def prob_pb_def probs_defs)
  from remote_validation_same [OF laws ch ev this, of "[]"] show ?thesis by blast
qed

end
