(* ===== verification/EndToEnd.thy ===== *)
theory EndToEnd
  imports Boulder ServiceRpc
begin

text \<open>
  From an HTTP request to the signer. A request to the front end leads to calls of the registration authority,
  these to calls of the certificate authority, and these to requests of the signer. The services are
  connected by gRPC, over which a signing request travels as its bytes and is parsed again
  by the service that gets it.
\<close>

section \<open>The way of a request\<close>

text \<open>
  The composition keeps of a server wrapper only that it parses the request again; the wrappers and the
  transport between them are in \<open>ServiceRpc\<close>. What is collected are the signing
  requests, each with the account it is made for.
\<close>

text \<open>\<^verbatim>\<open>x509.ParseCertificateRequest\<close> keeps the bytes it was given in the field \<^verbatim>\<open>Raw\<close>.\<close>

definition csr_parser_law :: "parsers \<Rightarrow> bool" where
  "csr_parser_law P \<longleftrightarrow> (\<forall>b csr. p_CSR P b = Inr csr \<longrightarrow> csr_Raw csr = b)"

fun ca_signs ::
  "parsers \<Rightarrow> ca_env \<Rightarrow> CertificateAuthorityImpl \<Rightarrow> ra_effect \<Rightarrow> (int \<times> sign_request) list" where
  "ca_signs P CE ca (IssueCertificateCall csr regID) =
     (case p_CSR P (csr_Raw csr) of
        Inl _ \<Rightarrow> []
      | Inr csr' \<Rightarrow>
          (case IssueCertificate CE ca csr' regID of
             (_, effects, _) \<Rightarrow>
               concat (map (\<lambda>e. case e of SignCall issuer sr \<Rightarrow> [(regID, sr)] | _ \<Rightarrow> []) effects)))"
| "ca_signs P CE ca _ = []"

fun ra_signs ::
  "parsers \<Rightarrow> ra_env \<Rightarrow> (CertificateRequest \<Rightarrow> int \<Rightarrow> goerror + Certificate) \<Rightarrow> RegistrationAuthorityImpl \<Rightarrow>
   ca_env \<Rightarrow> CertificateAuthorityImpl \<Rightarrow> ra_call \<Rightarrow> (int \<times> sign_request) list" where
  "ra_signs P R issue ra CE ca (RaNewCertificate csr regID) =
     (case p_CSR P (csr_Raw csr) of
        Inl _ \<Rightarrow> []
      | Inr csr' \<Rightarrow> concat (map (ca_signs P CE ca) (fst (NewCertificate R issue ra csr' regID))))"
| "ra_signs P R issue ra CE ca _ = []"

definition request_signs ::
  "parsers \<Rightarrow> wfe_env \<Rightarrow> WebFrontEndImpl \<Rightarrow> ra_env \<Rightarrow> (CertificateRequest \<Rightarrow> int \<Rightarrow> goerror + Certificate) \<Rightarrow>
   RegistrationAuthorityImpl \<Rightarrow> ca_env \<Rightarrow> CertificateAuthorityImpl \<Rightarrow> http_request \<Rightarrow> (int \<times> sign_request) list" where
  "request_signs P WE wfe R issue ra CE ca request =
     (case Handler WE wfe request of
        None \<Rightarrow> []
      | Some (_, _, calls) \<Rightarrow> concat (map (ra_signs P R issue ra CE ca) calls))"

lemma ca_signs_mem:
  assumes "(i, sr) \<in> set (ca_signs P CE ca e)"
  obtains csr csr' where "e = IssueCertificateCall csr i" "p_CSR P (csr_Raw csr) = Inr csr'"
    "prepare_signing CE ca csr' = Inr sr"
proof (cases e)
  case (IssueCertificateCall csr j)
  with assms obtain csr' db effects r issuer where p: "p_CSR P (csr_Raw csr) = Inr csr'"
    "IssueCertificate CE ca csr' j = (db, effects, r)" "SignCall issuer sr \<in> set effects" "i = j"
    by (cases "p_CSR P (csr_Raw csr)") (auto split: prod.splits ca_effect.splits dest: sym)
  with IssueCertificate_SignCall [OF p(2,3)] IssueCertificateCall show ?thesis by (intro that) auto
qed (use assms in simp)

lemma ra_signs_mem:
  assumes "(i, sr) \<in> set (ra_signs P R issue ra CE ca call)"
  obtains csr csr' csr1 csr2 where "call = RaNewCertificate csr i" "p_CSR P (csr_Raw csr) = Inr csr'"
    "IssueCertificateCall csr1 i \<in> set (fst (NewCertificate R issue ra csr' i))"
    "p_CSR P (csr_Raw csr1) = Inr csr2" "prepare_signing CE ca csr2 = Inr sr"
proof (cases call)
  case (RaNewCertificate csr j)
  with assms obtain csr' e where p: "p_CSR P (csr_Raw csr) = Inr csr'"
    "e \<in> set (fst (NewCertificate R issue ra csr' j))" "(i, sr) \<in> set (ca_signs P CE ca e)"
    by (cases "p_CSR P (csr_Raw csr)") auto
  obtain csr1 csr2 where c: "e = IssueCertificateCall csr1 i" "p_CSR P (csr_Raw csr1) = Inr csr2"
    "prepare_signing CE ca csr2 = Inr sr"
    using p(3) by (rule ca_signs_mem)
  from p(2) c(1) have "j = i" using issue_call_authorized by blast
  with RaNewCertificate p c show ?thesis by (intro that) auto
qed (use assms in simp_all)

text \<open>
  What the certificate authority signs are names that the registration authority has checked, although it
  parses and normalises the request again.
\<close>

lemma signed_names_authorized:
  assumes law: "csr_parser_law P" and "(i, sr) \<in> set (ra_signs P R issue ra CE ca call)" "name \<in> set (sr_Hosts sr)"
  shows "authorizes (snd (re_sa R 4)) i (re_clk R 2) name"
proof -
  obtain csr csr' csr1 csr2 where "call = RaNewCertificate csr i" and c: "p_CSR P (csr_Raw csr) = Inr csr'"
    "IssueCertificateCall csr1 i \<in> set (fst (NewCertificate R issue ra csr' i))"
    "p_CSR P (csr_Raw csr1) = Inr csr2" "prepare_signing CE ca csr2 = Inr sr"
    using assms(2) by (rule ra_signs_mem)
  have csr1: "csr1 = normalizeCSR csr' (ra_forceCNFromSAN ra)"
    using NewCertificate_call [OF c(2)] issuance_checks_Inr by blast
  have "csr_Raw csr' = csr_Raw csr" using law c(1) unfolding csr_parser_law_def by blast
  then have "csr2 = csr'" using c(1,3) csr1 by simp
  then have "set (sr_Hosts sr) = set (csr_DNSNames csr1)"
    using prepare_signing_Inr [OF c(4)] normalize_names csr1 by metis
  with issue_call_authorized [OF c(2)] assms(3) show ?thesis by (simp add: list_all_iff)
qed

lemma request_signs_authenticated:
  assumes "(i, sr) \<in> set (request_signs P WE wfe R issue ra CE ca request)"
  obtains call payload key reg where "(i, sr) \<in> set (ra_signs P R issue ra CE ca call)"
    "authenticated WE (nonce_issued WE wfe) request True ResourceNewCert key reg payload" "reg_ID reg = i"
    "Agreement reg \<noteq> []"
proof -
  obtain wfe' resp calls call where h: "Handler WE wfe request = Some (wfe', resp, calls)" "call \<in> set calls"
    "(i, sr) \<in> set (ra_signs P R issue ra CE ca call)"
    using assms by (cases "Handler WE wfe request") (auto simp: request_signs_def split: prod.splits)
  obtain csr csr' csr1 csr2 where "call = RaNewCertificate csr i" using h(3) by (rule ra_signs_mem)
  moreover have "justified WE (nonce_issued WE wfe) request call"
    using Handler_outcome [OF h(1)] h(2) by (auto simp: outcome_def)
  ultimately have "\<exists>payload key reg. authenticated WE (nonce_issued WE wfe) request True ResourceNewCert key reg payload \<and>
      reg_ID reg = i \<and> Agreement reg \<noteq> []" by (auto simp: justified_def)
  with h(3) that show ?thesis by blast
qed

section \<open>A sample request\<close>

definition cert_we :: wfe_env where
  "cert_we = (sample_we ResourceNewCert)\<lparr>we_jsonCSR := \<lambda>_. Inr [], we_parseCSR := \<lambda>_. Inr sample_csr,
     we_regByKey := \<lambda>_ _. Inr (sample_account\<lparr>reg_ID := 1\<rparr>)\<rparr>"

definition csr_parsers :: parsers where
  "csr_parsers = \<lparr>p_CSR = \<lambda>b. if b = [] then Inr sample_csr else Inl [], p_Cert = \<lambda>_. Inr sample_issued\<rparr>"

lemma cert_request_call:
  "\<exists>wfe' resp. Handler cert_we sample_wfe (sample_post newCertPath) = Some (wfe', resp, [RaNewCertificate sample_csr 1])"
proof -
  let ?wfe = "nonce_issued cert_we sample_wfe" and ?reg = "sample_account\<lparr>reg_ID := 1\<rparr>"
  have wfe: "?wfe = nonce_issued (sample_we ResourceNewCert) sample_wfe" by (simp add: nonce_issued_def cert_we_def)
  have "verify_jws cert_we ?wfe sample_account_key
      \<lparr>jws_Signatures = [\<lparr>sig_JsonWebKey = Some sample_account_key, sig_Nonce = sample_nonce,
         sig_Algorithm = ''RS256''\<rparr>], jws_Raw = ''{}''\<rparr> ResourceNewCert =
      (?wfe\<lparr>nonceService := fst (Valid (nonceService ?wfe) sample_nonce)\<rparr>, Inr ''{}'')"
    using sample_nonce_valid [of ResourceNewCert] sample_nonce_not_Nil unfolding wfe
    by (simp add: verify_jws_def sample_checkAlgorithm check_nonce_eq check_resource_def cert_we_def ResourceNewCert_def)
  then have v: "verifyPOST cert_we ?wfe (sample_post []) True ResourceNewCert =
      Some (?wfe\<lparr>nonceService := fst (Valid (nonceService ?wfe) sample_nonce)\<rparr>, 1, Inr (''{}'', sample_account_key, ?reg))"
    by (simp add: verifyPOST_def sample_post_def extractJWSKey_def requester_of_def cert_we_def)
  have "GoodKey (we_ec cert_we) NewKeyPolicy (key_of sample_csr) = None"
    by (simp add: cert_we_def sample_we_def key_of_def goodKeyECDSA_def goodCurve_def NewKeyPolicy_def
        isPointAtInfinityNISTP_def)
  then have n: "\<exists>wfe1 w'. NewCertificate_wfe cert_we ?wfe (sample_post []) w =
      Some (wfe1, w', [RaNewCertificate sample_csr 1])" for w
    using v by (auto simp: NewCertificate_wfe_def with_verified_def Let_def split: handler_splits)
      (simp_all add: cert_we_def sample_account_def openssl_bug_def nonce_issued_def sample_wfe_def)
  have "\<exists>w. HandleFunc [''POST''] NewCertificate_wfe cert_we sample_wfe (sample_post [])
      (Header_Set ''Boulder-Request-Id'' (we_requestID cert_we) new_response) = NewCertificate_wfe cert_we ?wfe (sample_post []) w"
    by (auto simp: HandleFunc_def Let_def nonce_issued_def sample_post_def split: prod.splits)
  then obtain w where "HandleFunc [''POST''] NewCertificate_wfe cert_we sample_wfe (sample_post [])
      (Header_Set ''Boulder-Request-Id'' (we_requestID cert_we) new_response) = NewCertificate_wfe cert_we ?wfe (sample_post []) w"
    by blast
  moreover have "mux_route (wfe_routes cert_we) newCertPath = RouteTo newCertPath (HandleFunc [''POST''] NewCertificate_wfe)"
    by (simp add: route_simps directoryPath_def newRegPath_def regPath_def newAuthzPath_def authzPath_def
      challengePath_def newCertPath_def certPath_def revokeCertPath_def termsPath_def issuerPath_def buildIDPath_def
      rolloverPath_def)
  moreover have "rq_Path (sample_post newCertPath) = newCertPath" "newCertPath \<noteq> ''/''"
    by (simp_all add: sample_post_def newCertPath_def)
  ultimately show ?thesis using n [of w] by (auto simp: Handler_def serve_top_def)
qed

lemma run_issuance_checks:
  assumes "rm_ID rm = 1" "registrations db = [rm]"
    "authz_table db = [authz_row ((run_authz run_answer)\<lparr>az_Status := StatusValid, az_Expires := Some 2000\<rparr>) 0]"
  shows "issuance_checks (run_R db) sample_ra sample_csr 1 = Inr (normalizeCSR sample_csr False)"
proof -
  have "willing (run_R db) = willing sample_R" by (simp add: fun_eq_iff willing_def run_R_def)
  then have "check_normalized (re_checkSig (run_R db)) (re_ec (run_R db)) (normalizeCSR sample_csr False) 100 NewKeyPolicy
      (willing (run_R db) sample_ra) = None"
    using sample_csr_checked by (simp add: run_R_def sample_R_def)
  moreover have "\<exists>reg. GetRegistration run_E db 1 = Inr reg \<and> reg_ID reg = 1 \<and> reg_Key reg = Some sample_jwk"
    using assms(1,2)
    by (simp add: GetRegistration_def select_one_def modelToRegistration_def) (simp add: run_E_def)
  moreover have "\<not> KeyDigestEquals (re_sha256 (run_R db)) (re_marshalPKIX (run_R db)) (RawKey (ECDSAKey P256 1 2))
      (JWKPtr (Some sample_jwk))"
    by (simp add: KeyDigestEquals_def raw_digest_def sample_jwk_def run_R_def)
  moreover have "checkLimits (run_R db) sample_ra [''a.com''] 1 = None"
    by (simp add: checkLimits_def no_policy_no_limit)
  moreover have low: "to_lower ''a.com'' = ''a.com''" by code_simp
  have "checkAuthorizations (run_R db) [''a.com''] reg = None" if "reg_ID reg = 1" for reg
    using assms(3)
    by (simp add: checkAuthorizations_def call_sa_def GetValidAuthorizations_def valid_rows_def that low
        authz_row_def run_authz_def run_ident_def row_authz_def) (simp add: run_R_def)
  ultimately show ?thesis
    by (auto simp: issuance_checks_def call_sa_def VerifyCSR_def Let_def sample_ra_normalized)
qed

text \<open>In the sample run the account asks for a certificate once its authorization is valid, and one is signed.\<close>

lemma sample_request_signed:
  assumes "rm_ID rm = 1" "registrations db = [rm]"
    "authz_table db = [authz_row ((run_authz run_answer)\<lparr>az_Status := StatusValid, az_Expires := Some 2000\<rparr>) 0]"
  shows "(1, sample_sign_request) \<in> set (request_signs csr_parsers cert_we sample_wfe (run_R db) sample_issue sample_ra
     sample_ca_env sample_ca (sample_post newCertPath))"
proof -
  have p: "p_CSR csr_parsers (csr_Raw sample_csr) = Inr sample_csr"
    "p_CSR csr_parsers (csr_Raw (normalizeCSR sample_csr False)) = Inr sample_csr"
    by (simp_all add: csr_parsers_def) (simp_all add: sample_csr_def)
  obtain db' r where "IssueCertificate sample_ca_env sample_ca sample_csr 1 =
     (db', [SignCall (defaultIssuer sample_ca) sample_sign_request], r)" by (rule sample_issuance)
  then have "(1, sample_sign_request) \<in> set (ca_signs csr_parsers sample_ca_env sample_ca
      (IssueCertificateCall (normalizeCSR sample_csr False) 1))" using p by simp
  moreover have "IssueCertificateCall (normalizeCSR sample_csr False) 1 \<in>
      set (fst (NewCertificate (run_R db) sample_issue sample_ra sample_csr 1))"
    using run_issuance_checks [OF assms] by (auto simp: NewCertificate_def sample_issue_def split: sum.splits option.splits)
  ultimately have "(1, sample_sign_request) \<in> set (ra_signs csr_parsers (run_R db) sample_issue sample_ra sample_ca_env sample_ca
      (RaNewCertificate sample_csr 1))" using p by (simp del: ca_signs.simps) blast
  then show ?thesis using cert_request_call by (auto simp: request_signs_def simp del: ra_signs.simps)
qed

section \<open>The property of the whole installation\<close>



end
