(* ===== verification/Spec2Isabelle.thy ===== *)
theory Spec2Isabelle
  imports EndToEnd
begin

text \<open>
  Boulder, an ACME certificate authority written in Go.

  \<^bold>\<open>The program.\<close> A client speaks HTTP with the web front end (WFE), which verifies the signature and
  the nonce of a request and calls the registration authority (RA). The RA applies the policy, the rate limits and the
  checks of authorizations, keeps its state in the storage authority (SA), lets the validation
  authority (VA) check challenges and asks the certificate authority (CA) to sign. The services call
  one another over gRPC through wrappers that translate Go values to protocol buffers. The
  orphan finder puts certificates back that were signed but not stored. Paths below are relative to \<^verbatim>\<open>src/\<close>.

  \<^bold>\<open>Conventions.\<close> A Go \<^verbatim>\<open>string\<close> or \<^verbatim>\<open>[]byte\<close> is a list of characters, a time or duration an integer of
  nanoseconds, a call that may fail a sum with the error on the left. A panic is \<^const>\<open>None\<close>
  where a function can panic. Code outside the repository (cryptography, JSON and X.509 parsing, the network, the
  gRPC library) is an argument, mostly a field of the component's environment record. Structs are records with the
  source's field names, prefixed where two structs share one.

  \<^bold>\<open>Foundations.\<close>
  \<^item> \<open>Prelude\<close>: results, early-return loops, the interfaces \<open>codec\<close> (a decoder undoes an encoder) and
    \<open>machine\<close> (an invariant that guarded steps keep). \<open>GoLib\<close>, \<open>Encodings\<close>: the functions of
    \<^verbatim>\<open>strings\<close>, \<^verbatim>\<open>sort\<close>, \<^verbatim>\<open>encoding/hex\<close>, \<^verbatim>\<open>encoding/base64\<close> and others that the source calls, with their round trips.
  \<^item> \<open>Errors\<close> (\<^verbatim>\<open>errors/\<close>, \<^verbatim>\<open>probs/\<close>, \<^verbatim>\<open>wfe/probs.go\<close>, \<^verbatim>\<open>grpc/bcodes.go\<close>): errors, their transport between services, and
    the problem documents made of them, which never show an internal error.
  \<^item> \<open>Features\<close> (\<^verbatim>\<open>features/\<close>), \<open>Core\<close> (\<^verbatim>\<open>core/\<close>, \<^verbatim>\<open>revocation/\<close>), \<open>Reloader\<close> (\<^verbatim>\<open>reloader/\<close>), \<open>RateLimit\<close>
    (\<^verbatim>\<open>ratelimit/\<close>): flags, the objects that all services exchange, configuration files that are read again when
    they change (interface \<open>config_loader\<close>, provided by the hostname policy and by the limits).

  \<^bold>\<open>Policy.\<close>
  \<^item> \<open>GoodKey\<close> (\<^verbatim>\<open>goodkey/good_key.go\<close>): exactly which RSA keys are accepted.
  \<^item> \<open>Policy\<close> (\<^verbatim>\<open>policy/pa.go\<close>): exactly which names are accepted, and that a loaded blacklist is enforced.
  \<^item> \<open>Csr\<close> (\<^verbatim>\<open>csr/csr.go\<close>): what a verified request asks for; proved for every policy that keeps the interface
    \<open>policy_authority\<close>, which \<open>Policy\<close> does.

  \<^bold>\<open>Storage.\<close>
  \<^item> \<open>SaModel\<close>, \<open>Sa\<close> (\<^verbatim>\<open>sa/model.go\<close>, \<^verbatim>\<open>sa/authz.go\<close>, \<^verbatim>\<open>sa/sa.go\<close>): tables as lists of rows with gorp's version column, transactions that
    roll back, and every operation. A fault oracle decides for each statement whether it fails.
  \<^item> \<open>SaInv\<close>, \<open>SaTables\<close>: the invariant of the database under every operation (\<open>machine\<close> interpreted as \<open>storage\<close>).
    \<open>SaLife\<close>: the abstract life cycle of authorizations that the operations refine. \<open>SaReads\<close>: what reads return.
    \<open>SaProps\<close>: the properties. One query must not fail in a run: the one that looks for a new authorization's
    identifier among the final ones, whose error the code ignores (\<^const>\<open>sa_guard\<close>).

  \<^bold>\<open>Registration.\<close> \<open>Ra\<close>, \<open>RaProps\<close> (\<^verbatim>\<open>ra/ra.go\<close>): every handler and the validation job. The n-th call of the SA in a handler
    runs on the database and environment \<^const>\<open>re_sa\<close> gives for n and the clock is read likewise, so that other
    handlers may run in between. Shown are who gets a certificate, an authorization or a validation, and under which limits.

  \<^bold>\<open>Validation.\<close> \<open>Bdns\<close> (\<^verbatim>\<open>bdns/\<close>), \<open>Cdr\<close> (\<^verbatim>\<open>cdr/resolver.go\<close>), \<open>Va\<close>, \<open>VaProps\<close> (\<^verbatim>\<open>va/\<close>, \<^verbatim>\<open>cmd/boulder-va/\<close>): DNS with retries,
    the quorum of the distributed resolver, all challenge types with redirects, CAA. Shown are the evidence behind a
    success, that only public addresses are contacted, and when CAA permits issuance.

  \<^bold>\<open>Signing.\<close> \<open>Ca\<close>, \<open>CaProps\<close> (\<^verbatim>\<open>ca/ca.go\<close>): construction, extensions, OCSP and issuance; what is signed, and that
    a signed certificate is stored or logged. \<open>Orphan\<close> (\<^verbatim>\<open>cmd/orphan-finder/main.go\<close>): the logged line is found and the certificate
    stored, through the interface \<open>certificate_storage\<close> that the SA provides.

  \<^bold>\<open>Front end.\<close> \<open>Nonce\<close> (\<^verbatim>\<open>nonce/nonce.go\<close>), \<open>Wfe\<close>, \<open>WfeProps\<close> (\<^verbatim>\<open>wfe/\<close>, \<^verbatim>\<open>cmd/boulder-wfe/\<close>): routing, verification and every
    handler, with the calls of the RA as a trace. Shown are that calls are authenticated, that no request is taken twice, and
    exactly who may revoke.

  \<^bold>\<open>Remote calls.\<close> \<open>Marshalling\<close> (\<^verbatim>\<open>grpc/pb-marshalling.go\<close>), \<open>Rpc\<close> (\<^verbatim>\<open>grpc/interceptors.go\<close>), \<open>SaRpc\<close>, \<open>SaRpcProps\<close>
    (\<^verbatim>\<open>grpc/sa-wrappers.go\<close>), \<open>ServiceRpc\<close> (the wrappers of RA, CA, VA and publisher): each service behind its wrappers answers as the local one on
    the values its messages carry, and a failing connection runs a call at most once and reports an error.

  \<^bold>\<open>The whole.\<close> \<open>Boulder\<close>: the inductive relation \<^const>\<open>boulder\<close> of runs, in which the handlers interleave on one database; in every run a
    valid authorization rests on a validation. \<open>EndToEnd\<close>: an HTTP request that makes the CA ask the signer for a certificate was
    made by an account that proved control of every name in it.

  \<^bold>\<open>Bounds.\<close> Loops of the source are structural recursions or have termination proofs. Where a loop depends on outside choices, the
    choices are a list: the random draws for a new identifier (running out of draws is \<^const>\<open>None\<close>), the outcomes of DNS
    attempts, the events of the reloader. The batches of a revocation by domain are bounded by the number of rows, and it is proved
    that the loop ends with nothing left to revoke. HTTP redirects are limited by the source. Nonce counters are 64 bits wide; the claim about
    replay is for fewer than \<open>2 ^ 62\<close> requests, before the counter can wrap.

  \<^bold>\<open>Not modelled.\<close> The set-up of gRPC connections and generated code (\<^verbatim>\<open>grpc/client.go\<close>, \<^verbatim>\<open>grpc/server.go\<close>, \<^verbatim>\<open>grpc/creds\<close>, \<^verbatim>\<open>*.pb.go\<close>), for which the
    delivery of a call is a parameter; the publisher, whose work is done by a client library; the OCSP updater and responder, the
    mailers, the contact exporter and the operator tools of \<^verbatim>\<open>cmd/\<close>, which are built around raw SQL, SMTP or HTTP and take no
    part in issuance; start-up of the other services; logging and metrics, apart from the log line the orphan finder
    reads; test code. Deadlines of requests are not modelled: a call that is given up is a failing call.
\<close>

end
